(* ===== verification/Prelude.thy ===== *)
theory Prelude
  imports "HOL-Library.Word" "HOL-Library.AList" "HOL-Library.Sublist" "HOL-Library.Multiset"
begin

text \<open>
  Shared vocabulary of the PennCloud development: the collections of rewrite rules the component
  theories feed, the names of the model's basic types, and the generic lemmas on lists, options,
  association lists and small integers that several components use.
\<close>

named_theorems kv_simps \<open>behaviour of the two-level key-value maps\<close>
named_theorems ring_simps \<open>the tablet ring: which worker holds which tablet in which slot\<close>
named_theorems codec_simps \<open>encode/decode rules of the binary formats\<close>
named_theorems client_simps \<open>behaviour of the RPC client wrappers\<close>

text \<open>Bytes and C++ strings are both \<^typ>\<open>string\<close>: a C++ \<^verbatim>\<open>char\<close> is one byte.\<close>

type_synonym bytes = string

text \<open>
  \<^verbatim>\<open>unordered_map<string, string>\<close> and \<^verbatim>\<open>unordered_map<string, unordered_map<string, string>>\<close> are
  association lists with distinct keys. Every operation but iteration depends on the contents only;
  code that iterates takes the iteration order as a parameter.
\<close>

type_synonym row_map = "(string \<times> string) list"
type_synonym tablet = "(string \<times> row_map) list"

section \<open>Association lists\<close>

lemma map_of_update [simp]: "map_of (AList.update k v al) = (map_of al)(k \<mapsto> v)"
  by (simp add: update_conv' fun_eq_iff)

lemma map_of_delete_key [simp]: "map_of (AList.delete k al) = (map_of al)(k := None)"
  by (simp add: delete_conv' fun_eq_iff)

lemma update_not_Nil [simp]: "AList.update k v al \<noteq> []"
  by (induction al) auto

lemma map_of_eq_Nil: "al \<noteq> [] \<Longrightarrow> \<exists>k v. map_of al k = Some v"
  by (cases al) (auto intro: exI)

lemma set_update_subset:
  "p \<in> set (AList.update k v al) \<Longrightarrow> p = (k, v) \<or> p \<in> set al"
  by (induction al) (auto split: if_splits)

lemma set_delete_subset: "p \<in> set (AList.delete k al) \<Longrightarrow> p \<in> set al"
  by (auto simp: AList.delete_eq)

lemma length_update_le: "length (AList.update k v al) \<le> Suc (length al)"
  by (induction al) auto

lemma length_delete_le': "length (AList.delete k al) \<le> length al"
  by (simp add: AList.delete_eq)

text \<open>Reordering an association list with distinct keys does not change the map it stands for.\<close>

lemma map_of_mset_eq:
  assumes "mset xs = mset ys" and "distinct (map fst xs)"
  shows "map_of xs = map_of ys"
proof -
  have "mset (map fst xs) = mset (map fst ys)"
    using assms(1) by simp
  then have "distinct (map fst ys)"
    using assms(2) mset_eq_imp_distinct_iff by blast
  moreover have "set xs = set ys"
    using assms(1) by (rule mset_eq_setD)
  ultimately show ?thesis
    using assms(2) map_of_inject_set by blast
qed

section \<open>Prefixes\<close>

lemma prefix_append_iff: "prefix (xs @ ys) (xs @ zs) \<longleftrightarrow> prefix ys zs"
  by simp

lemma strict_prefix_append_cases:
  assumes "strict_prefix zs (xs @ ys)"
  obtains (first) "strict_prefix zs xs" | (second) zs' where "zs = xs @ zs'" "strict_prefix zs' ys"
proof (cases "prefix xs zs")
  case True
  then obtain zs' where "zs = xs @ zs'" by (auto simp: prefix_def)
  with assms have "strict_prefix zs' ys" by (auto simp: strict_prefix_def)
  with \<open>zs = xs @ zs'\<close> show ?thesis by (rule second)
next
  case False
  from assms have "prefix zs (xs @ ys)" by (simp add: strict_prefix_def)
  with False have "prefix zs xs" by (metis prefix_append prefix_order.eq_iff prefix_prefix)
  with False show ?thesis by (intro first) (auto simp: strict_prefix_def)
qed

section \<open>C integer remainder\<close>

text \<open>C++ \<^verbatim>\<open>%\<close> on \<^verbatim>\<open>int\<close> truncates towards zero; on non-negative operands it is \<open>mod\<close>.\<close>

definition crem :: "int \<Rightarrow> int \<Rightarrow> int" where
  "crem a b = (if a < 0 then - ((- a) mod b) else a mod b)"

lemma crem_nonneg [simp]: "0 \<le> a \<Longrightarrow> crem a b = a mod b"
  by (simp add: crem_def)

end
