(* ===== verification/Platform.thy ===== *)
theory Platform
  imports Prelude
begin

text \<open>
  What the sources use of code outside the repository, gathered in one record that the definitions
  take as an argument: the hash of \<^verbatim>\<open>std::hash<std::string>\<close>, the iteration order of
  \<^verbatim>\<open>std::unordered_map\<close>, and the numeric value and transport message of a gRPC status. The only law
  any theorem uses is that iterating over a map visits every entry exactly once.
\<close>

datatype StatusCode = INVALID_ARGUMENT | NOT_FOUND | FAILED_PRECONDITION | INTERNAL | UNAVAILABLE | UNKNOWN

datatype Status = OK | Failed StatusCode string

primrec status_ok :: "Status \<Rightarrow> bool" where
  "status_ok OK = True"
| "status_ok (Failed c m) = False"

record platform =
  std_hash :: "string \<Rightarrow> 64 word"
  row_order :: "tablet \<Rightarrow> tablet"
  col_order :: "row_map \<Rightarrow> row_map"
  error_code :: "StatusCode \<Rightarrow> int"
  transport_error :: string

definition platform_ok :: "platform \<Rightarrow> bool" where
  "platform_ok P \<longleftrightarrow>
     (\<forall>t. mset (row_order P t) = mset t) \<and> (\<forall>r. mset (col_order P r) = mset r)"

lemma platform_okD:
  assumes "platform_ok P"
  shows "mset (row_order P t) = mset t" and "mset (col_order P r) = mset r"
  using assms by (auto simp: platform_ok_def)

lemma platform_ok_sets:
  assumes "platform_ok P"
  shows "set (row_order P t) = set t" and "set (col_order P r) = set r"
  by (rule mset_eq_setD, rule platform_okD [OF assms])+

lemma platform_ok_lengths:
  assumes "platform_ok P"
  shows "length (row_order P t) = length t" and "length (col_order P r) = length r"
  by (rule mset_eq_length, rule platform_okD [OF assms])+

text \<open>
  A concrete platform for evaluating examples: strings hash to their length plus the code of
  their first character, maps are iterated in insertion order, and the status codes have gRPC's
  published numbers.
\<close>

definition sample_platform :: platform where
  "sample_platform =
     \<lparr>std_hash = (\<lambda>s. word_of_nat (length s) + (case s of [] \<Rightarrow> 0 | c # _ \<Rightarrow> word_of_nat (of_char c))),
      row_order = id, col_order = id,
      error_code = (\<lambda>c. case c of INVALID_ARGUMENT \<Rightarrow> 3 | NOT_FOUND \<Rightarrow> 5
         | FAILED_PRECONDITION \<Rightarrow> 9 | INTERNAL \<Rightarrow> 13 | UNAVAILABLE \<Rightarrow> 14 | UNKNOWN \<Rightarrow> 2),
      transport_error = ''failed to connect to all addresses''\<rparr>"

lemma platform_ok_sample [simp, intro]: "platform_ok sample_platform"
  by (simp add: platform_ok_def sample_platform_def)

end
