(* ===== verification/Cpp_Strings.thy ===== *)
theory Cpp_Strings
  imports Prelude
begin

text \<open>
  The parts of the C++ string and stream library the sources use. A \<^verbatim>\<open>size_t\<close> position that may be
  \<^verbatim>\<open>string::npos\<close> is a \<^typ>\<open>nat option\<close> with \<^term>\<open>None\<close> for \<^verbatim>\<open>npos\<close>; where the code adds to such a
  position without testing it, \<open>npos_plus\<close> gives the wrapped value. \<open>str_substr\<close> is \<^verbatim>\<open>substr\<close> for a
  start inside the string; \<open>substr_at\<close> returns \<^term>\<open>None\<close> where \<^verbatim>\<open>substr\<close> throws \<^verbatim>\<open>out_of_range\<close>.
\<close>

section \<open>Numbers as text\<close>

definition digit_char :: "nat \<Rightarrow> char" where
  "digit_char d = ''0123456789'' ! d"

fun nat_string :: "nat \<Rightarrow> string" where
  "nat_string n = (if n < 10 then [digit_char n] else nat_string (n div 10) @ [digit_char (n mod 10)])"

declare nat_string.simps [simp del]

definition to_string :: "int \<Rightarrow> string" where
  "to_string i = (if i < 0 then CHR ''-'' # nat_string (nat (- i)) else nat_string (nat i))"

definition is_digit :: "char \<Rightarrow> bool" where
  "is_digit c \<longleftrightarrow> c \<in> set ''0123456789''"

definition digit_val :: "char \<Rightarrow> nat" where
  "digit_val c = of_char c - 48"

fun digits_val :: "nat \<Rightarrow> string \<Rightarrow> nat" where
  "digits_val acc [] = acc"
| "digits_val acc (c # cs) = digits_val (10 * acc + digit_val c) cs"

lemma digit_char_props: "d < 10 \<Longrightarrow> is_digit (digit_char d) \<and> digit_val (digit_char d) = d"
proof -
  assume "d < 10"
  then have "d \<in> {0,1,2,3,4,5,6,7,8,9}" by auto
  then show ?thesis by (auto simp: is_digit_def digit_char_def digit_val_def)
qed

lemma nat_string_not_Nil [simp]: "nat_string n \<noteq> []"
  by (subst nat_string.simps) simp

lemma nat_string_digits: "\<forall>c\<in>set (nat_string n). is_digit c"
proof (induction n rule: nat_string.induct)
  case (1 n)
  then show ?case by (subst nat_string.simps) (auto simp: digit_char_props)
qed

lemma digits_val_append: "digits_val acc (xs @ ys) = digits_val (digits_val acc xs) ys"
  by (induction acc xs rule: digits_val.induct) auto

lemma digits_val_nat_string: "digits_val 0 (nat_string n) = n"
proof (induction n rule: nat_string.induct)
  case (1 n)
  then show ?case
    by (subst nat_string.simps) (auto simp: digit_char_props digits_val_append)
qed

lemma nat_string_inject [simp]: "nat_string m = nat_string n \<longleftrightarrow> m = n"
  by (metis digits_val_nat_string)

section \<open>Searching\<close>

fun find_sub :: "string \<Rightarrow> string \<Rightarrow> nat \<Rightarrow> nat option" where
  "find_sub pat [] k = (if pat = [] then Some k else None)"
| "find_sub pat (c # cs) k = (if prefix pat (c # cs) then Some k else find_sub pat cs (Suc k))"

definition str_find :: "string \<Rightarrow> string \<Rightarrow> nat \<Rightarrow> nat option" where
  "str_find s pat pos = (if length s < pos then None else find_sub pat (drop pos s) pos)"

definition contains :: "string \<Rightarrow> string \<Rightarrow> bool" where
  "contains s pat \<longleftrightarrow> str_find s pat 0 \<noteq> None"

definition find_last_of :: "string \<Rightarrow> char set \<Rightarrow> nat option" where
  "find_last_of s cs =
     (let rest = dropWhile (\<lambda>c. c \<notin> cs) (rev s)
      in if rest = [] then None else Some (length rest - 1))"

definition npos_plus :: "nat option \<Rightarrow> nat \<Rightarrow> nat" where
  "npos_plus p k = (case p of Some n \<Rightarrow> n + k | None \<Rightarrow> k - 1)"

definition str_substr :: "string \<Rightarrow> nat \<Rightarrow> nat option \<Rightarrow> string" where
  "str_substr s pos len = (case len of None \<Rightarrow> drop pos s | Some n \<Rightarrow> take n (drop pos s))"

definition substr_at :: "string \<Rightarrow> nat \<Rightarrow> nat option \<Rightarrow> string option" where
  "substr_at s pos len = (if length s < pos then None else Some (str_substr s pos len))"

lemma find_sub_ge: "find_sub pat s k = Some n \<Longrightarrow> k \<le> n"
  by (induction pat s k rule: find_sub.induct) (auto split: if_splits)

lemma find_sub_split:
  "find_sub pat s k = Some n \<Longrightarrow> \<exists>rest. drop (n - k) s = pat @ rest \<and> n - k \<le> length s"
proof (induction pat s k rule: find_sub.induct)
  case (1 pat k)
  then show ?case by (auto split: if_splits)
next
  case (2 pat c cs k)
  show ?case
  proof (cases "prefix pat (c # cs)")
    case True
    with 2 show ?thesis by (auto simp: prefix_def)
  next
    case False
    with 2 obtain rest where "drop (n - Suc k) cs = pat @ rest" "n - Suc k \<le> length cs" by auto
    moreover have "Suc k \<le> n" using 2 False by (auto dest: find_sub_ge)
    ultimately show ?thesis by (auto simp: drop_Cons' Suc_diff_le)
  qed
qed

lemma find_sub_None: "find_sub pat s k = None \<longleftrightarrow> \<not> sublist pat s"
  by (induction pat s k rule: find_sub.induct) (auto simp: sublist_Cons_right)

lemma contains_sublist: "contains s pat \<longleftrightarrow> sublist pat s"
  by (simp add: contains_def str_find_def find_sub_None)

lemma find_sub_zero: "find_sub pat s k = Some k \<longleftrightarrow> prefix pat s"
  by (cases s) (auto dest: find_sub_ge)

lemma str_find_zero: "str_find s pat 0 = Some 0 \<longleftrightarrow> prefix pat s"
  by (simp add: str_find_def find_sub_zero)

lemma find_sub_char_fresh:
  "x \<notin> set xs \<Longrightarrow> find_sub [x] (xs @ x # ys) k = Some (k + length xs)"
  by (induction xs arbitrary: k) (auto simp: prefix_Cons)

lemma find_sub_char_absent: "x \<notin> set xs \<Longrightarrow> find_sub [x] xs k = None"
  by (induction xs arbitrary: k) auto

section \<open>Tokens\<close>

text \<open>
  The loop \<^verbatim>\<open>while (getline(ss, tok, d))\<close>: no token for an empty rest, so a trailing delimiter gives no
  empty last token.
\<close>

function getlines :: "char \<Rightarrow> string \<Rightarrow> string list" where
  "getlines d s =
     (if s = [] then []
      else takeWhile (\<lambda>c. c \<noteq> d) s #
             (case dropWhile (\<lambda>c. c \<noteq> d) s of [] \<Rightarrow> [] | _ # rest \<Rightarrow> getlines d rest))"
  by pat_completeness auto
termination
proof (relation "measure (\<lambda>(d, s). length s)")
  fix d s x21 x22
  assume "dropWhile (\<lambda>c. c \<noteq> d) s = x21 # x22"
  then show "((d, x22), d, s) \<in> measure (\<lambda>(d, s). length s)"
    using length_dropWhile_le [of "\<lambda>c. c \<noteq> d" s] by simp
qed simp

declare getlines.simps [simp del]

lemma getlines_Nil [simp]: "getlines d [] = []"
  by (simp add: getlines.simps)

lemma until_char:
  assumes "d \<notin> set tok"
  shows "takeWhile (\<lambda>c. c \<noteq> d) (tok @ d # rest) = tok"
    and "dropWhile (\<lambda>c. c \<noteq> d) (tok @ d # rest) = d # rest"
    and "takeWhile (\<lambda>c. c \<noteq> d) tok = tok"
    and "dropWhile (\<lambda>c. c \<noteq> d) tok = []"
  using assms by (induction tok) auto

lemma getlines_Cons_token:
  "d \<notin> set tok \<Longrightarrow> getlines d (tok @ d # rest) = tok # getlines d rest"
  by (subst getlines.simps) (simp add: until_char)

lemma getlines_last: "d \<notin> set tok \<Longrightarrow> tok \<noteq> [] \<Longrightarrow> getlines d tok = [tok]"
  by (subst getlines.simps) (simp add: until_char)

text \<open>\<^verbatim>\<open>splitStringStorage\<close>/\<^verbatim>\<open>splitStringAdmin\<close> style: always one more token than delimiters.\<close>

fun split_all :: "char \<Rightarrow> string \<Rightarrow> string \<Rightarrow> string list" where
  "split_all d acc [] = [rev acc]"
| "split_all d acc (c # cs) = (if c = d then rev acc # split_all d [] cs else split_all d (c # acc) cs)"

definition splitString :: "string \<Rightarrow> char \<Rightarrow> string list" where
  "splitString s d = split_all d [] s"

text \<open>Joining with a separator, as the \<^verbatim>\<open>if (i) oss << ','\<close> loops do.\<close>

fun join_with :: "char \<Rightarrow> string list \<Rightarrow> string" where
  "join_with d [] = []"
| "join_with d [x] = x"
| "join_with d (x # y # xs) = x @ d # join_with d (y # xs)"

lemma split_all_append:
  "d \<notin> set tok \<Longrightarrow> split_all d acc (tok @ rest) =
     (case rest of [] \<Rightarrow> [rev acc @ tok]
      | c # cs \<Rightarrow> if c = d then (rev acc @ tok) # split_all d [] cs else split_all d (rev tok @ acc) rest)"
  by (induction tok arbitrary: acc) (auto split: list.splits)

lemma splitString_join:
  "xs \<noteq> [] \<Longrightarrow> \<forall>x\<in>set xs. d \<notin> set x \<Longrightarrow> splitString (join_with d xs) d = xs"
proof (induction d xs rule: join_with.induct)
  case (1 d)
  then show ?case by simp
next
  case (2 d x)
  then show ?case using split_all_append [of d x "[]" "[]"] by (simp add: splitString_def)
next
  case (3 d x y xs)
  then have "splitString (join_with d (y # xs)) d = y # xs" by simp
  moreover have "d \<notin> set x" using 3 by simp
  ultimately show ?case
    using split_all_append [of d x "[]" "d # join_with d (y # xs)"] by (simp add: splitString_def)
qed

lemma split_all_not_Nil [simp]: "split_all d acc s \<noteq> []"
  by (induction d acc s rule: split_all.induct) auto

lemma join_split_all: "join_with d (split_all d acc s) = rev acc @ s"
proof (induction d acc s rule: split_all.induct)
  case (2 d acc c cs)
  then show ?case
    by (cases "split_all d [] cs") (auto simp: neq_Nil_conv)
qed simp

lemma join_splitString: "join_with d (splitString s d) = s"
  by (simp add: splitString_def join_split_all)

lemma split_all_no_sep: "d \<notin> set acc \<Longrightarrow> t \<in> set (split_all d acc s) \<Longrightarrow> d \<notin> set t"
  by (induction d acc s rule: split_all.induct) (auto split: if_splits)

lemma splitString_no_sep: "t \<in> set (splitString s d) \<Longrightarrow> d \<notin> set t"
  using split_all_no_sep [of d "[]"] by (auto simp: splitString_def)

section \<open>Characters\<close>

abbreviation CR :: char where "CR \<equiv> CHR 0x0D"
abbreviation LF :: char where "LF \<equiv> CHR 0x0A"

abbreviation crlf :: string where "crlf \<equiv> [CR, LF]"

definition is_space :: "char \<Rightarrow> bool" where
  "is_space c \<longleftrightarrow> of_char c \<in> ({9, 10, 11, 12, 13, 32} :: nat set)"

definition trim :: "string \<Rightarrow> string" where
  "trim s = rev (dropWhile is_space (rev (dropWhile is_space s)))"

definition to_upper_char :: "char \<Rightarrow> char" where
  "to_upper_char c = (let n = of_char c :: nat in if 97 \<le> n \<and> n \<le> 122 then char_of (n - 32) else c)"

lemma trim_Nil [simp]: "trim [] = []"
  by (simp add: trim_def)

lemma dropWhile_start: "dropWhile P (dropWhile P xs) = dropWhile P xs"
  by (induction xs) auto

lemma trim_starts: "trim s = [] \<or> \<not> is_space (hd (trim s))"
proof -
  let ?t = "dropWhile is_space s"
  have "prefix (trim s) ?t"
    unfolding trim_def by (metis suffix_dropWhile suffix_to_prefix rev_rev_ident)
  then have "trim s \<noteq> [] \<Longrightarrow> hd (trim s) = hd ?t" and "trim s \<noteq> [] \<Longrightarrow> ?t \<noteq> []"
    by (cases "trim s"; cases ?t; simp)+
  then show ?thesis using hd_dropWhile [of is_space s] by metis
qed

lemma trim_idem: "trim (trim s) = trim s"
proof -
  have "dropWhile is_space (trim s) = trim s"
    using trim_starts [of s] by (cases "trim s") auto
  then show ?thesis by (simp add: trim_def dropWhile_start)
qed

text \<open>The test \<^verbatim>\<open>res.substr(0, 3) == "ERR"\<close> the callers of the RPC clients use.\<close>

definition is_err :: "string \<Rightarrow> bool" where
  "is_err s \<longleftrightarrow> take 3 s = ''ERR''"

lemma is_err_prefix: "is_err s \<longleftrightarrow> prefix ''ERR'' s"
proof
  assume "is_err s"
  then have "s = ''ERR'' @ drop 3 s" unfolding is_err_def by (metis append_take_drop_id)
  then show "prefix ''ERR'' s" by (metis prefixI)
qed (auto simp: is_err_def prefix_def)

text \<open>What follows a character that is not in the word does not matter.\<close>

lemma is_err_sep:
  assumes "c \<notin> set ''ERR''"
  shows "is_err (p @ c # x) \<longleftrightarrow> is_err p"
proof -
  consider "p = []" | a where "p = [a]" | a b where "p = [a, b]" | a b d r where "p = a # b # d # r"
    by (metis list.exhaust)
  then show ?thesis using assms by cases (auto simp: is_err_def)
qed

section \<open>Formatted input\<close>

text \<open>\<^verbatim>\<open>in >> n\<close> and \<^verbatim>\<open>in >> word\<close>: the value and the rest of the stream, \<^term>\<open>None\<close> on failure.\<close>

definition skip_ws :: "string \<Rightarrow> string" where
  "skip_ws s = dropWhile is_space s"

definition read_int :: "string \<Rightarrow> (int \<times> string) option" where
  "read_int inp =
     (let s = skip_ws inp;
          neg = (s \<noteq> [] \<and> hd s = CHR ''-'');
          s' = (if s \<noteq> [] \<and> hd s \<in> set ''+-'' then tl s else s);
          ds = takeWhile is_digit s';
          n = int (digits_val 0 ds);
          v = (if neg then - n else n)
      in if ds = [] \<or> v < - (2 ^ 31) \<or> 2 ^ 31 \<le> v then None else Some (v, dropWhile is_digit s'))"

definition read_word :: "string \<Rightarrow> (string \<times> string) option" where
  "read_word inp =
     (let s = skip_ws inp; w = takeWhile (\<lambda>c. \<not> is_space c) s
      in if w = [] then None else Some (w, dropWhile (\<lambda>c. \<not> is_space c) s))"

lemma read_int_length: "read_int s = Some (i, r) \<Longrightarrow> length r \<le> length s"
proof -
  have dw: "length (dropWhile P xs) \<le> n" if "length xs \<le> n" for P n and xs :: string
    using that length_dropWhile_le [of P xs] by simp
  show "read_int s = Some (i, r) \<Longrightarrow> length r \<le> length s"
    by (auto simp: read_int_def Let_def skip_ws_def intro!: dw le_trans [OF diff_le_self]
        split: if_splits)
qed

lemma read_word_length:
  assumes "read_word s = Some (w, r)"
  shows "length r < length s"
proof -
  let ?s = "dropWhile is_space s"
  have r: "r = dropWhile (\<lambda>c. \<not> is_space c) ?s" and w: "takeWhile (\<lambda>c. \<not> is_space c) ?s \<noteq> []"
    using assms by (auto simp: read_word_def Let_def skip_ws_def split: if_splits)
  have "length (takeWhile (\<lambda>c. \<not> is_space c) ?s) + length r = length ?s"
    unfolding r by (metis length_append takeWhile_dropWhile_id)
  moreover have "0 < length (takeWhile (\<lambda>c. \<not> is_space c) ?s)"
    using w by (simp only: length_greater_0_conv not_False_eq_True)
  moreover have "length ?s \<le> length s" by (rule length_dropWhile_le)
  ultimately show ?thesis by linarith
qed

end
