(* ===== verification/Ring.thy ===== *)
theory Ring
  imports Platform Cpp_Strings
begin

text \<open>
  Placement of tablets on workers. Keys are hashed into buckets \<open>1..6\<close> (\<^verbatim>\<open>hashToBucket\<close> of
  \<^verbatim>\<open>utils/utils.cc\<close>); tablet \<open>t\<close> is stored by the workers \<open>t\<close>, \<open>t+1\<close> and \<open>t+2\<close> on a ring of six, so
  worker \<open>w\<close> stores the tablets \<open>w\<close>, \<open>w-1\<close> and \<open>w-2\<close>, in this order, in its three slots. The
  coordinator computes the ring forwards, the workers backwards; the lemmas here show the two agree.
\<close>

abbreviation NUM_TABLETS :: int where "NUM_TABLETS \<equiv> 6"
abbreviation TABLET_NOT_FOUND :: int where "TABLET_NOT_FOUND \<equiv> - 1"
abbreviation DEFAULT_HOST :: string where "DEFAULT_HOST \<equiv> ''127.0.0.1''"

section \<open>Hashing keys to tablets\<close>

text \<open>
  \<^verbatim>\<open>static_cast<int>((hash % numBuckets) + 1)\<close>: the \<^verbatim>\<open>int\<close> bucket count is converted to \<^verbatim>\<open>size_t\<close>, the
  remainder and the sum are 64-bit unsigned, and the result is narrowed to a 32-bit \<^verbatim>\<open>int\<close>.
\<close>

definition hashToBucket :: "platform \<Rightarrow> string \<Rightarrow> int \<Rightarrow> int" where
  "hashToBucket P input numBuckets =
     sint (ucast (std_hash P input mod word_of_int numBuckets + 1 :: 64 word) :: 32 word)"

abbreviation tablet_of :: "platform \<Rightarrow> string \<Rightarrow> int" where
  "tablet_of P key \<equiv> hashToBucket P key NUM_TABLETS"

lemma hashToBucket_eq:
  assumes "0 < n" and "n < 2 ^ 31"
  shows "hashToBucket P s n = uint (std_hash P s) mod n + 1"
proof -
  let ?x = "std_hash P s mod word_of_int n :: 64 word"
  have n: "uint (word_of_int n :: 64 word) = n"
    using assms by (simp add: uint_word_of_int_eq take_bit_int_eq_self)
  then have x: "uint ?x = uint (std_hash P s) mod n"
    by (simp add: uint_mod_distrib)
  have bound: "uint (std_hash P s) mod n < n"
    using assms(1) by (rule pos_mod_bound)
  have r: "0 \<le> uint (std_hash P s) mod n" "uint (std_hash P s) mod n < 2147483648 - 1"
    using assms(1) assms(2) [simplified] bound pos_mod_sign [of n "uint (std_hash P s)"] by linarith+
  have y: "uint (?x + 1) = uint (std_hash P s) mod n + 1"
    by (subst uint_plus_if') (use r in \<open>simp add: x\<close>)
  have "sint (ucast (?x + 1) :: 32 word) = uint (?x + 1)"
    unfolding sint_uint using r assms
    by (simp add: y unsigned_ucast_eq take_bit_int_eq_self signed_take_bit_int_eq_self)
  then show ?thesis by (simp add: hashToBucket_def y)
qed

lemma tablet_of_range: "1 \<le> tablet_of P key" "tablet_of P key \<le> 6"
  by (simp_all add: hashToBucket_eq)

section \<open>The ring\<close>

definition prev1 :: "int \<Rightarrow> int" where
  "prev1 workerId = crem (workerId + NUM_TABLETS - 2) NUM_TABLETS + 1"

definition prev2 :: "int \<Rightarrow> int" where
  "prev2 workerId = crem (workerId + NUM_TABLETS - 3) NUM_TABLETS + 1"

definition next1 :: "int \<Rightarrow> int" where
  "next1 t = crem t NUM_TABLETS + 1"

definition next2 :: "int \<Rightarrow> int" where
  "next2 t = crem (t + 1) NUM_TABLETS + 1"

abbreviation holders :: "int \<Rightarrow> int list" where
  "holders t \<equiv> [t, next1 t, next2 t]"

definition worker_ids :: "int list" where
  "worker_ids = [1, 2, 3, 4, 5, 6]"

definition worker_addr :: "int \<Rightarrow> string" where
  "worker_addr i = DEFAULT_HOST @ '':'' @ to_string (10000 + i)"

definition getTabletNumberOnThisWorker :: "int \<Rightarrow> int \<Rightarrow> int" where
  "getTabletNumberOnThisWorker workerId t =
     (if t = workerId then 1
      else if t = prev1 workerId then 2
      else if t = prev2 workerId then 3
      else TABLET_NOT_FOUND)"

text \<open>\<^verbatim>\<open>getTablet\<close> and \<^verbatim>\<open>getLogger\<close>: the index into the vectors, \<^term>\<open>None\<close> where they throw.\<close>

definition getTabletSlot :: "int \<Rightarrow> int \<Rightarrow> nat option" where
  "getTabletSlot workerId t =
     (if t = workerId then Some 0
      else if t = prev1 workerId then Some 1
      else if t = prev2 workerId then Some 2
      else None)"

lemma worker_id_cases:
  assumes "1 \<le> i" and "i \<le> (6::int)"
  obtains "i = 1" | "i = 2" | "i = 3" | "i = 4" | "i = 5" | "i = 6"
  using assms by linarith

lemma in_worker_ids: "i \<in> set worker_ids \<longleftrightarrow> 1 \<le> i \<and> i \<le> 6"
  by (auto simp: worker_ids_def)

lemma ring_values [ring_simps]:
  "prev1 1 = 6" "prev1 2 = 1" "prev1 3 = 2" "prev1 4 = 3" "prev1 5 = 4" "prev1 6 = 5"
  "prev2 1 = 5" "prev2 2 = 6" "prev2 3 = 1" "prev2 4 = 2" "prev2 5 = 3" "prev2 6 = 4"
  "next1 1 = 2" "next1 2 = 3" "next1 3 = 4" "next1 4 = 5" "next1 5 = 6" "next1 6 = 1"
  "next2 1 = 3" "next2 2 = 4" "next2 3 = 5" "next2 4 = 6" "next2 5 = 1" "next2 6 = 2"
  by (simp_all add: prev1_def prev2_def next1_def next2_def crem_def)

lemma holders_range: "1 \<le> t \<Longrightarrow> t \<le> 6 \<Longrightarrow> i \<in> set (holders t) \<Longrightarrow> 1 \<le> i \<and> i \<le> 6"
  by (erule (1) worker_id_cases) (auto simp: ring_simps)

lemma holders_distinct: "1 \<le> t \<Longrightarrow> t \<le> 6 \<Longrightarrow> distinct (holders t)"
  by (erule (1) worker_id_cases) (auto simp: ring_simps)

lemma slot_iff_holder:
  assumes "1 \<le> w" "w \<le> 6" "1 \<le> t" "t \<le> 6"
  shows "getTabletSlot w t \<noteq> None \<longleftrightarrow> w \<in> set (holders t)"
  using assms(1,2)
proof (cases w rule: worker_id_cases)
qed (use assms(3,4) in \<open>auto elim!: worker_id_cases simp: getTabletSlot_def ring_simps\<close>)

lemma slot_number:
  "getTabletNumberOnThisWorker w t =
     (case getTabletSlot w t of None \<Rightarrow> TABLET_NOT_FOUND | Some k \<Rightarrow> int k + 1)"
  by (simp add: getTabletNumberOnThisWorker_def getTabletSlot_def)

lemma number_not_found_iff [simp]:
  "getTabletNumberOnThisWorker w t = TABLET_NOT_FOUND \<longleftrightarrow> getTabletSlot w t = None"
  by (auto simp: slot_number split: option.splits)

lemma slot_less_3: "getTabletSlot w t = Some k \<Longrightarrow> k < 3"
  by (auto simp: getTabletSlot_def split: if_splits)

lemma slot_inject:
  assumes "1 \<le> w" "w \<le> 6" "getTabletSlot w t = Some k" "getTabletSlot w t' = Some k"
  shows "t = t'"
  using assms by (auto simp: getTabletSlot_def split: if_splits)

lemma slot_values:
  assumes "1 \<le> w" "w \<le> 6"
  shows "getTabletSlot w w = Some 0" "getTabletSlot w (prev1 w) = Some 1"
    "getTabletSlot w (prev2 w) = Some 2"
  using assms by (auto elim!: worker_id_cases simp: getTabletSlot_def ring_simps)

lemma holder_slots:
  assumes "1 \<le> t" "t \<le> 6"
  shows "getTabletSlot t t = Some 0" "getTabletSlot (next1 t) t = Some 1"
    "getTabletSlot (next2 t) t = Some 2"
  using assms by (auto elim!: worker_id_cases simp: getTabletSlot_def ring_simps)

section \<open>Addresses\<close>

lemma worker_addr_inject [simp]:
  "0 \<le> i \<Longrightarrow> 0 \<le> j \<Longrightarrow> worker_addr i = worker_addr j \<longleftrightarrow> i = j"
  by (auto simp: worker_addr_def to_string_def)

definition addr_worker :: "string \<Rightarrow> int option" where
  "addr_worker addr = find (\<lambda>i. worker_addr i = addr) worker_ids"

lemma addr_worker_addr [simp]: "1 \<le> i \<Longrightarrow> i \<le> 6 \<Longrightarrow> addr_worker (worker_addr i) = Some i"
  by (erule (1) worker_id_cases) (auto simp: addr_worker_def worker_ids_def)

lemma addr_worker_Some: "addr_worker a = Some i \<Longrightarrow> a = worker_addr i \<and> 1 \<le> i \<and> i \<le> 6"
  by (auto simp: addr_worker_def worker_ids_def split: if_splits)

lemma worker_addr_not_err [simp]: "\<not> is_err (worker_addr i)" "worker_addr i \<noteq> ''ALLDEAD''"
  by (simp_all add: is_err_def worker_addr_def)

end
