(* ===== verification/Coordinator.thy ===== *)
theory Coordinator
  imports Ring
begin

text \<open>
  The coordinator (\<^verbatim>\<open>backend/coordinator.cc\<close>): the host map read from \<^verbatim>\<open>hosts.txt\<close>, the liveness table
  \<^verbatim>\<open>isAlive\<close> and the last heartbeat of every worker, with the four RPC handlers and one pass of the
  monitor thread. Each handler and each monitor pass holds the mutexes of the state it touches, so
  the model runs them atomically. Times are nanoseconds of the steady clock, a parameter of the two
  operations that read it. Reading \<^verbatim>\<open>isAlive[i]\<close> inserts \<^verbatim>\<open>false\<close> for an unknown key, as the C++
  operator does.
\<close>

record coordinator =
  hostMap :: "int \<rightharpoonup> string"
  isAlive :: "int \<rightharpoonup> bool"
  lastHeartbeat :: "int \<rightharpoonup> int"

section \<open>Reading the host map\<close>

function loadHostMap :: "(int \<rightharpoonup> string) \<Rightarrow> string \<Rightarrow> (int \<rightharpoonup> string)" where
  "loadHostMap m inp =
     (case read_int inp of
        None \<Rightarrow> m
      | Some (i, inp1) \<Rightarrow>
          (case read_word inp1 of
             None \<Rightarrow> m
           | Some (address, inp2) \<Rightarrow> loadHostMap (m(i \<mapsto> address)) inp2))"
  by pat_completeness auto
termination
  by (relation "measure (\<lambda>(m, s). length s)") (auto dest!: read_int_length read_word_length)

declare loadHostMap.simps [simp del]

text \<open>The file \<^verbatim>\<open>backend/hosts.txt\<close> of the repository.\<close>

definition hosts_txt :: string where
  "hosts_txt =
     ''1 127.0.0.1:10001'' @ [LF] @ ''2 127.0.0.1:10002'' @ [LF] @ ''3 127.0.0.1:10003'' @ [LF] @
     ''4 127.0.0.1:10004'' @ [LF] @ ''5 127.0.0.1:10005'' @ [LF] @ ''6 127.0.0.1:10006''"

section \<open>The service\<close>

text \<open>\<^verbatim>\<open>MasterNode()\<close> at time \<open>now\<close>: every worker was last seen an hour ago.\<close>

definition master_init :: "(int \<rightharpoonup> string) \<Rightarrow> int \<Rightarrow> coordinator" where
  "master_init hosts now =
     \<lparr>hostMap = hosts, isAlive = Map.empty,
      lastHeartbeat = map_of (map (\<lambda>i. (i, now - 3600 * 1000000000)) worker_ids)\<rparr>"

definition alive_at :: "coordinator \<Rightarrow> int \<Rightarrow> bool \<times> coordinator" where
  "alive_at c i =
     (case isAlive c i of
        Some b \<Rightarrow> (b, c)
      | None \<Rightarrow> (False, c\<lparr>isAlive := (isAlive c)(i \<mapsto> False)\<rparr>))"

text \<open>
  \<^verbatim>\<open>Lookup\<close>: the RPC status and the worker field of the response. \<^term>\<open>None\<close> is the uncaught
  \<^verbatim>\<open>out_of_range\<close> of \<^verbatim>\<open>hostMap.at\<close> for an id missing in the host file.
\<close>

definition Lookup :: "platform \<Rightarrow> coordinator \<Rightarrow> string \<Rightarrow> (Status \<times> string) option \<times> coordinator" where
  "Lookup P c key =
     (let t = hashToBucket P key NUM_TABLETS;
          (a0, c0) = alive_at c t
      in if a0 then (map_option (Pair OK) (hostMap c0 t), c0)
         else let (a1, c1) = alive_at c0 (next1 t)
         in if a1 then (map_option (Pair OK) (hostMap c1 (next1 t)), c1)
            else let (a2, c2) = alive_at c1 (next2 t)
            in if a2 then (map_option (Pair OK) (hostMap c2 (next2 t)), c2)
               else (Some (Failed UNAVAILABLE ''All workers are down'', []), c2))"

definition Heartbeat :: "coordinator \<Rightarrow> int \<Rightarrow> int \<Rightarrow> Status \<times> coordinator" where
  "Heartbeat c worker_id now = (OK, c\<lparr>lastHeartbeat := (lastHeartbeat c)(worker_id \<mapsto> now)\<rparr>)"

fun first_alive :: "coordinator \<Rightarrow> int list \<Rightarrow> string \<times> coordinator" where
  "first_alive c [] = (''ALLDEAD'', c)"
| "first_alive c (candidate # cs) =
     (let (a, c') = alive_at c candidate
      in if a then (DEFAULT_HOST @ '':'' @ to_string (10000 + candidate), c') else first_alive c' cs)"

definition getCurrentPrimary :: "coordinator \<Rightarrow> int \<Rightarrow> string \<times> coordinator" where
  "getCurrentPrimary c tablet_id = first_alive c [tablet_id, next1 tablet_id, next2 tablet_id]"

definition WorkerLookup ::
  "coordinator \<Rightarrow> int \<Rightarrow> Status \<times> (string \<times> string \<times> string) \<times> coordinator" where
  "WorkerLookup c primary_id =
     (let secondary_id = prev1 primary_id;
          tertiary_id = prev2 primary_id;
          (primary, c1) = getCurrentPrimary c primary_id;
          (secondary, c2) = getCurrentPrimary c1 secondary_id;
          (tertiary, c3) = getCurrentPrimary c2 tertiary_id
      in (OK, (primary, secondary, tertiary), c3))"

definition Alive :: "coordinator \<Rightarrow> int \<Rightarrow> Status \<times> bool" where
  "Alive c worker =
     (case isAlive c worker of
        None \<Rightarrow> (Failed INVALID_ARGUMENT ''Only workers 1-6 exist.'', False)
      | Some b \<Rightarrow> (OK, b))"

definition elapsed_seconds :: "int \<Rightarrow> int \<Rightarrow> int" where
  "elapsed_seconds now last_seen =
     (let d = now - last_seen in if d < 0 then - ((- d) div 1000000000) else d div 1000000000)"

definition monitor_pass :: "coordinator \<Rightarrow> int \<Rightarrow> coordinator" where
  "monitor_pass c now =
     c\<lparr>isAlive := (\<lambda>i. case lastHeartbeat c i of
          None \<Rightarrow> isAlive c i
        | Some last_seen \<Rightarrow> if elapsed_seconds now last_seen > 3 then Some False else Some True)\<rparr>"

section \<open>Lemmas\<close>

definition marked_alive :: "coordinator \<Rightarrow> int \<Rightarrow> bool" where
  "marked_alive c i \<longleftrightarrow> isAlive c i = Some True"

text \<open>What \<^verbatim>\<open>isAlive[i]\<close> does to the table: \<open>touch\<close> may add a \<^verbatim>\<open>false\<close> entry and changes nothing else.\<close>

definition touch :: "coordinator \<Rightarrow> int \<Rightarrow> coordinator" where
  "touch c i = (if isAlive c i = None then c\<lparr>isAlive := (isAlive c)(i \<mapsto> False)\<rparr> else c)"

definition hosts_ok :: "coordinator \<Rightarrow> bool" where
  "hosts_ok c \<longleftrightarrow> (\<forall>i. 1 \<le> i \<longrightarrow> i \<le> 6 \<longrightarrow> hostMap c i = Some (worker_addr i))"

lemma alive_at_eq: "alive_at c i = (marked_alive c i, touch c i)"
  by (auto simp: alive_at_def marked_alive_def touch_def split: option.splits)

lemma touch_frame [simp]:
  "hostMap (touch c i) = hostMap c" "lastHeartbeat (touch c i) = lastHeartbeat c"
  "marked_alive (touch c i) = marked_alive c"
  by (auto simp: touch_def marked_alive_def fun_eq_iff)

lemma touch_known [simp]: "isAlive c i \<noteq> None \<Longrightarrow> touch c i = c"
  by (auto simp: touch_def)

lemma first_alive_spec:
  "fst (first_alive c cs) =
     (case find (marked_alive c) cs of None \<Rightarrow> ''ALLDEAD'' | Some i \<Rightarrow> worker_addr i)"
  by (induction cs arbitrary: c) (auto simp: worker_addr_def alive_at_eq)

lemma first_alive_frame [simp]:
  "hostMap (snd (first_alive c cs)) = hostMap c"
  "lastHeartbeat (snd (first_alive c cs)) = lastHeartbeat c"
  "marked_alive (snd (first_alive c cs)) = marked_alive c"
  by (induction cs arbitrary: c) (auto simp: alive_at_eq)

lemma first_alive_known: "\<forall>i\<in>set cs. isAlive c i \<noteq> None \<Longrightarrow> snd (first_alive c cs) = c"
  by (induction cs arbitrary: c) (auto simp: alive_at_eq)

lemma Lookup_spec:
  assumes "hosts_ok c"
  shows "fst (Lookup P c key) =
     (case find (marked_alive c) (holders (tablet_of P key)) of
        None \<Rightarrow> Some (Failed UNAVAILABLE ''All workers are down'', [])
      | Some i \<Rightarrow> Some (OK, worker_addr i))"
proof -
  let ?t = "tablet_of P key"
  have h: "hostMap c i = Some (worker_addr i)" if "i \<in> set (holders ?t)" for i
    using that assms holders_range [OF tablet_of_range] unfolding hosts_ok_def by blast
  show ?thesis
    using h by (simp add: Lookup_def Let_def alive_at_eq)
qed

lemma Lookup_frame [simp]:
  "hostMap (snd (Lookup P c key)) = hostMap c"
  "lastHeartbeat (snd (Lookup P c key)) = lastHeartbeat c"
  "marked_alive (snd (Lookup P c key)) = marked_alive c"
  by (simp_all add: Lookup_def Let_def alive_at_eq)

lemma Lookup_known:
  assumes "\<forall>i\<in>set (holders (tablet_of P key)). isAlive c i \<noteq> None"
  shows "snd (Lookup P c key) = c"
  using assms by (simp add: Lookup_def Let_def alive_at_eq)

lemma WorkerLookup_spec:
  "fst (WorkerLookup c w) = OK"
  "fst (snd (WorkerLookup c w)) =
     (fst (first_alive c (holders w)), fst (first_alive c (holders (prev1 w))),
      fst (first_alive c (holders (prev2 w))))"
  by (simp_all add: WorkerLookup_def getCurrentPrimary_def Let_def first_alive_spec case_prod_beta
      del: first_alive.simps)

lemma WorkerLookup_frame [simp]:
  "hostMap (snd (snd (WorkerLookup c w))) = hostMap c"
  "lastHeartbeat (snd (snd (WorkerLookup c w))) = lastHeartbeat c"
  "marked_alive (snd (snd (WorkerLookup c w))) = marked_alive c"
  by (simp_all add: WorkerLookup_def getCurrentPrimary_def Let_def case_prod_beta
      del: first_alive.simps)

section \<open>Running the coordinator\<close>

datatype coord_event =
    Ev_Heartbeat int int
  | Ev_Monitor int
  | Ev_Lookup string
  | Ev_WorkerLookup int
  | Ev_Alive int

fun coord_step :: "platform \<Rightarrow> coordinator \<Rightarrow> coord_event \<Rightarrow> coordinator" where
  "coord_step P c (Ev_Heartbeat i now) = snd (Heartbeat c i now)"
| "coord_step P c (Ev_Monitor now) = monitor_pass c now"
| "coord_step P c (Ev_Lookup key) = snd (Lookup P c key)"
| "coord_step P c (Ev_WorkerLookup i) = snd (snd (WorkerLookup c i))"
| "coord_step P c (Ev_Alive i) = c"

definition coord_run :: "platform \<Rightarrow> coordinator \<Rightarrow> coord_event list \<Rightarrow> coordinator" where
  "coord_run P = foldl (coord_step P)"

fun latest_heartbeat :: "int \<Rightarrow> int \<Rightarrow> coord_event list \<Rightarrow> int" where
  "latest_heartbeat t0 i [] = t0"
| "latest_heartbeat t0 i (Ev_Heartbeat j now # es) = latest_heartbeat (if j = i then now else t0) i es"
| "latest_heartbeat t0 i (_ # es) = latest_heartbeat t0 i es"

lemma coord_run_lastHeartbeat:
  "lastHeartbeat c i = Some t0 \<Longrightarrow>
   lastHeartbeat (coord_run P c es) i = Some (latest_heartbeat t0 i es)"
  unfolding coord_run_def
proof (induction es arbitrary: c t0)
  case Nil
  then show ?case by simp
next
  case (Cons e es)
  then show ?case
    by (cases e) (auto simp: Heartbeat_def monitor_pass_def)
qed

lemma coord_run_hostMap: "hostMap (coord_run P c es) = hostMap c"
  unfolding coord_run_def
proof (induction es arbitrary: c)
  case (Cons e es)
  then show ?case by (cases e) (auto simp: Heartbeat_def monitor_pass_def)
qed simp

lemma master_init_lastHeartbeat:
  "1 \<le> i \<Longrightarrow> i \<le> 6 \<Longrightarrow>
   lastHeartbeat (master_init hosts now) i = Some (now - 3600 * 1000000000)"
  by (erule (1) worker_id_cases) (simp_all add: master_init_def worker_ids_def)

lemma loadHostMap_hosts_txt:
  "loadHostMap Map.empty hosts_txt =
     [1 \<mapsto> ''127.0.0.1:10001'', 2 \<mapsto> ''127.0.0.1:10002'', 3 \<mapsto> ''127.0.0.1:10003'',
      4 \<mapsto> ''127.0.0.1:10004'', 5 \<mapsto> ''127.0.0.1:10005'', 6 \<mapsto> ''127.0.0.1:10006'']"
  by (simp add: hosts_txt_def loadHostMap.simps read_int_def read_word_def skip_ws_def is_space_def
      is_digit_def digit_val_def)

lemma worker_addr_values:
  "worker_addr 1 = ''127.0.0.1:10001''" "worker_addr 2 = ''127.0.0.1:10002''"
  "worker_addr 3 = ''127.0.0.1:10003''" "worker_addr 4 = ''127.0.0.1:10004''"
  "worker_addr 5 = ''127.0.0.1:10005''" "worker_addr 6 = ''127.0.0.1:10006''"
  by (simp_all add: worker_addr_def to_string_def nat_string.simps digit_char_def)

lemma hosts_ok_hosts_txt: "hosts_ok (master_init (loadHostMap Map.empty hosts_txt) now)"
  unfolding hosts_ok_def
  by (auto elim!: worker_id_cases simp: master_init_def loadHostMap_hosts_txt worker_addr_values)

text \<open>The coordinator process: \<^verbatim>\<open>main\<close> loads the host file, then serves any sequence of events.\<close>

definition deployed_coordinator :: "platform \<Rightarrow> int \<Rightarrow> coord_event list \<Rightarrow> coordinator" where
  "deployed_coordinator P t0 es = coord_run P (master_init (loadHostMap Map.empty hosts_txt) t0) es"

lemma hosts_ok_deployed: "hosts_ok (deployed_coordinator P t0 es)"
  using hosts_ok_hosts_txt by (simp add: hosts_ok_def deployed_coordinator_def coord_run_hostMap)

section \<open>Properties\<close>

text \<open>
  C7. Routing: with the host file of the repository, \<open>Lookup\<close> answers every key with the address of
  the first worker marked alive among the three workers that store the key's tablet, and with
  \<^verbatim>\<open>UNAVAILABLE\<close> exactly when none of the three is; whatever sequence of RPCs and monitor passes came
  before, and without changing any worker's liveness mark.
\<close>

theorem Lookup_routes_to_first_alive_holder:
  "fst (Lookup P (deployed_coordinator P t0 es) key) =
      (case find (marked_alive (deployed_coordinator P t0 es)) (holders (hashToBucket P key 6)) of
         None \<Rightarrow> Some (Failed UNAVAILABLE ''All workers are down'', [])
       | Some i \<Rightarrow> Some (OK, worker_addr i))
   \<and> marked_alive (snd (Lookup P (deployed_coordinator P t0 es) key))
       = marked_alive (deployed_coordinator P t0 es)"
  using hosts_ok_deployed by (simp add: Lookup_spec)

text \<open>
  C8. Failure detection: in a run of the coordinator from start-up at time \<open>t0\<close>, a monitor pass at
  time \<open>T\<close> marks worker \<open>i\<close> alive exactly when fewer than four seconds passed since the worker's
  latest heartbeat (or since one hour before start-up if it never sent one), however heartbeats,
  lookups and earlier passes were interleaved.
\<close>

theorem monitor_marks_by_latest_heartbeat:
  assumes "1 \<le> i" and "i \<le> 6"
  shows "marked_alive (coord_run P (master_init hosts t0) (es @ [Ev_Monitor T])) i \<longleftrightarrow>
     T - latest_heartbeat (t0 - 3600 * 1000000000) i es < 4 * 1000000000"
proof -
  let ?c = "coord_run P (master_init hosts t0) es"
  let ?l = "latest_heartbeat (t0 - 3600 * 1000000000) i es"
  have "lastHeartbeat ?c i = Some ?l"
    by (rule coord_run_lastHeartbeat) (simp add: master_init_lastHeartbeat assms)
  moreover have "elapsed_seconds T ?l > 3 \<longleftrightarrow> \<not> T - ?l < 4 * 1000000000"
    by (auto simp: elapsed_seconds_def Let_def)
  ultimately show ?thesis
    by (simp add: coord_run_def monitor_pass_def marked_alive_def)
qed

theorem monitor_marks_by_latest_heartbeat_witness:
  "marked_alive (coord_run sample_platform (master_init Map.empty 0)
      ([Ev_Heartbeat 2 1000000000, Ev_Monitor 2000000000] @ [Ev_Monitor 4999999999])) 2"
  by (subst monitor_marks_by_latest_heartbeat) simp_all

end
