(* ===== verification/Binary_Stream.thy ===== *)
theory Binary_Stream
  imports Prelude
begin

text \<open>
  The length-prefixed binary format that \<^verbatim>\<open>utils/logger.cc\<close> and \<^verbatim>\<open>utils/serializer.cc\<close> share: a
  \<^verbatim>\<open>uint32_t\<close> written byte by byte in the host's order (little endian on the deployment targets)
  and strings preceded by their length. A stream is the list of bytes still to be read; a failed
  \<^verbatim>\<open>istream::read\<close> is \<^term>\<open>None\<close>.

  The locale \<open>codec\<close> is the contract of such a format: decoding an encoded value gives the value and
  the remaining input, every successful read consumes input, and a record cut short is rejected. The
  locale \<open>codec_loop\<close> adds the read-until-failure loop and proves, once, that the loop recovers
  exactly the complete records in front of a torn tail.
\<close>

section \<open>The contract of a record format\<close>

locale codec =
  fixes enc :: "'a \<Rightarrow> bytes"
    and dec :: "bytes \<Rightarrow> ('a \<times> bytes) option"
    and fits :: "'a \<Rightarrow> bool"
  assumes dec_enc: "fits x \<Longrightarrow> dec (enc x @ rest) = Some (x, rest)"
    and dec_shrinks: "dec bs = Some (x, rest) \<Longrightarrow> length rest < length bs"
    and dec_torn: "fits x \<Longrightarrow> strict_prefix p (enc x) \<Longrightarrow> dec p = None"
begin

lemma dec_Nil: "dec [] = None"
  using dec_shrinks [of "[]"] by (cases "dec []") auto

lemma enc_inject: "fits x \<Longrightarrow> fits y \<Longrightarrow> enc x = enc y \<Longrightarrow> x = y"
  using dec_enc [of x "[]"] dec_enc [of y "[]"] by simp

lemma enc_prefix_free: "fits x \<Longrightarrow> fits y \<Longrightarrow> prefix (enc x) (enc y) \<Longrightarrow> x = y"
  using dec_enc [of x] dec_enc [of y "[]"] by (auto simp: prefix_def)

end

locale codec_loop = codec +
  fixes read_all :: "bytes \<Rightarrow> 'a list"
  assumes read_all_unfold:
    "read_all bs = (case dec bs of None \<Rightarrow> [] | Some (x, rest) \<Rightarrow> x # read_all rest)"
begin

lemma read_all_stop: "dec bs = None \<Longrightarrow> read_all bs = []"
  by (subst read_all_unfold) simp

lemma read_all_enc_append: "fits x \<Longrightarrow> read_all (enc x @ bs) = x # read_all bs"
  by (subst read_all_unfold) (simp add: dec_enc)

lemma read_all_append:
  "\<forall>x\<in>set xs. fits x \<Longrightarrow> read_all (concat (map enc xs) @ bs) = xs @ read_all bs"
  by (induction xs) (auto simp: read_all_enc_append)

lemma read_all_concat: "\<forall>x\<in>set xs. fits x \<Longrightarrow> read_all (concat (map enc xs)) = xs"
  using read_all_append [of xs "[]"] by (simp add: read_all_stop dec_Nil)

lemma read_all_torn:
  assumes "\<forall>x\<in>set xs. fits x" and "fits y" and "strict_prefix p (enc y)"
  shows "read_all (concat (map enc xs) @ p) = xs"
  using assms by (simp add: read_all_append read_all_stop dec_torn)

end

section \<open>uint32\<close>

definition u32_bytes :: "32 word \<Rightarrow> bytes" where
  "u32_bytes w =
     [char_of (unat w), char_of (unat w div 256),
      char_of (unat w div 65536), char_of (unat w div 16777216)]"

fun read_u32 :: "bytes \<Rightarrow> (32 word \<times> bytes) option" where
  "read_u32 (a # b # c # d # rest) =
     Some (word_of_nat (of_char a + 256 * of_char b + 65536 * of_char c + 16777216 * of_char d), rest)"
| "read_u32 _ = None"

lemma u32_digits:
  fixes n :: nat
  assumes "n < 2 ^ 32"
  shows "n mod 256 + 256 * (n div 256 mod 256) + 65536 * (n div 65536 mod 256)
           + 16777216 * (n div 16777216 mod 256) = n"
proof -
  have "n mod (256 * 256) = 256 * (n div 256 mod 256) + n mod 256"
    by (rule mod_mult2_eq)
  moreover have "n mod (65536 * 256) = 65536 * (n div 65536 mod 256) + n mod 65536"
    by (rule mod_mult2_eq)
  moreover have "n mod (16777216 * 256) = 16777216 * (n div 16777216 mod 256) + n mod 16777216"
    by (rule mod_mult2_eq)
  moreover have "n mod (16777216 * 256) = n"
    using assms by simp
  ultimately show ?thesis by simp
qed

lemma read_u32_bytes [codec_simps]: "read_u32 (u32_bytes w @ rest) = Some (w, rest)"
proof -
  have "unat w < 2 ^ 32" using unsigned_less [of w, where ?'a = nat] by simp
  then have "word_of_nat (unat w mod 256 + 256 * (unat w div 256 mod 256)
      + 65536 * (unat w div 65536 mod 256) + 16777216 * (unat w div 16777216 mod 256)) = w"
    by (simp only: u32_digits of_nat_unat ucast_id)
  then show ?thesis by (simp add: u32_bytes_def)
qed

lemma read_u32_short: "length bs < 4 \<Longrightarrow> read_u32 bs = None"
  by (cases bs rule: read_u32.cases) auto

lemma read_u32_length: "read_u32 bs = Some (w, rest) \<Longrightarrow> length bs = length rest + 4"
  by (cases bs rule: read_u32.cases) auto

lemma length_u32_bytes [simp]: "length (u32_bytes w) = 4"
  by (simp add: u32_bytes_def)

lemma u32_bytes_not_Nil [simp]: "u32_bytes w \<noteq> []"
  by (simp add: u32_bytes_def)

interpretation u32_codec: codec u32_bytes read_u32 "\<lambda>_. True"
proof unfold_locales
  fix x and p assume "strict_prefix p (u32_bytes x)"
  then have "length p < 4" using prefix_length_less by fastforce
  then show "read_u32 p = None" by (rule read_u32_short)
qed (auto simp: read_u32_bytes dest: read_u32_length)

section \<open>Length-prefixed strings\<close>

text \<open>
  \<^verbatim>\<open>uint32_t len = str.size()\<close> truncates the size to 32 bits, and exactly \<^verbatim>\<open>len\<close> bytes are
  written, so a string of \<open>2^32\<close> bytes or more is cut.
\<close>

definition writeString :: "string \<Rightarrow> bytes" where
  "writeString str =
     (let len = word_of_nat (length str) :: 32 word in u32_bytes len @ take (unat len) str)"

definition readString :: "bytes \<Rightarrow> (string \<times> bytes) option" where
  "readString inp =
     (case read_u32 inp of
        None \<Rightarrow> None
      | Some (len, rest) \<Rightarrow>
          if length rest < unat len then None
          else Some (take (unat len) rest, drop (unat len) rest))"

definition str_fits :: "string \<Rightarrow> bool" where
  "str_fits s \<longleftrightarrow> length s < 2 ^ 32"

lemma unat_len: "n < 2 ^ 32 \<Longrightarrow> unat (word_of_nat n :: 32 word) = n"
  by (simp add: unat_of_nat take_bit_eq_mod)

lemma writeString_fits:
  "str_fits s \<Longrightarrow> writeString s = u32_bytes (word_of_nat (length s)) @ s"
  by (simp add: writeString_def str_fits_def unat_len Let_def)

lemma readString_writeString [codec_simps]:
  "str_fits s \<Longrightarrow> readString (writeString s @ rest) = Some (s, rest)"
  by (simp add: writeString_fits readString_def read_u32_bytes str_fits_def unat_len)

lemma readString_length: "readString bs = Some (s, rest) \<Longrightarrow> length bs = length s + length rest + 4"
  by (auto simp: readString_def dest!: read_u32_length split: option.splits prod.splits if_splits)

lemma readString_short: "length bs < 4 \<Longrightarrow> readString bs = None"
  by (simp add: readString_def read_u32_short)

lemma readString_torn:
  assumes "str_fits s" and "strict_prefix p (writeString s)"
  shows "readString p = None"
proof -
  from assms have "strict_prefix p (u32_bytes (word_of_nat (length s)) @ s)"
    by (simp add: writeString_fits)
  then show ?thesis
  proof (cases rule: strict_prefix_append_cases)
    case first
    then show ?thesis by (simp add: readString_def u32_codec.dec_torn)
  next
    case (second p')
    then have "length p' < length s" using prefix_length_less by blast
    with second assms(1) show ?thesis
      by (simp add: readString_def read_u32_bytes str_fits_def unat_len)
  qed
qed

interpretation string_codec: codec writeString readString str_fits
  by unfold_locales (auto simp: readString_writeString readString_torn dest: readString_length)

text \<open>The truncation, made explicit: what is written depends on the length modulo \<open>2^32\<close> only.\<close>

lemma length_writeString: "length (writeString s) = 4 + length s mod 2 ^ 32"
proof -
  have "length s mod 4294967296 \<le> length s" by simp
  then show ?thesis by (simp add: writeString_def Let_def unat_of_nat take_bit_eq_mod min_def)
qed

end
