(* ===== verification/Logger.thy ===== *)
theory Logger
  imports Binary_Stream
begin

text \<open>
  The command log of one tablet (\<^verbatim>\<open>utils/logger.h\<close>, \<^verbatim>\<open>utils/logger.cc\<close>). A \<^verbatim>\<open>Logger\<close> owns one file; its
  state is the file's contents. \<open>logCommand\<close> appends one record, \<open>getLogs\<close> rewinds and reads records
  until a read fails, \<open>clearLog\<close> truncates the file.
\<close>

record CommandLog =
  cl_command :: string
  cl_row :: string
  cl_column :: string
  cl_value1 :: string
  cl_value2 :: string

type_synonym log_file = bytes

section \<open>Operations\<close>

definition command_bytes :: "CommandLog \<Rightarrow> bytes" where
  "command_bytes cl =
     writeString (cl_command cl) @ writeString (cl_row cl) @ writeString (cl_column cl) @
     writeString (cl_value1 cl) @ writeString (cl_value2 cl)"

definition logCommand :: "log_file \<Rightarrow> CommandLog \<Rightarrow> log_file" where
  "logCommand fl cl = fl @ command_bytes cl"

definition readNextCommand :: "bytes \<Rightarrow> (CommandLog \<times> bytes) option" where
  "readNextCommand bs =
     (case readString bs of None \<Rightarrow> None | Some (cmd, bs1) \<Rightarrow>
     (case readString bs1 of None \<Rightarrow> None | Some (rw, bs2) \<Rightarrow>
     (case readString bs2 of None \<Rightarrow> None | Some (col, bs3) \<Rightarrow>
     (case readString bs3 of None \<Rightarrow> None | Some (v1, bs4) \<Rightarrow>
     (case readString bs4 of None \<Rightarrow> None | Some (v2, bs5) \<Rightarrow>
        Some (\<lparr>cl_command = cmd, cl_row = rw, cl_column = col, cl_value1 = v1, cl_value2 = v2\<rparr>,
              bs5))))))"

lemma readNextCommand_shrinks:
  "readNextCommand bs = Some (cl, rest) \<Longrightarrow> length rest < length bs"
  by (auto simp: readNextCommand_def dest!: readString_length split: option.splits prod.splits)

function getLogs :: "log_file \<Rightarrow> CommandLog list" where
  "getLogs bs = (case readNextCommand bs of None \<Rightarrow> [] | Some (cl, rest) \<Rightarrow> cl # getLogs rest)"
  by pat_completeness auto
termination
  by (relation "measure length") (auto dest: readNextCommand_shrinks)

declare getLogs.simps [simp del]

definition clearLog :: "log_file \<Rightarrow> log_file" where
  "clearLog fl = []"

section \<open>The log format is a codec\<close>

definition command_fits :: "CommandLog \<Rightarrow> bool" where
  "command_fits cl \<longleftrightarrow>
     str_fits (cl_command cl) \<and> str_fits (cl_row cl) \<and> str_fits (cl_column cl) \<and>
     str_fits (cl_value1 cl) \<and> str_fits (cl_value2 cl)"

lemma readNextCommand_command_bytes [codec_simps]:
  "command_fits cl \<Longrightarrow> readNextCommand (command_bytes cl @ rest) = Some (cl, rest)"
  by (simp add: command_fits_def command_bytes_def readNextCommand_def codec_simps)

lemma readNextCommand_torn:
  assumes "command_fits cl" and "strict_prefix p (command_bytes cl)"
  shows "readNextCommand p = None"
  using assms unfolding command_fits_def command_bytes_def
  by (auto elim!: strict_prefix_append_cases
      simp: readNextCommand_def codec_simps readString_torn)

interpretation log_codec: codec_loop command_bytes readNextCommand command_fits getLogs
  by unfold_locales
    (simp_all add: codec_simps readNextCommand_torn getLogs.simps [symmetric] readNextCommand_shrinks)

lemmas getLogs_Nil = log_codec.read_all_stop [OF log_codec.dec_Nil]

definition log_of :: "CommandLog list \<Rightarrow> log_file" where
  "log_of cls = foldl logCommand [] cls"

lemma foldl_logCommand: "foldl logCommand fl cls = fl @ concat (map command_bytes cls)"
  by (induction cls arbitrary: fl) (auto simp: logCommand_def)

lemma log_of_concat: "log_of cls = concat (map command_bytes cls)"
  by (simp add: log_of_def foldl_logCommand)

text \<open>
  Appending one record to a log without a torn tail appends one command to what is read back.
\<close>

definition log_complete :: "log_file \<Rightarrow> bool" where
  "log_complete fl \<longleftrightarrow> (\<exists>cls. (\<forall>cl\<in>set cls. command_fits cl) \<and> fl = concat (map command_bytes cls))"

lemma log_complete_clear [simp, intro]: "log_complete (clearLog fl)"
  by (auto simp: log_complete_def clearLog_def intro: exI [of _ "[]"])

lemma log_complete_logCommand:
  assumes "log_complete fl" and "command_fits cl"
  shows "log_complete (logCommand fl cl)"
proof -
  obtain cls where "\<forall>cl\<in>set cls. command_fits cl" "fl = concat (map command_bytes cls)"
    using assms(1) by (auto simp: log_complete_def)
  then show ?thesis
    using assms(2) unfolding log_complete_def logCommand_def
    by (intro exI [of _ "cls @ [cl]"]) auto
qed

lemma getLogs_logCommand:
  assumes "log_complete fl" and "command_fits cl"
  shows "getLogs (logCommand fl cl) = getLogs fl @ [cl]"
proof -
  obtain cls where cls: "\<forall>cl\<in>set cls. command_fits cl" "fl = concat (map command_bytes cls)"
    using assms(1) by (auto simp: log_complete_def)
  have "getLogs (concat (map command_bytes (cls @ [cl]))) = cls @ [cl]"
    using cls(1) assms(2) by (intro log_codec.read_all_concat) auto
  then show ?thesis
    using cls by (simp add: logCommand_def log_codec.read_all_concat)
qed

lemma getLogs_clearLog [simp]: "getLogs (clearLog fl) = []"
  by (simp add: clearLog_def getLogs_Nil)

section \<open>Properties\<close>

text \<open>
  C4. The command log survives a crash in the middle of an append: after any sequence of
  \<open>logCommand\<close> calls followed by a partially written record (any strict prefix of the record's
  bytes, the empty one included), \<open>getLogs\<close> returns exactly the completely logged commands, in order.
\<close>

theorem getLogs_crash_safe:
  assumes "\<forall>cl\<in>set cls. command_fits cl" and "command_fits torn"
    and "strict_prefix p (command_bytes torn)"
  shows "getLogs (foldl logCommand [] cls @ p) = cls"
  using assms by (simp add: foldl_logCommand log_codec.read_all_torn)

theorem getLogs_crash_safe_witness:
  "getLogs (foldl logCommand []
      [\<lparr>cl_command = ''PUT'', cl_row = ''r'', cl_column = ''c'', cl_value1 = ''v'', cl_value2 = ''NULL''\<rparr>]
      @ take 9 (command_bytes \<lparr>cl_command = ''DELETE'', cl_row = ''r'', cl_column = ''c'',
                  cl_value1 = ''NULL'', cl_value2 = ''NULL''\<rparr>))
   = [\<lparr>cl_command = ''PUT'', cl_row = ''r'', cl_column = ''c'', cl_value1 = ''v'', cl_value2 = ''NULL''\<rparr>]"
proof (rule getLogs_crash_safe)
  let ?d = "\<lparr>cl_command = ''DELETE'', cl_row = ''r'', cl_column = ''c'',
                  cl_value1 = ''NULL'', cl_value2 = ''NULL''\<rparr>"
  show "\<forall>cl\<in>set [\<lparr>cl_command = ''PUT'', cl_row = ''r'', cl_column = ''c'',
      cl_value1 = ''v'', cl_value2 = ''NULL''\<rparr>]. command_fits cl"
    by (simp add: command_fits_def str_fits_def)
  show "command_fits ?d"
    by (simp add: command_fits_def str_fits_def)
  have "take 9 (command_bytes ?d) \<noteq> command_bytes ?d"
    by (rule notI, drule arg_cong [where f = length])
      (simp add: command_bytes_def length_writeString)
  then show "strict_prefix (take 9 (command_bytes ?d)) (command_bytes ?d)"
    by (simp add: strict_prefix_def take_is_prefix)
qed

end
