(* ===== verification/Tablet.thy ===== *)
theory Tablet
  imports Prelude
begin

text \<open>
  One tablet of a worker: \<^verbatim>\<open>unordered_map<string, unordered_map<string, string>>\<close> and the three ways
  the code changes it (\<^verbatim>\<open>table[row][col] = v\<close> creating the row on demand, overwriting an existing
  cell, and erasing a cell together with a row that became empty).

  The locale \<open>row_column_store\<close> states what the rest of the system relies on: cell lookups after each
  operation, and that a row is present exactly when it has a cell. Its lemmas (commutation,
  idempotence, congruence of replicas) are proved from those laws alone.
\<close>

section \<open>The contract\<close>

locale row_column_store =
  fixes cell :: "'s \<Rightarrow> string \<Rightarrow> string \<Rightarrow> string option"
    and has_row :: "'s \<Rightarrow> string \<Rightarrow> bool"
    and put :: "'s \<Rightarrow> string \<Rightarrow> string \<Rightarrow> string \<Rightarrow> 's"
    and del :: "'s \<Rightarrow> string \<Rightarrow> string \<Rightarrow> 's"
    and wf :: "'s \<Rightarrow> bool"
  assumes cell_put: "cell (put s r c v) r' c' = (if r' = r \<and> c' = c then Some v else cell s r' c')"
    and cell_del: "cell (del s r c) r' c' = (if r' = r \<and> c' = c then None else cell s r' c')"
    and has_row_iff: "wf s \<Longrightarrow> has_row s r \<longleftrightarrow> (\<exists>c v. cell s r c = Some v)"
    and wf_put: "wf s \<Longrightarrow> wf (put s r c v)"
    and wf_del: "wf s \<Longrightarrow> wf (del s r c)"
begin

lemma cell_put_same: "cell (put s r c v) r c = Some v"
  by (simp add: cell_put)

lemma put_put: "cell (put (put s r c v) r c v') = cell (put s r c v')"
  by (simp add: fun_eq_iff cell_put)

lemma put_commute:
  "(r, c) \<noteq> (r', c') \<Longrightarrow> cell (put (put s r c v) r' c' v') = cell (put (put s r' c' v') r c v)"
  by (auto simp: fun_eq_iff cell_put)

lemma del_put: "cell (del (put s r c v) r c) = cell (del s r c)"
  by (simp add: fun_eq_iff cell_put cell_del)

lemma put_cong: "cell s = cell s' \<Longrightarrow> cell (put s r c v) = cell (put s' r c v)"
  by (simp add: fun_eq_iff cell_put)

lemma del_cong: "cell s = cell s' \<Longrightarrow> cell (del s r c) = cell (del s' r c)"
  by (simp add: fun_eq_iff cell_del)

lemma has_row_cong: "wf s \<Longrightarrow> wf s' \<Longrightarrow> cell s = cell s' \<Longrightarrow> has_row s r = has_row s' r"
  by (simp add: has_row_iff)

end

section \<open>Operations on tablets\<close>

definition tablet_find :: "tablet \<Rightarrow> string \<Rightarrow> string \<Rightarrow> string option" where
  "tablet_find t r c = (case map_of t r of None \<Rightarrow> None | Some cols \<Rightarrow> map_of cols c)"

definition tablet_has_row :: "tablet \<Rightarrow> string \<Rightarrow> bool" where
  "tablet_has_row t r \<longleftrightarrow> map_of t r \<noteq> None"

definition tablet_put :: "tablet \<Rightarrow> string \<Rightarrow> string \<Rightarrow> string \<Rightarrow> tablet" where
  "tablet_put t r c v =
     AList.update r (AList.update c v (case map_of t r of None \<Rightarrow> [] | Some cols \<Rightarrow> cols)) t"

definition tablet_delete :: "tablet \<Rightarrow> string \<Rightarrow> string \<Rightarrow> tablet" where
  "tablet_delete t r c =
     (case map_of t r of
        None \<Rightarrow> t
      | Some cols \<Rightarrow>
          (case map_of cols c of
             None \<Rightarrow> t
           | Some _ \<Rightarrow>
               (let cols' = AList.delete c cols
                in if cols' = [] then AList.delete r t else AList.update r cols' t)))"

text \<open>
  Well-formed: keys are distinct on both levels (what the container guarantees) and no row is empty
  (what the operations maintain).
\<close>

definition tablet_wf :: "tablet \<Rightarrow> bool" where
  "tablet_wf t \<longleftrightarrow>
     distinct (map fst t) \<and> (\<forall>(r, cols) \<in> set t. distinct (map fst cols) \<and> cols \<noteq> [])"

lemma tablet_wf_Nil [simp, intro]: "tablet_wf []"
  by (simp add: tablet_wf_def)

lemma tablet_find_Nil [simp]: "tablet_find [] r c = None"
  by (simp add: tablet_find_def)

lemma tablet_find_Nil_fun: "tablet_find [] = (\<lambda>r c. None)"
  by (simp add: fun_eq_iff)

lemma tablet_wf_row:
  "tablet_wf t \<Longrightarrow> map_of t r = Some cols \<Longrightarrow> distinct (map fst cols) \<and> cols \<noteq> []"
  by (auto simp: tablet_wf_def dest: map_of_SomeD)

lemma tablet_find_put:
  "tablet_find (tablet_put t r c v) r' c' = (if r' = r \<and> c' = c then Some v else tablet_find t r' c')"
  by (auto simp: tablet_find_def tablet_put_def split: option.splits)

lemma tablet_find_delete:
  "tablet_find (tablet_delete t r c) r' c' = (if r' = r \<and> c' = c then None else tablet_find t r' c')"
proof (cases "map_of t r")
  case None
  then show ?thesis by (auto simp: tablet_find_def tablet_delete_def)
next
  case (Some cols)
  have "AList.delete c cols = [] \<Longrightarrow> c'' \<noteq> c \<Longrightarrow> map_of cols c'' = None" for c''
    by (drule arg_cong [where f = map_of]) (auto simp: fun_eq_iff split: if_splits)
  with Some show ?thesis
    by (auto simp: tablet_find_def tablet_delete_def Let_def split: option.splits)
qed

lemma tablet_has_row_iff:
  assumes "tablet_wf t"
  shows "tablet_has_row t r \<longleftrightarrow> (\<exists>c v. tablet_find t r c = Some v)"
proof (cases "map_of t r")
  case None
  then show ?thesis by (simp add: tablet_has_row_def tablet_find_def)
next
  case (Some cols)
  with assms have "cols \<noteq> []" by (blast dest: tablet_wf_row)
  with Some show ?thesis by (simp add: tablet_has_row_def tablet_find_def map_of_eq_Nil)
qed

lemma tablet_wf_put: "tablet_wf t \<Longrightarrow> tablet_wf (tablet_put t r c v)"
  unfolding tablet_wf_def tablet_put_def
  by (auto simp: distinct_update dest!: set_update_subset split: option.splits dest: map_of_SomeD)

lemma tablet_wf_delete: "tablet_wf t \<Longrightarrow> tablet_wf (tablet_delete t r c)"
  unfolding tablet_wf_def tablet_delete_def Let_def
  by (auto simp: distinct_update distinct_delete dest!: set_update_subset
      split: option.splits dest: map_of_SomeD set_delete_subset)

interpretation tab: row_column_store tablet_find tablet_has_row tablet_put tablet_delete tablet_wf
  by unfold_locales
    (simp_all add: tablet_find_put tablet_find_delete tablet_has_row_iff tablet_wf_put tablet_wf_delete)

lemmas [kv_simps] = tablet_find_put tablet_find_delete tablet_wf_put tablet_wf_delete

text \<open>\<^verbatim>\<open>kvs.at(row).find(col)\<close> after the row test: the row's own map.\<close>

lemma tablet_find_row: "map_of t r = Some cols \<Longrightarrow> tablet_find t r c = map_of cols c"
  by (simp add: tablet_find_def)

end
