(* ===== verification/Serializer.thy ===== *)
theory Serializer
  imports Binary_Stream Platform Tablet
begin

text \<open>
  Tablets as byte strings (\<^verbatim>\<open>utils/serializer.cc\<close>), used for checkpoints and for copying a tablet to
  another worker. Serialising iterates over both levels of the map in an unspecified order, which is
  the argument \<open>row_order\<close>/\<open>col_order\<close> of the platform. Deserialising fills the given table entry by
  entry; when a read fails it returns \<^verbatim>\<open>false\<close> and the entries read so far stay in the table, so the
  model returns both.
\<close>

section \<open>Operations\<close>

definition serialize_cols :: "row_map \<Rightarrow> bytes" where
  "serialize_cols cols = concat (map (\<lambda>(col, val). writeString col @ writeString val) cols)"

definition serialize_row :: "platform \<Rightarrow> string \<times> row_map \<Rightarrow> bytes" where
  "serialize_row P = (\<lambda>(row, innerMap).
     writeString row @ u32_bytes (word_of_nat (length innerMap)) @ serialize_cols (col_order P innerMap))"

definition serializeTablet :: "platform \<Rightarrow> tablet \<Rightarrow> bytes" where
  "serializeTablet P table =
     u32_bytes (word_of_nat (length table)) @ concat (map (serialize_row P) (row_order P table))"

fun read_cols :: "nat \<Rightarrow> string \<Rightarrow> tablet \<Rightarrow> bytes \<Rightarrow> bytes option \<times> tablet" where
  "read_cols 0 row table inp = (Some inp, table)"
| "read_cols (Suc n) row table inp =
     (case readString inp of
        None \<Rightarrow> (None, table)
      | Some (col, inp1) \<Rightarrow>
          (case readString inp1 of
             None \<Rightarrow> (None, table)
           | Some (val, inp2) \<Rightarrow> read_cols n row (tablet_put table row col val) inp2))"

fun read_rows :: "nat \<Rightarrow> tablet \<Rightarrow> bytes \<Rightarrow> bool \<times> tablet" where
  "read_rows 0 table inp = (True, table)"
| "read_rows (Suc n) table inp =
     (case readString inp of
        None \<Rightarrow> (False, table)
      | Some (row, inp1) \<Rightarrow>
          (case read_u32 inp1 of
             None \<Rightarrow> (False, table)
           | Some (innerSize, inp2) \<Rightarrow>
               (case read_cols (unat innerSize) row table inp2 of
                  (None, table') \<Rightarrow> (False, table')
                | (Some inp3, table') \<Rightarrow> read_rows n table' inp3)))"

definition deserializeTablet :: "tablet \<Rightarrow> bytes \<Rightarrow> bool \<times> tablet" where
  "deserializeTablet table buffer =
     (if buffer = [] then (True, table)
      else case read_u32 buffer of
             None \<Rightarrow> (False, table)
           | Some (outerSize, inp) \<Rightarrow> read_rows (unat outerSize) table inp)"

section \<open>What fits the format\<close>

definition tablet_fits :: "tablet \<Rightarrow> bool" where
  "tablet_fits t \<longleftrightarrow>
     length t < 2 ^ 32 \<and>
     (\<forall>(r, cols) \<in> set t. str_fits r \<and> length cols < 2 ^ 32 \<and>
        (\<forall>(c, v) \<in> set cols. str_fits c \<and> str_fits v))"

lemma tablet_fits_Nil [simp, intro]: "tablet_fits []"
  by (simp add: tablet_fits_def)

section \<open>Reading back what was written\<close>

definition put_cols :: "string \<Rightarrow> tablet \<Rightarrow> row_map \<Rightarrow> tablet" where
  "put_cols row = foldl (\<lambda>t (c, v). tablet_put t row c v)"

definition put_rows :: "platform \<Rightarrow> tablet \<Rightarrow> tablet \<Rightarrow> tablet" where
  "put_rows P = foldl (\<lambda>t (r, cols). put_cols r t (col_order P cols))"

lemma put_cols_simps [simp]:
  "put_cols row t [] = t"
  "put_cols row t ((c, v) # cols) = put_cols row (tablet_put t row c v) cols"
  by (simp_all add: put_cols_def)

lemma put_rows_simps [simp]:
  "put_rows P t [] = t"
  "put_rows P t ((r, cols) # rows) = put_rows P (put_cols r t (col_order P cols)) rows"
  by (simp_all add: put_rows_def)

lemma read_cols_serialize:
  "\<forall>(c, v)\<in>set cols. str_fits c \<and> str_fits v \<Longrightarrow>
   read_cols (length cols) row t (serialize_cols cols @ rest) = (Some rest, put_cols row t cols)"
proof (induction cols arbitrary: t)
  case Nil
  then show ?case by (simp add: serialize_cols_def)
next
  case (Cons p cols)
  then show ?case by (cases p) (simp add: serialize_cols_def codec_simps)
qed

lemma read_rows_serialize:
  assumes "platform_ok P"
  shows "\<forall>(r, cols)\<in>set rows. str_fits r \<and> length cols < 2 ^ 32 \<and>
           (\<forall>(c, v)\<in>set cols. str_fits c \<and> str_fits v) \<Longrightarrow>
         read_rows (length rows) t (concat (map (serialize_row P) rows) @ rest)
           = (True, put_rows P t rows)"
proof (induction rows arbitrary: t)
  case Nil
  then show ?case by simp
next
  case (Cons p rows)
  obtain r cols where p: "p = (r, cols)" by force
  have cols: "\<forall>(c, v)\<in>set (col_order P cols). str_fits c \<and> str_fits v" "str_fits r"
      "length cols < 2 ^ 32"
    using Cons.prems by (auto simp: p platform_ok_sets [OF assms])
  note rd = read_cols_serialize [OF cols(1), unfolded platform_ok_lengths [OF assms]]
  show ?case
    using Cons cols(2,3) by (simp add: p serialize_row_def codec_simps unat_len rd)
qed

lemma put_cols_find:
  "distinct (map fst cols) \<Longrightarrow>
   tablet_find (put_cols row t cols) r c =
     (if r = row then (case map_of cols c of None \<Rightarrow> tablet_find t r c | Some v \<Rightarrow> Some v)
      else tablet_find t r c)"
proof (induction cols arbitrary: t)
  case Nil
  then show ?case by simp
next
  case (Cons p cols)
  then show ?case
    by (cases p) (force simp: tablet_find_put map_of_eq_None_iff image_iff split: option.splits)
qed

lemma put_rows_find:
  assumes "platform_ok P"
  shows "distinct (map fst rows) \<Longrightarrow> \<forall>(r, cols)\<in>set rows. distinct (map fst cols) \<Longrightarrow>
     tablet_find (put_rows P t rows) r c =
       (case map_of rows r of
          None \<Rightarrow> tablet_find t r c
        | Some cols \<Rightarrow> (case map_of cols c of None \<Rightarrow> tablet_find t r c | Some v \<Rightarrow> Some v))"
proof (induction rows arbitrary: t)
  case Nil
  then show ?case by simp
next
  case (Cons p rows)
  obtain r' cols where p: "p = (r', cols)" by force
  have "distinct (map fst cols)" using Cons.prems by (simp add: p)
  moreover have "mset (map fst (col_order P cols)) = mset (map fst cols)"
    using platform_okD(2) [OF assms, of cols] by simp
  ultimately have d: "distinct (map fst (col_order P cols))"
    using mset_eq_imp_distinct_iff by blast
  have "map_of (col_order P cols) = map_of cols"
    using platform_okD(2) [OF assms] d by (rule map_of_mset_eq)
  moreover have "map_of rows r' = None"
    using Cons.prems by (simp add: p map_of_eq_None_iff)
  ultimately show ?case
    using Cons by (auto simp: p put_cols_find [OF d] split: option.splits)
qed

lemma tablet_wf_put_cols: "tablet_wf t \<Longrightarrow> tablet_wf (put_cols row t cols)"
  by (induction cols arbitrary: t) (auto simp: tablet_wf_put)

lemma tablet_wf_put_rows: "tablet_wf t \<Longrightarrow> tablet_wf (put_rows P t rows)"
  by (induction rows arbitrary: t) (auto simp: tablet_wf_put_cols)

lemma tablet_wf_row_order:
  assumes "platform_ok P" and "tablet_wf t"
  shows "distinct (map fst (row_order P t))"
    and "\<forall>(r, cols)\<in>set (row_order P t). distinct (map fst cols)"
    and "map_of (row_order P t) = map_of t"
proof -
  have "mset (map fst (row_order P t)) = mset (map fst t)"
    using platform_okD(1) [OF assms(1), of t] by simp
  then show d: "distinct (map fst (row_order P t))"
    using assms(2) mset_eq_imp_distinct_iff unfolding tablet_wf_def by blast
  show "\<forall>(r, cols)\<in>set (row_order P t). distinct (map fst cols)"
    using assms(2) by (auto simp: tablet_wf_def platform_ok_sets [OF assms(1)])
  show "map_of (row_order P t) = map_of t"
    using platform_okD(1) [OF assms(1)] d by (rule map_of_mset_eq)
qed

lemma deserialize_serialize:
  assumes "platform_ok P" and "tablet_fits t"
  shows "deserializeTablet [] (serializeTablet P t) = (True, put_rows P [] (row_order P t))"
proof -
  have "\<forall>(r, cols)\<in>set (row_order P t). str_fits r \<and> length cols < 2 ^ 32 \<and>
      (\<forall>(c, v)\<in>set cols. str_fits c \<and> str_fits v)"
    using assms(2) by (simp add: tablet_fits_def platform_ok_sets [OF assms(1)])
  then have "read_rows (length (row_order P t)) [] (concat (map (serialize_row P) (row_order P t)))
      = (True, put_rows P [] (row_order P t))"
    using read_rows_serialize [OF assms(1), of "row_order P t" "[]" "[]"] by simp
  moreover have "length t < 2 ^ 32" using assms(2) by (simp add: tablet_fits_def)
  ultimately show ?thesis
    unfolding deserializeTablet_def
    by (simp add: serializeTablet_def read_u32_bytes unat_len platform_ok_lengths [OF assms(1)])
qed

lemma put_rows_self:
  assumes "platform_ok P" and "tablet_wf t"
  shows "tablet_find (put_rows P [] (row_order P t)) = tablet_find t"
  by (simp add: fun_eq_iff put_rows_find [OF assms(1)] tablet_wf_row_order [OF assms])
    (auto simp: tablet_find_def split: option.splits)

section \<open>Deserialising arbitrary bytes keeps the table well formed\<close>

lemma tablet_wf_read_cols: "tablet_wf t \<Longrightarrow> tablet_wf (snd (read_cols n row t inp))"
  by (induction n row t inp rule: read_cols.induct)
    (auto simp: tablet_wf_put split: option.splits prod.splits)

lemma tablet_wf_read_rows: "tablet_wf t \<Longrightarrow> tablet_wf (snd (read_rows n t inp))"
proof (induction n arbitrary: t inp)
  case 0
  then show ?case by simp
next
  case (Suc n)
  have cols: "tablet_wf t'" if "read_cols (unat i) r t inp2 = (res, t')" for i r inp2 res t'
    using that tablet_wf_read_cols [OF Suc.prems, of "unat i" r inp2] by simp
  show ?case
    using Suc.prems by (auto intro: Suc.IH dest: cols split: option.splits prod.splits)
qed

lemma tablet_wf_deserialize: "tablet_wf t \<Longrightarrow> tablet_wf (snd (deserializeTablet t buf))"
  by (auto simp: deserializeTablet_def tablet_wf_read_rows split: option.splits)

section \<open>Properties\<close>

text \<open>
  C5. Checkpoint round trip: for every iteration order of the hash maps, deserialising a serialised
  tablet into an empty table succeeds and gives a well-formed tablet with exactly the same cells,
  as long as the sizes fit the 32-bit fields of the format.
\<close>

theorem deserialize_serialize_roundtrip:
  assumes "platform_ok P" and "tablet_wf t" and "tablet_fits t"
  shows "fst (deserializeTablet [] (serializeTablet P t))
       \<and> tablet_find (snd (deserializeTablet [] (serializeTablet P t))) = tablet_find t
       \<and> tablet_wf (snd (deserializeTablet [] (serializeTablet P t)))"
  using assms by (simp add: deserialize_serialize put_rows_self tablet_wf_put_rows)

theorem deserialize_serialize_roundtrip_witness:
  "fst (deserializeTablet [] (serializeTablet sample_platform [(''r'', [(''c'', ''v''), (''d'', [])])]))
   \<and> tablet_find (snd (deserializeTablet [] (serializeTablet sample_platform
        [(''r'', [(''c'', ''v''), (''d'', [])])]))) = tablet_find [(''r'', [(''c'', ''v''), (''d'', [])])]
   \<and> tablet_wf (snd (deserializeTablet [] (serializeTablet sample_platform
        [(''r'', [(''c'', ''v''), (''d'', [])])])))"
  by (rule deserialize_serialize_roundtrip)
    (simp_all add: tablet_wf_def tablet_fits_def str_fits_def)

end
