(* ===== verification/Worker.thy ===== *)
theory Worker
  imports Ring Logger Serializer
begin

text \<open>
  One worker process (\<^verbatim>\<open>backend/worker.cc\<close>): its three tablets in memory and, for each, a command log
  and a checkpoint file on disk, the update counters that decide when to checkpoint, and the admin
  switch. This theory has the part of the handlers that touches this worker only; replication and
  recovery from other workers are in \<^verbatim>\<open>Cluster\<close>. A handler runs atomically. Slot \<open>k\<close> of the lists
  is \<^verbatim>\<open>tablets.at(k)\<close>, \<^verbatim>\<open>loggers.at(k)\<close> and the file \<^verbatim>\<open>worker<id>_tablet<k+1>.bin\<close>; a missing checkpoint
  file is \<^term>\<open>None\<close>. The disk always accepts writes.
\<close>

abbreviation MAX_UPDATE_COUNT :: nat where "MAX_UPDATE_COUNT \<equiv> 10"
abbreviation CHUNK_SIZE :: nat where "CHUNK_SIZE \<equiv> 1048576"

record worker =
  workerId :: int
  tablets :: "tablet list"
  loggers :: "log_file list"
  checkpoints :: "bytes option list"
  updateRequestCount :: "nat list"
  admin_workerUp :: bool

definition fresh_worker :: "int \<Rightarrow> worker" where
  "fresh_worker i =
     \<lparr>workerId = i, tablets = [[], [], []], loggers = [[], [], []],
      checkpoints = [None, None, None], updateRequestCount = [0, 0, 0], admin_workerUp = True\<rparr>"

section \<open>Reading\<close>

definition shut_down :: Status where
  "shut_down = Failed UNAVAILABLE ''Worker is shut down''"

definition wrong_worker :: Status where
  "wrong_worker = Failed NOT_FOUND ''Key does not belong in this worker''"

text \<open>\<^verbatim>\<open>Get\<close>: the status and the \<^verbatim>\<open>success\<close> and \<^verbatim>\<open>value\<close> fields of the reply.\<close>

definition Get :: "platform \<Rightarrow> worker \<Rightarrow> string \<Rightarrow> string \<Rightarrow> Status \<times> bool \<times> string" where
  "Get P w row column =
     (if \<not> admin_workerUp w then (shut_down, False, [])
      else case getTabletSlot (workerId w) (tablet_of P row) of
        None \<Rightarrow> (wrong_worker, False, [])
      | Some k \<Rightarrow>
          (case map_of (tablets w ! k) row of
             None \<Rightarrow> (Failed NOT_FOUND ''Row key not found'', False, [])
           | Some cols \<Rightarrow>
               (case map_of cols column of
                  None \<Rightarrow> (Failed NOT_FOUND ''Column key not found'', False, [])
                | Some value \<Rightarrow> (OK, True, value))))"

section \<open>Committing an update: log, count, checkpoint\<close>

definition log_and_count :: "nat \<Rightarrow> tablet \<Rightarrow> CommandLog \<Rightarrow> worker \<Rightarrow> worker" where
  "log_and_count k kvs cl w =
     w\<lparr>tablets := (tablets w)[k := kvs],
       loggers := (loggers w)[k := logCommand (loggers w ! k) cl],
       updateRequestCount := (updateRequestCount w)[k := updateRequestCount w ! k + 1]\<rparr>"

text \<open>\<^verbatim>\<open>commitCheckpoint\<close> replaces the contents of the file.\<close>

definition commitCheckpoint :: "bytes option \<Rightarrow> bytes \<Rightarrow> bytes option" where
  "commitCheckpoint old binaryData = Some binaryData"

definition checkpoint_if_due :: "platform \<Rightarrow> nat \<Rightarrow> worker \<Rightarrow> worker" where
  "checkpoint_if_due P k w =
     (if MAX_UPDATE_COUNT \<le> updateRequestCount w ! k then
        w\<lparr>checkpoints := (checkpoints w)[k := commitCheckpoint (checkpoints w ! k) (serializeTablet P (tablets w ! k))],
          loggers := (loggers w)[k := clearLog (loggers w ! k)],
          updateRequestCount := (updateRequestCount w)[k := 0]\<rparr>
      else w)"

definition commit_update :: "platform \<Rightarrow> nat \<Rightarrow> tablet \<Rightarrow> CommandLog \<Rightarrow> worker \<Rightarrow> worker" where
  "commit_update P k kvs cl w = checkpoint_if_due P k (log_and_count k kvs cl w)"

abbreviation put_log :: "string \<Rightarrow> string \<Rightarrow> string \<Rightarrow> CommandLog" where
  "put_log row column value \<equiv>
     \<lparr>cl_command = ''PUT'', cl_row = row, cl_column = column, cl_value1 = value, cl_value2 = ''NULL''\<rparr>"

abbreviation cput_log :: "string \<Rightarrow> string \<Rightarrow> string \<Rightarrow> string \<Rightarrow> CommandLog" where
  "cput_log row column cur new \<equiv>
     \<lparr>cl_command = ''CPUT'', cl_row = row, cl_column = column, cl_value1 = cur, cl_value2 = new\<rparr>"

abbreviation delete_log :: "string \<Rightarrow> string \<Rightarrow> CommandLog" where
  "delete_log row column \<equiv>
     \<lparr>cl_command = ''DELETE'', cl_row = row, cl_column = column, cl_value1 = ''NULL'',
      cl_value2 = ''NULL''\<rparr>"

section \<open>Updating this worker\<close>

text \<open>
  The handlers \<^verbatim>\<open>Put\<close>, \<^verbatim>\<open>CPut\<close> and \<^verbatim>\<open>Delete\<close> up to their replication loop; \<^verbatim>\<open>ReplicatePut\<close>,
  \<^verbatim>\<open>ReplicateCPut\<close> and \<^verbatim>\<open>ReplicateDelete\<close> are the same code without that loop. Each gives the
  status, the reply's \<^verbatim>\<open>success\<close> field and the new state.
\<close>

definition local_put ::
  "platform \<Rightarrow> worker \<Rightarrow> string \<Rightarrow> string \<Rightarrow> string \<Rightarrow> Status \<times> bool \<times> worker" where
  "local_put P w row column value =
     (if \<not> admin_workerUp w then (shut_down, False, w)
      else case getTabletSlot (workerId w) (tablet_of P row) of
        None \<Rightarrow> (wrong_worker, False, w)
      | Some k \<Rightarrow>
          (OK, True, commit_update P k (tablet_put (tablets w ! k) row column value)
                       (put_log row column value) w))"

text \<open>The three tests of \<^verbatim>\<open>CPut\<close>, in the order of the code; \<^term>\<open>None\<close> when they all pass.\<close>

definition cput_rejects :: "tablet \<Rightarrow> string \<Rightarrow> string \<Rightarrow> string \<Rightarrow> Status option" where
  "cput_rejects kvs row column cur =
     (case map_of kvs row of
        None \<Rightarrow> Some (Failed NOT_FOUND ''Row key not found'')
      | Some cols \<Rightarrow>
          (case map_of cols column of
             None \<Rightarrow> Some (Failed NOT_FOUND ''Column key not found'')
           | Some v \<Rightarrow>
               if v \<noteq> cur
               then Some (Failed FAILED_PRECONDITION ''Current value does not match specified value'')
               else None))"

definition local_cput ::
  "platform \<Rightarrow> worker \<Rightarrow> string \<Rightarrow> string \<Rightarrow> string \<Rightarrow> string \<Rightarrow> Status \<times> bool \<times> worker" where
  "local_cput P w row column cur new =
     (if \<not> admin_workerUp w then (shut_down, False, w)
      else case getTabletSlot (workerId w) (tablet_of P row) of
        None \<Rightarrow> (wrong_worker, False, w)
      | Some k \<Rightarrow>
          (case cput_rejects (tablets w ! k) row column cur of
             Some st \<Rightarrow> (st, False, w)
           | None \<Rightarrow>
               (OK, True, commit_update P k (tablet_put (tablets w ! k) row column new)
                            (cput_log row column cur new) w)))"

definition local_delete ::
  "platform \<Rightarrow> worker \<Rightarrow> string \<Rightarrow> string \<Rightarrow> Status \<times> bool \<times> worker" where
  "local_delete P w row column =
     (if \<not> admin_workerUp w then (shut_down, False, w)
      else case getTabletSlot (workerId w) (tablet_of P row) of
        None \<Rightarrow> (wrong_worker, False, w)
      | Some k \<Rightarrow>
          (OK, True, commit_update P k (tablet_delete (tablets w ! k) row column)
                       (delete_log row column) w))"

definition ReplicatePut where
  "ReplicatePut = local_put"

definition ReplicateCPut where
  "ReplicateCPut = local_cput"

definition ReplicateDelete where
  "ReplicateDelete = local_delete"

section \<open>Streaming a tablet\<close>

text \<open>
  \<^verbatim>\<open>CopyTablet\<close>: the status and the chunks written to the stream; \<open>write_ok n\<close> is the result of the
  \<open>n\<close>-th \<^verbatim>\<open>writer->Write\<close>.
\<close>

function stream_chunks :: "(nat \<Rightarrow> bool) \<Rightarrow> nat \<Rightarrow> bytes \<Rightarrow> Status \<times> bytes list" where
  "stream_chunks write_ok n data =
     (if data = [] then (OK, [])
      else if \<not> write_ok n then (Failed INTERNAL ''Stream write failed'', [])
      else let (st, cs) = stream_chunks write_ok (Suc n) (drop CHUNK_SIZE data)
           in (st, take CHUNK_SIZE data # cs))"
  by pat_completeness auto
termination
  by (relation "measure (\<lambda>(f, n, d). length d)") auto

declare stream_chunks.simps [simp del]

definition CopyTablet :: "platform \<Rightarrow> worker \<Rightarrow> int \<Rightarrow> (nat \<Rightarrow> bool) \<Rightarrow> Status \<times> bytes list" where
  "CopyTablet P w tablet_id write_ok =
     (if \<not> admin_workerUp w then (shut_down, [])
      else case getTabletSlot (workerId w) tablet_id of
        None \<Rightarrow> (wrong_worker, [])
      | Some k \<Rightarrow> stream_chunks write_ok 0 (serializeTablet P (tablets w ! k)))"

section \<open>Recovery from the local disk\<close>

definition replay_one :: "tablet \<Rightarrow> CommandLog \<Rightarrow> bool \<times> tablet" where
  "replay_one t cl =
     (if cl_command cl = ''PUT'' then
        (True, tablet_put t (cl_row cl) (cl_column cl) (cl_value1 cl))
      else if cl_command cl = ''CPUT'' then
        (case cput_rejects t (cl_row cl) (cl_column cl) (cl_value1 cl) of
           Some _ \<Rightarrow> (False, t)
         | None \<Rightarrow> (True, tablet_put t (cl_row cl) (cl_column cl) (cl_value2 cl)))
      else if cl_command cl = ''DELETE'' then
        (True, tablet_delete t (cl_row cl) (cl_column cl))
      else (False, t))"

fun replayLogs :: "CommandLog list \<Rightarrow> tablet \<Rightarrow> bool \<times> tablet" where
  "replayLogs [] t = (True, t)"
| "replayLogs (cl # cls) t =
     (case replay_one t cl of
        (False, t') \<Rightarrow> (False, t')
      | (True, t') \<Rightarrow> replayLogs cls t')"

text \<open>\<^verbatim>\<open>retrieveCheckpoint\<close>: the buffer stays empty when the file is missing or empty.\<close>

definition retrieveCheckpoint :: "bytes option \<Rightarrow> bytes" where
  "retrieveCheckpoint ckpt = (case ckpt of None \<Rightarrow> [] | Some b \<Rightarrow> b)"

datatype fatal = Exit_Failure | Null_Client

definition recoverFromLocal :: "worker \<Rightarrow> nat \<Rightarrow> fatal + worker" where
  "recoverFromLocal w k =
     (let binaryData = retrieveCheckpoint (checkpoints w ! k);
          (res, t) = (if binaryData \<noteq> [] then deserializeTablet [] binaryData else (True, []))
      in if \<not> res then Inl Exit_Failure
         else let logs = getLogs (loggers w ! k);
                  (success, t') = (if logs \<noteq> [] then replayLogs logs t else (True, t))
              in if \<not> success then Inl Exit_Failure
                 else Inr (w\<lparr>tablets := (tablets w)[k := t']\<rparr>))"

end
