(* ===== verification/Durability.thy ===== *)
theory Durability
  imports Worker
begin

text \<open>
  What a worker's disk is good for. \<open>disk_tablet\<close> is the tablet that a checkpoint file and a command
  log describe; the write-ahead invariant \<open>wal_inv\<close> says that it has the cells of the tablet in
  memory. Every update handler keeps the invariant, through the checkpoint that every tenth update
  takes, and so local recovery after a crash rebuilds the tablets.
\<close>

section \<open>Invariants\<close>

definition worker_wf :: "worker \<Rightarrow> bool" where
  "worker_wf w \<longleftrightarrow>
     1 \<le> workerId w \<and> workerId w \<le> 6 \<and> length (tablets w) = 3 \<and> length (loggers w) = 3 \<and>
     length (checkpoints w) = 3 \<and> length (updateRequestCount w) = 3 \<and>
     (\<forall>t\<in>set (tablets w). tablet_wf t)"

definition disk_tablet :: "bytes option \<Rightarrow> log_file \<Rightarrow> tablet option" where
  "disk_tablet ckpt lf =
     (case deserializeTablet [] (retrieveCheckpoint ckpt) of
        (False, _) \<Rightarrow> None
      | (True, t) \<Rightarrow> (case replayLogs (getLogs lf) t of (False, _) \<Rightarrow> None | (True, t') \<Rightarrow> Some t'))"

definition wal_ok :: "worker \<Rightarrow> nat \<Rightarrow> bool" where
  "wal_ok w k \<longleftrightarrow>
     log_complete (loggers w ! k) \<and>
     (\<exists>t. disk_tablet (checkpoints w ! k) (loggers w ! k) = Some t \<and>
          tablet_find t = tablet_find (tablets w ! k))"

definition wal_inv :: "worker \<Rightarrow> bool" where
  "wal_inv w \<longleftrightarrow> worker_wf w \<and> (\<forall>k<3. wal_ok w k)"

lemma worker_wf_tablet: "worker_wf w \<Longrightarrow> k < 3 \<Longrightarrow> tablet_wf (tablets w ! k)"
  by (simp add: worker_wf_def)

lemma worker_wf_lengths:
  "worker_wf w \<Longrightarrow> length (tablets w) = 3" "worker_wf w \<Longrightarrow> length (loggers w) = 3"
  "worker_wf w \<Longrightarrow> length (checkpoints w) = 3" "worker_wf w \<Longrightarrow> length (updateRequestCount w) = 3"
  by (simp_all add: worker_wf_def)

section \<open>Replaying\<close>

lemma cput_rejects_cong:
  assumes "tablet_wf t" "tablet_wf t'" "tablet_find t = tablet_find t'"
  shows "cput_rejects t r c cur = cput_rejects t' r c cur"
proof -
  have "tablet_has_row t r = tablet_has_row t' r"
    using assms by (rule tab.has_row_cong)
  moreover have "tablet_find t r c = tablet_find t' r c"
    using assms(3) by simp
  ultimately show ?thesis
    by (auto simp: cput_rejects_def tablet_has_row_def tablet_find_def split: option.splits)
qed

lemma replay_one_wf: "tablet_wf t \<Longrightarrow> tablet_wf (snd (replay_one t cl))"
  by (auto simp: replay_one_def kv_simps split: option.splits)

lemma replay_one_cong:
  assumes "tablet_wf t" "tablet_wf t'" "tablet_find t = tablet_find t'"
  shows "fst (replay_one t cl) = fst (replay_one t' cl)"
    and "tablet_find (snd (replay_one t cl)) = tablet_find (snd (replay_one t' cl))"
  using assms cput_rejects_cong [OF assms]
  by (auto simp: replay_one_def intro: tab.put_cong tab.del_cong split: option.splits)

lemma replayLogs_wf: "tablet_wf t \<Longrightarrow> tablet_wf (snd (replayLogs cls t))"
proof (induction cls arbitrary: t)
  case (Cons cl cls)
  have "tablet_wf (snd (replay_one t cl))" using Cons.prems by (rule replay_one_wf)
  then show ?case
    using Cons.IH by (cases "replay_one t cl") (auto split: bool.splits)
qed simp

lemma replayLogs_snoc:
  "replayLogs (cls @ [cl]) t =
     (case replayLogs cls t of (False, t') \<Rightarrow> (False, t') | (True, t') \<Rightarrow> replay_one t' cl)"
  by (induction cls arbitrary: t) (auto split: prod.splits bool.splits)

lemma disk_tablet_wf: "disk_tablet ckpt lf = Some t \<Longrightarrow> tablet_wf t"
proof -
  assume "disk_tablet ckpt lf = Some t"
  then obtain t0 where t0: "deserializeTablet [] (retrieveCheckpoint ckpt) = (True, t0)"
      and t: "replayLogs (getLogs lf) t0 = (True, t)"
    by (auto simp: disk_tablet_def split: prod.splits bool.splits)
  have "tablet_wf t0" using tablet_wf_deserialize [of "[]" "retrieveCheckpoint ckpt"] t0 by simp
  then show ?thesis using replayLogs_wf [of t0 "getLogs lf"] t by simp
qed

lemma recoverFromLocal_disk:
  "recoverFromLocal w k =
     (case disk_tablet (checkpoints w ! k) (loggers w ! k) of
        None \<Rightarrow> Inl Exit_Failure
      | Some t \<Rightarrow> Inr (w\<lparr>tablets := (tablets w)[k := t]\<rparr>))"
  by (auto simp: recoverFromLocal_def disk_tablet_def Let_def deserializeTablet_def
      split: prod.splits bool.splits)

lemma disk_tablet_logCommand:
  assumes "log_complete lf" "command_fits cl" "disk_tablet ckpt lf = Some t"
    "replay_one t cl = (True, t')"
  shows "disk_tablet ckpt (logCommand lf cl) = Some t'"
  using assms
  by (auto simp: disk_tablet_def getLogs_logCommand replayLogs_snoc split: prod.splits bool.splits)

lemma disk_tablet_checkpoint:
  assumes "platform_ok P" "tablet_wf t" "tablet_fits t"
  shows "\<exists>t'. disk_tablet (Some (serializeTablet P t)) (clearLog lf) = Some t' \<and>
              tablet_find t' = tablet_find t"
  using assms by (simp add: disk_tablet_def retrieveCheckpoint_def deserialize_serialize put_rows_self)

section \<open>Committing keeps the disk in step with memory\<close>

lemma commit_update_frame:
  "workerId (commit_update P k kvs cl w) = workerId w"
  "admin_workerUp (commit_update P k kvs cl w) = admin_workerUp w"
  "tablets (commit_update P k kvs cl w) = (tablets w)[k := kvs]"
  by (simp_all add: commit_update_def checkpoint_if_due_def log_and_count_def)

lemma commit_update_other_slot:
  assumes "j \<noteq> k"
  shows "loggers (commit_update P k kvs cl w) ! j = loggers w ! j"
    and "checkpoints (commit_update P k kvs cl w) ! j = checkpoints w ! j"
    and "updateRequestCount (commit_update P k kvs cl w) ! j = updateRequestCount w ! j"
  using assms by (simp_all add: commit_update_def checkpoint_if_due_def log_and_count_def)

lemma commit_update_wf:
  "worker_wf w \<Longrightarrow> tablet_wf kvs \<Longrightarrow> worker_wf (commit_update P k kvs cl w)"
  by (auto simp: worker_wf_def commit_update_def checkpoint_if_due_def log_and_count_def
      dest!: set_update_subset_insert [THEN subsetD])

lemma commit_update_wal_slot:
  assumes "platform_ok P" "worker_wf w" "k < 3" "wal_ok w k"
    and "replay_one (tablets w ! k) cl = (True, kvs)"
    and "command_fits cl" "tablet_fits kvs"
  shows "wal_ok (commit_update P k kvs cl w) k"
proof -
  have wf: "tablet_wf (tablets w ! k)" using assms(2,3) by (rule worker_wf_tablet)
  then have wf': "tablet_wf kvs" using replay_one_wf [of "tablets w ! k" cl] assms(5) by simp
  obtain t where t: "disk_tablet (checkpoints w ! k) (loggers w ! k) = Some t"
      "tablet_find t = tablet_find (tablets w ! k)" and lc: "log_complete (loggers w ! k)"
    using assms(4) by (auto simp: wal_ok_def)
  obtain t' where r: "replay_one t cl = (True, t')" and f: "tablet_find t' = tablet_find kvs"
    using replay_one_cong [OF disk_tablet_wf [OF t(1)] wf t(2), of cl] assms(5)
    by (cases "replay_one t cl") auto
  show ?thesis
    using disk_tablet_logCommand [OF lc assms(6) t(1) r] f log_complete_logCommand [OF lc assms(6)]
      disk_tablet_checkpoint [OF assms(1) wf' assms(7)] worker_wf_lengths [OF assms(2)] assms(3)
    by (simp add: wal_ok_def commit_update_def checkpoint_if_due_def commitCheckpoint_def log_and_count_def)
qed

lemma commit_update_wal:
  assumes "platform_ok P" "wal_inv w" "k < 3"
    and "replay_one (tablets w ! k) cl = (True, kvs)"
    and "command_fits cl" "tablet_fits kvs"
  shows "wal_inv (commit_update P k kvs cl w)"
proof -
  have wf: "worker_wf w" and ok: "\<forall>j<3. wal_ok w j" using assms(2) by (auto simp: wal_inv_def)
  have "tablet_wf kvs"
    using replay_one_wf [OF worker_wf_tablet [OF wf assms(3)], of cl] assms(4) by simp
  then have "worker_wf (commit_update P k kvs cl w)" by (rule commit_update_wf [OF wf])
  moreover have "wal_ok (commit_update P k kvs cl w) j" if "j < 3" for j
  proof (cases "j = k")
    case True
    then show ?thesis using commit_update_wal_slot assms wf ok by blast
  next
    case False
    then show ?thesis
      using ok that by (simp add: wal_ok_def commit_update_frame commit_update_other_slot)
  qed
  ultimately show ?thesis by (simp add: wal_inv_def)
qed

section \<open>Sequences of updates\<close>

datatype update_request =
    Req_Put string string string
  | Req_CPut string string string string
  | Req_Delete string string

fun apply_update :: "platform \<Rightarrow> worker \<Rightarrow> update_request \<Rightarrow> Status \<times> bool \<times> worker" where
  "apply_update P w (Req_Put r c v) = local_put P w r c v"
| "apply_update P w (Req_CPut r c cur new) = local_cput P w r c cur new"
| "apply_update P w (Req_Delete r c) = local_delete P w r c"

fun run_updates :: "platform \<Rightarrow> worker \<Rightarrow> update_request list \<Rightarrow> worker" where
  "run_updates P w [] = w"
| "run_updates P w (q # qs) = run_updates P (snd (snd (apply_update P w q))) qs"

fun request_log :: "update_request \<Rightarrow> CommandLog" where
  "request_log (Req_Put r c v) = put_log r c v"
| "request_log (Req_CPut r c cur new) = cput_log r c cur new"
| "request_log (Req_Delete r c) = delete_log r c"

text \<open>Every string and every tablet of the run fits the 32-bit length fields of the disk formats.\<close>

definition worker_fits :: "worker \<Rightarrow> bool" where
  "worker_fits w \<longleftrightarrow> (\<forall>t\<in>set (tablets w). tablet_fits t)"

fun run_fits :: "platform \<Rightarrow> worker \<Rightarrow> update_request list \<Rightarrow> bool" where
  "run_fits P w [] = True"
| "run_fits P w (q # qs) =
     (let w' = snd (snd (apply_update P w q))
      in command_fits (request_log q) \<and> worker_fits w' \<and> run_fits P w' qs)"

text \<open>
  An update either leaves the worker alone or commits, in one slot, the effect of replaying its own
  log record.
\<close>

lemma apply_update_cases:
  obtains (rejected) "snd (snd (apply_update P w q)) = w" "fst (apply_update P w q) \<noteq> OK"
  | (committed) k kvs where "getTabletSlot (workerId w) (tablet_of P (cl_row (request_log q))) = Some k"
      "admin_workerUp w"
      "replay_one (tablets w ! k) (request_log q) = (True, kvs)"
      "apply_update P w q = (OK, True, commit_update P k kvs (request_log q) w)"
proof -
  let ?slot = "getTabletSlot (workerId w) (tablet_of P (cl_row (request_log q)))"
  consider "\<not> admin_workerUp w \<or> ?slot = None" | k where "admin_workerUp w" "?slot = Some k"
    by (cases ?slot) auto
  then show ?thesis
  proof cases
    case 1
    then show ?thesis
      by (intro rejected; cases q)
        (auto simp: local_put_def local_cput_def local_delete_def shut_down_def wrong_worker_def)
  next
    case (2 k)
    show ?thesis
    proof (cases "replay_one (tablets w ! k) (request_log q)")
      case (Pair ok kvs)
      show ?thesis
      proof (cases ok)
        case True
        then show ?thesis
          using 2 Pair by (intro committed [of k kvs]; cases q)
            (auto simp: local_put_def local_cput_def local_delete_def replay_one_def
              split: option.splits)
      next
        case False
        then show ?thesis
          using 2 Pair by (intro rejected; cases q)
            (auto simp: local_cput_def replay_one_def cput_rejects_def split: option.splits if_splits)
      qed
    qed
  qed
qed

lemma apply_update_wf: "worker_wf w \<Longrightarrow> worker_wf (snd (snd (apply_update P w q)))"
proof (cases rule: apply_update_cases [of P w q])
  case (committed k kvs)
  assume wf: "worker_wf w"
  have "tablet_wf kvs"
    using replay_one_wf [OF worker_wf_tablet [OF wf slot_less_3 [OF committed(1)]]] committed(3)
    by (metis snd_conv)
  then show ?thesis using committed(4) commit_update_wf [OF wf] by simp
qed simp

lemma apply_update_wal:
  assumes "platform_ok P" "wal_inv w" "command_fits (request_log q)"
    "worker_fits (snd (snd (apply_update P w q)))"
  shows "wal_inv (snd (snd (apply_update P w q)))"
proof (cases rule: apply_update_cases [of P w q])
  case rejected
  then show ?thesis using assms(2) by simp
next
  case (committed k kvs)
  have k: "k < 3" using committed(1) by (rule slot_less_3)
  have "length (tablets w) = 3" using assms(2) by (simp add: wal_inv_def worker_wf_def)
  then have "tablet_fits kvs"
    using assms(4) committed(4) k by (simp add: worker_fits_def commit_update_frame set_update_memI)
  then show ?thesis
    using commit_update_wal [OF assms(1,2) k committed(3) assms(3)] committed(4) by simp
qed

lemma run_updates_wal:
  "platform_ok P \<Longrightarrow> wal_inv w \<Longrightarrow> run_fits P w qs \<Longrightarrow> wal_inv (run_updates P w qs)"
  by (induction qs arbitrary: w) (auto simp: Let_def apply_update_wal)

lemma wal_inv_fresh: "1 \<le> i \<Longrightarrow> i \<le> 6 \<Longrightarrow> wal_inv (fresh_worker i)"
proof -
  have "log_complete []" using log_complete_clear [of "[]"] by (simp add: clearLog_def)
  then show "1 \<le> i \<Longrightarrow> i \<le> 6 \<Longrightarrow> wal_inv (fresh_worker i)"
    by (auto simp: wal_inv_def worker_wf_def fresh_worker_def wal_ok_def disk_tablet_def
        retrieveCheckpoint_def deserializeTablet_def getLogs_Nil less_Suc_eq numeral_3_eq_3)
qed

text \<open>A crash loses the memory and keeps the disk; \<^verbatim>\<open>main\<close> starts with empty tablets.\<close>

definition crash :: "worker \<Rightarrow> worker" where
  "crash w = w\<lparr>tablets := [[], [], []], updateRequestCount := [0, 0, 0], admin_workerUp := True\<rparr>"

section \<open>Properties\<close>

text \<open>
  C2. Durability: take a worker that started on an empty disk and served any sequence of updates,
  checkpointing as it goes. If it crashes, recovering any of its three slots from the local
  checkpoint and command log succeeds and gives exactly the cells the tablet had in memory.
\<close>

theorem local_recovery_restores:
  assumes "platform_ok P" and "1 \<le> i" and "i \<le> 6" and "k < 3"
    and "run_fits P (fresh_worker i) qs"
  shows "\<exists>w'. recoverFromLocal (crash (run_updates P (fresh_worker i) qs)) k = Inr w' \<and>
     tablet_find (tablets w' ! k) = tablet_find (tablets (run_updates P (fresh_worker i) qs) ! k)"
proof -
  let ?w = "run_updates P (fresh_worker i) qs"
  have "wal_inv ?w" using assms wal_inv_fresh run_updates_wal by blast
  then obtain t where "disk_tablet (checkpoints ?w ! k) (loggers ?w ! k) = Some t"
      "tablet_find t = tablet_find (tablets ?w ! k)"
    using assms(4) by (auto simp: wal_inv_def wal_ok_def)
  moreover have "[[], [], []][k := t] ! k = t"
    using assms(4) by (simp only: nth_list_update_eq list.size One_nat_def)
  ultimately show ?thesis
    by (simp add: recoverFromLocal_disk crash_def del: list_update.simps)
qed

lemma sample_bucket_a: "hashToBucket sample_platform ''a'' 6 = 3"
  by (simp add: hashToBucket_eq sample_platform_def)

theorem local_recovery_restores_witness:
  "\<exists>w'. recoverFromLocal (crash (run_updates sample_platform (fresh_worker 3)
       [Req_Put ''a'' ''c'' ''v'', Req_CPut ''a'' ''c'' ''v'' ''w''])) 0 = Inr w' \<and>
     tablet_find (tablets w' ! 0) = tablet_find (tablets (run_updates sample_platform (fresh_worker 3)
       [Req_Put ''a'' ''c'' ''v'', Req_CPut ''a'' ''c'' ''v'' ''w'']) ! 0)"
proof (rule local_recovery_restores)
  show "run_fits sample_platform (fresh_worker 3)
      [Req_Put ''a'' ''c'' ''v'', Req_CPut ''a'' ''c'' ''v'' ''w'']"
    by (simp add: fresh_worker_def local_put_def local_cput_def sample_bucket_a getTabletSlot_def
        commit_update_def checkpoint_if_due_def log_and_count_def command_fits_def str_fits_def
        worker_fits_def tablet_fits_def tablet_put_def cput_rejects_def)
qed simp_all

end
