(* ===== verification/Cluster.thy ===== *)
theory Cluster
  imports Coordinator Durability
begin

text \<open>
  The six workers and the coordinator together, and the gRPC calls between them: the stubs of
  \<^verbatim>\<open>backend/kvs_client.h\<close>, the replication loops of the worker's \<^verbatim>\<open>Put\<close>, \<^verbatim>\<open>CPut\<close> and \<^verbatim>\<open>Delete\<close>
  (\<^verbatim>\<open>backend/worker.cc\<close>), recovery of a worker from its peers and the admin console. A call to an
  address where no server runs fails with \<^verbatim>\<open>UNAVAILABLE\<close> and the transport's message; otherwise the
  handler runs, atomically, and its status is returned.
\<close>

record cluster =
  coord :: coordinator
  coord_up :: bool
  workers :: "int \<Rightarrow> worker"
  running :: "int \<Rightarrow> bool"

definition set_worker :: "cluster \<Rightarrow> int \<Rightarrow> worker \<Rightarrow> cluster" where
  "set_worker cl i w = cl\<lparr>workers := (workers cl)(i := w)\<rparr>"

definition reach :: "cluster \<Rightarrow> string \<Rightarrow> int option" where
  "reach cl addr =
     (case addr_worker addr of None \<Rightarrow> None | Some i \<Rightarrow> if running cl i then Some i else None)"

section \<open>What a stub returns\<close>

text \<open>\<^verbatim>\<open>"ERR " + to_string(status.error_code()) + ": " + status.error_message() + "\n"\<close>\<close>

definition err_string :: "platform \<Rightarrow> StatusCode \<Rightarrow> string \<Rightarrow> string" where
  "err_string P code msg = ''ERR '' @ to_string (error_code P code) @ '': '' @ msg @ [LF]"

fun client_result :: "platform \<Rightarrow> Status \<Rightarrow> string \<Rightarrow> string" where
  "client_result P OK res = res"
| "client_result P (Failed code msg) res = err_string P code msg"

text \<open>A call of handler \<open>h\<close> on the worker at \<open>addr\<close>.\<close>

definition worker_rpc ::
  "platform \<Rightarrow> cluster \<Rightarrow> string \<Rightarrow> (int \<Rightarrow> Status \<times> 'r \<times> cluster) \<Rightarrow> (Status \<times> 'r option \<times> cluster)" where
  "worker_rpc P cl addr h =
     (case reach cl addr of
        None \<Rightarrow> (Failed UNAVAILABLE (transport_error P), None, cl)
      | Some i \<Rightarrow> (let (st, r, cl') = h i in (st, Some r, cl')))"

definition on_worker ::
  "cluster \<Rightarrow> (worker \<Rightarrow> Status \<times> bool \<times> worker) \<Rightarrow> int \<Rightarrow> Status \<times> bool \<times> cluster" where
  "on_worker cl f i = (let (st, b, w) = f (workers cl i) in (st, b, set_worker cl i w))"

section \<open>Replication\<close>

definition client_ReplicatePut ::
  "platform \<Rightarrow> cluster \<Rightarrow> string \<Rightarrow> string \<Rightarrow> string \<Rightarrow> string \<Rightarrow> string \<times> cluster" where
  "client_ReplicatePut P cl addr row column value =
     (let (st, _, cl') = worker_rpc P cl addr (on_worker cl (\<lambda>w. ReplicatePut P w row column value))
      in (client_result P st ''PUT Successful'', cl'))"

definition client_ReplicateCPut ::
  "platform \<Rightarrow> cluster \<Rightarrow> string \<Rightarrow> string \<Rightarrow> string \<Rightarrow> string \<Rightarrow> string \<Rightarrow> string \<times> cluster" where
  "client_ReplicateCPut P cl addr row column curvalue newvalue =
     (let (st, _, cl') = worker_rpc P cl addr
            (on_worker cl (\<lambda>w. ReplicateCPut P w row column curvalue newvalue))
      in (client_result P st ''CPUT Successful'', cl'))"

definition client_ReplicateDelete ::
  "platform \<Rightarrow> cluster \<Rightarrow> string \<Rightarrow> string \<Rightarrow> string \<Rightarrow> string \<times> cluster" where
  "client_ReplicateDelete P cl addr row column =
     (let (st, _, cl') = worker_rpc P cl addr (on_worker cl (\<lambda>w. ReplicateDelete P w row column))
      in (client_result P st ''Delete Successful'', cl'))"

definition getReplicasForReplication :: "platform \<Rightarrow> int \<Rightarrow> string \<Rightarrow> string list" where
  "getReplicasForReplication P i key =
     (let t = hashToBucket P key NUM_TABLETS
      in if t = i then [worker_addr (next1 i), worker_addr (next2 i)]
         else if t = prev1 i then [worker_addr (next1 i)]
         else [])"

text \<open>The replication loop: every replica is called in turn, and errors are only logged.\<close>

fun replicate_each :: "(cluster \<Rightarrow> string \<Rightarrow> string \<times> cluster) \<Rightarrow> string list \<Rightarrow> cluster \<Rightarrow> cluster" where
  "replicate_each call [] cl = cl"
| "replicate_each call (addr # addrs) cl =
     (let (res, cl') = call cl addr in replicate_each call addrs cl')"

definition Put ::
  "platform \<Rightarrow> cluster \<Rightarrow> string \<Rightarrow> string \<Rightarrow> string \<Rightarrow> int \<Rightarrow> Status \<times> bool \<times> cluster" where
  "Put P cl row column value i =
     (let (st, success, w) = local_put P (workers cl i) row column value;
          cl' = set_worker cl i w
      in if st = OK
         then (OK, success, replicate_each (\<lambda>cl addr. client_ReplicatePut P cl addr row column value)
                              (getReplicasForReplication P i row) cl')
         else (st, success, cl'))"

definition CPut ::
  "platform \<Rightarrow> cluster \<Rightarrow> string \<Rightarrow> string \<Rightarrow> string \<Rightarrow> string \<Rightarrow> int \<Rightarrow> Status \<times> bool \<times> cluster" where
  "CPut P cl row column cur new i =
     (let (st, success, w) = local_cput P (workers cl i) row column cur new;
          cl' = set_worker cl i w
      in if st = OK
         then (OK, success, replicate_each (\<lambda>cl addr. client_ReplicateCPut P cl addr row column cur new)
                              (getReplicasForReplication P i row) cl')
         else (st, success, cl'))"

definition Delete ::
  "platform \<Rightarrow> cluster \<Rightarrow> string \<Rightarrow> string \<Rightarrow> int \<Rightarrow> Status \<times> bool \<times> cluster" where
  "Delete P cl row column i =
     (let (st, success, w) = local_delete P (workers cl i) row column;
          cl' = set_worker cl i w
      in if st = OK
         then (OK, success, replicate_each (\<lambda>cl addr. client_ReplicateDelete P cl addr row column)
                              (getReplicasForReplication P i row) cl')
         else (st, success, cl'))"

section \<open>The client of a worker\<close>

definition client_Get ::
  "platform \<Rightarrow> cluster \<Rightarrow> string \<Rightarrow> string \<Rightarrow> string \<Rightarrow> string \<times> cluster" where
  "client_Get P cl addr row column =
     (let (st, reply, cl') = worker_rpc P cl addr
            (\<lambda>i. let (st, s, v) = Get P (workers cl i) row column in (st, v, cl))
      in (client_result P st (case reply of None \<Rightarrow> [] | Some v \<Rightarrow> v), cl'))"

definition client_Put ::
  "platform \<Rightarrow> cluster \<Rightarrow> string \<Rightarrow> string \<Rightarrow> string \<Rightarrow> string \<Rightarrow> string \<times> cluster" where
  "client_Put P cl addr row column value =
     (let (st, _, cl') = worker_rpc P cl addr (Put P cl row column value)
      in (client_result P st ''PUT Successful'', cl'))"

definition client_CPut ::
  "platform \<Rightarrow> cluster \<Rightarrow> string \<Rightarrow> string \<Rightarrow> string \<Rightarrow> string \<Rightarrow> string \<Rightarrow> string \<times> cluster" where
  "client_CPut P cl addr row column curvalue newvalue =
     (let (st, _, cl') = worker_rpc P cl addr (CPut P cl row column curvalue newvalue)
      in (client_result P st ''CPUT Successful'', cl'))"

definition client_Delete ::
  "platform \<Rightarrow> cluster \<Rightarrow> string \<Rightarrow> string \<Rightarrow> string \<Rightarrow> string \<times> cluster" where
  "client_Delete P cl addr row column =
     (let (st, _, cl') = worker_rpc P cl addr (Delete P cl row column)
      in (client_result P st ''Delete Successful'', cl'))"

text \<open>\<^verbatim>\<open>CopyTablet\<close> collects the chunks that arrive before the final status.\<close>

definition client_CopyTablet :: "platform \<Rightarrow> cluster \<Rightarrow> string \<Rightarrow> int \<Rightarrow> (nat \<Rightarrow> bool) \<Rightarrow> string" where
  "client_CopyTablet P cl addr tablet_id write_ok =
     (let (st, chunks, _) = worker_rpc P cl addr
            (\<lambda>i. let (st, cs) = CopyTablet P (workers cl i) tablet_id write_ok in (st, cs, cl));
          tabletData = concat (case chunks of None \<Rightarrow> [] | Some cs \<Rightarrow> cs)
      in client_result P st tabletData)"

section \<open>The client of the coordinator\<close>

text \<open>An exception in a handler reaches the caller as \<^verbatim>\<open>UNKNOWN\<close>.\<close>

definition master_unreachable :: "platform \<Rightarrow> string" where
  "master_unreachable P = err_string P UNAVAILABLE (transport_error P)"

definition client_Lookup :: "platform \<Rightarrow> cluster \<Rightarrow> string \<Rightarrow> string \<times> cluster" where
  "client_Lookup P cl key =
     (if coord_up cl then
        (let (r, c) = Lookup P (coord cl) key;
             (st, worker) = (case r of
                None \<Rightarrow> (Failed UNKNOWN ''Unexpected error in RPC handling'', []) | Some x \<Rightarrow> x)
         in (client_result P st worker, cl\<lparr>coord := c\<rparr>))
      else (master_unreachable P, cl))"

definition client_Heartbeat :: "platform \<Rightarrow> cluster \<Rightarrow> int \<Rightarrow> int \<Rightarrow> string \<times> cluster" where
  "client_Heartbeat P cl worker_id now =
     (if coord_up cl then
        (let (st, c) = Heartbeat (coord cl) worker_id now
         in (client_result P st ''Heartbeat Successful'', cl\<lparr>coord := c\<rparr>))
      else (master_unreachable P, cl))"

definition client_WorkerLookup :: "platform \<Rightarrow> cluster \<Rightarrow> int \<Rightarrow> string \<times> cluster" where
  "client_WorkerLookup P cl worker_id =
     (if coord_up cl then
        (let (st, (primary, secondary, tertiary), c) = WorkerLookup (coord cl) worker_id
         in (client_result P st (primary @ '';'' @ secondary @ '';'' @ tertiary), cl\<lparr>coord := c\<rparr>))
      else (master_unreachable P, cl))"

definition client_Alive :: "platform \<Rightarrow> cluster \<Rightarrow> int \<Rightarrow> string" where
  "client_Alive P cl worker_id =
     (if coord_up cl then
        (let (st, alive) = Alive (coord cl) worker_id
         in client_result P st (if alive then ''Alive'' else ''Dead''))
      else master_unreachable P)"

text \<open>The heartbeat thread of worker \<open>i\<close> sends only while the admin switch is on.\<close>

definition heartbeat_pass :: "platform \<Rightarrow> cluster \<Rightarrow> int \<Rightarrow> int \<Rightarrow> cluster" where
  "heartbeat_pass P cl i now =
     (if admin_workerUp (workers cl i) then snd (client_Heartbeat P cl i now) else cl)"

end
