(* ===== verification/Recovery.thy ===== *)
theory Recovery
  imports Cluster
begin

text \<open>
  Starting, stopping and restarting a worker: \<^verbatim>\<open>recoverAllTablets\<close>, the part of \<^verbatim>\<open>main\<close> before the server
  runs, and the \<^verbatim>\<open>AdminConsole\<close> RPC of \<^verbatim>\<open>backend/worker.cc\<close>. The first component of a recovery is the
  way the process died, \<^term>\<open>None\<close> if it did not; \<open>net\<close> gives the results of the stream writes.
\<close>

definition kill :: "cluster \<Rightarrow> int \<Rightarrow> cluster" where
  "kill cl i = cl\<lparr>running := (running cl)(i := False)\<rparr>"

text \<open>\<^verbatim>\<open>workerClientPtrs\<close> has a client for every worker but this one; any other key yields a null pointer.\<close>

definition has_client :: "int \<Rightarrow> string \<Rightarrow> bool" where
  "has_client i host = (case addr_worker host of None \<Rightarrow> False | Some j \<Rightarrow> j \<noteq> i)"

definition recover_tablet ::
  "platform \<Rightarrow> (nat \<Rightarrow> bool) \<Rightarrow> cluster \<Rightarrow> int \<Rightarrow> string \<Rightarrow> int \<Rightarrow> fatal + worker" where
  "recover_tablet P net cl i host t =
     (case getTabletSlot i t of
        None \<Rightarrow> Inl Exit_Failure
      | Some k \<Rightarrow>
          (if host = ''ALLDEAD'' then recoverFromLocal (workers cl i) k
           else if has_client i host then
             (let tabletString = client_CopyTablet P cl host t net;
                  (_, kvs) = deserializeTablet [] tabletString;
                  w = workers cl i
              in Inr (w\<lparr>tablets := (tablets w)[k := kvs]\<rparr>))
           else Inl Null_Client))"

fun recover_hosts ::
  "platform \<Rightarrow> (nat \<Rightarrow> bool) \<Rightarrow> cluster \<Rightarrow> int \<Rightarrow> string list \<Rightarrow> int \<Rightarrow> fatal option \<times> cluster" where
  "recover_hosts P net cl i [] t = (None, cl)"
| "recover_hosts P net cl i (host # hosts) t =
     (case recover_tablet P net cl i host t of
        Inl e \<Rightarrow> (Some e, cl)
      | Inr w \<Rightarrow> recover_hosts P net (set_worker cl i w) i hosts (prev1 t))"

definition recoverAllTablets ::
  "platform \<Rightarrow> (nat \<Rightarrow> bool) \<Rightarrow> cluster \<Rightarrow> int \<Rightarrow> fatal option \<times> cluster" where
  "recoverAllTablets P net cl i =
     (let (res, cl1) = client_WorkerLookup P cl i
      in if is_err res then (Some Exit_Failure, cl1)
         else recover_hosts P net cl1 i (getlines CHR '';'' res) i)"

text \<open>\<^verbatim>\<open>main\<close>: empty tablets, recovery, then the heartbeat thread and the server.\<close>

definition start_worker ::
  "platform \<Rightarrow> (nat \<Rightarrow> bool) \<Rightarrow> cluster \<Rightarrow> int \<Rightarrow> fatal option \<times> cluster" where
  "start_worker P net cl i =
     (let (died, cl') = recoverAllTablets P net (set_worker cl i (crash (workers cl i))) i
      in (died, if died = None then cl'\<lparr>running := (running cl')(i := True)\<rparr> else kill cl' i))"

definition ADMIN_PASS :: string where
  "ADMIN_PASS = ''admin''"

definition set_admin :: "cluster \<Rightarrow> int \<Rightarrow> bool \<Rightarrow> cluster" where
  "set_admin cl i b = set_worker cl i ((workers cl i)\<lparr>admin_workerUp := b\<rparr>)"

text \<open>\<^verbatim>\<open>AdminConsole\<close>: \<^term>\<open>None\<close> when the recovery of a restart ends the process.\<close>

definition AdminConsole ::
  "platform \<Rightarrow> (nat \<Rightarrow> bool) \<Rightarrow> cluster \<Rightarrow> int \<Rightarrow> string \<Rightarrow> string \<Rightarrow> (Status \<times> bool) option \<times> cluster" where
  "AdminConsole P net cl i password command =
     (if password \<noteq> ADMIN_PASS then
        (Some (Failed INVALID_ARGUMENT ''Invalid admin password'', False), cl)
      else if command = ''SHUTDOWN'' then
        (Some (OK, True), if admin_workerUp (workers cl i) then set_admin cl i False else cl)
      else if command = ''RESTART'' then
        (if \<not> admin_workerUp (workers cl i) then
           (case recoverAllTablets P net cl i of
              (None, cl') \<Rightarrow> (Some (OK, True), set_admin cl' i True)
            | (Some e, cl') \<Rightarrow> (None, kill cl' i))
         else (Some (OK, True), cl))
      else (Some (OK, True), cl))"

definition client_AdminConsole ::
  "platform \<Rightarrow> (nat \<Rightarrow> bool) \<Rightarrow> cluster \<Rightarrow> string \<Rightarrow> string \<Rightarrow> string \<Rightarrow> string \<times> cluster" where
  "client_AdminConsole P net cl addr password command =
     (case reach cl addr of
        None \<Rightarrow> (client_result P (Failed UNAVAILABLE (transport_error P)) [], cl)
      | Some i \<Rightarrow>
          (case AdminConsole P net cl i password command of
             (None, cl') \<Rightarrow> (client_result P (Failed UNAVAILABLE (transport_error P)) [], cl')
           | (Some (st, success), cl') \<Rightarrow>
               (client_result P st ''AdminConsole request successful'', cl')))"

end
