(* ===== verification/Replication.thy ===== *)
theory Replication
  imports Recovery
begin

text \<open>
  Chain replication. An update accepted by the first serving holder of a tablet is applied to every
  serving holder, so the serving replicas of a tablet agree. \<open>spec_ok\<close> and \<open>spec_upd\<close> are the abstract
  key-value store: a map from row and column to value. \<open>db\<close> is the map a cluster stands for; the
  update handlers refine the abstract update.
\<close>

section \<open>The abstract store\<close>

type_synonym db = "string \<Rightarrow> string \<Rightarrow> string option"

definition db_set :: "db \<Rightarrow> string \<Rightarrow> string \<Rightarrow> string option \<Rightarrow> db" where
  "db_set m r c v = (\<lambda>r' c'. if r' = r \<and> c' = c then v else m r' c')"

fun spec_ok :: "db \<Rightarrow> update_request \<Rightarrow> bool" where
  "spec_ok m (Req_Put r c v) = True"
| "spec_ok m (Req_CPut r c cur new) = (m r c = Some cur)"
| "spec_ok m (Req_Delete r c) = True"

fun spec_upd :: "db \<Rightarrow> update_request \<Rightarrow> db" where
  "spec_upd m (Req_Put r c v) = db_set m r c (Some v)"
| "spec_upd m (Req_CPut r c cur new) = (if m r c = Some cur then db_set m r c (Some new) else m)"
| "spec_upd m (Req_Delete r c) = db_set m r c None"

abbreviation update_row :: "update_request \<Rightarrow> string" where
  "update_row q \<equiv> cl_row (request_log q)"

abbreviation upd :: "platform \<Rightarrow> update_request \<Rightarrow> worker \<Rightarrow> worker" where
  "upd P q w \<equiv> snd (snd (apply_update P w q))"

lemma spec_upd_other_row: "r \<noteq> update_row q \<Longrightarrow> spec_upd m q r = m r"
  by (cases q) (auto simp: db_set_def)

lemma spec_upd_row_cong: "m (update_row q) = m' (update_row q) \<Longrightarrow>
    spec_upd m q (update_row q) = spec_upd m' q (update_row q)"
  by (cases q) (auto simp: db_set_def)

lemma spec_ok_row_cong: "m (update_row q) = m' (update_row q) \<Longrightarrow> spec_ok m q = spec_ok m' q"
  by (cases q) auto

lemma spec_rejected: "\<not> spec_ok m q \<Longrightarrow> spec_upd m q = m"
  by (cases q) auto

section \<open>An update on one worker\<close>

lemma cput_rejects_None_iff: "cput_rejects t r c cur = None \<longleftrightarrow> tablet_find t r c = Some cur"
  by (auto simp: cput_rejects_def tablet_find_def split: option.splits)

lemma replay_one_spec:
  "fst (replay_one t (request_log q)) = spec_ok (tablet_find t) q"
  "tablet_find (snd (replay_one t (request_log q))) = spec_upd (tablet_find t) q"
  by (cases q; auto simp: replay_one_def db_set_def kv_simps fun_eq_iff
      cput_rejects_None_iff [symmetric] split: option.splits)+

lemma apply_update_down: "\<not> admin_workerUp w \<Longrightarrow> apply_update P w q = (shut_down, False, w)"
  by (cases q) (simp_all add: local_put_def local_cput_def local_delete_def)

lemma upd_frame [simp]:
  "workerId (upd P q w) = workerId w" "admin_workerUp (upd P q w) = admin_workerUp w"
  by (cases rule: apply_update_cases [of P w q]; simp add: commit_update_frame)+

lemma apply_update_up:
  assumes "admin_workerUp w" "getTabletSlot (workerId w) (tablet_of P (update_row q)) = Some k"
  shows "fst (apply_update P w q) = OK \<longleftrightarrow> spec_ok (tablet_find (tablets w ! k)) q"
    and "length (tablets w) = 3 \<Longrightarrow>
      tablet_find (tablets (upd P q w) ! k) = spec_upd (tablet_find (tablets w ! k)) q"
    and "k' \<noteq> k \<Longrightarrow> tablets (upd P q w) ! k' = tablets w ! k'"
proof -
  let ?r = "replay_one (tablets w ! k) (request_log q)"
  have ok: "fst (apply_update P w q) = OK \<longleftrightarrow> fst ?r"
    using assms by (cases q) (auto simp: local_put_def local_cput_def local_delete_def
        replay_one_def cput_rejects_def split: option.splits if_splits)
  then show "fst (apply_update P w q) = OK \<longleftrightarrow> spec_ok (tablet_find (tablets w ! k)) q"
    by (simp add: replay_one_spec)
  show "tablet_find (tablets (upd P q w) ! k) = spec_upd (tablet_find (tablets w ! k)) q"
    if "length (tablets w) = 3"
  proof (cases rule: apply_update_cases [of P w q])
    case rejected
    then show ?thesis using ok by (simp add: replay_one_spec spec_rejected)
  next
    case (committed k' kvs)
    then have "k' = k" "tablet_find kvs = spec_upd (tablet_find (tablets w ! k)) q"
      using assms(2) replay_one_spec(2) [of "tablets w ! k" q] by auto
    then show ?thesis
      using committed that slot_less_3 [OF assms(2)] by (simp add: commit_update_frame)
  qed
  show "tablets (upd P q w) ! k' = tablets w ! k'" if "k' \<noteq> k"
    by (cases rule: apply_update_cases [of P w q])
      (use that assms(2) in \<open>auto simp: commit_update_frame\<close>)
qed

section \<open>An update on the cluster\<close>

definition serving :: "cluster \<Rightarrow> int \<Rightarrow> bool" where
  "serving cl i \<longleftrightarrow> running cl i \<and> admin_workerUp (workers cl i)"

text \<open>The cells worker \<open>i\<close> holds of tablet \<open>t\<close>.\<close>

definition held :: "cluster \<Rightarrow> int \<Rightarrow> int \<Rightarrow> db" where
  "held cl i t =
     (case getTabletSlot i t of None \<Rightarrow> (\<lambda>r c. None) | Some k \<Rightarrow> tablet_find (tablets (workers cl i) ! k))"

definition cluster_wf :: "cluster \<Rightarrow> bool" where
  "cluster_wf cl \<longleftrightarrow>
     (\<forall>i. 1 \<le> i \<longrightarrow> i \<le> 6 \<longrightarrow> worker_wf (workers cl i) \<and> workerId (workers cl i) = i) \<and>
     hosts_ok (coord cl)"

definition agree :: "cluster \<Rightarrow> bool" where
  "agree cl \<longleftrightarrow>
     (\<forall>t. 1 \<le> t \<longrightarrow> t \<le> 6 \<longrightarrow>
       (\<forall>i\<in>set (holders t). \<forall>j\<in>set (holders t). serving cl i \<longrightarrow> serving cl j \<longrightarrow>
          held cl i t = held cl j t))"

definition first_serving :: "cluster \<Rightarrow> int \<Rightarrow> int option" where
  "first_serving cl t = find (serving cl) (holders t)"

definition db :: "platform \<Rightarrow> cluster \<Rightarrow> db" where
  "db P cl r c =
     (let t = tablet_of P r
      in case first_serving cl t of None \<Rightarrow> None | Some i \<Rightarrow> held cl i t r c)"

text \<open>The handlers \<open>Put\<close>, \<open>CPut\<close> and \<open>Delete\<close> as one operation, and a replication call's effect.\<close>

definition apply_at :: "platform \<Rightarrow> update_request \<Rightarrow> cluster \<Rightarrow> string \<Rightarrow> cluster" where
  "apply_at P q cl addr =
     (case reach cl addr of None \<Rightarrow> cl | Some i \<Rightarrow> set_worker cl i (upd P q (workers cl i)))"

definition server_update ::
  "platform \<Rightarrow> cluster \<Rightarrow> update_request \<Rightarrow> int \<Rightarrow> Status \<times> bool \<times> cluster" where
  "server_update P cl q i =
     (let (st, b, w) = apply_update P (workers cl i) q; cl' = set_worker cl i w
      in if st = OK
         then (OK, b, foldl (apply_at P q) cl' (getReplicasForReplication P i (update_row q)))
         else (st, b, cl'))"

lemma replicate_each_foldl:
  "(\<And>cl addr. snd (call cl addr) = f cl addr) \<Longrightarrow> replicate_each call addrs cl = foldl f cl addrs"
  by (induction addrs arbitrary: cl) (auto simp: case_prod_beta)

lemma client_Replicate_state:
  "snd (client_ReplicatePut P cl addr r c v) = apply_at P (Req_Put r c v) cl addr"
  "snd (client_ReplicateCPut P cl addr r c cur new) = apply_at P (Req_CPut r c cur new) cl addr"
  "snd (client_ReplicateDelete P cl addr r c) = apply_at P (Req_Delete r c) cl addr"
  by (simp_all add: client_ReplicatePut_def client_ReplicateCPut_def client_ReplicateDelete_def
      apply_at_def worker_rpc_def on_worker_def ReplicatePut_def ReplicateCPut_def
      ReplicateDelete_def case_prod_beta Let_def split: option.splits)

lemma handlers_server_update:
  "Put P cl r c v i = server_update P cl (Req_Put r c v) i"
  "CPut P cl r c cur new i = server_update P cl (Req_CPut r c cur new) i"
  "Delete P cl r c i = server_update P cl (Req_Delete r c) i"
  by (simp_all add: Put_def CPut_def Delete_def server_update_def case_prod_beta Let_def
      replicate_each_foldl [OF client_Replicate_state(1)]
      replicate_each_foldl [OF client_Replicate_state(2)]
      replicate_each_foldl [OF client_Replicate_state(3)])

section \<open>What an accepted update touches\<close>

definition later :: "int \<Rightarrow> int \<Rightarrow> int list" where
  "later t i = (if i = t then [next1 t, next2 t] else if i = next1 t then [next2 t] else [])"

lemma replicas_are_later:
  assumes "i \<in> set (holders (tablet_of P key))"
  shows "getReplicasForReplication P i key = map worker_addr (later (tablet_of P key) i)"
  using assms tablet_of_range [of P key]
  by (auto simp: getReplicasForReplication_def later_def Let_def ring_simps elim!: worker_id_cases)

lemma later_range: "1 \<le> t \<Longrightarrow> t \<le> 6 \<Longrightarrow> j \<in> set (later t i) \<Longrightarrow> 1 \<le> j \<and> j \<le> 6"
  using holders_range [of t j] by (auto simp: later_def split: if_splits)

lemma later_distinct: "1 \<le> t \<Longrightarrow> t \<le> 6 \<Longrightarrow> distinct (i # later t i)"
  using holders_distinct [of t] by (auto simp: later_def)

lemma first_serving_later:
  assumes "first_serving cl t = Some i" "j \<in> set (holders t)" "serving cl j"
  shows "j \<in> set (i # later t i)"
  using assms by (auto simp: first_serving_def later_def split: if_splits)

lemma first_servingD: "first_serving cl t = Some i \<Longrightarrow> i \<in> set (holders t) \<and> serving cl i"
  by (auto simp: first_serving_def split: if_splits)

lemma first_serving_ex:
  assumes "j \<in> set (holders t)" "serving cl j"
  obtains i where "first_serving cl t = Some i"
  using assms by (fastforce simp: first_serving_def find_None_iff2 split: if_splits)

lemma set_worker_frame [simp]:
  "running (set_worker cl i w) = running cl" "coord (set_worker cl i w) = coord cl"
  "coord_up (set_worker cl i w) = coord_up cl"
  "workers (set_worker cl i w) j = (if j = i then w else workers cl j)"
  by (simp_all add: set_worker_def)

lemma apply_at_frame [simp]:
  "running (apply_at P q cl a) = running cl" "coord (apply_at P q cl a) = coord cl"
  "coord_up (apply_at P q cl a) = coord_up cl"
  by (simp_all add: apply_at_def split: option.splits)

lemma foldl_apply_at_frame [simp]:
  "running (foldl (apply_at P q) cl as) = running cl"
  "coord (foldl (apply_at P q) cl as) = coord cl"
  "coord_up (foldl (apply_at P q) cl as) = coord_up cl"
  by (induction as arbitrary: cl) simp_all

lemma foldl_apply_at_workers:
  assumes "distinct js" "\<forall>j\<in>set js. 1 \<le> j \<and> j \<le> 6"
  shows "workers (foldl (apply_at P q) cl (map worker_addr js)) j =
    (if j \<in> set js \<and> running cl j then upd P q (workers cl j) else workers cl j)"
  using assms
proof (induction js arbitrary: cl)
  case (Cons i js)
  have "workers (apply_at P q cl (worker_addr i)) j =
      (if j = i \<and> running cl j then upd P q (workers cl j) else workers cl j)"
    using Cons.prems(2) by (auto simp: apply_at_def reach_def)
  then show ?case using Cons by auto
qed simp

lemma server_update_frame [simp]:
  "running (snd (snd (server_update P cl q i))) = running cl"
  "coord (snd (snd (server_update P cl q i))) = coord cl"
  "coord_up (snd (snd (server_update P cl q i))) = coord_up cl"
  by (simp_all add: server_update_def Let_def case_prod_beta)

lemma server_update_fst: "fst (server_update P cl q i) = fst (apply_update P (workers cl i) q)"
  by (simp add: server_update_def Let_def case_prod_beta)

lemma apply_update_not_OK: "fst (apply_update P w q) \<noteq> OK \<Longrightarrow> upd P q w = w"
  by (cases rule: apply_update_cases [of P w q]) auto

lemma server_update_workers:
  assumes "i \<in> set (holders (tablet_of P (update_row q)))"
  shows "workers (snd (snd (server_update P cl q i))) j =
    (if fst (apply_update P (workers cl i) q) = OK \<and>
        (j = i \<or> j \<in> set (later (tablet_of P (update_row q)) i) \<and> running cl j)
     then upd P q (workers cl j) else workers cl j)"
proof -
  let ?t = "tablet_of P (update_row q)"
  note range = tablet_of_range [of P "update_row q"]
  have d: "distinct (i # later ?t i)" using range by (rule later_distinct)
  have r: "\<forall>j\<in>set (later ?t i). 1 \<le> j \<and> j \<le> 6" using later_range [OF range] by blast
  show ?thesis
    using d foldl_apply_at_workers [OF _ r, of P q "set_worker cl i (upd P q (workers cl i))" j]
    by (auto simp: server_update_def Let_def case_prod_beta replicas_are_later [OF assms]
        apply_update_not_OK)
qed

lemma server_update_serving:
  assumes "i \<in> set (holders (tablet_of P (update_row q)))"
  shows "serving (snd (snd (server_update P cl q i))) = serving cl"
  by (auto simp: serving_def fun_eq_iff server_update_workers [OF assms])

lemma server_update_wf:
  assumes "i \<in> set (holders (tablet_of P (update_row q)))" "cluster_wf cl"
  shows "cluster_wf (snd (snd (server_update P cl q i)))"
  using assms(2) by (auto simp: cluster_wf_def server_update_workers [OF assms(1)] apply_update_wf)

lemma holder_slot:
  assumes "1 \<le> t" "t \<le> 6" "i \<in> set (holders t)"
  obtains k where "getTabletSlot i t = Some k" "k < 3"
proof -
  have "getTabletSlot i t \<noteq> None"
    using slot_iff_holder holders_range [OF assms] assms by blast
  then show thesis using that slot_less_3 by blast
qed

lemma held_cong: "workers cl' i = workers cl i \<Longrightarrow> held cl' i t = held cl i t"
  by (simp add: held_def split: option.split)

lemma held_upd:
  assumes "cluster_wf cl" "1 \<le> j" "j \<le> 6" "admin_workerUp (workers cl j)"
    "j \<in> set (holders (tablet_of P (update_row q)))"
    "workers cl' j = upd P q (workers cl j)"
  shows "held cl' j t =
    (if t = tablet_of P (update_row q) then spec_upd (held cl j t) q else held cl j t)"
proof -
  let ?t = "tablet_of P (update_row q)"
  have w: "workerId (workers cl j) = j" "length (tablets (workers cl j)) = 3"
    using assms(1-3) by (auto simp: cluster_wf_def worker_wf_def)
  obtain k where k: "getTabletSlot j ?t = Some k" using holder_slot [OF tablet_of_range assms(5)] .
  note up = apply_update_up [OF assms(4), of P q k, unfolded w(1), OF k]
  show ?thesis
  proof (cases "t = ?t")
    case True
    then show ?thesis using up(2) [OF w(2)] k assms(6) by (simp add: held_def)
  next
    case False
    then have "k' \<noteq> k" if "getTabletSlot j t = Some k'" for k'
      using slot_inject [OF assms(2,3) k] that by blast
    then show ?thesis
      using False up(3) assms(6) by (simp add: held_def split: option.split)
  qed
qed

lemma held_slot: "getTabletSlot i t = Some k \<Longrightarrow> held cl i t = tablet_find (tablets (workers cl i) ! k)"
  by (simp add: held_def)

lemma server_update_OK_iff:
  assumes "cluster_wf cl" "first_serving cl (tablet_of P (update_row q)) = Some i"
  shows "fst (server_update P cl q i) = OK \<longleftrightarrow>
    spec_ok (held cl i (tablet_of P (update_row q))) q"
proof -
  let ?t = "tablet_of P (update_row q)"
  have i: "i \<in> set (holders ?t)" "admin_workerUp (workers cl i)"
    using first_servingD [OF assms(2)] by (auto simp: serving_def)
  obtain k where k: "getTabletSlot i ?t = Some k" using holder_slot [OF tablet_of_range i(1)] .
  have "workerId (workers cl i) = i"
    using assms(1) holders_range [OF tablet_of_range i(1)] by (simp add: cluster_wf_def)
  then show ?thesis
    using apply_update_up(1) [OF i(2), of P q k] k by (simp add: server_update_fst held_slot)
qed

lemma server_update_held:
  assumes "cluster_wf cl" "agree cl" "first_serving cl (tablet_of P (update_row q)) = Some i"
    and "serving cl j" "1 \<le> t" "t \<le> 6" "j \<in> set (holders t)"
  shows "held (snd (snd (server_update P cl q i))) j t =
    (if t = tablet_of P (update_row q) then spec_upd (held cl j t) q else held cl j t)"
    (is "held ?cl' j t = ?rhs")
proof -
  let ?t = "tablet_of P (update_row q)"
  note range = tablet_of_range [of P "update_row q"]
  have i: "i \<in> set (holders ?t)" "serving cl i" using first_servingD [OF assms(3)] by auto
  note ws = server_update_workers [OF i(1), of cl j]
  have j: "1 \<le> j" "j \<le> 6" using holders_range [OF assms(5-7)] by auto
  show ?thesis
  proof (cases "fst (apply_update P (workers cl i) q) = OK \<and> j \<in> set (holders ?t)")
    case True
    then have "workers ?cl' j = upd P q (workers cl j)"
      using ws first_serving_later [OF assms(3) _ assms(4)] assms(4) by (simp add: serving_def)
    then show ?thesis
      using held_upd [OF assms(1) j] True assms(4) by (simp add: serving_def)
  next
    case False
    then have "workers ?cl' j = workers cl j"
      using ws i(1) by (auto simp: later_def split: if_splits)
    moreover have "?rhs = held cl j t"
    proof (cases "t = ?t")
      case True
      then have "held cl j t = held cl i t"
        using assms(2,4,5,6,7) i unfolding agree_def by blast
      moreover have "\<not> spec_ok (held cl i t) q"
        using server_update_OK_iff [OF assms(1,3)] False True assms(7) by (auto simp: server_update_fst)
      ultimately show ?thesis by (auto simp: spec_rejected)
    qed simp
    ultimately show ?thesis using held_cong by metis
  qed
qed

lemma server_update_agree:
  assumes "cluster_wf cl" "agree cl" "first_serving cl (tablet_of P (update_row q)) = Some i"
  shows "agree (snd (snd (server_update P cl q i)))"
  unfolding agree_def
proof (intro allI impI ballI)
  fix t a b
  let ?cl' = "snd (snd (server_update P cl q i))"
  assume t: "1 \<le> t" "t \<le> 6" and a: "a \<in> set (holders t)" and b: "b \<in> set (holders t)"
    and s: "serving ?cl' a" "serving ?cl' b"
  have "serving cl a" "serving cl b"
    using s server_update_serving first_servingD [OF assms(3)] by auto
  moreover from this have "held cl a t = held cl b t"
    using assms(2) t a b by (auto simp: agree_def)
  ultimately show "held ?cl' a t = held ?cl' b t"
    using server_update_held [OF assms _ t a] server_update_held [OF assms _ t b] by auto
qed

lemma db_held:
  assumes "agree cl" "serving cl j" "j \<in> set (holders (tablet_of P r))"
  shows "db P cl r = held cl j (tablet_of P r) r"
proof -
  obtain i where i: "first_serving cl (tablet_of P r) = Some i"
    using assms(3,2) by (rule first_serving_ex)
  then have "held cl i (tablet_of P r) = held cl j (tablet_of P r)"
    using assms first_servingD [OF i] tablet_of_range [of P r] unfolding agree_def by blast
  then show ?thesis using i by (simp add: db_def fun_eq_iff)
qed

lemma server_update_db:
  assumes "cluster_wf cl" "agree cl" "first_serving cl (tablet_of P (update_row q)) = Some i"
  shows "db P (snd (snd (server_update P cl q i))) = spec_upd (db P cl) q"
    and "fst (server_update P cl q i) = OK \<longleftrightarrow> spec_ok (db P cl) q"
proof -
  let ?cl' = "snd (snd (server_update P cl q i))"
  have i: "i \<in> set (holders (tablet_of P (update_row q)))" "serving cl i"
    using first_servingD [OF assms(3)] by auto
  have row: "db P cl (update_row q) = held cl i (tablet_of P (update_row q)) (update_row q)"
    using db_held [OF assms(2) i(2,1)] .
  show "fst (server_update P cl q i) = OK \<longleftrightarrow> spec_ok (db P cl) q"
    using server_update_OK_iff [OF assms(1,3)] 
      spec_ok_row_cong [of "db P cl" q "held cl i (tablet_of P (update_row q))"] row by simp
  show "db P ?cl' = spec_upd (db P cl) q"
  proof
    fix r
    let ?t = "tablet_of P r"
    have fs: "first_serving ?cl' ?t = first_serving cl ?t"
      by (simp add: first_serving_def server_update_serving [OF i(1)])
    show "db P ?cl' r = spec_upd (db P cl) q r"
    proof (cases "first_serving cl ?t")
      case None
      then have "r \<noteq> update_row q" using assms(3) by auto
      then show ?thesis using None fs by (simp add: db_def spec_upd_other_row fun_eq_iff)
    next
      case (Some j)
      then have j: "j \<in> set (holders ?t)" "serving cl j" using first_servingD by auto
      have h: "held ?cl' j ?t =
          (if ?t = tablet_of P (update_row q) then spec_upd (held cl j ?t) q else held cl j ?t)"
        by (rule server_update_held [OF assms j(2) tablet_of_range j(1)])
      have d: "db P ?cl' r = held ?cl' j ?t r" "db P cl r = held cl j ?t r"
        using Some fs by (simp_all add: db_def fun_eq_iff)
      show ?thesis
      proof (cases "r = update_row q")
        case True
        then show ?thesis using h d spec_upd_row_cong [of "db P cl" q "held cl j ?t"] by simp
      next
        case False
        then show ?thesis using h d by (simp add: spec_upd_other_row)
      qed
    qed
  qed
qed

end
