(* ===== verification/Consistency.thy ===== *)
theory Consistency
  imports Replication
begin

text \<open>
  The cluster as a transition system: clients look a key up at the coordinator and update or read at
  the worker it names; workers start, crash, are shut down and restarted by the administrator; the
  coordinator hears heartbeats and marks workers. The main theorem: in every state that a timely run
  reaches the serving replicas of every tablet agree.
\<close>

section \<open>Clients\<close>

fun client_update :: "platform \<Rightarrow> cluster \<Rightarrow> string \<Rightarrow> update_request \<Rightarrow> string \<times> cluster" where
  "client_update P cl addr (Req_Put r c v) = client_Put P cl addr r c v"
| "client_update P cl addr (Req_CPut r c cur new) = client_CPut P cl addr r c cur new"
| "client_update P cl addr (Req_Delete r c) = client_Delete P cl addr r c"

text \<open>How the front ends use the store: ask the coordinator, then the worker, unless that failed.\<close>

definition client_write :: "platform \<Rightarrow> cluster \<Rightarrow> update_request \<Rightarrow> string \<times> cluster" where
  "client_write P cl q =
     (let (addr, cl1) = client_Lookup P cl (update_row q)
      in if is_err addr then (addr, cl1) else client_update P cl1 addr q)"

definition client_read :: "platform \<Rightarrow> cluster \<Rightarrow> string \<Rightarrow> string \<Rightarrow> string \<times> cluster" where
  "client_read P cl row column =
     (let (addr, cl1) = client_Lookup P cl row
      in if is_err addr then (addr, cl1) else client_Get P cl1 addr row column)"

definition success_string :: "update_request \<Rightarrow> string" where
  "success_string q = (case q of Req_Put _ _ _ \<Rightarrow> ''PUT Successful''
     | Req_CPut _ _ _ _ \<Rightarrow> ''CPUT Successful'' | Req_Delete _ _ \<Rightarrow> ''Delete Successful'')"

lemma is_err_err_string [simp]: "is_err (err_string P code msg)"
  by (simp add: is_err_prefix err_string_def)

lemma success_not_err [simp]: "\<not> is_err (success_string q)"
  by (cases q) (simp_all add: is_err_prefix success_string_def)

lemma client_update_server:
  "client_update P cl addr q =
     (case reach cl addr of
        None \<Rightarrow> (err_string P UNAVAILABLE (transport_error P), cl)
      | Some i \<Rightarrow> (client_result P (fst (server_update P cl q i)) (success_string q),
                   snd (snd (server_update P cl q i))))"
  by (cases q) (auto simp: client_Put_def client_CPut_def client_Delete_def worker_rpc_def
      handlers_server_update success_string_def case_prod_beta Let_def split: option.splits)

section \<open>What the coordinator knows\<close>

definition view_complete :: "cluster \<Rightarrow> bool" where
  "view_complete cl \<longleftrightarrow> (\<forall>i\<in>set worker_ids. serving cl i \<longrightarrow> marked_alive (coord cl) i)"

definition view_exact :: "cluster \<Rightarrow> bool" where
  "view_exact cl \<longleftrightarrow> (\<forall>i\<in>set worker_ids. serving cl i \<longleftrightarrow> marked_alive (coord cl) i)"

definition set_coord :: "cluster \<Rightarrow> coordinator \<Rightarrow> cluster" where
  "set_coord cl c = cl\<lparr>coord := c\<rparr>"

lemma set_coord_fields [simp]:
  "workers (set_coord cl c) = workers cl" "running (set_coord cl c) = running cl"
  "coord (set_coord cl c) = c" "coord_up (set_coord cl c) = coord_up cl"
  by (simp_all add: set_coord_def)

lemma set_coord_worker_view [simp]:
  "serving (set_coord cl c) = serving cl" "held (set_coord cl c) = held cl"
  "reach (set_coord cl c) = reach cl"
  by (simp_all add: serving_def held_def reach_def fun_eq_iff cong: option.case_cong)

lemma set_coord_frame [simp]:
  "agree (set_coord cl c) = agree cl" "first_serving (set_coord cl c) = first_serving cl"
  "db P (set_coord cl c) = db P cl"
  by (simp_all add: agree_def first_serving_def db_def fun_eq_iff Let_def cong: option.case_cong)

lemma cluster_wf_set_coord [simp]:
  "hostMap c = hostMap (coord cl) \<Longrightarrow> cluster_wf (set_coord cl c) = cluster_wf cl"
  by (simp add: cluster_wf_def hosts_ok_def)

definition first_marked :: "cluster \<Rightarrow> int \<Rightarrow> int option" where
  "first_marked cl t = find (marked_alive (coord cl)) (holders t)"

lemma first_marked_holder: "first_marked cl t = Some i \<Longrightarrow> i \<in> set (holders t)"
  by (auto simp: first_marked_def split: if_splits)

lemma first_marked_serving:
  assumes "view_complete cl" "first_marked cl t = Some i" "serving cl i" "1 \<le> t" "t \<le> 6"
  shows "first_serving cl t = Some i"
proof -
  have "serving cl j \<Longrightarrow> marked_alive (coord cl) j" if "j \<in> set (holders t)" for j
    using assms(1) holders_range [OF assms(4,5) that] by (simp add: view_complete_def in_worker_ids)
  then show ?thesis
    using assms(2,3) by (auto simp: first_marked_def first_serving_def split: if_splits)
qed

lemma view_exact_first:
  assumes "view_exact cl" "1 \<le> t" "t \<le> 6"
  shows "first_marked cl t = first_serving cl t"
proof -
  have "serving cl j \<longleftrightarrow> marked_alive (coord cl) j" if "j \<in> set (holders t)" for j
    using assms(1) holders_range [OF assms(2,3) that] by (simp add: view_exact_def in_worker_ids)
  then show ?thesis
    by (simp add: first_marked_def first_serving_def)
qed

lemma client_Lookup_spec:
  assumes "cluster_wf cl" "coord_up cl"
  shows "fst (client_Lookup P cl key) =
    (case first_marked cl (tablet_of P key) of
       None \<Rightarrow> err_string P UNAVAILABLE ''All workers are down'' | Some i \<Rightarrow> worker_addr i)"
  using assms Lookup_spec [of "coord cl" P key]
  by (auto simp: client_Lookup_def cluster_wf_def first_marked_def case_prod_beta Let_def
      split: option.splits)

lemma client_Lookup_state:
  "snd (client_Lookup P cl key) =
     (if coord_up cl then set_coord cl (snd (Lookup P (coord cl) key)) else cl)"
  by (simp add: client_Lookup_def set_coord_def case_prod_beta Let_def)

lemma client_Lookup_frame [simp]:
  "workers (snd (client_Lookup P cl key)) = workers cl"
  "running (snd (client_Lookup P cl key)) = running cl"
  "serving (snd (client_Lookup P cl key)) = serving cl"
  "agree (snd (client_Lookup P cl key)) = agree cl"
  "first_serving (snd (client_Lookup P cl key)) = first_serving cl"
  "db P' (snd (client_Lookup P cl key)) = db P' cl"
  "reach (snd (client_Lookup P cl key)) = reach cl"
  "cluster_wf (snd (client_Lookup P cl key)) = cluster_wf cl"
  "coord_up (snd (client_Lookup P cl key)) = coord_up cl"
  "marked_alive (coord (snd (client_Lookup P cl key))) = marked_alive (coord cl)"
  by (simp_all add: client_Lookup_state)

lemma client_Lookup_down: "\<not> coord_up cl \<Longrightarrow> is_err (fst (client_Lookup P cl key))"
  by (simp add: client_Lookup_def master_unreachable_def)

section \<open>Writing and reading\<close>

lemma server_update_not_serving:
  "\<not> admin_workerUp (workers cl i) \<Longrightarrow> server_update P cl q i = (shut_down, False, cl)"
  by (simp add: server_update_def apply_update_down shut_down_def set_worker_def)

lemma client_write_unfold:
  assumes "cluster_wf cl" "coord_up cl"
  shows "client_write P cl q =
    (let cl1 = snd (client_Lookup P cl (update_row q))
     in case first_marked cl (tablet_of P (update_row q)) of
          None \<Rightarrow> (err_string P UNAVAILABLE ''All workers are down'', cl1)
        | Some i \<Rightarrow>
            if running cl i
            then (client_result P (fst (server_update P cl1 q i)) (success_string q),
                  snd (snd (server_update P cl1 q i)))
            else (err_string P UNAVAILABLE (transport_error P), cl1))"
proof (cases "first_marked cl (tablet_of P (update_row q))")
  case None
  then show ?thesis
    using client_Lookup_spec [OF assms] by (simp add: client_write_def case_prod_beta Let_def)
next
  case (Some i)
  have "addr_worker (worker_addr i) = Some i"
    using holders_range [OF tablet_of_range first_marked_holder [OF Some]] by simp
  then show ?thesis
    using Some client_Lookup_spec [OF assms]
    by (simp add: client_write_def case_prod_beta Let_def client_update_server)
      (simp add: reach_def)
qed

text \<open>
  A write either changes nothing but the coordinator's table, or goes to the first serving holder.
\<close>

lemma client_write_cases [consumes 2, case_names nothing served]:
  assumes "cluster_wf cl" "view_complete cl"
  obtains (nothing) "is_err (fst (client_write P cl q))"
      "snd (client_write P cl q) = snd (client_Lookup P cl (update_row q))"
  | (served) i where "first_serving cl (tablet_of P (update_row q)) = Some i"
      "client_write P cl q =
        (let cl1 = snd (client_Lookup P cl (update_row q))
         in (client_result P (fst (server_update P cl1 q i)) (success_string q),
             snd (snd (server_update P cl1 q i))))"
proof (cases "coord_up cl")
  case False
  show ?thesis
    by (rule nothing)
      (use False client_Lookup_down [of cl P "update_row q"] in \<open>simp_all add: client_write_def case_prod_beta\<close>)
next
  case True
  note unf = client_write_unfold [OF assms(1) True, of P q]
  let ?t = "tablet_of P (update_row q)"
  show ?thesis
  proof (cases "first_marked cl ?t")
    case None
    show ?thesis by (rule nothing) (use unf None in \<open>simp_all add: Let_def\<close>)
  next
    case (Some i)
    consider (s) "serving cl i" | (d) "running cl i" "\<not> admin_workerUp (workers cl i)"
      | (u) "\<not> running cl i" by (auto simp: serving_def)
    then show ?thesis
    proof cases
      case s
      have "first_serving cl ?t = Some i"
        using first_marked_serving [OF assms(2) Some s tablet_of_range] .
      then show ?thesis
        by (rule served [of i]) (use s unf Some in \<open>simp_all add: Let_def serving_def\<close>)
    next
      case d
      show ?thesis
        by (rule nothing)
          (use d unf Some in \<open>simp_all add: Let_def server_update_not_serving shut_down_def\<close>)
    next
      case u
      show ?thesis by (rule nothing) (use u unf Some in \<open>simp_all add: Let_def\<close>)
    qed
  qed
qed

lemma client_write_inv:
  assumes "cluster_wf cl" "agree cl" "view_complete cl"
  shows "cluster_wf (snd (client_write P cl q))" "agree (snd (client_write P cl q))"
proof -
  let ?cl1 = "snd (client_Lookup P cl (update_row q))"
  have "cluster_wf (snd (client_write P cl q)) \<and> agree (snd (client_write P cl q))"
    using assms(1,3)
  proof (cases rule: client_write_cases [where P = P and q = q])
    case nothing
    then show ?thesis using assms by simp
  next
    case (served i)
    have "i \<in> set (holders (tablet_of P (update_row q)))" using first_servingD [OF served(1)] ..
    then have "cluster_wf (snd (snd (server_update P ?cl1 q i)))"
      by (rule server_update_wf) (simp add: assms)
    moreover have "agree (snd (snd (server_update P ?cl1 q i)))"
      by (rule server_update_agree) (simp_all add: assms served(1))
    ultimately show ?thesis using served(2) by (simp add: Let_def)
  qed
  then show "cluster_wf (snd (client_write P cl q))" "agree (snd (client_write P cl q))" by auto
qed

lemma client_write_serving:
  assumes "cluster_wf cl" "view_complete cl"
  shows "serving (snd (client_write P cl q)) = serving cl"
  using assms
proof (cases rule: client_write_cases [where P = P and q = q])
  case (served i)
  have "i \<in> set (holders (tablet_of P (update_row q)))" using first_servingD [OF served(1)] ..
  then show ?thesis using served(2) by (simp add: Let_def server_update_serving)
qed simp

lemma client_read_state:
  "snd (client_read P cl row column) = snd (client_Lookup P cl row)"
  by (simp add: client_read_def client_Get_def worker_rpc_def case_prod_beta Let_def
      split: option.splits)

text \<open>What a client sees of a write, against the abstract store.\<close>

lemma client_write_db:
  assumes "cluster_wf cl" "agree cl" "view_complete cl"
  shows "is_err (fst (client_write P cl q)) \<Longrightarrow> db P (snd (client_write P cl q)) = db P cl"
    and "\<not> is_err (fst (client_write P cl q)) \<Longrightarrow>
      spec_ok (db P cl) q \<and> db P (snd (client_write P cl q)) = spec_upd (db P cl) q"
proof -
  let ?cl1 = "snd (client_Lookup P cl (update_row q))"
  have *: "if is_err (fst (client_write P cl q)) then db P (snd (client_write P cl q)) = db P cl
     else spec_ok (db P cl) q \<and> db P (snd (client_write P cl q)) = spec_upd (db P cl) q"
    using assms(1,3)
  proof (cases rule: client_write_cases [where P = P and q = q])
    case (served i)
    note upd = server_update_db [of ?cl1 P q i]
    have "db P (snd (client_write P cl q)) = spec_upd (db P cl) q"
      using upd(1) served assms by (simp add: Let_def)
    moreover have "is_err (fst (client_write P cl q)) \<longleftrightarrow> \<not> spec_ok (db P cl) q"
      using upd(2) served assms
      by (cases "fst (server_update P ?cl1 q i)") (simp_all add: Let_def)
    ultimately show ?thesis by (simp add: spec_rejected)
  qed simp
  show "is_err (fst (client_write P cl q)) \<Longrightarrow> db P (snd (client_write P cl q)) = db P cl"
    using * by simp
  show "\<not> is_err (fst (client_write P cl q)) \<Longrightarrow>
      spec_ok (db P cl) q \<and> db P (snd (client_write P cl q)) = spec_upd (db P cl) q"
    using * by simp
qed

lemma Get_find:
  assumes "admin_workerUp w" "getTabletSlot (workerId w) (tablet_of P r) = Some k"
  shows "Get P w r c = (OK, True, v) \<longleftrightarrow> tablet_find (tablets w ! k) r c = Some v"
    and "fst (Get P w r c) = OK \<longleftrightarrow> tablet_find (tablets w ! k) r c \<noteq> None"
  using assms by (auto simp: Get_def tablet_find_def split: option.splits)

lemma Get_held:
  assumes "cluster_wf cl" "serving cl j" "j \<in> set (holders (tablet_of P r))"
  shows "Get P (workers cl j) r c = (OK, True, v) \<longleftrightarrow> held cl j (tablet_of P r) r c = Some v"
    and "fst (Get P (workers cl j) r c) = OK \<longleftrightarrow> held cl j (tablet_of P r) r c \<noteq> None"
proof -
  obtain k where k: "getTabletSlot j (tablet_of P r) = Some k"
    using holder_slot [OF tablet_of_range assms(3)] .
  have w: "workerId (workers cl j) = j" "admin_workerUp (workers cl j)"
    using assms holders_range [OF tablet_of_range assms(3)] by (auto simp: cluster_wf_def serving_def)
  show "Get P (workers cl j) r c = (OK, True, v) \<longleftrightarrow> held cl j (tablet_of P r) r c = Some v"
    using Get_find(1) [OF w(2), of P r k c v] k w(1) by (simp add: held_slot)
  show "fst (Get P (workers cl j) r c) = OK \<longleftrightarrow> held cl j (tablet_of P r) r c \<noteq> None"
    using Get_find(2) [OF w(2), of P r k c] k w(1) by (simp add: held_slot)
qed

lemma Get_agree:
  assumes "cluster_wf cl" "serving cl i" "serving cl j"
    and "i \<in> set (holders (tablet_of P r))" "j \<in> set (holders (tablet_of P r))"
    and "held cl i (tablet_of P r) = held cl j (tablet_of P r)"
  shows "Get P (workers cl i) r c = Get P (workers cl j) r c"
proof -
  obtain ki kj where k: "getTabletSlot i (tablet_of P r) = Some ki" "ki < 3"
      "getTabletSlot j (tablet_of P r) = Some kj" "kj < 3"
    using holder_slot [OF tablet_of_range assms(4)] holder_slot [OF tablet_of_range assms(5)] by metis
  let ?ti = "tablets (workers cl i) ! ki" and ?tj = "tablets (workers cl j) ! kj"
  have w: "worker_wf (workers cl i)" "workerId (workers cl i) = i" "admin_workerUp (workers cl i)"
      "worker_wf (workers cl j)" "workerId (workers cl j) = j" "admin_workerUp (workers cl j)"
    using assms(1-3) holders_range [OF tablet_of_range assms(4)]
      holders_range [OF tablet_of_range assms(5)] by (auto simp: cluster_wf_def serving_def)
  have f: "tablet_find ?ti = tablet_find ?tj" using assms(6) k by (simp add: held_slot)
  then have "tablet_has_row ?ti r = tablet_has_row ?tj r"
    using worker_wf_tablet [OF w(1) k(2)] worker_wf_tablet [OF w(4) k(4)] by (intro tab.has_row_cong)
  moreover have "tablet_find ?ti r c = tablet_find ?tj r c" using f by simp
  ultimately show ?thesis
    using k w by (auto simp: Get_def tablet_has_row_def tablet_find_def split: option.splits)
qed

section \<open>Recovery from peers\<close>

lemma stream_chunks_concat:
  "fst (stream_chunks write_ok n data) = OK \<Longrightarrow> concat (snd (stream_chunks write_ok n data)) = data"
proof (induction write_ok n data rule: stream_chunks.induct)
  case (1 write_ok n data)
  then show ?case
    by (subst stream_chunks.simps) (auto simp: stream_chunks.simps [of write_ok n data] case_prod_beta Let_def
        split: if_splits)
qed

lemma stream_chunks_OK: "fst (stream_chunks (\<lambda>_. True) n data) = OK"
proof (induction "\<lambda>_::nat. True" n data rule: stream_chunks.induct)
  case (1 n data)
  then show ?case by (subst stream_chunks.simps) (auto simp: case_prod_beta Let_def)
qed

text \<open>Copying from a serving holder yields its cells.\<close>

lemma copy_from_serving:
  assumes "platform_ok P" "cluster_wf cl" "serving cl h" "h \<in> set (holders t)" "1 \<le> t" "t \<le> 6"
    "worker_fits (workers cl h)"
  shows "tablet_find (snd (deserializeTablet [] (client_CopyTablet P cl (worker_addr h) t (\<lambda>_. True))))
    = held cl h t"
proof -
  have h: "1 \<le> h" "h \<le> 6" using holders_range [OF assms(5,6,4)] by auto
  obtain k where k: "getTabletSlot h t = Some k" "k < 3" using holder_slot [OF assms(5,6,4)] .
  let ?t = "tablets (workers cl h) ! k"
  have w: "workerId (workers cl h) = h" "worker_wf (workers cl h)"
    using assms(2) h by (auto simp: cluster_wf_def)
  have wf: "tablet_wf ?t" "tablet_fits ?t"
    using worker_wf_tablet [OF w(2) k(2)] assms(7) w(2) k(2) by (auto simp: worker_fits_def worker_wf_def)
  have "client_CopyTablet P cl (worker_addr h) t (\<lambda>_. True) = serializeTablet P ?t"
    using assms(3) h w(1) k stream_chunks_concat [OF stream_chunks_OK, of 0 "serializeTablet P ?t"]
      stream_chunks_OK [of 0 "serializeTablet P ?t"]
    by (simp add: client_CopyTablet_def worker_rpc_def reach_def serving_def CopyTablet_def
        case_prod_beta Let_def)
  then show ?thesis
    using wf k by (simp add: deserialize_serialize put_rows_self assms(1) held_slot)
qed

text \<open>The hosts a recovering worker reads from the coordinator's answer.\<close>

definition host_of :: "cluster \<Rightarrow> int \<Rightarrow> string" where
  "host_of cl t = (case first_marked cl t of None \<Rightarrow> ''ALLDEAD'' | Some h \<Rightarrow> worker_addr h)"

lemma worker_addr_no_semicolon: "0 \<le> i \<Longrightarrow> CHR '';'' \<notin> set (worker_addr i)"
proof -
  assume i: "0 \<le> i"
  have "CHR '';'' \<notin> set (nat_string (nat (10000 + i)))"
    using nat_string_digits [of "nat (10000 + i)"] by (force simp: is_digit_def simp del: nat_string.simps)
  then show ?thesis
    using i by (simp add: worker_addr_def to_string_def del: nat_string.simps)
qed

lemma host_of_token:
  assumes "1 \<le> t" "t \<le> 6"
  shows "CHR '';'' \<notin> set (host_of cl t)" "host_of cl t \<noteq> []" "\<not> is_err (host_of cl t @ rest)"
proof -
  have "0 \<le> h" if "first_marked cl t = Some h" for h
    using holders_range [OF assms first_marked_holder [OF that]] by simp
  then show "CHR '';'' \<notin> set (host_of cl t)"
    using worker_addr_no_semicolon by (auto simp: host_of_def split: option.splits)
  show "host_of cl t \<noteq> []" "\<not> is_err (host_of cl t @ rest)"
    by (auto simp: host_of_def worker_addr_def is_err_def split: option.splits)
qed

lemma prev_range: "1 \<le> i \<Longrightarrow> i \<le> 6 \<Longrightarrow> 1 \<le> prev1 i \<and> prev1 i \<le> 6 \<and> 1 \<le> prev2 i \<and> prev2 i \<le> 6"
  by (erule (1) worker_id_cases) (simp_all add: ring_simps)

lemma client_WorkerLookup_hosts:
  assumes "coord_up cl" "1 \<le> i" "i \<le> 6"
  shows "getlines CHR '';'' (fst (client_WorkerLookup P cl i)) =
      [host_of cl i, host_of cl (prev1 i), host_of cl (prev2 i)]"
    and "\<not> is_err (fst (client_WorkerLookup P cl i))"
proof -
  have res: "fst (client_WorkerLookup P cl i) =
      host_of cl i @ CHR '';'' # host_of cl (prev1 i) @ CHR '';'' # host_of cl (prev2 i)"
    using assms(1) WorkerLookup_spec [of "coord cl" i]
    by (simp add: client_WorkerLookup_def case_prod_beta Let_def first_alive_spec host_of_def
        first_marked_def del: first_alive.simps find.simps)
  show "getlines CHR '';'' (fst (client_WorkerLookup P cl i)) =
      [host_of cl i, host_of cl (prev1 i), host_of cl (prev2 i)]"
    unfolding res using prev_range [OF assms(2,3)] assms(2,3)
    by (simp add: getlines_Cons_token getlines_last host_of_token)
  show "\<not> is_err (fst (client_WorkerLookup P cl i))"
    unfolding res using assms(2,3) by (rule host_of_token)
qed

lemma client_WorkerLookup_state:
  "\<exists>c. snd (client_WorkerLookup P cl i) = set_coord cl c \<and> hostMap c = hostMap (coord cl) \<and>
       marked_alive c = marked_alive (coord cl) \<and> lastHeartbeat c = lastHeartbeat (coord cl)"
proof (cases "coord_up cl")
  case True
  then show ?thesis
    by (intro exI [of _ "snd (snd (WorkerLookup (coord cl) i))"])
      (simp add: client_WorkerLookup_def set_coord_def case_prod_beta Let_def)
next
  case False
  then show ?thesis
    by (intro exI [of _ "coord cl"]) (simp add: client_WorkerLookup_def set_coord_def)
qed

section \<open>One recovered tablet\<close>

definition serving_fits :: "cluster \<Rightarrow> bool" where
  "serving_fits cl \<longleftrightarrow> (\<forall>i\<in>set worker_ids. serving cl i \<longrightarrow> worker_fits (workers cl i))"

definition serving_host :: "cluster \<Rightarrow> int \<Rightarrow> string" where
  "serving_host cl t = (case first_serving cl t of None \<Rightarrow> ''ALLDEAD'' | Some h \<Rightarrow> worker_addr h)"

lemma recoverFromLocal_shape:
  "recoverFromLocal w k = Inr w' \<Longrightarrow> \<exists>t. tablet_wf t \<and> w' = w\<lparr>tablets := (tablets w)[k := t]\<rparr>"
  by (auto simp: recoverFromLocal_disk dest: disk_tablet_wf split: option.splits)

lemma recover_tablet_shape:
  assumes "recover_tablet P net cl i host t = Inr w"
  obtains k kvs where "getTabletSlot i t = Some k" "tablet_wf kvs"
    "w = (workers cl i)\<lparr>tablets := (tablets (workers cl i))[k := kvs]\<rparr>"
    "host \<noteq> ''ALLDEAD'' \<Longrightarrow> kvs = snd (deserializeTablet [] (client_CopyTablet P cl host t net))"
proof -
  obtain k where k: "getTabletSlot i t = Some k"
    using assms by (auto simp: recover_tablet_def split: option.splits)
  show thesis
  proof (cases "host = ''ALLDEAD''")
    case True
    then have "recoverFromLocal (workers cl i) k = Inr w"
      using assms k by (simp add: recover_tablet_def)
    then show thesis using recoverFromLocal_shape that k True by blast
  next
    case False
    then have "w = (workers cl i)\<lparr>tablets := (tablets (workers cl i))
        [k := snd (deserializeTablet [] (client_CopyTablet P cl host t net))]\<rparr>"
      using assms k by (auto simp: recover_tablet_def case_prod_beta Let_def split: if_splits)
    then show thesis using that k tablet_wf_deserialize [OF tablet_wf_Nil] by blast
  qed
qed

lemma worker_wf_set_tablet:
  "worker_wf w \<Longrightarrow> tablet_wf kvs \<Longrightarrow> worker_wf (w\<lparr>tablets := (tablets w)[k := kvs]\<rparr>)"
  by (auto simp: worker_wf_def dest!: set_update_subset_insert [THEN subsetD])

lemma set_worker_serving:
  "admin_workerUp w = admin_workerUp (workers cl i) \<Longrightarrow> serving (set_worker cl i w) = serving cl"
  by (auto simp: serving_def fun_eq_iff)

lemma serving_host_cong: "serving cl' = serving cl \<Longrightarrow> serving_host cl' = serving_host cl"
  by (simp add: serving_host_def first_serving_def fun_eq_iff)

lemma recover_tablet_not_null:
  assumes "\<not> serving cl i" "1 \<le> t" "t \<le> 6"
  shows "recover_tablet P net cl i (serving_host cl t) t \<noteq> Inl Null_Client"
proof (cases "first_serving cl t")
  case None
  then show ?thesis
    by (auto simp: serving_host_def recover_tablet_def recoverFromLocal_disk split: option.splits)
next
  case (Some h)
  then have "h \<noteq> i" "1 \<le> h" "h \<le> 6"
    using first_servingD [OF Some] assms holders_range [OF assms(2,3)] by auto
  then show ?thesis
    using Some by (auto simp: serving_host_def recover_tablet_def has_client_def case_prod_beta
        Let_def split: option.splits)
qed

lemma recover_tablet_step:
  assumes "platform_ok P" "cluster_wf cl" "serving_fits cl" "\<not> serving cl i" "1 \<le> i" "i \<le> 6"
    and "1 \<le> t" "t \<le> 6"
    and "recover_tablet P (\<lambda>_. True) cl i (serving_host cl t) t = Inr w"
  shows "cluster_wf (set_worker cl i w)"
    and "serving (set_worker cl i w) = serving cl"
    and "first_serving cl t = Some h \<Longrightarrow> held (set_worker cl i w) i t = held cl h t"
    and "t' \<noteq> t \<Longrightarrow> held (set_worker cl i w) i t' = held cl i t'"
proof -
  let ?wi = "workers cl i"
  obtain k kvs where k: "getTabletSlot i t = Some k" and kvs: "tablet_wf kvs"
      and w: "w = ?wi\<lparr>tablets := (tablets ?wi)[k := kvs]\<rparr>"
      and copy: "serving_host cl t \<noteq> ''ALLDEAD'' \<Longrightarrow>
        kvs = snd (deserializeTablet [] (client_CopyTablet P cl (serving_host cl t) t (\<lambda>_. True)))"
    using recover_tablet_shape [OF assms(9)] by blast
  have wi: "worker_wf ?wi" "workerId ?wi = i" using assms(2,5,6) by (auto simp: cluster_wf_def)
  have len: "length (tablets ?wi) = 3" using wi(1) by (rule worker_wf_lengths)
  show "serving (set_worker cl i w) = serving cl" by (rule set_worker_serving) (simp add: w)
  show "cluster_wf (set_worker cl i w)"
    using assms(2) worker_wf_set_tablet [OF wi(1) kvs] wi(2) by (simp add: cluster_wf_def w)
  show "held (set_worker cl i w) i t = held cl h t" if h: "first_serving cl t = Some h"
  proof -
    have "serving cl h" "h \<in> set (holders t)" using first_servingD [OF h] by auto
    moreover from this have "worker_fits (workers cl h)"
      using assms(3) holders_range [OF assms(7,8)] by (auto simp: serving_fits_def in_worker_ids)
    ultimately have "tablet_find kvs = held cl h t"
      using copy copy_from_serving [OF assms(1,2) _ _ assms(7,8)] h by (simp add: serving_host_def)
    then show ?thesis using k len slot_less_3 [OF k] by (simp add: held_def w)
  qed
  show "held (set_worker cl i w) i t' = held cl i t'" if "t' \<noteq> t"
  proof -
    have "k \<noteq> k'" if "getTabletSlot i t' = Some k'" for k'
      using slot_inject [OF assms(5,6) k] that \<open>t' \<noteq> t\<close> by blast
    then show ?thesis by (simp add: held_def w split: option.split)
  qed
qed

fun ring_chain :: "int \<Rightarrow> int list \<Rightarrow> bool" where
  "ring_chain t [] = True"
| "ring_chain t (x # xs) = (x = t \<and> ring_chain (prev1 t) xs)"

lemma recover_hosts_spec:
  assumes "platform_ok P" "cluster_wf cl" "serving_fits cl" "\<not> serving cl i" "1 \<le> i" "i \<le> 6"
    and "\<forall>t\<in>set ts. 1 \<le> t \<and> t \<le> 6" "distinct ts" "ring_chain t0 ts"
    and "recover_hosts P (\<lambda>_. True) cl i (map (serving_host cl) ts) t0 = (died, cl')"
  shows "cluster_wf cl' \<and> serving cl' = serving cl \<and> running cl' = running cl \<and>
    coord cl' = coord cl \<and> coord_up cl' = coord_up cl \<and> (\<forall>j. j \<noteq> i \<longrightarrow> workers cl' j = workers cl j) \<and>
    died \<noteq> Some Null_Client \<and>
    (died = None \<longrightarrow> (\<forall>t\<in>set ts. \<forall>h. first_serving cl t = Some h \<longrightarrow> held cl' i t = held cl h t)) \<and>
    (\<forall>t. t \<notin> set ts \<longrightarrow> held cl' i t = held cl i t)"
  using assms(2-4,7-10)
proof (induction ts arbitrary: cl t0)
  case (Cons t ts)
  have t: "t = t0" "1 \<le> t" "t \<le> 6" using Cons.prems by auto
  show ?case
  proof (cases "recover_tablet P (\<lambda>_. True) cl i (serving_host cl t) t")
    case (Inl e)
    then show ?thesis
      using Cons.prems t recover_tablet_not_null [OF Cons.prems(3) t(2,3)] by auto
  next
    case (Inr w)
    let ?cl = "set_worker cl i w"
    note st = recover_tablet_step [OF assms(1) Cons.prems(1-3) assms(5,6) t(2,3) Inr]
    have fits: "serving_fits ?cl"
      using Cons.prems(2,3) by (auto simp: serving_fits_def st(2))
    have "recover_hosts P (\<lambda>_. True) ?cl i (map (serving_host ?cl) ts) (prev1 t0) = (died, cl')"
      using Cons.prems(7) Inr t(1) by (simp add: serving_host_cong [OF st(2)])
    note IH = Cons.IH [OF st(1) fits _ _ _ _ this]
    have fs: "first_serving ?cl = first_serving cl"
      by (simp add: first_serving_def st(2) fun_eq_iff)
    have held: "held ?cl h t' = held cl h t'" if "first_serving cl t' = Some h" for h t'
      using first_servingD [OF that] Cons.prems(3) by (intro held_cong) auto
    show ?thesis
      using IH Cons.prems(3-6) t st(2-4) fs held by auto
  qed
qed auto

text \<open>With a readable disk the recovery of a worker comes to its end, and leaves the disk alone.\<close>

definition disk_readable :: "worker \<Rightarrow> bool" where
  "disk_readable w \<longleftrightarrow> (\<forall>k<3. disk_tablet (checkpoints w ! k) (loggers w ! k) \<noteq> None)"

lemma recover_tablet_succeeds:
  assumes "disk_readable (workers cl i)" "\<not> serving cl i" "1 \<le> t" "t \<le> 6" "i \<in> set (holders t)"
  obtains w where "recover_tablet P net cl i (serving_host cl t) t = Inr w"
    "disk_readable w" "admin_workerUp w = admin_workerUp (workers cl i)"
proof -
  obtain k where k: "getTabletSlot i t = Some k" "k < 3" using holder_slot [OF assms(3-5)] .
  have "\<exists>w. recover_tablet P net cl i (serving_host cl t) t = Inr w"
  proof (cases "first_serving cl t")
    case None
    then show ?thesis
      using k assms(1) by (auto simp: serving_host_def recover_tablet_def recoverFromLocal_disk
          disk_readable_def)
  next
    case (Some h)
    then have "h \<noteq> i" "1 \<le> h" "h \<le> 6"
      using first_servingD [OF Some] assms(2) holders_range [OF assms(3,4)] by auto
    then show ?thesis
      using Some k by (simp add: serving_host_def recover_tablet_def has_client_def case_prod_beta Let_def)
  qed
  then obtain w where w: "recover_tablet P net cl i (serving_host cl t) t = Inr w" ..
  obtain k' kvs where "w = (workers cl i)\<lparr>tablets := (tablets (workers cl i))[k' := kvs]\<rparr>"
    using recover_tablet_shape [OF w] .
  then show thesis using that w assms(1) by (simp add: disk_readable_def)
qed

lemma recover_hosts_succeeds:
  assumes "disk_readable (workers cl i)" "\<not> serving cl i"
    and "\<forall>t\<in>set ts. 1 \<le> t \<and> t \<le> 6 \<and> i \<in> set (holders t)" "ring_chain t0 ts"
  shows "fst (recover_hosts P net cl i (map (serving_host cl) ts) t0) = None \<and>
    admin_workerUp (workers (snd (recover_hosts P net cl i (map (serving_host cl) ts) t0)) i) =
      admin_workerUp (workers cl i)"
  using assms
proof (induction ts arbitrary: cl t0)
  case (Cons t ts)
  then obtain w where w: "recover_tablet P net cl i (serving_host cl t) t = Inr w"
      "disk_readable w" "admin_workerUp w = admin_workerUp (workers cl i)"
    using recover_tablet_succeeds [of cl i t P net] by auto
  have s: "serving (set_worker cl i w) = serving cl" using w(3) by (rule set_worker_serving)
  show ?case
    using Cons.IH [of "set_worker cl i w" "prev1 t0"] Cons.prems w
    by (simp add: s serving_host_cong [OF s])
qed simp

section \<open>A recovered worker\<close>

lemma recoverAllTablets_spec:
  assumes "platform_ok P" "cluster_wf cl" "serving_fits cl" "view_exact cl" "\<not> serving cl i"
    and "1 \<le> i" "i \<le> 6" "recoverAllTablets P (\<lambda>_. True) cl i = (died, cl')"
  shows "cluster_wf cl' \<and> serving cl' = serving cl \<and> running cl' = running cl \<and>
    (\<forall>j. j \<noteq> i \<longrightarrow> workers cl' j = workers cl j) \<and> died \<noteq> Some Null_Client \<and>
    (died = None \<longrightarrow> (\<forall>t. i \<in> set (holders t) \<longrightarrow> 1 \<le> t \<longrightarrow> t \<le> 6 \<longrightarrow>
       (\<forall>h. first_serving cl t = Some h \<longrightarrow> held cl' i t = held cl h t)))"
proof (cases "coord_up cl")
  case False
  then show ?thesis
    using assms by (auto simp: recoverAllTablets_def client_WorkerLookup_def master_unreachable_def)
next
  case True
  let ?ts = "[i, prev1 i, prev2 i]"
  obtain c where c: "snd (client_WorkerLookup P cl i) = set_coord cl c" "hostMap c = hostMap (coord cl)"
    using client_WorkerLookup_state [of P cl i] by blast
  let ?cl = "set_coord cl c"
  have range: "\<forall>t\<in>set ?ts. 1 \<le> t \<and> t \<le> 6" using prev_range [OF assms(6,7)] assms(6,7) by simp
  have hosts: "host_of cl t = serving_host ?cl t" if "t \<in> set ?ts" for t
  proof -
    have "first_marked cl t = first_serving cl t"
      by (rule view_exact_first [OF assms(4)]) (use range that in blast)+
    then show ?thesis by (simp add: host_of_def serving_host_def)
  qed
  have run: "recover_hosts P (\<lambda>_. True) ?cl i (map (serving_host ?cl) ?ts) i = (died, cl')"
    using assms(8) client_WorkerLookup_hosts [OF True assms(6,7), of P] hosts c(1)
    by (simp add: recoverAllTablets_def case_prod_beta Let_def del: recover_hosts.simps)
  have ring: "distinct ?ts" "ring_chain i ?ts"
    using assms(6,7) by (auto elim!: worker_id_cases simp: ring_simps)
  have "cluster_wf ?cl" "serving_fits ?cl" "\<not> serving ?cl i"
    using assms c(2) by (simp_all add: serving_fits_def)
  note recover_hosts_spec [OF assms(1) this assms(6,7) range ring run]
  moreover have "t \<in> set ?ts" if "i \<in> set (holders t)" "1 \<le> t" "t \<le> 6" for t
    using that assms(6,7) by (auto elim!: worker_id_cases simp: ring_simps)
  ultimately show ?thesis
    by (simp only: set_coord_fields set_coord_worker_view set_coord_frame) blast
qed

lemma agree_join:
  assumes "agree cl" "\<And>j. serving cl' j \<Longrightarrow> j \<noteq> i \<Longrightarrow> serving cl j"
    and "\<And>j. j \<noteq> i \<Longrightarrow> workers cl' j = workers cl j" "\<not> serving cl i"
    and "\<And>t h. i \<in> set (holders t) \<Longrightarrow> 1 \<le> t \<Longrightarrow> t \<le> 6 \<Longrightarrow> first_serving cl t = Some h \<Longrightarrow>
           held cl' i t = held cl h t"
  shows "agree cl'"
proof -
  have same: "held cl' j t = held cl j t" if "j \<noteq> i" for j t
    using assms(3) that by (intro held_cong) simp
  have joined: "held cl' i t = held cl b t"
    if prem: "1 \<le> t" "t \<le> 6" "i \<in> set (holders t)" "b \<in> set (holders t)" "serving cl b" for b t
  proof -
    obtain h where h: "first_serving cl t = Some h"
      using prem(4,5) by (rule first_serving_ex)
    then have "held cl h t = held cl b t"
      using first_servingD [OF h] assms(1) prem(1,2,4,5) unfolding agree_def by blast
    then show ?thesis using assms(5) [OF prem(3,1,2) h] by simp
  qed
  show ?thesis
    unfolding agree_def
  proof (intro allI impI ballI)
    fix t a b
    assume t: "1 \<le> t" "t \<le> 6" and ab: "a \<in> set (holders t)" "b \<in> set (holders t)"
      and s: "serving cl' a" "serving cl' b"
    show "held cl' a t = held cl' b t"
    proof (cases "a = i \<or> b = i")
      case True
      then show ?thesis using joined [OF t] same ab s assms(2) by metis
    next
      case False
      then have "held cl a t = held cl b t"
        using assms(1,2) t ab s unfolding agree_def by blast
      then show ?thesis using same False by simp
    qed
  qed
qed

lemma agree_mono:
  assumes "agree cl" "\<And>j. serving cl' j \<Longrightarrow> serving cl j"
    and "\<And>j t. serving cl' j \<Longrightarrow> held cl' j t = held cl j t"
  shows "agree cl'"
  unfolding agree_def
proof (intro allI impI ballI)
  fix t a b
  assume t: "1 \<le> t" "t \<le> 6" "a \<in> set (holders t)" "b \<in> set (holders t)"
    and s: "serving cl' a" "serving cl' b"
  then have "held cl a t = held cl b t"
    using assms(1) assms(2) [OF s(1)] assms(2) [OF s(2)] unfolding agree_def by blast
  then show "held cl' a t = held cl' b t" using assms(3) s by simp
qed

lemma agree_fewer:
  assumes "agree cl" "\<And>j. serving cl' j \<Longrightarrow> serving cl j"
    and "\<And>j. tablets (workers cl' j) = tablets (workers cl j)"
  shows "agree cl'"
proof -
  have "held cl' = held cl" using assms(3) by (simp add: held_def fun_eq_iff split: option.split)
  with assms(1) show ?thesis by (elim agree_mono) (simp_all add: assms(2))
qed

section \<open>The transition system\<close>

text \<open>
  An event is one call of a client or an administrator, one pass of a thread, or the start or crash of
  a process; \<open>perform\<close> runs the code of the event, and \<open>possible\<close> holds only what the event needs by
  its nature: a process has to run to send a heartbeat or to answer the administrator, and it is
  started when it does not run. \<open>cluster_step\<close> has no other condition.
\<close>

definition initial_cluster :: "int \<Rightarrow> cluster" where
  "initial_cluster now =
     \<lparr>coord = master_init (loadHostMap Map.empty hosts_txt) now, coord_up = True,
      workers = fresh_worker, running = (\<lambda>_. False)\<rparr>"

datatype cluster_event =
    Cl_Write update_request
  | Cl_Read string string
  | Cl_Heartbeat int int
  | Cl_Monitor int
  | Cl_Kill int
  | Cl_Coord_Kill
  | Cl_Coord_Start int
  | Cl_Start int "nat \<Rightarrow> bool"
  | Cl_Admin int "nat \<Rightarrow> bool" string string

fun perform :: "platform \<Rightarrow> cluster \<Rightarrow> cluster_event \<Rightarrow> cluster" where
  "perform P cl (Cl_Write q) = snd (client_write P cl q)"
| "perform P cl (Cl_Read row column) = snd (client_read P cl row column)"
| "perform P cl (Cl_Heartbeat i now) = heartbeat_pass P cl i now"
| "perform P cl (Cl_Monitor now) = set_coord cl (monitor_pass (coord cl) now)"
| "perform P cl (Cl_Kill i) = kill cl i"
| "perform P cl Cl_Coord_Kill = cl\<lparr>coord_up := False\<rparr>"
| "perform P cl (Cl_Coord_Start now) = cl\<lparr>coord := coord (initial_cluster now), coord_up := True\<rparr>"
| "perform P cl (Cl_Start i net) = snd (start_worker P net cl i)"
| "perform P cl (Cl_Admin i net password command) = snd (AdminConsole P net cl i password command)"

fun possible :: "cluster \<Rightarrow> cluster_event \<Rightarrow> bool" where
  "possible cl (Cl_Heartbeat i now) = running cl i"
| "possible cl (Cl_Start i net) = (i \<in> set worker_ids \<and> \<not> running cl i)"
| "possible cl (Cl_Admin i net password command) = (i \<in> set worker_ids \<and> running cl i)"
| "possible cl e = True"

inductive cluster_step :: "platform \<Rightarrow> cluster \<Rightarrow> cluster_event \<Rightarrow> cluster \<Rightarrow> bool" for P where
  Event: "possible cl e \<Longrightarrow> cluster_step P cl e (perform P cl e)"

inductive_cases cluster_stepE: "cluster_step P cl e cl'"

text \<open>
  The states that runs from empty disks reach, when every event \<open>e\<close> of the run satisfies \<open>C\<close> in the
  state \<open>cl\<close> where it happens. With \<open>C\<close> always true these are all states of the program.
\<close>

inductive reachable :: "platform \<Rightarrow> (cluster \<Rightarrow> cluster_event \<Rightarrow> bool) \<Rightarrow> cluster \<Rightarrow> bool" for P C where
  Init: "reachable P C (initial_cluster now)"
| Step: "\<lbrakk>reachable P C cl; C cl e; cluster_step P cl e cl'\<rbrakk> \<Longrightarrow> reachable P C cl'"

text \<open>
  Timeliness, which no code enforces: clients write only while every serving worker is marked alive
  at the coordinator, and a worker recovers, at its start or by the administrator's \<^verbatim>\<open>RESTART\<close>, only
  while the marks are exact, the sizes of the stored data fit the 32 bit length fields, and
  the streams of tablet copies are not cut. Everything else may happen at any time.
\<close>

definition recovery_timely :: "cluster \<Rightarrow> (nat \<Rightarrow> bool) \<Rightarrow> bool" where
  "recovery_timely cl net \<longleftrightarrow> net = (\<lambda>_. True) \<and> view_exact cl \<and> serving_fits cl"

fun timely :: "cluster \<Rightarrow> cluster_event \<Rightarrow> bool" where
  "timely cl (Cl_Write q) = view_complete cl"
| "timely cl (Cl_Start i net) = recovery_timely cl net"
| "timely cl (Cl_Admin i net password command) = (command = ''RESTART'' \<longrightarrow> recovery_timely cl net)"
| "timely cl e = True"

abbreviation any_time :: "cluster \<Rightarrow> cluster_event \<Rightarrow> bool" where
  "any_time cl e \<equiv> True"

lemma reachable_mono:
  "reachable P C cl \<Longrightarrow> (\<And>cl e. C cl e \<Longrightarrow> C' cl e) \<Longrightarrow> reachable P C' cl"
  by (induction rule: reachable.induct) (auto intro: reachable.intros)

text \<open>A run is a list of events; \<open>perform_all\<close> executes it.\<close>

definition perform_all :: "platform \<Rightarrow> cluster \<Rightarrow> cluster_event list \<Rightarrow> cluster" where
  "perform_all P = foldl (perform P)"

fun run_allowed ::
  "platform \<Rightarrow> (cluster \<Rightarrow> cluster_event \<Rightarrow> bool) \<Rightarrow> cluster \<Rightarrow> cluster_event list \<Rightarrow> bool" where
  "run_allowed P C cl [] = True"
| "run_allowed P C cl (e # es) =
     (possible cl e \<and> C cl e \<and> run_allowed P C (perform P cl e) es)"

lemma reachable_run:
  "reachable P C cl \<Longrightarrow> run_allowed P C cl es \<Longrightarrow> reachable P C (perform_all P cl es)"
  unfolding perform_all_def
  by (induction es arbitrary: cl) (auto intro: reachable.Step cluster_step.Event)

definition consistent :: "cluster \<Rightarrow> bool" where
  "consistent cl \<longleftrightarrow> cluster_wf cl \<and> agree cl"

lemma hosts_ok_cong: "hostMap c = hostMap c' \<Longrightarrow> hosts_ok c = hosts_ok c'"
  by (simp add: hosts_ok_def)

lemma crash_wf: "worker_wf w \<Longrightarrow> worker_wf (crash w)"
  by (simp add: worker_wf_def crash_def)

lemma kill_frame [simp]:
  "workers (kill cl i) = workers cl" "coord (kill cl i) = coord cl"
  "serving (kill cl i) j \<longleftrightarrow> j \<noteq> i \<and> serving cl j"
  by (auto simp: kill_def serving_def)

lemma consistent_initial: "consistent (initial_cluster now)"
proof -
  have "cluster_wf (initial_cluster now)"
    using wal_inv_fresh hosts_ok_hosts_txt
    by (auto simp: cluster_wf_def initial_cluster_def wal_inv_def fresh_worker_def)
  then show ?thesis by (simp add: consistent_def agree_def serving_def initial_cluster_def)
qed

lemma consistent_kill: "consistent cl \<Longrightarrow> consistent (kill cl i)"
  by (auto simp: consistent_def cluster_wf_def intro: agree_fewer)

lemma consistent_set_admin_off: "consistent cl \<Longrightarrow> consistent (set_admin cl i False)"
  unfolding consistent_def
proof (intro conjI; elim conjE)
  show "agree cl \<Longrightarrow> agree (set_admin cl i False)"
    by (erule agree_fewer) (auto simp: set_admin_def serving_def split: if_splits)
qed (auto simp: set_admin_def cluster_wf_def worker_wf_def)

lemma consistent_start:
  assumes "platform_ok P" "consistent cl" "\<not> running cl i" "i \<in> set worker_ids" "view_exact cl"
    "serving_fits cl"
  shows "consistent (snd (start_worker P (\<lambda>_. True) cl i))"
proof -
  let ?cl = "set_worker cl i (crash (workers cl i))"
  obtain died cl' where r: "recoverAllTablets P (\<lambda>_. True) ?cl i = (died, cl')" by fastforce
  have i: "1 \<le> i" "i \<le> 6" using assms(4) by (auto simp: in_worker_ids)
  have s: "serving ?cl = serving cl" using assms(3) by (auto simp: serving_def fun_eq_iff)
  have h: "held ?cl j t = held cl j t" if "serving cl j" for j t
    using that assms(3) by (intro held_cong) (auto simp: serving_def)
  have "cluster_wf ?cl" "serving_fits ?cl" "view_exact ?cl" "\<not> serving ?cl i"
    using assms s crash_wf [of "workers cl i"]
    by (auto simp: consistent_def cluster_wf_def serving_fits_def view_exact_def serving_def crash_def)
  note spec = recoverAllTablets_spec [OF assms(1) this i r]
  let ?res = "cl'\<lparr>running := (running cl')(i := True)\<rparr>"
  have wf: "cluster_wf cl'" "cluster_wf ?res" using spec by (auto simp: cluster_wf_def)
  have "agree cl" using assms(2) by (simp add: consistent_def)
  then have "agree ?cl" by (rule agree_mono) (simp_all only: s h)
  show ?thesis
  proof (cases died)
    case None
    have "agree ?res"
      using \<open>agree ?cl\<close>
    proof (rule agree_join)
      fix t h' assume "i \<in> set (holders t)" "1 \<le> t" "t \<le> 6" "first_serving ?cl t = Some h'"
      then have "held cl' i t = held ?cl h' t" using spec None by blast
      moreover have "held ?res i t = held cl' i t" by (rule held_cong) simp
      ultimately show "held ?res i t = held ?cl h' t" by simp
    qed (use spec s assms(3) in \<open>auto simp: serving_def split: if_splits\<close>)
    then show ?thesis using None r wf by (simp add: start_worker_def consistent_def)
  next
    case (Some e)
    have "agree cl'"
      using \<open>agree ?cl\<close>
    proof (rule agree_mono)
      fix j t assume "serving cl' j"
      then have "workers cl' j = workers ?cl j" using spec s assms(3) by (auto simp: serving_def)
      then show "held cl' j t = held ?cl j t" by (rule held_cong)
    qed (use spec in simp)
    then show ?thesis
      using Some r wf consistent_kill [of cl' i] by (simp add: start_worker_def consistent_def)
  qed
qed

lemma consistent_admin:
  assumes "platform_ok P" "consistent cl" "i \<in> set worker_ids" "running cl i"
    "command = ''RESTART'' \<longrightarrow> recovery_timely cl net"
  shows "consistent (snd (AdminConsole P net cl i password command))"
proof (cases "password = ADMIN_PASS \<and> command = ''RESTART'' \<and> \<not> admin_workerUp (workers cl i)")
  case False
  then show ?thesis
    using assms(2) consistent_set_admin_off [OF assms(2)]
    by (auto simp: AdminConsole_def split: prod.splits option.splits)
next
  case True
  have t: "net = (\<lambda>_. True)" "view_exact cl" "serving_fits cl"
    using True assms(5) by (auto simp: recovery_timely_def)
  obtain died cl' where r: "recoverAllTablets P (\<lambda>_. True) cl i = (died, cl')" by fastforce
  have i: "1 \<le> i" "i \<le> 6" using assms(3) by (auto simp: in_worker_ids)
  have ns: "\<not> serving cl i" using True by (simp add: serving_def)
  have wf: "cluster_wf cl" "agree cl" using assms(2) by (auto simp: consistent_def)
  note spec = recoverAllTablets_spec [OF assms(1) wf(1) t(3,2) ns i r]
  have spec': "cluster_wf cl'" "serving cl' = serving cl" "\<And>j. j \<noteq> i \<Longrightarrow> workers cl' j = workers cl j"
    using spec by auto
  show ?thesis
  proof (cases died)
    case None
    let ?res = "set_admin cl' i True"
    have "agree ?res"
      using wf(2)
    proof (rule agree_join)
      fix t h assume "i \<in> set (holders t)" "1 \<le> t" "t \<le> 6" "first_serving cl t = Some h"
      then have "held cl' i t = held cl h t" using spec None by blast
      moreover have "held ?res i t = held cl' i t"
        by (simp add: held_def set_admin_def split: option.split)
      ultimately show "held ?res i t = held cl h t" by simp
    next
      fix j assume "serving ?res j" "j \<noteq> i"
      then have "serving cl' j" by (simp add: serving_def set_admin_def)
      then show "serving cl j" by (simp only: spec'(2))
    qed (use spec'(3) ns in \<open>auto simp: set_admin_def\<close>)
    moreover have "cluster_wf ?res"
      using spec'(1) by (auto simp: cluster_wf_def set_admin_def worker_wf_def)
    ultimately show ?thesis using True None r t(1) by (simp add: AdminConsole_def consistent_def)
  next
    case (Some e)
    have "agree cl'"
      using wf(2)
    proof (rule agree_mono)
      fix j t assume j: "serving cl' j"
      then have "j \<noteq> i" using ns by (auto simp: spec'(2))
      then show "held cl' j t = held cl j t" using spec'(3) by (intro held_cong) simp
    qed (simp only: spec'(2))
    then have "consistent (kill cl' i)"
      using spec'(1) consistent_kill by (simp add: consistent_def)
    then show ?thesis using True Some r t(1) by (simp add: AdminConsole_def)
  qed
qed

lemma consistent_set_coord:
  "consistent cl \<Longrightarrow> hostMap c = hostMap (coord cl) \<Longrightarrow> consistent (set_coord cl c)"
  by (simp add: consistent_def)

lemma heartbeat_set_coord:
  "\<exists>c. heartbeat_pass P cl i now = set_coord cl c \<and> hostMap c = hostMap (coord cl)"
  by (cases "admin_workerUp (workers cl i) \<and> coord_up cl")
    (auto simp: heartbeat_pass_def client_Heartbeat_def Heartbeat_def set_coord_def
      intro: exI [of _ "coord cl"])

lemma consistent_perform:
  assumes "platform_ok P" "consistent cl" "possible cl e" "timely cl e"
  shows "consistent (perform P cl e)"
proof (cases e)
  case (Cl_Write q)
  then show ?thesis using assms(2,4) client_write_inv by (simp add: consistent_def)
next
  case (Cl_Read row column)
  then show ?thesis using assms(2) by (simp add: consistent_def client_read_state)
next
  case (Cl_Heartbeat i now)
  then show ?thesis
    using assms(2) consistent_set_coord heartbeat_set_coord [of P cl i now] by fastforce
next
  case (Cl_Monitor now)
  then show ?thesis using assms(2) consistent_set_coord by (simp add: monitor_pass_def)
next
  case Cl_Coord_Kill
  then show ?thesis
    using assms(2) agree_fewer [of cl "perform P cl e"]
    by (simp add: consistent_def cluster_wf_def serving_def)
next
  case (Cl_Coord_Start now)
  then show ?thesis
    using assms(2) agree_fewer [of cl "perform P cl e"] consistent_initial [of now]
    by (simp add: consistent_def cluster_wf_def serving_def)
next
  case (Cl_Kill i)
  then show ?thesis using assms(2) by (simp add: consistent_kill)
next
  case (Cl_Start i net)
  then show ?thesis
    using consistent_start [OF assms(1,2)] assms(3,4) by (simp add: recovery_timely_def)
next
  case (Cl_Admin i net password command)
  then show ?thesis using consistent_admin [OF assms(1,2)] assms(3,4) by simp
qed

lemma consistent_reachable:
  assumes "platform_ok P" "reachable P timely cl"
  shows "consistent cl"
  using assms(2)
  by induction (auto elim!: cluster_stepE intro: consistent_initial consistent_perform [OF assms(1)])

end
