(* ===== verification/Boot.thy ===== *)
theory Boot
  imports Consistency
begin

text \<open>
  Bringing a cluster up on empty disks: each worker starts, sends a heartbeat, and the next monitor
  pass marks it alive. Every stage is reached by a timely run, and after the last worker the store is
  healthy: the coordinator runs, its marks are exact and every tablet has a serving holder.
\<close>

definition healthy :: "cluster \<Rightarrow> bool" where
  "healthy cl \<longleftrightarrow>
     consistent cl \<and> coord_up cl \<and> view_exact cl \<and>
     (\<forall>t\<in>set worker_ids. first_serving cl t \<noteq> None)"

section \<open>One worker joins\<close>

text \<open>The workers in \<open>S\<close> run, nothing is stored, and their heartbeats are from time 0.\<close>

definition booted :: "platform \<Rightarrow> int set \<Rightarrow> cluster \<Rightarrow> bool" where
  "booted P S cl \<longleftrightarrow>
     reachable P timely cl \<and> coord_up cl \<and> workers cl = fresh_worker \<and> running cl = (\<lambda>i. i \<in> S) \<and>
     (\<forall>i\<in>set worker_ids. marked_alive (coord cl) i \<longleftrightarrow> i \<in> S) \<and>
     (\<forall>i\<in>set worker_ids.
        lastHeartbeat (coord cl) i = Some (if i \<in> S then 0 else - 3600 * 1000000000))"

definition boot :: "platform \<Rightarrow> cluster \<Rightarrow> int \<Rightarrow> cluster" where
  "boot P cl i =
     (let cl1 = heartbeat_pass P (snd (start_worker P (\<lambda>_. True) cl i)) i 0
      in set_coord cl1 (monitor_pass (coord cl1) 0))"

lemma booted_serving: "booted P S cl \<Longrightarrow> serving cl i \<longleftrightarrow> i \<in> S"
  by (simp add: booted_def serving_def fresh_worker_def)

lemma booted_view_exact: "booted P S cl \<Longrightarrow> view_exact cl"
  using booted_serving by (auto simp: booted_def view_exact_def)

lemma booted_fits: "booted P S cl \<Longrightarrow> serving_fits cl"
  by (simp add: booted_def serving_fits_def fresh_worker_def worker_fits_def)

lemma booted_initial: "booted P {} (initial_cluster 0)"
  unfolding booted_def
proof (intro conjI)
  show "reachable P timely (initial_cluster 0)" by (rule reachable.Init)
qed (auto simp: initial_cluster_def marked_alive_def master_init_def worker_ids_def)

lemma crash_fresh: "crash (fresh_worker i) = fresh_worker i"
  by (simp add: crash_def fresh_worker_def)

lemma fresh_set_tablet:
  "k < 3 \<Longrightarrow> (fresh_worker i)\<lparr>tablets := (tablets (fresh_worker i))[k := []]\<rparr> = fresh_worker i"
  by (auto simp: fresh_worker_def less_Suc_eq numeral_3_eq_3)

lemma fresh_disk: "k < 3 \<Longrightarrow>
    disk_tablet (checkpoints (fresh_worker i) ! k) (loggers (fresh_worker i) ! k) = Some []"
  by (auto simp: fresh_worker_def disk_tablet_def retrieveCheckpoint_def deserializeTablet_def
      getLogs_Nil less_Suc_eq numeral_3_eq_3)

lemma recover_tablet_fresh:
  assumes "platform_ok P" "workers cl = fresh_worker" "\<not> serving cl i"
    and "1 \<le> i" "i \<le> 6" "1 \<le> t" "t \<le> 6" "i \<in> set (holders t)"
  shows "recover_tablet P (\<lambda>_. True) cl i (serving_host cl t) t = Inr (fresh_worker i)"
proof -
  obtain k where k: "getTabletSlot i t = Some k" "k < 3" using holder_slot [OF assms(6-8)] .
  show ?thesis
  proof (cases "first_serving cl t")
    case None
    then show ?thesis
      using k assms(2) fresh_disk [of k i] fresh_set_tablet [of k i]
      by (simp add: serving_host_def recover_tablet_def recoverFromLocal_disk)
  next
    case (Some h)
    have h: "h \<in> set (holders t)" "serving cl h" "h \<noteq> i" using first_servingD [OF Some] assms(3) by auto
    obtain k' where k': "getTabletSlot h t = Some k'" "k' < 3" using holder_slot [OF assms(6,7) h(1)] .
    have "tablets (fresh_worker h) ! k' = []"
      using k'(2) by (auto simp: fresh_worker_def less_Suc_eq numeral_3_eq_3)
    then have "client_CopyTablet P cl (worker_addr h) t (\<lambda>_. True) = serializeTablet P []"
      using h(2) holders_range [OF assms(6,7) h(1)] assms(2) k'(1)
        stream_chunks_OK [of 0 "serializeTablet P []"]
        stream_chunks_concat [OF stream_chunks_OK, of 0 "serializeTablet P []"]
      by (simp add: client_CopyTablet_def worker_rpc_def reach_def serving_def CopyTablet_def
          fresh_worker_def case_prod_beta Let_def)
    moreover have "row_order P [] = []"
      using platform_ok_lengths(1) [OF assms(1), of "[]"] by simp
    ultimately have "deserializeTablet [] (client_CopyTablet P cl (worker_addr h) t (\<lambda>_. True)) = (True, [])"
      using deserialize_serialize [OF assms(1) tablet_fits_Nil] by simp
    then show ?thesis
      using k assms(2) Some h(3) holders_range [OF assms(6,7) h(1)] fresh_set_tablet [of k i]
      by (simp add: serving_host_def recover_tablet_def has_client_def)
  qed
qed

lemma set_worker_same [simp]: "workers cl i = w \<Longrightarrow> set_worker cl i w = cl"
  by (auto simp: set_worker_def)

lemma recover_hosts_fresh:
  assumes "platform_ok P" "workers cl = fresh_worker" "\<not> serving cl i" "1 \<le> i" "i \<le> 6"
    and "\<forall>t\<in>set ts. 1 \<le> t \<and> t \<le> 6 \<and> i \<in> set (holders t)" "ring_chain t0 ts"
  shows "recover_hosts P (\<lambda>_. True) cl i (map (serving_host cl) ts) t0 = (None, cl)"
  using assms(6,7)
proof (induction ts arbitrary: t0)
  case (Cons t ts)
  then have "recover_tablet P (\<lambda>_. True) cl i (serving_host cl t) t0 = Inr (fresh_worker i)"
    using recover_tablet_fresh [OF assms(1-5), of t] by simp
  then show ?case using Cons assms(2) by simp
qed simp

lemma start_booted:
  assumes "platform_ok P" "booted P S cl" "i \<in> set worker_ids" "i \<notin> S"
  obtains c where "start_worker P (\<lambda>_. True) cl i =
      (None, (set_coord cl c)\<lparr>running := (running cl)(i := True)\<rparr>)"
    "lastHeartbeat c = lastHeartbeat (coord cl)" "hostMap c = hostMap (coord cl)"
proof -
  have i: "1 \<le> i" "i \<le> 6" using assms(3) by (auto simp: in_worker_ids)
  have cl: "workers cl = fresh_worker" "coord_up cl" "\<not> serving cl i"
    using assms(2,4) booted_serving [OF assms(2)] by (auto simp: booted_def)
  let ?ts = "[i, prev1 i, prev2 i]"
  have ts: "\<forall>t\<in>set ?ts. 1 \<le> t \<and> t \<le> 6 \<and> i \<in> set (holders t)" "ring_chain i ?ts"
    using i by (auto elim!: worker_id_cases simp: ring_simps)
  obtain c where c: "snd (client_WorkerLookup P cl i) = set_coord cl c"
      "lastHeartbeat c = lastHeartbeat (coord cl)" "hostMap c = hostMap (coord cl)"
    using client_WorkerLookup_state [of P cl i] by blast
  have hosts: "host_of cl t = serving_host (set_coord cl c) t" if "t \<in> set ?ts" for t
    using view_exact_first [OF booted_view_exact [OF assms(2)], of t] ts(1) that
    by (auto simp: host_of_def serving_host_def)
  have "recoverAllTablets P (\<lambda>_. True) cl i = (None, set_coord cl c)"
    using client_WorkerLookup_hosts [OF cl(2) i, of P] c(1) hosts
      recover_hosts_fresh [OF assms(1) _ _ i ts, of "set_coord cl c"] cl
    by (simp add: recoverAllTablets_def case_prod_beta Let_def del: recover_hosts.simps)
  then have "start_worker P (\<lambda>_. True) cl i =
      (None, (set_coord cl c)\<lparr>running := (running cl)(i := True)\<rparr>)"
    using cl(1) by (simp add: start_worker_def crash_fresh)
  then show thesis using that c by blast
qed

lemma booted_boot:
  assumes "platform_ok P" "booted P S cl" "i \<in> set worker_ids" "i \<notin> S"
  shows "booted P (insert i S) (boot P cl i)"
proof -
  obtain c where st: "start_worker P (\<lambda>_. True) cl i =
      (None, (set_coord cl c)\<lparr>running := (running cl)(i := True)\<rparr>)"
    and c: "lastHeartbeat c = lastHeartbeat (coord cl)" "hostMap c = hostMap (coord cl)"
    using start_booted [OF assms] .
  let ?cl1 = "snd (start_worker P (\<lambda>_. True) cl i)"
  let ?cl2 = "heartbeat_pass P ?cl1 i 0"
  have up: "workers cl = fresh_worker" "coord_up cl" "running cl = (\<lambda>i. i \<in> S)" "reachable P timely cl"
      and hb: "\<forall>j\<in>set worker_ids. lastHeartbeat (coord cl) j =
        Some (if j \<in> S then 0 else - 3600 * 1000000000)"
    using assms(2) by (auto simp: booted_def)
  have cl2: "?cl2 = set_coord ?cl1 (c\<lparr>lastHeartbeat := (lastHeartbeat c)(i \<mapsto> 0)\<rparr>)"
    using up by (simp add: st heartbeat_pass_def client_Heartbeat_def Heartbeat_def set_coord_def
        fresh_worker_def)
  have "boot P cl i = perform_all P cl [Cl_Start i (\<lambda>_. True), Cl_Heartbeat i 0, Cl_Monitor 0]"
    by (simp add: boot_def perform_all_def Let_def)
  moreover have "run_allowed P timely cl [Cl_Start i (\<lambda>_. True), Cl_Heartbeat i 0, Cl_Monitor 0]"
    using assms up booted_view_exact [OF assms(2)] booted_fits [OF assms(2)]
    by (simp add: st recovery_timely_def)
  ultimately have r: "reachable P timely (boot P cl i)" using up(4) reachable_run by metis
  have b: "boot P cl i =
      (set_coord cl (monitor_pass (c\<lparr>lastHeartbeat := (lastHeartbeat c)(i \<mapsto> 0)\<rparr>) 0))
        \<lparr>running := (running cl)(i := True)\<rparr>"
    unfolding boot_def Let_def cl2 by (simp add: st set_coord_def)
  show ?thesis
    unfolding booted_def
    by (intro conjI r) (use up hb c in \<open>auto simp: b monitor_pass_def marked_alive_def
        elapsed_seconds_def fun_eq_iff\<close>)
qed

section \<open>Starting a worker with a readable disk\<close>

lemma start_worker_serves:
  assumes "coord_up cl" "view_exact cl" "i \<in> set worker_ids" "\<not> running cl i"
    "disk_readable (workers cl i)"
  shows "fst (start_worker P net cl i) = None" "serving (snd (start_worker P net cl i)) i"
proof -
  let ?cl = "set_worker cl i (crash (workers cl i))"
  have i: "1 \<le> i" "i \<le> 6" using assms(3) by (auto simp: in_worker_ids)
  have s: "serving ?cl = serving cl" using assms(4) by (auto simp: serving_def fun_eq_iff)
  have ns: "\<not> serving ?cl i" using assms(4) by (simp add: serving_def)
  have ve: "view_exact ?cl" using assms(2) by (simp add: view_exact_def s)
  let ?ts = "[i, prev1 i, prev2 i]"
  have ts: "\<forall>t\<in>set ?ts. 1 \<le> t \<and> t \<le> 6 \<and> i \<in> set (holders t)" "ring_chain i ?ts"
    using i by (auto elim!: worker_id_cases simp: ring_simps)
  obtain c where c: "snd (client_WorkerLookup P ?cl i) = set_coord ?cl c"
    using client_WorkerLookup_state [of P ?cl i] by blast
  have hosts: "host_of ?cl t = serving_host (set_coord ?cl c) t" if "t \<in> set ?ts" for t
    using view_exact_first [OF ve, of t] ts(1) that by (auto simp: host_of_def serving_host_def)
  have run: "recoverAllTablets P net ?cl i =
      recover_hosts P net (set_coord ?cl c) i (map (serving_host (set_coord ?cl c)) ?ts) i"
    using client_WorkerLookup_hosts [of ?cl i P] i c hosts assms(1)
    by (simp add: recoverAllTablets_def case_prod_beta Let_def del: recover_hosts.simps)
  have "disk_readable (workers (set_coord ?cl c) i)" "\<not> serving (set_coord ?cl c) i"
    using assms(5) ns by (simp_all add: disk_readable_def crash_def)
  note succ = recover_hosts_succeeds [OF this ts, of P net]
  have "admin_workerUp (workers (set_coord ?cl c) i)" by (simp add: crash_def)
  with succ have "fst (recoverAllTablets P net ?cl i) = None"
      "admin_workerUp (workers (snd (recoverAllTablets P net ?cl i)) i)"
    unfolding run by blast+
  then show "fst (start_worker P net cl i) = None" "serving (snd (start_worker P net cl i)) i"
    by (simp_all add: start_worker_def case_prod_beta Let_def serving_def)
qed

lemma recover_hosts_others:
  "j \<noteq> i \<Longrightarrow> workers (snd (recover_hosts P net cl i hosts t)) j = workers cl j"
  "running (snd (recover_hosts P net cl i hosts t)) = running cl"
  by (induction hosts arbitrary: cl t) (auto split: sum.splits)

lemma start_worker_others:
  assumes "j \<noteq> i"
  shows "workers (snd (start_worker P net cl i)) j = workers cl j"
    and "running (snd (start_worker P net cl i)) j = running cl j"
proof -
  obtain c where c: "\<And>cl. snd (client_WorkerLookup P cl i) = set_coord cl (c cl)"
    using client_WorkerLookup_state [of P _ i] by metis
  show "workers (snd (start_worker P net cl i)) j = workers cl j"
    and "running (snd (start_worker P net cl i)) j = running cl j"
    using assms by (simp_all add: start_worker_def recoverAllTablets_def case_prod_beta Let_def c
        recover_hosts_others kill_def)
qed

section \<open>A healthy cluster\<close>

definition booted_cluster :: "platform \<Rightarrow> cluster" where
  "booted_cluster P = foldl (boot P) (initial_cluster 0) worker_ids"

lemma booted_foldl:
  assumes "platform_ok P"
  shows "booted P S cl \<Longrightarrow> distinct is \<Longrightarrow> set is \<subseteq> set worker_ids \<Longrightarrow> S \<inter> set is = {} \<Longrightarrow>
    booted P (S \<union> set is) (foldl (boot P) cl is)"
proof (induction "is" arbitrary: cl S)
  case (Cons i "is")
  then have b: "booted P (insert i S) (boot P cl i)" by (intro booted_boot assms) auto
  have "booted P (insert i S \<union> set is) (foldl (boot P) (boot P cl i) is)"
    using Cons.prems by (intro Cons.IH b) auto
  then show ?case by simp
qed simp

lemma booted_booted_cluster:
  "platform_ok P \<Longrightarrow> booted P (set worker_ids) (booted_cluster P)"
  using booted_foldl [OF _ booted_initial, of P worker_ids]
  by (simp add: booted_cluster_def worker_ids_def)

lemma healthy_booted_cluster: "platform_ok P \<Longrightarrow> healthy (booted_cluster P)"
proof -
  assume P: "platform_ok P"
  note b = booted_booted_cluster [OF P]
  have "first_serving (booted_cluster P) t \<noteq> None" if "t \<in> set worker_ids" for t
    using booted_serving [OF b, of t] that by (simp add: first_serving_def)
  then show ?thesis
    using b booted_view_exact [OF b] consistent_reachable [OF P] by (simp add: healthy_def booted_def)
qed

lemma booted_db_empty: "booted P S cl \<Longrightarrow> db P' cl r c = None"
  by (auto simp: booted_def db_def held_def fresh_worker_def Let_def less_Suc_eq numeral_3_eq_3
      dest!: slot_less_3 split: option.split)

end
