(* ===== verification/Late_Marks.thy ===== *)
theory Late_Marks
  imports Boot
begin

text \<open>
  Why agreement of the replicas needs timely events. A worker forwards a write only to the holders that
  follow it on the ring. When an earlier holder serves but is not marked alive, which is the case
  after a restart of the coordinator until that holder's next heartbeat, clients write past it.
\<close>

section \<open>A restarted coordinator\<close>

text \<open>
  The coordinator restarts, and the second and the third holder of tablet \<open>t\<close> send a heartbeat before
  the next monitor pass; then the first holder does.
\<close>

definition late_heartbeats :: "int \<Rightarrow> int \<Rightarrow> cluster_event list" where
  "late_heartbeats t now =
     [Cl_Coord_Kill, Cl_Coord_Start now, Cl_Heartbeat (next1 t) now, Cl_Heartbeat (next2 t) now,
      Cl_Monitor now]"

definition first_holder_returns :: "int \<Rightarrow> int \<Rightarrow> cluster_event list" where
  "first_holder_returns t now = [Cl_Heartbeat t now, Cl_Monitor now]"

lemma late_heartbeats_state:
  assumes "booted P (set worker_ids) cl"
  shows "perform_all P cl (late_heartbeats t now) =
    set_coord (cl\<lparr>coord_up := True\<rparr>)
      (monitor_pass ((coord (initial_cluster now))\<lparr>lastHeartbeat :=
        (lastHeartbeat (coord (initial_cluster now)))(next1 t \<mapsto> now, next2 t \<mapsto> now)\<rparr>) now)"
  using assms by (simp add: booted_def late_heartbeats_def perform_all_def heartbeat_pass_def
      client_Heartbeat_def Heartbeat_def fresh_worker_def set_coord_def)

lemma late_heartbeats_marks:
  fixes P t now
  assumes "booted P (set worker_ids) cl" "1 \<le> t" "t \<le> 6"
  defines "cl' \<equiv> perform_all P cl (late_heartbeats t now)"
  shows "coord_up cl'" "workers cl' = fresh_worker" "running cl' = (\<lambda>i. i \<in> set worker_ids)"
    "first_marked cl' t = Some (next1 t)" "cluster_wf cl'"
proof -
  have up: "workers cl = fresh_worker" "running cl = (\<lambda>i. i \<in> set worker_ids)"
    using assms(1) by (auto simp: booted_def)
  note cl' = late_heartbeats_state [OF assms(1), of t now, folded cl'_def]
  show "coord_up cl'" "workers cl' = fresh_worker" "running cl' = (\<lambda>i. i \<in> set worker_ids)"
    by (simp_all add: cl' up)
  show "first_marked cl' t = Some (next1 t)"
    using assms(2,3) unfolding first_marked_def cl'
    by (auto elim!: worker_id_cases simp: ring_simps monitor_pass_def marked_alive_def
        elapsed_seconds_def initial_cluster_def master_init_def worker_ids_def)
  show "cluster_wf cl'"
    using consistent_initial [of now] up
    by (simp add: cluster_wf_def consistent_def cl' monitor_pass_def hosts_ok_def initial_cluster_def)
qed

lemma first_holder_returns_marks:
  assumes "coord_up cl" "admin_workerUp (workers cl t)"
  shows "first_marked (perform_all P cl (first_holder_returns t now)) t = Some t"
    "\<exists>c. perform_all P cl (first_holder_returns t now) = set_coord cl c \<and> hostMap c = hostMap (coord cl)"
  using assms by (auto simp: first_holder_returns_def perform_all_def heartbeat_pass_def
      client_Heartbeat_def Heartbeat_def set_coord_def first_marked_def marked_alive_def
      monitor_pass_def elapsed_seconds_def)

lemma late_run_reachable:
  assumes "reachable P timely cl" "running cl (next1 t)" "running cl (next2 t)"
    "running (snd (client_write P (perform_all P cl (late_heartbeats t now)) q)) t"
  shows "reachable P any_time (perform_all P
    (snd (client_write P (perform_all P cl (late_heartbeats t now)) q)) (first_holder_returns t now))"
proof -
  have r: "running (heartbeat_pass P cl i now) = running cl" for cl i
    using heartbeat_set_coord [of P cl i now] by fastforce
  have "reachable P any_time cl" using assms(1) by (rule reachable_mono) simp
  then have "reachable P any_time (perform_all P cl (late_heartbeats t now))"
    by (rule reachable_run) (simp add: late_heartbeats_def assms(2,3) r)
  then have "reachable P any_time (perform_all P (perform_all P cl (late_heartbeats t now)) [Cl_Write q])"
    by (rule reachable_run) simp
  then show ?thesis
    using assms(4) by (intro reachable_run) (simp_all add: perform_all_def first_holder_returns_def)
qed

section \<open>A write past the first holder\<close>

lemma put_past_first_holder:
  fixes P cl row column v
  defines "t \<equiv> tablet_of P row" and "w \<equiv> client_write P cl (Req_Put row column v)"
  assumes "cluster_wf cl" "coord_up cl" "first_marked cl t = Some (next1 t)"
    and "serving cl t" "serving cl (next1 t)"
  shows "fst w = ''PUT Successful''" "cluster_wf (snd w)" "serving (snd w) = serving cl"
    "coord_up (snd w)" "held (snd w) t t = held cl t t" "held (snd w) (next1 t) t row column = Some v"
proof -
  let ?q = "Req_Put row column v" and ?n = "next1 t"
  let ?cl1 = "snd (client_Lookup P cl row)"
  note range = tablet_of_range [of P row, folded t_def]
  have n: "?n \<in> set (holders t)" "1 \<le> ?n" "?n \<le> 6" using holders_range [OF range, of ?n] by auto
  have up: "running cl ?n" "admin_workerUp (workers cl ?n)" using assms(7) by (auto simp: serving_def)
  obtain k where k: "getTabletSlot ?n t = Some k" using holder_slot [OF range n(1)] .
  have "workerId (workers cl ?n) = ?n" using assms(3) n by (simp add: cluster_wf_def)
  then have ok: "fst (apply_update P (workers cl ?n) ?q) = OK"
    using apply_update_up(1) [OF up(2), of P ?q k] k by (simp add: t_def)
  have w: "w = (''PUT Successful'', snd (snd (server_update P ?cl1 ?q ?n)))"
    using client_write_unfold [OF assms(3,4), of P ?q] assms(5) up(1) ok
    by (simp add: w_def t_def Let_def server_update_fst success_string_def)
  have h: "?n \<in> set (holders (tablet_of P (update_row ?q)))" using n(1) by (simp add: t_def)
  have ws: "workers (snd w) j = (if j = ?n \<or> j \<in> set (later t ?n) \<and> running cl j
      then upd P ?q (workers cl j) else workers cl j)" for j
    using server_update_workers [OF h, of ?cl1 j] ok by (simp add: w t_def)
  show "fst w = ''PUT Successful''" "coord_up (snd w)" using assms(4) by (simp_all add: w)
  show "cluster_wf (snd w)" using server_update_wf [OF h, of ?cl1] assms(3) by (simp add: w)
  show "serving (snd w) = serving cl" using server_update_serving [OF h, of ?cl1] by (simp add: w)
  have "t \<notin> set (?n # later t ?n)" using holders_distinct [OF range] by (auto simp: later_def)
  then show "held (snd w) t t = held cl t t" by (intro held_cong) (simp add: ws)
  show "held (snd w) ?n t row column = Some v"
    using held_upd [OF assms(3) n(2,3) up(2) h, of "snd w" t] ws [of ?n] by (simp add: t_def db_set_def)
qed

lemma read_missing_at_marked:
  assumes "cluster_wf cl" "coord_up cl" "first_marked cl (tablet_of P row) = Some i" "serving cl i"
    "held cl i (tablet_of P row) row column = None"
  shows "is_err (fst (client_read P cl row column))"
proof -
  have i: "i \<in> set (holders (tablet_of P row))" "1 \<le> i" "i \<le> 6"
    using first_marked_holder [OF assms(3)] holders_range [OF tablet_of_range] by auto
  have "fst (Get P (workers cl i) row column) \<noteq> OK" using Get_held(2) [OF assms(1,4) i(1)] assms(5) by simp
  then show ?thesis
    using client_Lookup_spec [OF assms(1,2), of P row] assms(3,4) i
    by (cases "fst (Get P (workers cl i) row column)")
      (auto simp: client_read_def client_Get_def worker_rpc_def reach_def serving_def case_prod_beta Let_def)
qed

section \<open>Properties\<close>

text \<open>
  C39. Where the code falls short: an acknowledged write can be lost although every worker runs. On a booted
  cluster the coordinator restarts, and the second and third holder of a row send their heartbeat before the
  first holder does. A client's \<open>Put\<close> of the row is then answered
  \<^verbatim>\<open>PUT Successful\<close>, and the second holder has the value, but the first holder,
  which serves too, does not: the worker that takes the write replicates it only to the holders after it on
  the ring. Once the first holder's heartbeat arrives, clients are sent to it again and get an error for the
  cell they wrote.
\<close>

theorem late_heartbeat_loses_write:
  assumes "platform_ok P"
  shows "let t = hashToBucket P row 6;
      before = perform_all P (booted_cluster P) (late_heartbeats t now);
      (answer, after) = client_write P before (Req_Put row column v);
      end = perform_all P after (first_holder_returns t now)
    in reachable P any_time end \<and> answer = ''PUT Successful'' \<and>
       serving after t \<and> serving after (next1 t) \<and>
       Get P (workers after (next1 t)) row column = (OK, True, v) \<and>
       fst (Get P (workers after t) row column) \<noteq> OK \<and>
       is_err (fst (client_read P end row column))"
proof -
  let ?t = "tablet_of P row" and ?q = "Req_Put row column v"
  let ?b = "perform_all P (booted_cluster P) (late_heartbeats ?t now)"
  let ?a = "snd (client_write P ?b ?q)"
  let ?e = "perform_all P ?a (first_holder_returns ?t now)"
  note range = tablet_of_range [of P row]
  note b = booted_booted_cluster [OF assms]
  note m = late_heartbeats_marks [OF b range, of now]
  have ids: "?t \<in> set worker_ids" "next1 ?t \<in> set worker_ids" "next2 ?t \<in> set worker_ids"
    using range holders_range [OF range, of "next1 ?t"] holders_range [OF range, of "next2 ?t"] by (auto simp: in_worker_ids)
  have s: "serving ?b ?t" "serving ?b (next1 ?t)"
    using ids by (simp_all add: serving_def m(2,3) fresh_worker_def)
  note p = put_past_first_holder [OF m(5,1,4) s, of column v]
  have "held ?b ?t ?t row column = None"
    by (auto simp: held_def m(2) fresh_worker_def less_Suc_eq numeral_3_eq_3 dest!: slot_less_3
        split: option.split)
  then have none: "held ?a ?t ?t row column = None" by (simp add: p(5))
  have sa: "serving ?a ?t" "serving ?a (next1 ?t)" using s p(3) by simp_all
  have up: "admin_workerUp (workers ?a ?t)" using sa(1) by (simp add: serving_def)
  obtain c where c: "?e = set_coord ?a c" "hostMap c = hostMap (coord ?a)"
    using first_holder_returns_marks(2) [OF p(4) up] by blast
  have "is_err (fst (client_read P ?e row column))"
    by (rule read_missing_at_marked [OF _ _ first_holder_returns_marks(1) [OF p(4) up]])
      (simp_all add: c p(2,4) none sa(1))
  moreover have "reachable P any_time ?e"
    using b ids sa(1) by (intro late_run_reachable) (auto simp: serving_def booted_def)
  moreover have "Get P (workers ?a (next1 ?t)) row column = (OK, True, v)"
    using Get_held(1) [OF p(2) sa(2)] p(6) by simp
  moreover have "fst (Get P (workers ?a ?t) row column) \<noteq> OK"
    using Get_held(2) [OF p(2) sa(1)] none by simp
  ultimately show ?thesis
    using p(1) sa by (simp add: Let_def case_prod_beta)
qed

theorem late_heartbeat_loses_write_witness:
  "is_err (fst (client_read sample_platform
     (perform_all sample_platform
        (snd (client_write sample_platform
           (perform_all sample_platform (booted_cluster sample_platform)
              (late_heartbeats (hashToBucket sample_platform ''a'' 6) 0))
           (Req_Put ''a'' ''c'' ''v'')))
        (first_holder_returns (hashToBucket sample_platform ''a'' 6) 0)) ''a'' ''c''))"
  using late_heartbeat_loses_write [OF platform_ok_sample, of "''a''" 0 "''c''" "''v''"]
  by (simp add: Let_def case_prod_beta)

end
