(* ===== verification/Kv_Service.thy ===== *)
theory Kv_Service
  imports Boot
begin

text \<open>
  The store as the front ends see it: a client of the coordinator and clients of workers, both
  returning strings. The record \<open>kv_ops\<close> has these calls; the locale \<open>kv_service\<close> states what the
  services rely on, and \<open>cluster_ops\<close> implements it by the cluster whenever that is healthy.
\<close>

section \<open>The interface\<close>

record 'st kv_ops =
  op_lookup :: "'st \<Rightarrow> string \<Rightarrow> string \<times> 'st"
  op_get :: "'st \<Rightarrow> string \<Rightarrow> string \<Rightarrow> string \<Rightarrow> string \<times> 'st"
  op_put :: "'st \<Rightarrow> string \<Rightarrow> string \<Rightarrow> string \<Rightarrow> string \<Rightarrow> string \<times> 'st"
  op_cput :: "'st \<Rightarrow> string \<Rightarrow> string \<Rightarrow> string \<Rightarrow> string \<Rightarrow> string \<Rightarrow> string \<times> 'st"
  op_delete :: "'st \<Rightarrow> string \<Rightarrow> string \<Rightarrow> string \<Rightarrow> string \<times> 'st"

locale kv_service =
  fixes K :: "'st kv_ops" and inv :: "'st \<Rightarrow> bool" and contents :: "'st \<Rightarrow> db"
    and route :: "'st \<Rightarrow> string \<Rightarrow> string"
  assumes lookup: "inv st \<Longrightarrow> fst (op_lookup K st key) = route st key \<and> inv (snd (op_lookup K st key)) \<and>
      contents (snd (op_lookup K st key)) = contents st \<and> route (snd (op_lookup K st key)) = route st"
    and route_ok: "inv st \<Longrightarrow> \<not> is_err (route st key)"
    and get_result: "inv st \<Longrightarrow> (case contents st r c of
          Some v \<Rightarrow> fst (op_get K st (route st r) r c) = v
        | None \<Rightarrow> is_err (fst (op_get K st (route st r) r c)))"
    and get_keeps: "snd (op_get K st addr r c) = st"
    and put: "inv st \<Longrightarrow> fst (op_put K st (route st r) r c v) = ''PUT Successful'' \<and>
      inv (snd (op_put K st (route st r) r c v)) \<and>
      contents (snd (op_put K st (route st r) r c v)) = db_set (contents st) r c (Some v) \<and>
      route (snd (op_put K st (route st r) r c v)) = route st"
    and cput: "inv st \<Longrightarrow>
      (if contents st r c = Some cur
       then fst (op_cput K st (route st r) r c cur new) = ''CPUT Successful'' \<and>
         contents (snd (op_cput K st (route st r) r c cur new)) = db_set (contents st) r c (Some new)
       else is_err (fst (op_cput K st (route st r) r c cur new)) \<and>
         contents (snd (op_cput K st (route st r) r c cur new)) = contents st) \<and>
      inv (snd (op_cput K st (route st r) r c cur new)) \<and>
      route (snd (op_cput K st (route st r) r c cur new)) = route st"
    and delete: "inv st \<Longrightarrow> fst (op_delete K st (route st r) r c) = ''Delete Successful'' \<and>
      inv (snd (op_delete K st (route st r) r c)) \<and>
      contents (snd (op_delete K st (route st r) r c)) = db_set (contents st) r c None \<and>
      route (snd (op_delete K st (route st r) r c)) = route st"
begin

lemma lookup_simps [simp]:
  assumes "inv st"
  shows "fst (op_lookup K st key) = route st key" "inv (snd (op_lookup K st key))"
    "contents (snd (op_lookup K st key)) = contents st" "route (snd (op_lookup K st key)) = route st"
  using lookup [OF assms] by auto

lemma get_hit: "inv st \<Longrightarrow> contents st r c = Some v \<Longrightarrow> op_get K st (route st r) r c = (v, st)"
  using get_result [of st r c] get_keeps [of st "route st r" r c] by (simp add: prod_eq_iff)

lemma get_miss:
  assumes "inv st" "contents st r c = None"
  obtains e where "op_get K st (route st r) r c = (e, st)" "is_err e"
  using get_result [OF assms(1), of r c] get_keeps [of st "route st r" r c] assms(2)
  by (metis option.case(1) prod.collapse)

lemma put_simps [simp]:
  assumes "inv st"
  shows "fst (op_put K st (route st r) r c v) = ''PUT Successful''"
    "inv (snd (op_put K st (route st r) r c v))"
    "contents (snd (op_put K st (route st r) r c v)) = db_set (contents st) r c (Some v)"
    "route (snd (op_put K st (route st r) r c v)) = route st"
  using put [OF assms] by auto

lemma delete_simps [simp]:
  assumes "inv st"
  shows "fst (op_delete K st (route st r) r c) = ''Delete Successful''"
    "inv (snd (op_delete K st (route st r) r c))"
    "contents (snd (op_delete K st (route st r) r c)) = db_set (contents st) r c None"
    "route (snd (op_delete K st (route st r) r c)) = route st"
  using delete [OF assms] by auto

lemma cput_simps [simp]:
  assumes "inv st"
  shows "inv (snd (op_cput K st (route st r) r c cur new))"
    "route (snd (op_cput K st (route st r) r c cur new)) = route st"
    "contents st r c = Some cur \<Longrightarrow> fst (op_cput K st (route st r) r c cur new) = ''CPUT Successful''"
    "contents st r c = Some cur \<Longrightarrow>
       contents (snd (op_cput K st (route st r) r c cur new)) = db_set (contents st) r c (Some new)"
    "contents st r c \<noteq> Some cur \<Longrightarrow> is_err (fst (op_cput K st (route st r) r c cur new))"
    "contents st r c \<noteq> Some cur \<Longrightarrow>
       contents (snd (op_cput K st (route st r) r c cur new)) = contents st"
  using cput [OF assms, of r c cur new] by auto

end

section \<open>The cluster implements it\<close>

definition cluster_ops :: "platform \<Rightarrow> cluster kv_ops" where
  "cluster_ops P =
     \<lparr>op_lookup = client_Lookup P, op_get = client_Get P, op_put = client_Put P,
      op_cput = client_CPut P, op_delete = client_Delete P\<rparr>"

definition cluster_route :: "platform \<Rightarrow> cluster \<Rightarrow> string \<Rightarrow> string" where
  "cluster_route P cl key =
     (case first_serving cl (tablet_of P key) of None \<Rightarrow> [] | Some i \<Rightarrow> worker_addr i)"

lemma healthy_first:
  assumes "healthy cl"
  obtains i where "first_serving cl (tablet_of P key) = Some i"
    "first_marked cl (tablet_of P key) = Some i" "cluster_route P cl key = worker_addr i"
    "i \<in> set (holders (tablet_of P key))" "serving cl i" "reach cl (worker_addr i) = Some i"
proof -
  have t: "tablet_of P key \<in> set worker_ids" using tablet_of_range by (simp add: in_worker_ids)
  then obtain i where i: "first_serving cl (tablet_of P key) = Some i"
    using assms by (auto simp: healthy_def)
  have "first_marked cl (tablet_of P key) = Some i"
    using i view_exact_first [OF _ tablet_of_range] assms by (simp add: healthy_def)
  moreover have "i \<in> set (holders (tablet_of P key))" "serving cl i" using first_servingD [OF i] by auto
  moreover from this have "reach cl (worker_addr i) = Some i"
    using holders_range [OF tablet_of_range, of i] by (auto simp: reach_def serving_def)
  ultimately show thesis using that i by (simp add: cluster_route_def)
qed

lemma healthy_view:
  "healthy cl \<Longrightarrow> cluster_wf cl" "healthy cl \<Longrightarrow> agree cl" "healthy cl \<Longrightarrow> coord_up cl"
  "healthy cl \<Longrightarrow> view_complete cl"
  by (auto simp: healthy_def consistent_def view_exact_def view_complete_def)

lemma healthy_cong:
  assumes "healthy cl" "consistent cl'" "coord_up cl' = coord_up cl" "serving cl' = serving cl"
    "marked_alive (coord cl') = marked_alive (coord cl)"
  shows "healthy cl'"
proof -
  have "first_serving cl' = first_serving cl" using assms(4) by (simp add: first_serving_def fun_eq_iff)
  then show ?thesis using assms by (simp add: healthy_def view_exact_def)
qed

lemma cluster_route_cong: "serving cl' = serving cl \<Longrightarrow> cluster_route P cl' = cluster_route P cl"
  by (simp add: cluster_route_def first_serving_def fun_eq_iff)

lemma healthy_lookup:
  assumes "healthy cl"
  shows "fst (client_Lookup P cl key) = cluster_route P cl key"
    and "healthy (snd (client_Lookup P cl key))"
    and "cluster_route P' (snd (client_Lookup P cl key)) = cluster_route P' cl"
proof -
  obtain i where "first_marked cl (tablet_of P key) = Some i" "cluster_route P cl key = worker_addr i"
    using healthy_first [OF assms] .
  then show "fst (client_Lookup P cl key) = cluster_route P cl key"
    using client_Lookup_spec [OF healthy_view(1,3) [OF assms]] by simp
  show "healthy (snd (client_Lookup P cl key))"
    using assms by (rule healthy_cong) (use assms in \<open>simp_all add: healthy_def consistent_def\<close>)
  show "cluster_route P' (snd (client_Lookup P cl key)) = cluster_route P' cl"
    by (rule cluster_route_cong) simp
qed

lemma healthy_update:
  assumes "healthy cl" and r: "r = update_row q"
  shows "fst (client_update P cl (cluster_route P cl r) q) = success_string q \<longleftrightarrow> spec_ok (db P cl) q"
    and "\<not> spec_ok (db P cl) q \<Longrightarrow> is_err (fst (client_update P cl (cluster_route P cl r) q))"
    and "db P (snd (client_update P cl (cluster_route P cl r) q)) = spec_upd (db P cl) q"
    and "healthy (snd (client_update P cl (cluster_route P cl r) q))"
    and "cluster_route P' (snd (client_update P cl (cluster_route P cl r) q)) = cluster_route P' cl"
proof -
  obtain i where fs: "first_serving cl (tablet_of P (update_row q)) = Some i"
      and i: "cluster_route P cl r = worker_addr i" "reach cl (worker_addr i) = Some i"
        "i \<in> set (holders (tablet_of P (update_row q)))"
    using healthy_first [OF assms(1), of P "update_row q"] r by metis
  have u: "client_update P cl (cluster_route P cl r) q =
      (client_result P (fst (server_update P cl q i)) (success_string q),
       snd (snd (server_update P cl q i)))"
    by (simp add: client_update_server i)
  note sdb = server_update_db [OF healthy_view(1,2) [OF assms(1)] fs]
  show *: "fst (client_update P cl (cluster_route P cl r) q) = success_string q \<longleftrightarrow> spec_ok (db P cl) q"
    using sdb(2)
    by (cases "fst (server_update P cl q i)") (auto simp: u dest!: arg_cong [where f = is_err])
  show "\<not> spec_ok (db P cl) q \<Longrightarrow> is_err (fst (client_update P cl (cluster_route P cl r) q))"
    using sdb(2) by (cases "fst (server_update P cl q i)") (auto simp: u)
  show "db P (snd (client_update P cl (cluster_route P cl r) q)) = spec_upd (db P cl) q"
    using sdb(1) by (simp add: u)
  have s: "serving (snd (snd (server_update P cl q i))) = serving cl"
    by (rule server_update_serving [OF i(3)])
  have "consistent (snd (snd (server_update P cl q i)))"
    using server_update_wf [OF i(3)] server_update_agree [OF _ _ fs] assms(1)
    by (simp add: healthy_def consistent_def)
  then show "healthy (snd (client_update P cl (cluster_route P cl r) q))"
    unfolding u snd_conv by (rule healthy_cong [OF assms(1)]) (simp_all add: s)
  show "cluster_route P' (snd (client_update P cl (cluster_route P cl r) q)) = cluster_route P' cl"
    unfolding u snd_conv by (rule cluster_route_cong [OF s])
qed

lemma client_Get_state: "snd (client_Get P cl addr r c) = cl"
  by (simp add: client_Get_def worker_rpc_def case_prod_beta Let_def split: option.splits)

lemma healthy_get:
  assumes "healthy cl"
  shows "case db P cl r c of Some v \<Rightarrow> fst (client_Get P cl (cluster_route P cl r) r c) = v
    | None \<Rightarrow> is_err (fst (client_Get P cl (cluster_route P cl r) r c))"
proof -
  obtain i where i: "cluster_route P cl r = worker_addr i" "i \<in> set (holders (tablet_of P r))"
      "serving cl i" "reach cl (worker_addr i) = Some i"
    using healthy_first [OF assms, of P r] .
  let ?g = "Get P (workers cl i) r c"
  have g: "fst (client_Get P cl (cluster_route P cl r) r c) = client_result P (fst ?g) (snd (snd ?g))"
    by (simp add: client_Get_def worker_rpc_def i case_prod_beta Let_def)
  have d: "db P cl r c = held cl i (tablet_of P r) r c"
    using db_held [OF healthy_view(2) [OF assms] i(3,2)] by simp
  note gh = Get_held [OF healthy_view(1) [OF assms] i(3,2)]
  show ?thesis
  proof (cases "db P cl r c")
    case None
    then have "fst ?g \<noteq> OK" using gh(2) d by simp
    then show ?thesis using None g by (cases "fst ?g") simp_all
  next
    case (Some v)
    then have "?g = (OK, True, v)" using gh(1) d by simp
    then show ?thesis using Some g by simp
  qed
qed

interpretation kv: kv_service "cluster_ops P" healthy "db P" "cluster_route P" for P
proof
  fix cl key r c v cur new addr
  show "snd (op_get (cluster_ops P) cl addr r c) = cl"
    by (simp add: cluster_ops_def client_Get_state)
  assume h: "healthy cl"
  show "\<not> is_err (cluster_route P cl key)"
    using healthy_first [OF h, of P key] by (metis worker_addr_not_err(1))
  show "case db P cl r c of None \<Rightarrow> is_err (fst (op_get (cluster_ops P) cl (cluster_route P cl r) r c))
      | Some v \<Rightarrow> fst (op_get (cluster_ops P) cl (cluster_route P cl r) r c) = v"
    using healthy_get [OF h, of P r c] by (simp add: cluster_ops_def split: option.splits)
qed (use healthy_lookup healthy_update [where q = "Req_Put _ _ _"] healthy_update [where q = "Req_CPut _ _ _ _"]
      healthy_update [where q = "Req_Delete _ _"] in \<open>force simp: cluster_ops_def success_string_def\<close>)+

section \<open>Reads and writes through the coordinator\<close>

lemma client_write_healthy:
  assumes "healthy cl"
  shows "fst (client_write P cl q) = success_string q \<longleftrightarrow> spec_ok (db P cl) q"
    and "is_err (fst (client_write P cl q)) \<longleftrightarrow> \<not> spec_ok (db P cl) q"
    and "db P (snd (client_write P cl q)) = spec_upd (db P cl) q"
    and "healthy (snd (client_write P cl q))"
proof -
  let ?cl1 = "snd (client_Lookup P cl (update_row q))"
  have h: "healthy ?cl1" using assms by (rule healthy_lookup)
  have "client_write P cl q = client_update P ?cl1 (cluster_route P ?cl1 (update_row q)) q"
    using healthy_lookup(1,3) [OF assms, where P = P and key = "update_row q"] kv.route_ok [OF assms]
    by (simp add: client_write_def case_prod_beta)
  then show *: "fst (client_write P cl q) = success_string q \<longleftrightarrow> spec_ok (db P cl) q"
      "db P (snd (client_write P cl q)) = spec_upd (db P cl) q"
      "healthy (snd (client_write P cl q))"
    and "is_err (fst (client_write P cl q)) \<longleftrightarrow> \<not> spec_ok (db P cl) q"
    using healthy_update [OF h, of "update_row q" q P] success_not_err [of q] by auto
qed

lemma client_read_healthy:
  assumes "healthy cl"
  shows "case db P cl r c of Some v \<Rightarrow> fst (client_read P cl r c) = v
    | None \<Rightarrow> is_err (fst (client_read P cl r c))"
proof -
  let ?cl1 = "snd (client_Lookup P cl r)"
  have h: "healthy ?cl1" using assms by (rule healthy_lookup)
  have "fst (client_read P cl r c) = fst (client_Get P ?cl1 (cluster_route P ?cl1 r) r c)"
    using healthy_lookup(1,3) [OF assms, where P = P and key = r] kv.route_ok [OF assms]
    by (simp add: client_read_def case_prod_beta)
  then show ?thesis using healthy_get [OF h, of P r c] by (simp split: option.splits)
qed

end
