(* ===== verification/User_Account.thy ===== *)
theory User_Account
  imports Kv_Service
begin

text \<open>
  User accounts (\<^verbatim>\<open>frontend/user_account/user_account_service.cc\<close>): the password of a user is the
  column \<^verbatim>\<open>password\<close> of the row \<^verbatim>\<open><username>-userinfo\<close>. The operations take the store's calls as an
  argument; their behaviour is proved for any store that satisfies \<open>kv_service\<close>.
\<close>

definition userinfo :: "string \<Rightarrow> string" where
  "userinfo username = username @ ''-userinfo''"

definition authenticate :: "'st kv_ops \<Rightarrow> 'st \<Rightarrow> string \<Rightarrow> string \<Rightarrow> bool \<times> 'st" where
  "authenticate K st username password =
     (let (worker, st1) = op_lookup K st (userinfo username)
      in if is_err worker then (False, st1)
         else let (stored, st2) = op_get K st1 worker (userinfo username) ''password''
              in if is_err stored \<or> stored = [] then (False, st2)
                 else (stored = password, st2))"

definition signup :: "'st kv_ops \<Rightarrow> 'st \<Rightarrow> string \<Rightarrow> string \<Rightarrow> bool \<times> 'st" where
  "signup K st username password =
     (let (worker, st1) = op_lookup K st (userinfo username)
      in if is_err worker then (False, st1)
         else let (existing, st2) = op_get K st1 worker (userinfo username) ''password''
              in if \<not> is_err existing then (False, st2)
                 else let (_, st3) = op_put K st2 worker (userinfo username) ''password'' password
                      in (True, st3))"

definition changePassword :: "'st kv_ops \<Rightarrow> 'st \<Rightarrow> string \<Rightarrow> string \<Rightarrow> string \<Rightarrow> int \<times> 'st" where
  "changePassword K st username oldPassword newPassword =
     (let (worker, st1) = op_lookup K st (userinfo username)
      in if is_err worker then (3, st1)
         else let (stored, st2) = op_get K st1 worker (userinfo username) ''password''
              in if is_err stored then (1, st2)
                 else if stored \<noteq> oldPassword then (2, st2)
                 else let (_, st3) = op_cput K st2 worker (userinfo username) ''password''
                                       oldPassword newPassword
                      in (0, st3))"

text \<open>The password on record, as the code can tell it from an error reply.\<close>

definition password_of :: "db \<Rightarrow> string \<Rightarrow> string option" where
  "password_of m username =
     (case m (userinfo username) ''password'' of
        None \<Rightarrow> None
      | Some p \<Rightarrow> if is_err p then None else Some p)"

context kv_service
begin

text \<open>Looking up the worker of a row and reading a cell there.\<close>

lemma lookup_get:
  assumes "inv st"
  obtains st1 v where "op_lookup K st row = (route st row, st1)"
    "op_get K st1 (route st row) row col = (v, st1)" "inv st1" "contents st1 = contents st"
    "route st1 = route st" "\<not> is_err (route st row)"
    "case contents st row col of None \<Rightarrow> is_err v | Some w \<Rightarrow> v = w"
proof -
  obtain st1 where 1: "op_lookup K st row = (route st row, st1)" "inv st1" "contents st1 = contents st"
      "route st1 = route st"
    using lookup [OF assms, of row] by (metis prod.collapse)
  moreover obtain v where "op_get K st1 (route st row) row col = (v, st1)"
      "case contents st row col of None \<Rightarrow> is_err v | Some w \<Rightarrow> v = w"
  proof (cases "contents st row col")
    case None
    then show thesis using that get_miss [of st1 row col] 1 by auto
  next
    case (Some w)
    then show thesis using that get_hit [of st1 row col w] 1 by auto
  qed
  ultimately show thesis using that route_ok [OF assms, of row] by blast
qed

lemma password_get:
  assumes "inv st"
  obtains st1 v where "op_lookup K st (userinfo u) = (route st (userinfo u), st1)"
    "op_get K st1 (route st (userinfo u)) (userinfo u) ''password'' = (v, st1)" "inv st1"
    "contents st1 = contents st" "route st1 = route st" "\<not> is_err (route st (userinfo u))"
    "password_of (contents st) u = (if is_err v then None else Some v)"
    "\<not> is_err v \<longrightarrow> contents st (userinfo u) ''password'' = Some v"
proof (rule lookup_get [OF assms, of "userinfo u" "''password''"], goal_cases)
  case (1 st1 v)
  have "password_of (contents st) u = (if is_err v then None else Some v)"
    "\<not> is_err v \<longrightarrow> contents st (userinfo u) ''password'' = Some v"
    using 1(8) by (simp_all add: password_of_def split: option.splits)
  with 1(2-7) show ?case by (rule that)
qed

lemma authenticate_spec:
  assumes "inv st"
  shows "fst (authenticate K st u p) \<longleftrightarrow> password_of (contents st) u = Some p \<and> p \<noteq> []"
    and "inv (snd (authenticate K st u p))"
    and "contents (snd (authenticate K st u p)) = contents st"
proof -
  obtain st1 v where st1: "op_lookup K st (userinfo u) = (route st (userinfo u), st1)"
    "op_get K st1 (route st (userinfo u)) (userinfo u) ''password'' = (v, st1)" "inv st1"
    "contents st1 = contents st" "route st1 = route st" "\<not> is_err (route st (userinfo u))"
    "password_of (contents st) u = (if is_err v then None else Some v)"
    "\<not> is_err v \<longrightarrow> contents st (userinfo u) ''password'' = Some v"
    using password_get [OF assms, of u] .
  then show "fst (authenticate K st u p) \<longleftrightarrow> password_of (contents st) u = Some p \<and> p \<noteq> []"
    "inv (snd (authenticate K st u p))" "contents (snd (authenticate K st u p)) = contents st"
    by (simp_all add: authenticate_def) auto
qed

lemma signup_spec:
  assumes "inv st"
  shows "fst (signup K st u p) \<longleftrightarrow> password_of (contents st) u = None"
    and "inv (snd (signup K st u p))"
    and "contents (snd (signup K st u p)) =
      (if password_of (contents st) u = None
       then db_set (contents st) (userinfo u) ''password'' (Some p) else contents st)"
proof -
  obtain st1 v where st1: "op_lookup K st (userinfo u) = (route st (userinfo u), st1)"
    "op_get K st1 (route st (userinfo u)) (userinfo u) ''password'' = (v, st1)" "inv st1"
    "contents st1 = contents st" "route st1 = route st" "\<not> is_err (route st (userinfo u))"
    "password_of (contents st) u = (if is_err v then None else Some v)"
    "\<not> is_err v \<longrightarrow> contents st (userinfo u) ''password'' = Some v"
    using password_get [OF assms, of u] .
  note put = put_simps [OF st1(3), of "userinfo u" "''password''" p, unfolded st1(4,5)]
  show "fst (signup K st u p) \<longleftrightarrow> password_of (contents st) u = None"
    "inv (snd (signup K st u p))"
    "contents (snd (signup K st u p)) =
      (if password_of (contents st) u = None
       then db_set (contents st) (userinfo u) ''password'' (Some p) else contents st)"
    using st1 put
    by (simp_all add: signup_def case_prod_beta Let_def)
qed

lemma changePassword_spec:
  assumes "inv st"
  shows "fst (changePassword K st u old new) =
      (case password_of (contents st) u of None \<Rightarrow> 1 | Some p \<Rightarrow> if p \<noteq> old then 2 else 0)"
    and "inv (snd (changePassword K st u old new))"
    and "contents (snd (changePassword K st u old new)) =
      (if password_of (contents st) u = Some old
       then db_set (contents st) (userinfo u) ''password'' (Some new) else contents st)"
proof -
  obtain st1 v where st1: "op_lookup K st (userinfo u) = (route st (userinfo u), st1)"
    "op_get K st1 (route st (userinfo u)) (userinfo u) ''password'' = (v, st1)" "inv st1"
    "contents st1 = contents st" "route st1 = route st" "\<not> is_err (route st (userinfo u))"
    "password_of (contents st) u = (if is_err v then None else Some v)"
    "\<not> is_err v \<longrightarrow> contents st (userinfo u) ''password'' = Some v"
    using password_get [OF assms, of u] .
  note cput = cput_simps [OF st1(3), of "userinfo u" "''password''" old new, unfolded st1(4,5)]
  show "fst (changePassword K st u old new) =
      (case password_of (contents st) u of None \<Rightarrow> 1 | Some p \<Rightarrow> if p \<noteq> old then 2 else 0)"
    "inv (snd (changePassword K st u old new))"
    "contents (snd (changePassword K st u old new)) =
      (if password_of (contents st) u = Some old
       then db_set (contents st) (userinfo u) ''password'' (Some new) else contents st)"
    using st1 cput
    by (auto simp: changePassword_def case_prod_beta Let_def)
qed

end

section \<open>Properties\<close>

lemma password_of_set:
  "password_of (db_set m (userinfo u) ''password'' (Some p)) u' =
     (if u' = u then if is_err p then None else Some p else password_of m u')"
  by (auto simp: password_of_def db_set_def userinfo_def)

text \<open>
  C10. Accounts on a healthy cluster. \<open>signup\<close> succeeds exactly for users without a password on record;
  afterwards exactly the chosen password authenticates the user, unless it is empty or starts with
  \<^verbatim>\<open>ERR\<close>, every other user's authentication is unchanged, and the cluster stays healthy. A refused
  signup changes no account.
\<close>

theorem signup_then_authenticate:
  assumes "healthy cl"
  shows "(fst (signup (cluster_ops P) cl u p) \<longleftrightarrow> password_of (db P cl) u = None) \<and>
    healthy (snd (signup (cluster_ops P) cl u p)) \<and>
    (fst (authenticate (cluster_ops P) (snd (signup (cluster_ops P) cl u p)) u' p') \<longleftrightarrow>
       (if u' = u \<and> fst (signup (cluster_ops P) cl u p)
        then p' = p \<and> p \<noteq> [] \<and> \<not> is_err p
        else fst (authenticate (cluster_ops P) cl u' p')))"
  using kv.signup_spec [OF assms, of P u p] kv.authenticate_spec(1) [OF assms, of P u' p']
    kv.authenticate_spec(1) [of "snd (signup (cluster_ops P) cl u p)" P u' p']
  by (auto simp: password_of_set)

theorem signup_then_authenticate_witness:
  "fst (authenticate (cluster_ops sample_platform)
     (snd (signup (cluster_ops sample_platform) (booted_cluster sample_platform) ''bob'' ''pw''))
     ''bob'' ''pw'')"
proof -
  let ?P = sample_platform
  note h = healthy_booted_cluster [OF platform_ok_sample]
  have "password_of (db ?P (booted_cluster ?P)) ''bob'' = None"
    using booted_db_empty [OF booted_booted_cluster [OF platform_ok_sample]]
    by (simp add: password_of_def)
  then show ?thesis
    using signup_then_authenticate [OF h, of ?P "''bob''" "''pw''" "''bob''" "''pw''"]
    by (simp add: is_err_prefix)
qed

text \<open>
  C11. Changing a password on a healthy cluster: the result is 1 for an unknown user, 2 for a wrong
  old password and 0 otherwise, never 3; only in the last case does anything change, and then
  exactly this user's password becomes the new one.
\<close>

theorem changePassword_correct:
  assumes "healthy cl"
  shows "fst (changePassword (cluster_ops P) cl u old new) =
      (case password_of (db P cl) u of None \<Rightarrow> 1 | Some p \<Rightarrow> if p \<noteq> old then 2 else 0) \<and>
    db P (snd (changePassword (cluster_ops P) cl u old new)) =
      (if fst (changePassword (cluster_ops P) cl u old new) = 0
       then db_set (db P cl) (userinfo u) ''password'' (Some new) else db P cl) \<and>
    healthy (snd (changePassword (cluster_ops P) cl u old new))"
  using kv.changePassword_spec [OF assms, of P u old new] by (auto split: option.splits)

theorem changePassword_correct_witness:
  "fst (changePassword (cluster_ops sample_platform) (booted_cluster sample_platform)
     ''bob'' ''a'' ''b'') = 1"
proof -
  note b = booted_booted_cluster [OF platform_ok_sample]
  show ?thesis
    using changePassword_correct [OF healthy_booted_cluster [OF platform_ok_sample],
        of sample_platform "''bob''" "''a''" "''b''"] booted_db_empty [OF b]
    by (simp add: password_of_def)
qed

text \<open>
  C12. Passwords that look like errors: on a healthy cluster where a user's password starts with
  \<^verbatim>\<open>ERR\<close>, the user cannot log in with it, and a second \<open>signup\<close> of the same name succeeds and replaces
  it.
\<close>

theorem err_password_account_takeover:
  assumes "healthy cl" and "db P cl (userinfo u) ''password'' = Some pw" and "is_err pw"
  shows "\<not> fst (authenticate (cluster_ops P) cl u pw) \<and>
    fst (signup (cluster_ops P) cl u pw2) \<and>
    db P (snd (signup (cluster_ops P) cl u pw2)) (userinfo u) ''password'' = Some pw2"
  using kv.signup_spec [OF assms(1), of P u pw2] kv.authenticate_spec(1) [OF assms(1), of P u pw] assms(2,3)
  by (simp add: password_of_def db_set_def)

theorem err_password_account_takeover_witness:
  "\<not> fst (authenticate (cluster_ops sample_platform)
     (snd (signup (cluster_ops sample_platform) (booted_cluster sample_platform) ''bob'' ''ERRata''))
     ''bob'' ''ERRata'')"
proof -
  let ?P = sample_platform
  let ?cl = "snd (signup (cluster_ops ?P) (booted_cluster ?P) ''bob'' ''ERRata'')"
  note h = healthy_booted_cluster [OF platform_ok_sample]
  have "password_of (db ?P (booted_cluster ?P)) ''bob'' = None"
    using booted_db_empty [OF booted_booted_cluster [OF platform_ok_sample]]
    by (simp add: password_of_def)
  then have "healthy ?cl" "db ?P ?cl (userinfo ''bob'') ''password'' = Some ''ERRata''"
    using kv.signup_spec(2,3) [OF h, of ?P "''bob''" "''ERRata''"] by (simp_all add: db_set_def)
  then show ?thesis
    using err_password_account_takeover [of ?cl ?P "''bob''" "''ERRata''" "''x''"]
    by (simp add: is_err_prefix)
qed

end
