(* ===== verification/Utils.thy ===== *)
theory Utils
  imports Cpp_Strings
begin

text \<open>
  The text helpers of \<^verbatim>\<open>utils/utils.cc\<close>: query strings, URL decoding and mail metadata. A
  \<^verbatim>\<open>map<string, string>\<close> that is only read by key is a HOL map. The scanning loops carry the
  unread rest of the text instead of a start index.
\<close>

section \<open>Query strings\<close>

function parse_query :: "(string \<rightharpoonup> string) \<Rightarrow> string \<Rightarrow> (string \<rightharpoonup> string)" where
  "parse_query params rest =
     (if rest = [] then params
      else case str_find rest ''='' 0 of
        None \<Rightarrow> params
      | Some eqPos \<Rightarrow>
          (let key = take eqPos rest
           in case str_find rest ''&'' (eqPos + 1) of
                None \<Rightarrow> params(key \<mapsto> drop (eqPos + 1) rest)
              | Some ampPos \<Rightarrow>
                  parse_query (params(key \<mapsto> take (ampPos - eqPos - 1) (drop (eqPos + 1) rest)))
                    (drop (ampPos + 1) rest)))"
  by pat_completeness auto
termination
  by (relation "measure (\<lambda>(m, s). length s)") auto

declare parse_query.simps [simp del]

definition parseQueryString :: "string \<Rightarrow> (string \<rightharpoonup> string)" where
  "parseQueryString query = parse_query Map.empty query"

section \<open>URL decoding\<close>

definition hex_digit_val :: "char \<Rightarrow> nat option" where
  "hex_digit_val c =
     (let n = of_char c :: nat
      in if 48 \<le> n \<and> n \<le> 57 then Some (n - 48)
         else if 97 \<le> n \<and> n \<le> 102 then Some (n - 87)
         else if 65 \<le> n \<and> n \<le> 70 then Some (n - 55)
         else None)"

text \<open>
  \<^verbatim>\<open>iss >> hex >> hexVal\<close> on the two characters after a percent sign: white space is skipped, a sign is
  accepted, and digits are read as far as they go; \<^verbatim>\<open>0x\<close> without a digit fails.
\<close>

definition read_hex2 :: "char \<Rightarrow> char \<Rightarrow> int option" where
  "read_hex2 a b =
     (case hex_digit_val a of
        Some x \<Rightarrow>
          (case hex_digit_val b of
             Some y \<Rightarrow> Some (int (16 * x + y))
           | None \<Rightarrow> if x = 0 \<and> (b = CHR ''x'' \<or> b = CHR ''X'') then None else Some (int x))
      | None \<Rightarrow>
          if is_space a \<or> a = CHR ''+'' then map_option int (hex_digit_val b)
          else if a = CHR ''-'' then map_option (\<lambda>y. - int y) (hex_digit_val b)
          else None)"

fun urlDecode :: "string \<Rightarrow> string" where
  "urlDecode [] = []"
| "urlDecode (c # cs) =
     (if c = CHR ''%'' then
        (case cs of
           a # b # rest \<Rightarrow>
             (case read_hex2 a b of Some v \<Rightarrow> [char_of v] | None \<Rightarrow> []) @ urlDecode rest
         | _ \<Rightarrow> c # urlDecode cs)
      else if c = CHR ''+'' then CHR '' '' # urlDecode cs
      else c # urlDecode cs)"

section \<open>Mail metadata\<close>

definition add_header :: "(string \<rightharpoonup> string) \<Rightarrow> string \<Rightarrow> (string \<rightharpoonup> string)" where
  "add_header headers token =
     (case str_find token '':'' 0 of
        None \<Rightarrow> headers
      | Some colon \<Rightarrow> headers(take colon token \<mapsto> drop (colon + 1) token))"

definition parseMetadata :: "string \<Rightarrow> (string \<rightharpoonup> string)" where
  "parseMetadata meta = foldl add_header Map.empty (getlines CHR '';'' meta)"

definition createMetadata :: "string \<Rightarrow> string \<Rightarrow> string \<Rightarrow> string \<Rightarrow> string" where
  "createMetadata sender recipient subject timestamp =
     ''sender:'' @ sender @ '';'' @ ''recipient:'' @ recipient @ '';'' @
     ''subject:'' @ subject @ '';'' @ ''timestamp:'' @ timestamp @ '';''"

definition encryptMetadata :: "string \<Rightarrow> string" where
  "encryptMetadata metadata = rev metadata"

definition decryptMetadata :: "string \<Rightarrow> string" where
  "decryptMetadata encrypted = rev encrypted"

text \<open>\<^verbatim>\<open>generateUniqueId\<close> at time \<open>now\<close> (seconds).\<close>

definition generateUniqueId :: "int \<Rightarrow> string" where
  "generateUniqueId now = to_string now"

section \<open>Reading what was written\<close>

lemma str_find_char_fresh: "x \<notin> set xs \<Longrightarrow> str_find (xs @ x # ys) [x] 0 = Some (length xs)"
  by (simp add: str_find_def find_sub_char_fresh)

lemma str_find_char_from:
  "x \<notin> set ys \<Longrightarrow> str_find (xs @ ys @ x # zs) [x] (length xs) = Some (length xs + length ys)"
  by (simp add: str_find_def find_sub_char_fresh)

lemma str_find_char_absent_from:
  "x \<notin> set ys \<Longrightarrow> str_find (xs @ ys) [x] (length xs) = None"
  by (simp add: str_find_def find_sub_char_absent)

definition query_pair :: "string \<times> string \<Rightarrow> string" where
  "query_pair kv = fst kv @ ''='' @ snd kv"

definition query_of :: "(string \<times> string) list \<Rightarrow> string" where
  "query_of kvs = join_with CHR ''&'' (map query_pair kvs)"

lemma parse_query_last:
  assumes "CHR ''='' \<notin> set k" "CHR ''&'' \<notin> set v"
  shows "parse_query m (query_pair (k, v)) = m(k \<mapsto> v)"
proof -
  have 1: "str_find (k @ ''='' @ v) ''='' 0 = Some (length k)"
    using str_find_char_fresh [OF assms(1)] by simp
  have 2: "str_find (k @ ''='' @ v) ''&'' (length k + 1) = None"
    using str_find_char_absent_from [OF assms(2), of "k @ ''=''"] by simp
  show ?thesis
    unfolding query_pair_def fst_conv snd_conv by (subst parse_query.simps) (simp only: 1 2 option.case Let_def, simp)
qed

lemma parse_query_next:
  assumes "CHR ''='' \<notin> set k" "CHR ''&'' \<notin> set v"
  shows "parse_query m (query_pair (k, v) @ CHR ''&'' # rest) = parse_query (m(k \<mapsto> v)) rest"
proof -
  let ?s = "k @ ''='' @ v @ CHR ''&'' # rest"
  have 1: "str_find ?s ''='' 0 = Some (length k)"
    using str_find_char_fresh [OF assms(1)] by simp
  have 2: "str_find ?s ''&'' (length k + 1) = Some (length k + 1 + length v)"
    using str_find_char_from [OF assms(2), of "k @ ''=''" rest] by simp
  have "parse_query m ?s = parse_query (m(k \<mapsto> v)) rest"
    by (subst parse_query.simps) (simp only: 1 2 option.case Let_def, simp)
  then show ?thesis by (simp add: query_pair_def)
qed

lemma parse_query_pairs:
  "\<forall>(k, v)\<in>set kvs. CHR ''='' \<notin> set k \<and> CHR ''&'' \<notin> set v \<Longrightarrow>
   parse_query m (query_of kvs) = m ++ map_of (rev kvs)"
proof (induction kvs arbitrary: m rule: induct_list012)
  case 1
  then show ?case by (simp add: query_of_def parse_query.simps)
next
  case (2 kv)
  then show ?case by (cases kv) (simp add: query_of_def parse_query_last map_add_def fun_eq_iff)
next
  case (3 kv kv' kvs)
  then show ?case
    by (cases kv) (simp add: query_of_def parse_query_next map_add_def fun_eq_iff split: option.splits)
qed

text \<open>Percent-encoding as a browser does it, for the round trip.\<close>

text \<open>
  Encoders differ in the characters they keep, in the case of the hex digits and in how they write a blank.
\<close>

definition hex_char :: "bool \<Rightarrow> nat \<Rightarrow> char" where
  "hex_char lower d = (if lower then ''0123456789abcdef'' ! d else ''0123456789ABCDEF'' ! d)"

definition url_plain :: "char \<Rightarrow> bool" where
  "url_plain c \<longleftrightarrow> c \<noteq> CHR ''%'' \<and> c \<noteq> CHR ''+'' \<and> c \<noteq> CHR '' ''"

definition url_encode_char :: "(char \<Rightarrow> bool) \<Rightarrow> bool \<Rightarrow> bool \<Rightarrow> char \<Rightarrow> string" where
  "url_encode_char keep lower blank_plus c =
     (if keep c \<and> url_plain c then [c]
      else if c = CHR '' '' \<and> blank_plus then ''+''
      else [CHR ''%'', hex_char lower (of_char c div 16), hex_char lower (of_char c mod 16)])"

lemma hex_char_val: "d < 16 \<Longrightarrow> hex_digit_val (hex_char lower d) = Some d"
proof -
  assume "d < 16"
  then have "d = 0 \<or> d = 1 \<or> d = 2 \<or> d = 3 \<or> d = 4 \<or> d = 5 \<or> d = 6 \<or> d = 7 \<or> d = 8 \<or> d = 9 \<or>
      d = 10 \<or> d = 11 \<or> d = 12 \<or> d = 13 \<or> d = 14 \<or> d = 15" by presburger
  then show ?thesis by (auto simp: hex_digit_val_def hex_char_def)
qed

lemma read_hex2_char:
  "read_hex2 (hex_char lower (of_char c div 16)) (hex_char lower (of_char c mod 16)) = Some (of_char c)"
proof -
  have "(of_char c :: nat) < 256" by (rule nat_of_char_less_256)
  then have "(of_char c :: nat) div 16 < 16" "(of_char c :: nat) mod 16 < 16"
    by (simp_all add: less_mult_imp_div_less)
  then show ?thesis by (simp add: read_hex2_def hex_char_val of_nat_of_char)
qed

lemma urlDecode_encode_char: "urlDecode (url_encode_char keep lower blank_plus c @ rest) = c # urlDecode rest"
  by (simp add: url_encode_char_def url_plain_def read_hex2_char)

lemma urlDecode_encode: "urlDecode (concat (map (url_encode_char keep lower blank_plus) s)) = s"
  by (induction s) (simp_all add: urlDecode_encode_char)

lemma add_header_field:
  "CHR '':'' \<notin> set k \<Longrightarrow> add_header h (k @ CHR '':'' # v) = h(k \<mapsto> v)"
  by (simp add: add_header_def str_find_char_fresh)

lemma getlines_field:
  "CHR '';'' \<notin> set k \<Longrightarrow> CHR '';'' \<notin> set v \<Longrightarrow>
   getlines CHR '';'' (k @ CHR '':'' # v @ CHR '';'' # rest) =
     (k @ CHR '':'' # v) # getlines CHR '';'' rest"
  using getlines_Cons_token [of "CHR '';''" "k @ CHR '':'' # v" rest] by simp

section \<open>Properties\<close>

text \<open>
  C13. Query strings round trip: pairs written as \<^verbatim>\<open>key=value\<close> and joined by \<^verbatim>\<open>&\<close> are all read back, a
  later pair overriding an earlier one with the same key, when no key contains \<^verbatim>\<open>=\<close> and no value
  contains \<^verbatim>\<open>&\<close>.
\<close>

theorem parseQueryString_roundtrip:
  assumes "\<forall>(k, v)\<in>set kvs. CHR ''='' \<notin> set k \<and> CHR ''&'' \<notin> set v"
  shows "parseQueryString (query_of kvs) = map_of (rev kvs)"
  using parse_query_pairs [OF assms, of Map.empty] by (simp add: parseQueryString_def)

theorem parseQueryString_roundtrip_witness:
  "parseQueryString (query_of [(''user'', ''bob''), (''pw'', ''a=b'')]) ''pw'' = Some ''a=b''"
  by (subst parseQueryString_roundtrip) simp_all

text \<open>
  C14. URL decoding inverts percent-encoding of any byte string, whichever characters besides
  percent, plus and blank the encoder chooses to keep, with hex digits of either case, and with a
  blank written as a plus or as its code.
\<close>

theorem urlDecode_inverts_encoding: "urlDecode (concat (map (url_encode_char keep lower blank_plus) s)) = s"
  by (rule urlDecode_encode)

text \<open>
  C15. Mail metadata round trip: the header written, encrypted, decrypted and parsed gives back the
  sender, recipient, subject and time stamp, when none of them contains a semicolon.
\<close>

theorem metadata_roundtrip:
  assumes "CHR '';'' \<notin> set sender" and "CHR '';'' \<notin> set recipient"
    and "CHR '';'' \<notin> set subject" and "CHR '';'' \<notin> set timestamp"
  shows "parseMetadata (decryptMetadata (encryptMetadata
      (createMetadata sender recipient subject timestamp))) =
    [''sender'' \<mapsto> sender, ''recipient'' \<mapsto> recipient, ''subject'' \<mapsto> subject,
     ''timestamp'' \<mapsto> timestamp]"
proof -
  have "getlines CHR '';'' (createMetadata sender recipient subject timestamp) =
      [''sender'' @ CHR '':'' # sender, ''recipient'' @ CHR '':'' # recipient,
       ''subject'' @ CHR '':'' # subject, ''timestamp'' @ CHR '':'' # timestamp]"
    using assms getlines_field [of "''sender''" sender] getlines_field [of "''recipient''" recipient]
      getlines_field [of "''subject''" subject] getlines_field [of "''timestamp''" timestamp "[]"]
    by (simp add: createMetadata_def)
  then show ?thesis
    using add_header_field [of "''sender''"] add_header_field [of "''recipient''"]
      add_header_field [of "''subject''"] add_header_field [of "''timestamp''"]
    by (simp add: parseMetadata_def encryptMetadata_def decryptMetadata_def)
qed

theorem metadata_roundtrip_witness:
  "parseMetadata (decryptMetadata (encryptMetadata (createMetadata ''a@x'' ''b@y'' ''Re: hi'' ''17'')))
     ''subject'' = Some ''Re: hi''"
  by (subst metadata_roundtrip) simp_all

text \<open>
  A semicolon in the subject forges header fields: a mail whose subject is \<^verbatim>\<open>x;sender:<other>\<close>
  is read back as sent by \<open>other\<close>, whoever sent it.
\<close>

theorem subject_forges_sender:
  assumes "CHR '';'' \<notin> set sender" and "CHR '';'' \<notin> set recipient"
    and "CHR '';'' \<notin> set other" and "CHR '';'' \<notin> set timestamp"
  shows "parseMetadata (createMetadata sender recipient (''x;sender:'' @ other) timestamp) ''sender''
    = Some other"
proof -
  have "getlines CHR '';'' (createMetadata sender recipient (''x;sender:'' @ other) timestamp) =
      [''sender'' @ CHR '':'' # sender, ''recipient'' @ CHR '':'' # recipient,
       ''subject'' @ CHR '':'' # ''x'', ''sender'' @ CHR '':'' # other,
       ''timestamp'' @ CHR '':'' # timestamp]"
    using assms getlines_field [of "''sender''" sender] getlines_field [of "''recipient''" recipient]
      getlines_field [of "''subject''" "''x''"] getlines_field [of "''sender''" other]
      getlines_field [of "''timestamp''" timestamp "[]"]
    by (simp add: createMetadata_def)
  then show ?thesis
    using add_header_field [of "''sender''"] add_header_field [of "''recipient''"]
      add_header_field [of "''subject''"] add_header_field [of "''timestamp''"]
    by (simp add: parseMetadata_def)
qed

theorem subject_forges_sender_witness:
  "parseMetadata (createMetadata ''eve@x'' ''bob@y'' (''x;sender:'' @ ''alice@z'') ''17'') ''sender''
     = Some ''alice@z''"
  by (rule subject_forges_sender) simp_all

end
