(* ===== verification/Kv_Monad.thy ===== *)
theory Kv_Monad
  imports User_Account Utils "HOL-Library.State_Monad" "HOL-Library.Monad_Syntax"
begin

text \<open>
  The mail and file services make many calls to the store in a row; they are written in the state
  monad over the store's state. The triples here are a small Hoare logic for such programs; inside
  \<open>kv_service\<close> each call gets a rule over the abstract map, for a state where the invariant holds,
  the map is \<open>M\<close> and the addresses of rows are \<open>R\<close>.
\<close>

section \<open>Calls as actions\<close>

definition kv_lookup :: "'st kv_ops \<Rightarrow> string \<Rightarrow> ('st, string) state" where
  "kv_lookup K key = State (\<lambda>st. op_lookup K st key)"

definition kv_get :: "'st kv_ops \<Rightarrow> string \<Rightarrow> string \<Rightarrow> string \<Rightarrow> ('st, string) state" where
  "kv_get K addr row col = State (\<lambda>st. op_get K st addr row col)"

definition kv_put :: "'st kv_ops \<Rightarrow> string \<Rightarrow> string \<Rightarrow> string \<Rightarrow> string \<Rightarrow> ('st, string) state" where
  "kv_put K addr row col v = State (\<lambda>st. op_put K st addr row col v)"

definition kv_cput ::
  "'st kv_ops \<Rightarrow> string \<Rightarrow> string \<Rightarrow> string \<Rightarrow> string \<Rightarrow> string \<Rightarrow> ('st, string) state" where
  "kv_cput K addr row col cur new = State (\<lambda>st. op_cput K st addr row col cur new)"

definition kv_delete :: "'st kv_ops \<Rightarrow> string \<Rightarrow> string \<Rightarrow> string \<Rightarrow> ('st, string) state" where
  "kv_delete K addr row col = State (\<lambda>st. op_delete K st addr row col)"

section \<open>Triples\<close>

definition triple :: "('st \<Rightarrow> bool) \<Rightarrow> ('st, 'a) state \<Rightarrow> ('a \<Rightarrow> 'st \<Rightarrow> bool) \<Rightarrow> bool" where
  "triple A m B \<longleftrightarrow> (\<forall>st. A st \<longrightarrow> B (fst (run_state m st)) (snd (run_state m st)))"

lemma tripleD: "triple A m B \<Longrightarrow> A st \<Longrightarrow> B (fst (run_state m st)) (snd (run_state m st))"
  by (simp add: triple_def)

lemma triple_return: "(\<And>st. A st \<Longrightarrow> B a st) \<Longrightarrow> triple A (State_Monad.return a) B"
  by (simp add: triple_def)

lemma triple_bind:
  "triple A m B \<Longrightarrow> (\<And>a. triple (B a) (f a) C) \<Longrightarrow> triple A (State_Monad.bind m f) C"
  by (simp add: triple_def case_prod_beta)

lemma triple_weaken: "triple A m B \<Longrightarrow> (\<And>a st. B a st \<Longrightarrow> C a st) \<Longrightarrow> triple A m C"
  by (simp add: triple_def)

lemma triple_pure: "(F \<Longrightarrow> triple A m B) \<Longrightarrow> triple (\<lambda>st. F \<and> A st) m B"
  by (auto simp: triple_def)

lemma triple_if: "(b \<Longrightarrow> triple A m B) \<Longrightarrow> (\<not> b \<Longrightarrow> triple A n B) \<Longrightarrow> triple A (if b then m else n) B"
  by simp

definition kv_at ::
  "('st \<Rightarrow> bool) \<Rightarrow> ('st \<Rightarrow> db) \<Rightarrow> ('st \<Rightarrow> string \<Rightarrow> string) \<Rightarrow> db \<Rightarrow> (string \<Rightarrow> string) \<Rightarrow> 'st \<Rightarrow> bool" where
  "kv_at ok contents route M R st \<longleftrightarrow> ok st \<and> contents st = M \<and> route st = R"

text \<open>What a \<open>Get\<close> returns for a cell.\<close>

definition reads :: "string option \<Rightarrow> string \<Rightarrow> bool" where
  "reads cell v = (case cell of None \<Rightarrow> is_err v | Some w \<Rightarrow> v = w)"

lemma reads_simps [simp]: "reads None v = is_err v" "reads (Some w) v = (v = w)"
  by (simp_all add: reads_def)

context kv_service
begin

abbreviation at :: "db \<Rightarrow> (string \<Rightarrow> string) \<Rightarrow> 'st \<Rightarrow> bool" where
  "at M R \<equiv> kv_at inv contents route M R"

lemma triple_lookup: "triple (at M R) (kv_lookup K row) (\<lambda>a st. a = R row \<and> at M R st)"
  by (auto simp: triple_def kv_lookup_def kv_at_def)

lemma triple_get: "triple (at M R) (kv_get K (R row) row col) (\<lambda>v st. reads (M row col) v \<and> at M R st)"
  using get_result get_keeps
  by (auto simp: triple_def kv_get_def kv_at_def reads_def cong: option.case_cong)

lemma triple_put:
  "triple (at M R) (kv_put K (R row) row col v)
     (\<lambda>res st. res = ''PUT Successful'' \<and> at (db_set M row col (Some v)) R st)"
  by (auto simp: triple_def kv_put_def kv_at_def)

lemma triple_delete:
  "triple (at M R) (kv_delete K (R row) row col)
     (\<lambda>res st. res = ''Delete Successful'' \<and> at (db_set M row col None) R st)"
  by (auto simp: triple_def kv_delete_def kv_at_def)

lemma triple_cput:
  "triple (at M R) (kv_cput K (R row) row col cur new)
     (\<lambda>_. at (if M row col = Some cur then db_set M row col (Some new) else M) R)"
  by (auto simp: triple_def kv_cput_def kv_at_def)

lemma route_not_err: "at M R st \<Longrightarrow> \<not> is_err (R row)"
  using route_ok by (auto simp: kv_at_def)

text \<open>The rules in the form in which programs are stepped through: one call, then the rest.\<close>

lemma step_lookup:
  "(\<not> is_err (R row) \<Longrightarrow> triple (at M R) (f (R row)) C) \<Longrightarrow>
   triple (at M R) (State_Monad.bind (kv_lookup K row) f) C"
proof -
  assume f: "\<not> is_err (R row) \<Longrightarrow> triple (at M R) (f (R row)) C"
  have "triple (\<lambda>st. a = R row \<and> at M R st) (f a) C" for a
    using f route_not_err by (fastforce simp: triple_def)
  with triple_lookup show ?thesis by (rule triple_bind)
qed

lemma step_get:
  assumes "\<And>v. reads (M row col) v \<Longrightarrow> triple (at M R) (f v) C"
  shows "triple (at M R) (State_Monad.bind (kv_get K (R row) row col) f) C"
  by (rule triple_bind [OF triple_get]) (rule triple_pure, rule assms)

lemma step_put:
  assumes "triple (at (db_set M row col (Some v)) R) (f ''PUT Successful'') C"
  shows "triple (at M R) (State_Monad.bind (kv_put K (R row) row col v) f) C"
  by (rule triple_bind [OF triple_put]) (rule triple_pure, use assms in simp)

lemma step_delete:
  assumes "triple (at (db_set M row col None) R) (f ''Delete Successful'') C"
  shows "triple (at M R) (State_Monad.bind (kv_delete K (R row) row col) f) C"
  by (rule triple_bind [OF triple_delete]) (rule triple_pure, use assms in simp)

lemma step_cput:
  assumes "\<And>res. triple (at (if M row col = Some cur then db_set M row col (Some new) else M) R) (g res) C"
  shows "triple (at M R) (State_Monad.bind (kv_cput K (R row) row col cur new) g) C"
  by (rule triple_bind [OF triple_cput]) (rule assms)

lemmas steps = step_lookup step_get step_put step_delete step_cput

lemma kv_atI: "inv st \<Longrightarrow> at (contents st) (route st) st"
  by (simp add: kv_at_def)

end

lemma healthy_kv_at: "healthy cl \<Longrightarrow> kv_at healthy (db P) (cluster_route P) (db P cl) (cluster_route P cl) cl"
  by (simp add: kv_at_def)

end
