(* ===== verification/Email_Service.thy ===== *)
theory Email_Service
  imports Kv_Monad
begin

text \<open>
  The mail service (\<^verbatim>\<open>frontend/email/email_service.cc\<close>). A mailbox is a row of the store,
  \<^verbatim>\<open>inbox_email:<user>\<close> or \<^verbatim>\<open>sent_email:<user>\<close>; its column \<^verbatim>\<open>meta\<close> is the comma-separated list of mail ids,
  and the column named by an id is the body. An id is the reversed header text. The clock is a
  parameter (\<open>timestamp\<close>, \<open>date\<close>), as is whether the local SMTP server accepts a connection
  (\<open>smtp_up\<close>); what is sent to it is the list of lines returned beside the page.
\<close>

abbreviation sq :: string where "sq \<equiv> [CHR 0x27]"

definition hdr :: "(string \<rightharpoonup> string) \<Rightarrow> string \<Rightarrow> string" where
  "hdr headers key = (case headers key of None \<Rightarrow> [] | Some v \<Rightarrow> v)"

section \<open>Outgoing mail\<close>

definition isExternalEmail :: "string \<Rightarrow> bool" where
  "isExternalEmail email \<longleftrightarrow> \<not> contains email ''@localhost''"

definition sendViaSMTP ::
  "bool \<Rightarrow> string \<Rightarrow> string \<Rightarrow> string \<Rightarrow> string \<Rightarrow> string \<Rightarrow> bool \<times> string list" where
  "sendViaSMTP smtp_up date sender recipient subject body =
     (if \<not> smtp_up then (False, [])
      else (True, map (\<lambda>msg. msg @ crlf)
        [''HELO localhost'',
         ''MAIL FROM:<'' @ sender @ ''>'',
         ''RCPT TO:<'' @ recipient @ ''>'',
         ''DATA'',
         (''From: '' @ sender @ [LF] @
          ''To: '' @ recipient @ [LF] @
          ''Subject: '' @ subject @ [LF] @
          ''Date: '' @ date) @ crlf @ crlf @ body @ crlf @ ''.'',
         ''QUIT'']))"

section \<open>The list of mail ids\<close>

definition appendToMetadata :: "'st kv_ops \<Rightarrow> string \<Rightarrow> string \<Rightarrow> ('st, unit) state" where
  "appendToMetadata K mailboxRow emailId = do {
     client \<leftarrow> kv_lookup K mailboxRow;
     currentMeta \<leftarrow> kv_get K client mailboxRow ''meta'';
     let newMeta = (if is_err currentMeta \<or> currentMeta = [] then emailId
                    else currentMeta @ '','' @ emailId);
     res \<leftarrow> kv_put K client mailboxRow ''meta'' newMeta;
     State_Monad.return () }"

definition removeFromMetadata :: "'st kv_ops \<Rightarrow> string \<Rightarrow> string \<Rightarrow> ('st, unit) state" where
  "removeFromMetadata K mailboxRow emailId = do {
     client \<leftarrow> kv_lookup K mailboxRow;
     currentMeta \<leftarrow> kv_get K client mailboxRow ''meta'';
     if is_err currentMeta then State_Monad.return ()
     else do {
       let ids = filter (\<lambda>token. token \<noteq> [] \<and> token \<noteq> emailId) (getlines CHR '','' currentMeta);
       res \<leftarrow> kv_put K client mailboxRow ''meta'' (join_with CHR '','' ids);
       State_Monad.return () } }"

definition mailbox_row :: "string \<Rightarrow> string \<Rightarrow> string" where
  "mailbox_row folder username =
     (if folder = ''sent'' then ''sent_email:'' @ username else ''inbox_email:'' @ username)"

section \<open>Pages\<close>

definition inbox_style :: string where
  "inbox_style =
     ''<html><head><title>Inbox</title>'' @ ''<style>'' @
     ''body { font-family: Arial, sans-serif; background: #f4f4f4; padding: 20px; }'' @
     ''h1, h2 { color: #333; }'' @
     ''table { border-collapse: collapse; width: 100%; margin-bottom: 40px; background: '' @
     ''#fff; box-shadow: 0 0 10px rgba(0,0,0,0.05); }'' @
     ''th, td { padding: 12px 15px; border: 1px solid #ddd; }'' @
     ''th { background-color: #007BFF; color: white; }'' @
     ''tr:hover { background-color: #f1f1f1; }'' @
     ''a { text-decoration: none; color: #007BFF; }'' @
     ''a:hover { text-decoration: underline; }'' @
     ''.compose-btn { padding: 10px 20px; background: #28a745; color: white; '' @
     ''border-radius: 5px; font-weight: bold; text-decoration: none; }'' @
     ''.compose-btn:hover { background: #218838; }'' @ ''</style></head><body>''"

definition inbox_entry :: "string \<Rightarrow> string \<Rightarrow> string" where
  "inbox_entry username encId =
     (let headers = parseMetadata (decryptMetadata encId)
      in ''<tr><td>'' @ encId @ ''</td><td>'' @ hdr headers ''sender'' @ ''</td><td>'' @
         hdr headers ''subject'' @ ''</td><td>'' @ hdr headers ''timestamp'' @
         ''</td><td>'' @ ''<a href='/email?id='' @ encId @ ''&folder=inbox&username='' @
         username @ sq @ ''>View</a> | '' @ ''<a href='/delete?id='' @ encId @
         ''&folder=inbox&username='' @ username @ sq @ ''>Delete</a>'' @ ''</td></tr>'')"

definition sent_entry :: "string \<Rightarrow> string \<Rightarrow> string" where
  "sent_entry username encId =
     (let headers = parseMetadata (decryptMetadata encId)
      in ''<tr><td>'' @ encId @ ''</td><td>'' @ hdr headers ''recipient'' @ ''</td><td>'' @
         hdr headers ''subject'' @ ''</td><td>'' @ hdr headers ''timestamp'' @
         ''</td><td>'' @ ''<a href='/email?id='' @ encId @ ''&folder=sent&username='' @
         username @ sq @ ''>View</a> | '' @ ''<a href='/delete?id='' @ encId @
         ''&folder=sent&username='' @ username @ sq @ ''>Delete</a>'' @ ''</td></tr>'')"

definition id_tokens :: "string \<Rightarrow> string list" where
  "id_tokens metaList = filter (\<lambda>token. token \<noteq> []) (getlines CHR '','' metaList)"

definition renderInbox :: "'st kv_ops \<Rightarrow> string \<Rightarrow> ('st, string) state" where
  "renderInbox K username = do {
     let inboxRow = ''inbox_email:'' @ username;
     client \<leftarrow> kv_lookup K inboxRow;
     metaList \<leftarrow> kv_get K client inboxRow ''meta'';
     let received = (if is_err metaList \<or> metaList = [] then
         ''<p>No received emails found.</p>''
       else
         ''<table border='1'><tr><th>Email '' @
         ''ID</th><th>From</th><th>Subject</th><th>Date</th><th>Actions</th></tr>'' @
         concat (map (inbox_entry username) (id_tokens metaList)) @ ''</table>'');
     let sentRow = ''sent_email:'' @ username;
     client2 \<leftarrow> kv_lookup K sentRow;
     sentMeta \<leftarrow> kv_get K client2 sentRow ''meta'';
     let sent = (if is_err sentMeta \<or> sentMeta = [] then
         ''<p>No sent emails found.</p>''
       else
         ''<table border='1'><tr><th>Email '' @
         ''ID</th><th>To</th><th>Subject</th><th>Date</th><th>Actions</th></tr>'' @
         concat (map (sent_entry username) (id_tokens sentMeta)) @ ''</table>'');
     State_Monad.return
       (inbox_style @
        ''<h1>Welcome, '' @ username @ ''</h1>'' @
        ''<h2>Inbox</h2>'' @ received @ ''<h2>Sent Emails</h2>'' @ sent @
        ''<br/><a href='/compose?username='' @ username @ sq @
        ''>Compose New Email</a></body></html>'') }"

definition view_error :: string where
  "view_error =
     ''<html><body><h1>Error:</h1><p>Email not found or failed to load.</p></body></html>''"

definition view_page :: "string \<Rightarrow> string \<Rightarrow> string \<Rightarrow> string \<Rightarrow> string" where
  "view_page username emailId folder body =
     (let headers = parseMetadata (decryptMetadata emailId)
      in ''<html><head><title>Email Details</title>'' @ ''<style>'' @
         ''body { font-family: Arial; background: #f4f4f4; padding: 20px; }'' @
         ''h1, h2 { color: #333; }'' @ ''p { line-height: 1.6; }'' @
         ''a { color: #007BFF; text-decoration: none; }'' @
         ''a:hover { text-decoration: underline; }'' @
         ''.back-btn { margin-top: 20px; display: inline-block; padding: 10px 20px; '' @
         ''background: #007BFF; color: white; border-radius: 5px; text-decoration: none; }'' @
         ''.back-btn:hover { background: #0056b3; }'' @ ''</style></head><body>'' @
         ''<h1>Email Details ('' @ folder @ '')</h1>'' @ ''<p><strong>From:</strong> '' @
         hdr headers ''sender'' @ ''</p>'' @ ''<p><strong>To:</strong> '' @
         hdr headers ''recipient'' @ ''</p>'' @ ''<p><strong>Subject:</strong> '' @
         hdr headers ''subject'' @ ''</p>'' @ ''<p><strong>Date:</strong> '' @
         hdr headers ''timestamp'' @ ''</p>'' @
         ''<p><strong>Body:</strong><br><div style='background:#fff;padding:15px;border:1px '' @
         ''solid #ccc;'>'' @ body @ ''</div></p>'' @ ''<p><a href='/reply?username='' @
         username @ ''&id='' @ emailId @ ''&folder='' @ folder @ sq @ ''>Reply</a> | '' @
         ''<a href='/forward?username='' @ username @ ''&id='' @ emailId @ ''&folder='' @
         folder @ sq @ ''>Forward</a></p>'' @
         ''<a class='back-btn' href='/inbox?username='' @ username @ ''&folder='' @ folder @
         sq @ ''>Back to Inbox</a>'' @ ''</body></html>'')"

definition viewEmail :: "'st kv_ops \<Rightarrow> string \<Rightarrow> string \<Rightarrow> string \<Rightarrow> ('st, string) state" where
  "viewEmail K username emailId folder = do {
     let rowKey = mailbox_row folder username;
     client \<leftarrow> kv_lookup K rowKey;
     body \<leftarrow> kv_get K client rowKey emailId;
     State_Monad.return
       (if is_err body then view_error else view_page username emailId folder body) }"

definition renderCompose :: "string \<Rightarrow> string" where
  "renderCompose username =
     ''<html><head><title>Compose Email</title>'' @ ''<style>'' @
     ''body { font-family: Arial; background: #f4f4f4; padding: 20px; }'' @
     ''form { background: #fff; padding: 20px; border-radius: 5px; box-shadow: 0 0 5px '' @
     ''rgba(0,0,0,0.1); }'' @
     ''input[type=text], textarea { width: 100%; padding: 10px; margin-bottom: 15px; '' @
     ''border: 1px solid #ccc; border-radius: 4px; }'' @
     ''input[type=submit] { background: #28a745; color: white; padding: 10px 20px; '' @
     ''border: none; border-radius: 4px; cursor: pointer; }'' @
     ''input[type=submit]:hover { background: #218838; }'' @
     ''.back-link { margin-top: 20px; display: inline-block; color: #007BFF; }'' @
     ''</style></head><body>'' @ ''<h1>Compose New Email</h1>'' @
     ''<form method='POST' action='/send'>'' @ ''To: <input type='text' name='to'><br>'' @
     ''Subject: <input type='text' name='subject'><br>'' @
     ''Body:<br><textarea name='body' rows='10' cols='30'></textarea><br>'' @
     ''<input type='hidden' name='username' value='' @ sq @ username @ sq @ ''>'' @
     ''<input type='submit' value='Send'>'' @ ''</form>'' @
     ''<a class='back-link' href='/inbox?username='' @ username @ sq @
     ''>Back to Inbox</a>'' @ ''</body></html>''"

section \<open>Sending\<close>

definition form_data :: "string \<Rightarrow> (string \<rightharpoonup> string)" where
  "form_data postData = (\<lambda>k. map_option urlDecode (parseQueryString postData k))"

definition deliver_internal ::
  "'st kv_ops \<Rightarrow> string \<Rightarrow> string \<Rightarrow> string \<Rightarrow> ('st, bool) state" where
  "deliver_internal K row encryptedMetadata body = do {
     client \<leftarrow> kv_lookup K row;
     putResult \<leftarrow> kv_put K client row encryptedMetadata body;
     if \<not> is_err putResult then do {
       appendToMetadata K row encryptedMetadata;
       State_Monad.return True }
     else State_Monad.return False }"

definition send_page :: "string \<Rightarrow> string \<Rightarrow> bool \<Rightarrow> bool \<Rightarrow> string" where
  "send_page senderUsername recipient inboxSuccess senderSuccess =
     ''<html><head><meta http-equiv='refresh' content='2;url=/inbox?username='' @
     senderUsername @ sq @ ''></head><body>'' @
     (if \<not> inboxSuccess then
        ''<p style='color:red;'>Warning: Failed to deliver to '' @ recipient @ ''</p>'' else []) @
     (if \<not> senderSuccess then
        ''<p style='color:red;'>Warning: Email was not stored in your sent folder</p>'' else []) @
     ''<p>Email send attempt completed. Redirecting...</p></body></html>''"

definition sendEmail ::
  "'st kv_ops \<Rightarrow> bool \<Rightarrow> string \<Rightarrow> string \<Rightarrow> string \<Rightarrow> ('st, string \<times> string list) state" where
  "sendEmail K smtp_up timestamp date postData = do {
     let formData = form_data postData;
     let recipient = hdr formData ''to'';
     let subject = hdr formData ''subject'';
     let body = hdr formData ''body'';
     let senderUsername = hdr formData ''username'';
     let encryptedMetadata = encryptMetadata (createMetadata senderUsername recipient subject timestamp);
     (inboxSuccess, outgoing) \<leftarrow>
       (if isExternalEmail recipient then
          State_Monad.return (sendViaSMTP smtp_up date senderUsername recipient subject body)
        else do {
          ok \<leftarrow> deliver_internal K (''inbox_email:'' @ recipient) encryptedMetadata body;
          State_Monad.return (ok, []) });
     senderSuccess \<leftarrow> deliver_internal K (''sent_email:'' @ senderUsername) encryptedMetadata body;
     State_Monad.return (send_page senderUsername recipient inboxSuccess senderSuccess, outgoing) }"

section \<open>Replying and forwarding\<close>

definition original_body :: "'st kv_ops \<Rightarrow> string \<Rightarrow> string \<Rightarrow> ('st, string) state" where
  "original_body K rowKey emailId = do {
     client \<leftarrow> kv_lookup K rowKey;
     originalBody \<leftarrow> kv_get K client rowKey emailId;
     State_Monad.return
       (if is_err originalBody then ''[Original message not available]'' else originalBody) }"

definition reply_headers :: "string \<Rightarrow> (string \<rightharpoonup> string)" where
  "reply_headers decryptedMeta =
     foldl (\<lambda>headers pair. if pair = [] then headers else add_header headers pair)
       Map.empty (getlines CHR '';'' decryptedMeta)"

definition renderReplyCompose ::
  "'st kv_ops \<Rightarrow> string \<Rightarrow> string \<Rightarrow> string \<Rightarrow> ('st, string) state" where
  "renderReplyCompose K username emailId folder = do {
     originalBody \<leftarrow> original_body K (mailbox_row folder username) emailId;
     let headers = reply_headers (decryptMetadata emailId);
     let replyTo = hdr headers ''sender'';
     let originalSubject = hdr headers ''subject'';
     let replySubject = (if prefix ''Re:'' originalSubject then originalSubject
                         else ''Re: '' @ originalSubject);
     let quotedBody =
       [LF] @ [LF] @ ''---------- Original Message ----------'' @ [LF] @ ''From: '' @
       hdr headers ''sender'' @ [LF] @ ''Subject: '' @ originalSubject @ [LF] @ [LF] @
       originalBody;
     State_Monad.return
       (''<html><head><title>Reply Email</title></head><body>'' @
        ''<h1>Reply to Message</h1>'' @ ''<form method='POST' action='/send'>'' @
        ''<input type='hidden' name='is_reply' value='true'>'' @
        ''<input type='hidden' name='original_id' value='' @ sq @ emailId @ sq @ ''>'' @
        ''To: <input type='text' name='to' value='' @ sq @ replyTo @ sq @ ''><br>'' @
        ''Subject: <input type='text' name='subject' value='' @ sq @ replySubject @ sq @
        ''><br>'' @ ''Body:<textarea name='body' rows='10' cols='30'>'' @ quotedBody @
        ''</textarea><br>'' @ ''<input type='hidden' name='username' value='' @ sq @
        username @ sq @ ''>'' @ ''<input type='submit' value='Send'></form>'' @
        ''<a href='/inbox?username='' @ username @ sq @ ''>Back to Inbox</a>'' @
        ''</body></html>'') }"

definition renderForwardCompose ::
  "'st kv_ops \<Rightarrow> string \<Rightarrow> string \<Rightarrow> string \<Rightarrow> ('st, string) state" where
  "renderForwardCompose K username emailId folder = do {
     originalBody \<leftarrow> original_body K (mailbox_row folder username) emailId;
     let headers = reply_headers (decryptMetadata emailId);
     let originalSubject = hdr headers ''subject'';
     let forwardSubject = (if prefix ''Fwd:'' originalSubject then originalSubject
                           else ''Fwd: '' @ originalSubject);
     let quotedBody =
       [LF] @ [LF] @ ''---------- Forwarded Message ----------'' @ [LF] @ ''From: '' @
       hdr headers ''sender'' @ [LF] @ ''Subject: '' @ originalSubject @ [LF] @ ''Date: '' @
       hdr headers ''timestamp'' @ [LF] @ [LF] @ originalBody;
     State_Monad.return
       (''<html><head><title>Forward Email</title></head><body>'' @
        ''<h1>Forward Message</h1>'' @ ''<form method='POST' action='/send'>'' @
        ''<input type='hidden' name='is_forward' value='true'>'' @
        ''<input type='hidden' name='original_id' value='' @ sq @ emailId @ sq @ ''>'' @
        ''To: <input type='text' name='to'><br>'' @
        ''Subject: <input type='text' name='subject' value='' @ sq @ forwardSubject @ sq @
        ''><br>'' @ ''Body:<textarea name='body' rows='10' cols='30'>'' @ quotedBody @
        ''</textarea><br>'' @ ''<input type='hidden' name='username' value='' @ sq @
        username @ sq @ ''>'' @ ''<input type='submit' value='Send'></form>'' @
        ''<a href='/inbox?username='' @ username @ sq @ ''>Back to Inbox</a>'' @
        ''</body></html>'') }"

section \<open>Deleting\<close>

definition delete_error :: string where
  "delete_error =
     ''<html><body><h1>Error:</h1><p>Delete failed: email not found or server '' @
     ''error.</p></body></html>''"

definition deleteEmail :: "'st kv_ops \<Rightarrow> string \<Rightarrow> string \<Rightarrow> string \<Rightarrow> ('st, string) state" where
  "deleteEmail K username emailId folder = do {
     let rowKey = mailbox_row folder username;
     client \<leftarrow> kv_lookup K rowKey;
     res \<leftarrow> kv_delete K client rowKey emailId;
     if is_err res then State_Monad.return delete_error
     else do {
       removeFromMetadata K rowKey emailId;
       State_Monad.return ''Email deleted successfully!'' } }"

section \<open>Dispatch\<close>

definition request_user :: "(string \<rightharpoonup> string) \<Rightarrow> string" where
  "request_user queryParams =
     (let username = (case queryParams ''username'' of Some u \<Rightarrow> urlDecode u | None \<Rightarrow> ''test'')
      in if \<not> contains username ''@'' then username @ ''@localhost'' else username)"

definition request_id :: "(string \<rightharpoonup> string) \<Rightarrow> string" where
  "request_id queryParams = (case queryParams ''id'' of Some i \<Rightarrow> urlDecode i | None \<Rightarrow> ''1'')"

definition page_only :: "('st, string) state \<Rightarrow> ('st, string \<times> string list) state" where
  "page_only m = do { page \<leftarrow> m; State_Monad.return (page, []) }"

definition handleRequest ::
  "'st kv_ops \<Rightarrow> bool \<Rightarrow> string \<Rightarrow> string \<Rightarrow> string \<Rightarrow> string \<Rightarrow> string \<Rightarrow> string
     \<Rightarrow> ('st, string \<times> string list) state" where
  "handleRequest K smtp_up timestamp date path reqType queryStr postData =
     (let queryParams = parseQueryString queryStr;
          username = request_user queryParams;
          folder = (case queryParams ''folder'' of Some f \<Rightarrow> f | None \<Rightarrow> ''inbox'');
          emailId = request_id queryParams
      in if path = ''/inbox'' \<and> reqType = ''GET'' then page_only (renderInbox K username)
         else if path = ''/send'' \<and> reqType = ''POST'' then sendEmail K smtp_up timestamp date postData
         else if path = ''/email'' \<and> reqType = ''GET'' then page_only (viewEmail K username emailId folder)
         else if path = ''/compose'' \<and> reqType = ''GET'' then State_Monad.return (renderCompose username, [])
         else if path = ''/delete'' \<and> reqType = ''POST'' then page_only (deleteEmail K username emailId folder)
         else if path = ''/reply'' \<and> reqType = ''GET'' then
           page_only (renderReplyCompose K username emailId folder)
         else if path = ''/forward'' \<and> reqType = ''GET'' then
           page_only (renderForwardCompose K username emailId folder)
         else State_Monad.return (''Invalid path'', []))"

end
