(* ===== verification/Email_Properties.thy ===== *)
theory Email_Properties
  imports Email_Service
begin

text \<open>
  What the mail service does to the mailboxes: delivery adds the mail to the recipient's inbox and to
  the sender's folder, deletion removes it, and nothing else changes. \<open>mailbox_ids\<close> is the list of
  mails a page shows for a mailbox row.
\<close>

section \<open>Lists of ids\<close>

definition mailbox_ids :: "db \<Rightarrow> string \<Rightarrow> string list" where
  "mailbox_ids M row =
     (case M row ''meta'' of
        None \<Rightarrow> []
      | Some m \<Rightarrow> if is_err m \<or> m = [] then [] else id_tokens m)"

lemma id_tokens_Nil [simp]: "id_tokens [] = []"
  by (simp add: id_tokens_def)

lemma id_tokens_append_sep: "id_tokens (s @ CHR '','' # t) = id_tokens s @ id_tokens t"
proof (induction "CHR '',''" s arbitrary: t rule: getlines.induct)
  case (1 s)
  let ?d = "CHR '',''"
  show ?case
  proof (cases "s = []")
    case True
    then show ?thesis by (simp add: id_tokens_def getlines.simps [of _ "?d # t"])
  next
    case False
    show ?thesis
    proof (cases "?d \<in> set s")
      case True
      then obtain tok rest where s: "s = tok @ ?d # rest" "?d \<notin> set tok"
        by (metis split_list_first)
      then have "dropWhile (\<lambda>c. c \<noteq> ?d) s = ?d # rest" by (simp add: until_char)
      then have "id_tokens (rest @ ?d # t) = id_tokens rest @ id_tokens t"
        using 1 False by blast
      then show ?thesis
        using s by (simp add: id_tokens_def getlines_Cons_token)
    next
      case nod: False
      then show ?thesis
        using False by (simp add: id_tokens_def getlines_Cons_token getlines_last)
    qed
  qed
qed

lemma id_tokens_single: "CHR '','' \<notin> set i \<Longrightarrow> i \<noteq> [] \<Longrightarrow> id_tokens i = [i]"
  by (simp add: id_tokens_def getlines_last)

lemma id_tokens_join:
  "\<forall>t\<in>set ts. CHR '','' \<notin> set t \<and> t \<noteq> [] \<Longrightarrow> id_tokens (join_with CHR '','' ts) = ts"
  by (induction "CHR '',''" ts rule: join_with.induct)
    (simp_all add: id_tokens_append_sep id_tokens_single)

lemma getlines_no_sep: "t \<in> set (getlines d s) \<Longrightarrow> d \<notin> set t"
proof (induction d s rule: getlines.induct)
  case (1 d s)
  have "d \<notin> set (takeWhile (\<lambda>c. c \<noteq> d) s)" by (auto dest: set_takeWhileD)
  moreover have "s \<noteq> []" using 1(2) by auto
  ultimately show ?case
  proof (cases "dropWhile (\<lambda>c. c \<noteq> d) s")
    case Nil
    then have "t = takeWhile (\<lambda>c. c \<noteq> d) s"
      using 1(2) \<open>s \<noteq> []\<close> by (subst (asm) getlines.simps) (simp only: if_False list.case set_simps, simp)
    with \<open>d \<notin> set (takeWhile (\<lambda>c. c \<noteq> d) s)\<close> show ?thesis by simp
  next
    case (Cons x rest)
    then have "t = takeWhile (\<lambda>c. c \<noteq> d) s \<or> t \<in> set (getlines d rest)"
      using 1(2) \<open>s \<noteq> []\<close> by (subst (asm) getlines.simps) (simp only: if_False list.case set_simps, simp)
    with \<open>d \<notin> set (takeWhile (\<lambda>c. c \<noteq> d) s)\<close> show ?thesis
      using 1(1) [OF \<open>s \<noteq> []\<close> Cons] by auto
  qed
qed

lemma id_tokens_clean: "t \<in> set (id_tokens s) \<Longrightarrow> CHR '','' \<notin> set t \<and> t \<noteq> []"
  using getlines_no_sep by (auto simp: id_tokens_def)

lemma is_err_append [simp]: "is_err (m @ CHR '','' # i) \<longleftrightarrow> is_err m"
  by (rule is_err_sep) simp

lemma is_err_join: "is_err (join_with CHR '','' ts) \<Longrightarrow> ts \<noteq> [] \<and> is_err (hd ts)"
  by (induction "CHR '',''" ts rule: join_with.induct) (simp_all add: is_err_def [of "[]"])

text \<open>Mail ids the service generates start with the reversed final semicolon.\<close>

definition mail_id :: "string \<Rightarrow> string \<Rightarrow> string \<Rightarrow> string \<Rightarrow> string" where
  "mail_id sender recipient subject timestamp =
     encryptMetadata (createMetadata sender recipient subject timestamp)"

lemma mail_id_shape: "\<exists>rest. mail_id s r sub ts = CHR '';'' # rest"
  by (simp add: mail_id_def encryptMetadata_def createMetadata_def)

lemma mail_id_facts: "mail_id s r sub ts \<noteq> []" "\<not> is_err (mail_id s r sub ts)" "mail_id s r sub ts \<noteq> ''meta''"
  using mail_id_shape [of s r sub ts] by (auto simp: is_err_prefix)

lemma mail_id_comma: "CHR '','' \<in> set (mail_id s r sub ts) \<longleftrightarrow>
    CHR '','' \<in> set s \<or> CHR '','' \<in> set r \<or> CHR '','' \<in> set sub \<or> CHR '','' \<in> set ts"
  by (auto simp: mail_id_def encryptMetadata_def createMetadata_def)

section \<open>Metadata updates\<close>

definition append_meta :: "string option \<Rightarrow> string \<Rightarrow> string" where
  "append_meta cell i = (case cell of None \<Rightarrow> i | Some m \<Rightarrow> if is_err m \<or> m = [] then i else m @ '','' @ i)"

lemma mailbox_ids_append:
  assumes "CHR '','' \<notin> set i" "i \<noteq> []" "\<not> is_err i"
  shows "mailbox_ids (db_set M row ''meta'' (Some (append_meta (M row ''meta'') i))) row =
    mailbox_ids M row @ [i]"
  using assms
  by (auto simp: mailbox_ids_def db_set_def append_meta_def id_tokens_single id_tokens_append_sep
      split: option.split)

lemma mailbox_ids_other: "row' \<noteq> row \<Longrightarrow> mailbox_ids (db_set M row c v) row' = mailbox_ids M row'"
  by (simp add: mailbox_ids_def db_set_def)

lemma mailbox_ids_body: "c \<noteq> ''meta'' \<Longrightarrow> mailbox_ids (db_set M row c v) row' = mailbox_ids M row'"
  by (simp add: mailbox_ids_def db_set_def)

lemma mailbox_ids_remove:
  assumes "\<forall>t\<in>set (mailbox_ids M row). \<not> is_err t" "M row ''meta'' = Some m" "\<not> is_err m"
  shows "mailbox_ids (db_set M row ''meta''
      (Some (join_with CHR '','' (filter (\<lambda>t. t \<noteq> [] \<and> t \<noteq> i) (getlines CHR '','' m))))) row =
    filter (\<lambda>t. t \<noteq> i) (mailbox_ids M row)"
proof -
  let ?ts = "filter (\<lambda>t. t \<noteq> [] \<and> t \<noteq> i) (getlines CHR '','' m)"
  have ts: "?ts = filter (\<lambda>t. t \<noteq> i) (mailbox_ids M row)"
    using assms(2,3) by (auto simp: mailbox_ids_def id_tokens_def filter_filter conj_commute)
  have clean: "\<forall>t\<in>set ?ts. CHR '','' \<notin> set t \<and> t \<noteq> []" using getlines_no_sep by auto
  have "\<not> is_err (join_with CHR '','' ?ts)"
  proof
    assume "is_err (join_with CHR '','' ?ts)"
    then have "hd ?ts \<in> set ?ts" "is_err (hd ?ts)" using is_err_join hd_in_set by blast+
    then show False using assms(1) unfolding ts by auto
  qed
  then show ?thesis
    using id_tokens_join [OF clean] ts by (auto simp: mailbox_ids_def db_set_def)
qed

section \<open>The operations on the abstract map\<close>

definition removed :: "db \<Rightarrow> string \<Rightarrow> string \<Rightarrow> db" where
  "removed M row i =
     (case M row ''meta'' of
        None \<Rightarrow> M
      | Some m \<Rightarrow> if is_err m then M
          else db_set M row ''meta'' (Some (join_with CHR '',''
            (filter (\<lambda>t. t \<noteq> [] \<and> t \<noteq> i) (getlines CHR '','' m)))))"

definition delivered :: "db \<Rightarrow> string \<Rightarrow> string \<Rightarrow> string \<Rightarrow> db" where
  "delivered M row i body =
     (let M1 = db_set M row i (Some body)
      in db_set M1 row ''meta'' (Some (append_meta (M1 row ''meta'') i)))"

text \<open>The map after an internal mail was sent with a form.\<close>

definition sent_mail :: "db \<Rightarrow> string \<Rightarrow> string \<Rightarrow> db" where
  "sent_mail M timestamp post =
     (let f = form_data post;
          i = mail_id (hdr f ''username'') (hdr f ''to'') (hdr f ''subject'') timestamp
      in delivered (delivered M (''inbox_email:'' @ hdr f ''to'') i (hdr f ''body''))
           (''sent_email:'' @ hdr f ''username'') i (hdr f ''body''))"

lemma is_err_results [simp]: "\<not> is_err ''PUT Successful''" "\<not> is_err ''Delete Successful''"
  by (simp_all add: is_err_prefix)

context kv_service
begin

lemma triple_appendToMetadata:
  "triple (at M R) (appendToMetadata K row i)
     (\<lambda>_. at (db_set M row ''meta'' (Some (append_meta (M row ''meta'') i))) R)"
  unfolding appendToMetadata_def Let_def
proof (intro steps)
  fix v assume v: "reads (M row ''meta'') v"
  then have "(if is_err v \<or> v = [] then i else v @ '','' @ i) = append_meta (M row ''meta'') i"
    by (cases "M row ''meta''") (auto simp: append_meta_def)
  then show "triple (at (db_set M row ''meta'' (Some (if is_err v \<or> v = [] then i else v @ '','' @ i))) R)
      (State_Monad.return ())
      (\<lambda>_. at (db_set M row ''meta'' (Some (append_meta (M row ''meta'') i))) R)"
    by (intro triple_return) simp
qed

lemma triple_removeFromMetadata:
  "triple (at M R) (removeFromMetadata K row i) (\<lambda>_. at (removed M row i) R)"
  unfolding removeFromMetadata_def Let_def
proof (intro steps)
  fix v assume v: "reads (M row ''meta'') v"
  let ?ts = "filter (\<lambda>token. token \<noteq> [] \<and> token \<noteq> i) (getlines CHR '','' v)"
  show "triple (at M R)
      (if is_err v then State_Monad.return ()
       else do { res \<leftarrow> kv_put K (R row) row ''meta'' (join_with CHR '','' ?ts); State_Monad.return () })
      (\<lambda>_. at (removed M row i) R)"
  proof (rule triple_if)
    assume "is_err v"
    then have "removed M row i = M" using v by (cases "M row ''meta''") (auto simp: removed_def)
    then show "triple (at M R) (State_Monad.return ()) (\<lambda>_. at (removed M row i) R)"
      by (intro triple_return) simp
  next
    assume "\<not> is_err v"
    then have "removed M row i = db_set M row ''meta'' (Some (join_with CHR '','' ?ts))"
      using v by (cases "M row ''meta''") (auto simp: removed_def)
    then show "triple (at M R)
        (do { res \<leftarrow> kv_put K (R row) row ''meta'' (join_with CHR '','' ?ts); State_Monad.return () })
        (\<lambda>_. at (removed M row i) R)"
      by (intro steps triple_return) simp
  qed
qed

lemma triple_deliver_internal:
  "triple (at M R) (deliver_internal K row i body) (\<lambda>ok st. ok \<and> at (delivered M row i body) R st)"
  unfolding deliver_internal_def
  by (intro steps) (simp, rule triple_bind [OF triple_appendToMetadata],
      rule triple_return, simp add: delivered_def Let_def)

lemma triple_sendEmail_internal:
  assumes "\<not> isExternalEmail (hdr (form_data post) ''to'')"
  shows "triple (at M R) (sendEmail K smtp_up timestamp date post)
    (\<lambda>(page, outgoing) st. page = send_page (hdr (form_data post) ''username'') (hdr (form_data post) ''to'') True True \<and>
       outgoing = [] \<and> at (sent_mail M timestamp post) R st)"
proof -
  let ?f = "form_data post"
  let ?i = "mail_id (hdr ?f ''username'') (hdr ?f ''to'') (hdr ?f ''subject'') timestamp"
  let ?M1 = "delivered M (''inbox_email:'' @ hdr ?f ''to'') ?i (hdr ?f ''body'')"
  have inbox: "triple (at M R)
      (do { ok \<leftarrow> deliver_internal K (''inbox_email:'' @ hdr ?f ''to'') ?i (hdr ?f ''body'');
            State_Monad.return (ok, []) })
      (\<lambda>r st. r = (True, []) \<and> at ?M1 R st)"
    by (rule triple_bind [OF triple_deliver_internal]) (rule triple_pure, rule triple_return, simp)
  show ?thesis
    unfolding sendEmail_def Let_def mail_id_def [symmetric]
    by (simp only: assms if_False, rule triple_bind [OF inbox], rule triple_pure, simp only: prod.case,
        rule triple_bind [OF triple_deliver_internal], rule triple_pure, rule triple_return)
      (simp add: sent_mail_def Let_def)
qed

lemma triple_deleteEmail:
  "triple (at M R) (deleteEmail K u i folder)
     (\<lambda>page st. page = ''Email deleted successfully!'' \<and>
        at (removed (db_set M (mailbox_row folder u) i None) (mailbox_row folder u) i) R st)"
  unfolding deleteEmail_def Let_def
  by (intro steps) (simp, rule triple_bind [OF triple_removeFromMetadata], rule triple_return, simp)

lemma triple_viewEmail:
  "triple (at M R) (viewEmail K u i folder)
     (\<lambda>page st. page = (case M (mailbox_row folder u) i of
          None \<Rightarrow> view_error
        | Some body \<Rightarrow> if is_err body then view_error else view_page u i folder body) \<and> at M R st)"
  unfolding viewEmail_def Let_def
  by (intro steps triple_return) (auto split: option.splits)

end

section \<open>Properties\<close>

lemma delivered_other: "row' \<noteq> row \<Longrightarrow> delivered M row i body row' = M row'"
  by (simp add: delivered_def db_set_def fun_eq_iff Let_def)

lemma delivered_column: "c \<noteq> i \<Longrightarrow> c \<noteq> ''meta'' \<Longrightarrow> delivered M row i body row' c = M row' c"
  by (simp add: delivered_def db_set_def Let_def)

lemma delivered_body: "i \<noteq> ''meta'' \<Longrightarrow> delivered M row i body row i = Some body"
  by (simp add: delivered_def db_set_def Let_def)

lemma delivered_ids:
  assumes "CHR '','' \<notin> set i" "i \<noteq> []" "\<not> is_err i" "i \<noteq> ''meta''"
  shows "mailbox_ids (delivered M row i body) row = mailbox_ids M row @ [i]"
  using mailbox_ids_append [OF assms(1-3), of "db_set M row i (Some body)" row]
    mailbox_ids_body [OF assms(4)] by (simp add: delivered_def Let_def)

lemma mailbox_ids_cong: "M row = M' row \<Longrightarrow> mailbox_ids M row = mailbox_ids M' row"
  by (simp add: mailbox_ids_def)

lemma sendEmail_cluster:
  assumes "healthy cl" "\<not> isExternalEmail (hdr (form_data post) ''to'')"
  shows "snd (fst (run_state (sendEmail (cluster_ops P) smtp_up timestamp date post) cl)) = []"
    "healthy (snd (run_state (sendEmail (cluster_ops P) smtp_up timestamp date post) cl))"
    "db P (snd (run_state (sendEmail (cluster_ops P) smtp_up timestamp date post) cl)) =
       sent_mail (db P cl) timestamp post"
  using tripleD [OF kv.triple_sendEmail_internal [where P = P and smtp_up = smtp_up and
        timestamp = timestamp and date = date, OF assms(2)] healthy_kv_at [OF assms(1)]]
  by (auto simp: kv_at_def split: prod.splits)

definition mail_sample :: string where
  "mail_sample = ''to=bob@localhost&subject=hi&body=yo&username=eve@localhost''"

lemma mail_sample_form:
  "hdr (form_data mail_sample) ''to'' = ''bob@localhost''"
  "hdr (form_data mail_sample) ''subject'' = ''hi''"
  "hdr (form_data mail_sample) ''body'' = ''yo''"
  "hdr (form_data mail_sample) ''username'' = ''eve@localhost''"
  "\<not> isExternalEmail ''bob@localhost''"
  by code_simp+

text \<open>
  C19. Internal delivery on a healthy cluster: a mail to a local address, with no comma in its
  header fields and a body that does not start with \<^verbatim>\<open>ERR\<close>, is stored with its body under its id in the
  recipient's inbox row and the sender's sent row and is appended at the end of both lists of mails.
  Every other row keeps all its cells, and so do the two rows but for the list and the cell of
  this id: the bodies of all other mails stay. Nothing is sent over SMTP, and the recipient who
  opens the mail gets the page with exactly that body.
\<close>

theorem internal_mail_delivered:
  fixes post timestamp
  defines "f \<equiv> form_data post"
  defines "i \<equiv> mail_id (hdr f ''username'') (hdr f ''to'') (hdr f ''subject'') timestamp"
  assumes "healthy cl" and "\<not> isExternalEmail (hdr f ''to'')"
    and "CHR '','' \<notin> set (hdr f ''username'' @ hdr f ''to'' @ hdr f ''subject'' @ timestamp)"
    and "\<not> is_err (hdr f ''body'')"
    and "run_state (sendEmail (cluster_ops P) smtp_up timestamp date post) cl = ((page, outgoing), cl')"
  shows "mailbox_ids (db P cl') (''inbox_email:'' @ hdr f ''to'') =
           mailbox_ids (db P cl) (''inbox_email:'' @ hdr f ''to'') @ [i] \<and>
         mailbox_ids (db P cl') (''sent_email:'' @ hdr f ''username'') =
           mailbox_ids (db P cl) (''sent_email:'' @ hdr f ''username'') @ [i] \<and>
         (\<forall>row. row \<noteq> ''inbox_email:'' @ hdr f ''to'' \<longrightarrow> row \<noteq> ''sent_email:'' @ hdr f ''username'' \<longrightarrow>
            db P cl' row = db P cl row) \<and>
         db P cl' (''inbox_email:'' @ hdr f ''to'') i = Some (hdr f ''body'') \<and>
         db P cl' (''sent_email:'' @ hdr f ''username'') i = Some (hdr f ''body'') \<and>
         (\<forall>row column. column \<noteq> i \<longrightarrow> column \<noteq> ''meta'' \<longrightarrow>
            db P cl' row column = db P cl row column) \<and>
         outgoing = [] \<and> healthy cl' \<and>
         fst (run_state (viewEmail (cluster_ops P) (hdr f ''to'') i ''inbox'') cl') =
           view_page (hdr f ''to'') i ''inbox'' (hdr f ''body'')"
proof -
  let ?in = "''inbox_email:'' @ hdr f ''to''" and ?out = "''sent_email:'' @ hdr f ''username''"
  let ?b = "hdr f ''body''"
  have c: "outgoing = []" "healthy cl'" "db P cl' = delivered (delivered (db P cl) ?in i ?b) ?out i ?b"
    using sendEmail_cluster [OF assms(3), of post P smtp_up timestamp date] assms(4,7)
    by (simp_all add: sent_mail_def Let_def f_def i_def)
  have i: "CHR '','' \<notin> set i" "i \<noteq> []" "\<not> is_err i" "i \<noteq> ''meta''"
    using mail_id_facts mail_id_comma assms(5) by (auto simp: i_def)
  have d: "?in \<noteq> ?out" by simp
  have inbox: "db P cl' ?in = delivered (db P cl) ?in i ?b ?in"
    unfolding c(3) by (rule delivered_other) simp
  have ids1: "mailbox_ids (db P cl') ?in = mailbox_ids (db P cl) ?in @ [i]"
    using mailbox_ids_cong [of "db P cl'" ?in "delivered (db P cl) ?in i ?b"] inbox delivered_ids [OF i]
    by simp
  have "mailbox_ids (delivered (db P cl) ?in i ?b) ?out = mailbox_ids (db P cl) ?out"
    by (rule mailbox_ids_cong, rule delivered_other) simp
  then have ids2: "mailbox_ids (db P cl') ?out = mailbox_ids (db P cl) ?out @ [i]"
    unfolding c(3) by (simp add: delivered_ids [OF i])
  have body: "db P cl' ?in i = Some ?b" "db P cl' ?out i = Some ?b"
    using inbox delivered_body [OF i(4)] by (simp_all add: c(3))
  have cells: "db P cl' row column = db P cl row column" if "column \<noteq> i" "column \<noteq> ''meta''" for row column
    using that by (simp add: c(3) delivered_column)
  from body have "fst (run_state (viewEmail (cluster_ops P) (hdr f ''to'') i ''inbox'') cl') =
      view_page (hdr f ''to'') i ''inbox'' ?b"
    using tripleD [OF kv.triple_viewEmail [where P = P and u = "hdr f ''to''" and i = i
        and folder = "''inbox''"] healthy_kv_at [OF c(2)]]
      assms(6) by (simp add: mailbox_row_def)
  then show ?thesis using ids1 ids2 c(1,2) body cells delivered_other unfolding c(3) by simp
qed

theorem internal_mail_delivered_witness:
  "fst (run_state (viewEmail (cluster_ops sample_platform) ''bob@localhost''
      (mail_id ''eve@localhost'' ''bob@localhost'' ''hi'' ''2025-05-01 12:00:00'') ''inbox'')
      (snd (run_state (sendEmail (cluster_ops sample_platform) False ''2025-05-01 12:00:00'' ''d'' mail_sample)
         (booted_cluster sample_platform)))) =
   view_page ''bob@localhost''
      (mail_id ''eve@localhost'' ''bob@localhost'' ''hi'' ''2025-05-01 12:00:00'') ''inbox'' ''yo''"
proof -
  let ?run = "run_state (sendEmail (cluster_ops sample_platform) False ''2025-05-01 12:00:00'' ''d'' mail_sample)
         (booted_cluster sample_platform)"
  have "?run = ((fst (fst ?run), snd (fst ?run)), snd ?run)" by simp
  note internal_mail_delivered [OF healthy_booted_cluster [OF platform_ok_sample] _ _ _ this]
  then show ?thesis by (simp add: mail_sample_form is_err_prefix)
qed

text \<open>
  C20. Deleting a mail on a healthy cluster: the body is gone, the id is removed from the list of the
  folder, the other mails of the folder keep their order and bodies, and no other row changes. The
  ids on the list are assumed not to start with \<^verbatim>\<open>ERR\<close>, which generated ids never do.
\<close>

theorem deleteEmail_removes:
  assumes "healthy cl" and "i \<noteq> ''meta''"
    and "\<forall>t\<in>set (mailbox_ids (db P cl) (mailbox_row folder u)). \<not> is_err t"
    and "run_state (deleteEmail (cluster_ops P) u i folder) cl = (page, cl')"
  shows "page = ''Email deleted successfully!'' \<and> healthy cl' \<and>
    db P cl' (mailbox_row folder u) i = None \<and>
    mailbox_ids (db P cl') (mailbox_row folder u) =
      filter (\<lambda>t. t \<noteq> i) (mailbox_ids (db P cl) (mailbox_row folder u)) \<and>
    (\<forall>row col. row \<noteq> mailbox_row folder u \<or> col \<noteq> i \<and> col \<noteq> ''meta'' \<longrightarrow>
       db P cl' row col = db P cl row col)"
proof -
  let ?row = "mailbox_row folder u"
  let ?M = "db_set (db P cl) ?row i None"
  have c: "page = ''Email deleted successfully!''" "healthy cl'" "db P cl' = removed ?M ?row i"
    using tripleD [OF kv.triple_deleteEmail [where P = P and u = u and i = i and folder = folder]
        healthy_kv_at [OF assms(1)]] assms(4) by (auto simp: kv_at_def)
  have ids: "mailbox_ids ?M ?row = mailbox_ids (db P cl) ?row" by (rule mailbox_ids_body [OF assms(2)])
  have "mailbox_ids (removed ?M ?row i) ?row = filter (\<lambda>t. t \<noteq> i) (mailbox_ids ?M ?row)"
  proof (cases "\<exists>m. ?M ?row ''meta'' = Some m \<and> \<not> is_err m")
    case True
    then obtain m where m: "?M ?row ''meta'' = Some m" "\<not> is_err m" by blast
    show ?thesis
      using mailbox_ids_remove [of ?M ?row m i] m assms(3) ids by (simp add: removed_def)
  next
    case False
    then have "mailbox_ids ?M ?row = []" "removed ?M ?row i = ?M"
      by (auto simp: mailbox_ids_def removed_def split: option.split)
    then show ?thesis by simp
  qed
  moreover have "removed ?M ?row i row col = (if row = ?row \<and> col = i then None else db P cl row col)"
    if "row \<noteq> ?row \<or> col \<noteq> ''meta''" for row col
    using that by (auto simp: removed_def db_set_def split: option.split)
  ultimately show ?thesis using c ids assms(2) by auto
qed

text \<open>A store with one mail: the sample mail, sent on a cluster just booted.\<close>

definition sample_mail_id :: string where
  "sample_mail_id = mail_id ''eve@localhost'' ''bob@localhost'' ''hi'' ''2025-05-01 12:00:00''"

definition mail_cluster :: cluster where
  "mail_cluster = snd (run_state
     (sendEmail (cluster_ops sample_platform) False ''2025-05-01 12:00:00'' ''d'' mail_sample)
     (booted_cluster sample_platform))"

lemma mail_cluster_facts:
  "healthy mail_cluster"
  "mailbox_ids (db sample_platform mail_cluster) ''inbox_email:bob@localhost'' = [sample_mail_id]"
proof -
  let ?M = "db sample_platform (booted_cluster sample_platform)"
  let ?D = "\<lambda>M row. delivered M row sample_mail_id ''yo''"
  note s = sendEmail_cluster [OF healthy_booted_cluster [OF platform_ok_sample], of mail_sample
      sample_platform False "''2025-05-01 12:00:00''" "''d''", folded mail_cluster_def]
  show "healthy mail_cluster" using s(2) by (simp add: mail_sample_form)
  have M: "db sample_platform mail_cluster =
      ?D (?D ?M ''inbox_email:bob@localhost'') ''sent_email:eve@localhost''"
    using s(3) by (simp add: mail_sample_form sent_mail_def Let_def sample_mail_id_def)
  have i: "CHR '','' \<notin> set sample_mail_id" "sample_mail_id \<noteq> []" "\<not> is_err sample_mail_id"
      "sample_mail_id \<noteq> ''meta''"
    using mail_id_facts by (simp_all add: sample_mail_id_def mail_id_comma)
  have "mailbox_ids (db sample_platform mail_cluster) ''inbox_email:bob@localhost'' =
      mailbox_ids (?D ?M ''inbox_email:bob@localhost'') ''inbox_email:bob@localhost''"
    by (rule mailbox_ids_cong) (simp add: M delivered_other)
  also have "\<dots> = mailbox_ids ?M ''inbox_email:bob@localhost'' @ [sample_mail_id]" by (rule delivered_ids [OF i])
  also have "mailbox_ids ?M ''inbox_email:bob@localhost'' = []"
    using booted_db_empty [OF booted_booted_cluster [OF platform_ok_sample]] by (simp add: mailbox_ids_def)
  finally show "mailbox_ids (db sample_platform mail_cluster) ''inbox_email:bob@localhost'' = [sample_mail_id]"
    by simp
qed

theorem deleteEmail_removes_witness:
  "mailbox_ids (db sample_platform mail_cluster) ''inbox_email:bob@localhost'' = [sample_mail_id] \<and>
   mailbox_ids (db sample_platform (snd (run_state (deleteEmail (cluster_ops sample_platform)
      ''bob@localhost'' sample_mail_id ''inbox'') mail_cluster))) ''inbox_email:bob@localhost'' = []"
proof -
  let ?run = "run_state (deleteEmail (cluster_ops sample_platform) ''bob@localhost'' sample_mail_id ''inbox'')
      mail_cluster"
  have r: "?run = (fst ?run, snd ?run)" by simp
  have i: "sample_mail_id \<noteq> ''meta''" "\<not> is_err sample_mail_id"
    using mail_id_facts by (simp_all add: sample_mail_id_def)
  show ?thesis
    using deleteEmail_removes [OF mail_cluster_facts(1) i(1) _ r] mail_cluster_facts(2) i(2)
    by (simp add: mailbox_row_def)
qed

text \<open>
  C21. A comma in a header field breaks the list of mails: an internal mail whose subject contains a
  comma is stored, but its id never appears in the list of the inbox, so no page links to it.
\<close>

theorem comma_hides_mail:
  fixes post timestamp
  defines "f \<equiv> form_data post"
  defines "i \<equiv> mail_id (hdr f ''username'') (hdr f ''to'') (hdr f ''subject'') timestamp"
  assumes "healthy cl" and "\<not> isExternalEmail (hdr f ''to'')" and "CHR '','' \<in> set (hdr f ''subject'')"
    and "run_state (sendEmail (cluster_ops P) smtp_up timestamp date post) cl = (res, cl')"
  shows "db P cl' (''inbox_email:'' @ hdr f ''to'') i = Some (hdr f ''body'') \<and>
     i \<notin> set (mailbox_ids (db P cl') (''inbox_email:'' @ hdr f ''to''))"
proof -
  let ?in = "''inbox_email:'' @ hdr f ''to''" and ?out = "''sent_email:'' @ hdr f ''username''"
  let ?b = "hdr f ''body''"
  have "db P cl' = delivered (delivered (db P cl) ?in i ?b) ?out i ?b"
    using sendEmail_cluster(3) [OF assms(3), of post P smtp_up timestamp date] assms(4,6)
    by (simp add: sent_mail_def Let_def f_def i_def)
  then have "db P cl' ?in = delivered (db P cl) ?in i ?b ?in" by (simp add: delivered_other)
  then have "db P cl' ?in i = Some ?b"
    using mail_id_facts(3) delivered_body by (simp add: i_def)
  moreover have "CHR '','' \<in> set i" using assms(5) by (simp add: mail_id_comma i_def)
  then have "i \<notin> set (mailbox_ids (db P cl') ?in)"
    using id_tokens_clean by (auto simp: mailbox_ids_def split: option.splits if_splits)
  ultimately show ?thesis by blast
qed

definition comma_sample :: string where
  "comma_sample = ''to=bob@localhost&subject=hi,you&body=yo&username=eve@localhost''"

theorem comma_hides_mail_witness:
  "mail_id ''eve@localhost'' ''bob@localhost'' ''hi,you'' ''t'' \<notin>
     set (mailbox_ids (db sample_platform (snd (run_state
        (sendEmail (cluster_ops sample_platform) False ''t'' ''d'' comma_sample)
        (booted_cluster sample_platform)))) ''inbox_email:bob@localhost'')"
proof -
  let ?run = "run_state (sendEmail (cluster_ops sample_platform) False ''t'' ''d'' comma_sample)
      (booted_cluster sample_platform)"
  have r: "?run = (fst ?run, snd ?run)" by simp
  have f: "hdr (form_data comma_sample) ''to'' = ''bob@localhost''"
    "hdr (form_data comma_sample) ''subject'' = ''hi,you''"
    "hdr (form_data comma_sample) ''username'' = ''eve@localhost''"
    "\<not> isExternalEmail ''bob@localhost''"
    by code_simp+
  show ?thesis
    using comma_hides_mail [OF healthy_booted_cluster [OF platform_ok_sample] _ _ r] by (simp add: f)
qed

end
