(* ===== verification/Smtp_Server.thy ===== *)
theory Smtp_Server
  imports Email_Properties
begin

text \<open>
  The SMTP server (\<^verbatim>\<open>frontend/email/smtp_server.cc\<close>): the state of one client session, the processing
  of one command line in and outside of \<^verbatim>\<open>DATA\<close> mode, delivery to local mailboxes and relaying. The
  record \<open>smtp_env\<close> has what the code reads from its surroundings while it handles a line: the
  command-line switch \<^verbatim>\<open>-x\<close>, the clock, the random number, the answers of the resolver and of the
  socket calls. A reply is the text sent to the client; a relayed mail is the list of lines sent to
  the other server.
\<close>

record smtp_env =
  extraCreditNonLocal :: bool
  now :: int
  date_text :: string
  timestamp_text :: string
  random_number :: int
  mx_answers :: "string \<Rightarrow> (int \<times> string) list"
  host_found :: "string \<Rightarrow> bool"
  socket_ok :: bool
  connect_ok :: "string \<Rightarrow> bool"

record session =
  finalBuf :: string
  senderEmail :: string
  validRecipients :: "string list"
  nonLocalRecipients :: "string list"
  isDataRecptMode :: bool
  inHeaderSection :: bool
  headersBlock :: string
  bodyBlock :: string
  quit :: bool

definition new_session :: session where
  "new_session =
     \<lparr>finalBuf = [], senderEmail = [], validRecipients = [], nonLocalRecipients = [],
      isDataRecptMode = False, inHeaderSection = True, headersBlock = [], bodyBlock = [], quit = False\<rparr>"

definition welcomeMsg :: string where
  "welcomeMsg = ''220 localhost Simple Mail Transfer (SMTP) Server Ready'' @ crlf"

section \<open>Helpers\<close>

definition encrypt :: "string \<Rightarrow> string" where
  "encrypt metadata = rev metadata"

definition decrypt :: "string \<Rightarrow> string" where
  "decrypt encryptedMetadata = rev encryptedMetadata"

definition smtp_appendToMetadata :: "'st kv_ops \<Rightarrow> string \<Rightarrow> string \<Rightarrow> ('st, unit) state" where
  "smtp_appendToMetadata K mailboxRow rawMeta = do {
     let encryptedMeta = encrypt rawMeta;
     client \<leftarrow> kv_lookup K mailboxRow;
     currentMeta \<leftarrow> kv_get K client mailboxRow ''meta'';
     let newMeta = (if is_err currentMeta \<or> currentMeta = [] then encryptedMeta
                    else currentMeta @ '','' @ encryptedMeta);
     res \<leftarrow> kv_put K client mailboxRow ''meta'' newMeta;
     State_Monad.return () }"

definition sendDeliveryFailure ::
  "'st kv_ops \<Rightarrow> smtp_env \<Rightarrow> string \<Rightarrow> string \<Rightarrow> string \<Rightarrow> ('st, unit) state" where
  "sendDeliveryFailure K E sender failedRecipient reason = do {
     let subject = ''Delivery Failed to '' @ failedRecipient;
     let body = ''Your email could not be delivered to '' @ failedRecipient @ ''.'' @ [LF] @
                ''Reason: '' @ reason;
     let rawMeta = ''sender:mailer-daemon@localhost;recipient:'' @ sender @ '';subject:'' @ subject @
                   '';timestamp:'' @ timestamp_text E @ '';'';
     let encryptedMeta = encrypt rawMeta;
     let inboxRow = ''inbox_email:'' @ sender;
     client \<leftarrow> kv_lookup K inboxRow;
     res \<leftarrow> kv_put K client inboxRow encryptedMeta body;
     curMeta \<leftarrow> kv_get K client inboxRow ''meta'';
     let newMeta = (if is_err curMeta \<or> curMeta = [] then encryptedMeta
                    else curMeta @ '','' @ encryptedMeta);
     res2 \<leftarrow> kv_put K client inboxRow ''meta'' newMeta;
     State_Monad.return () }"

text \<open>\<^verbatim>\<open>resolveMXDomain\<close> over the records the resolver library could parse, none when the query failed.\<close>

definition INT_MAX :: int where "INT_MAX = 2147483647"

fun best_mx :: "int \<Rightarrow> string \<Rightarrow> (int \<times> string) list \<Rightarrow> string" where
  "best_mx lowest_pref best_mx_host [] = best_mx_host"
| "best_mx lowest_pref best_mx_host ((preference, mxname) # rest) =
     (if preference < lowest_pref then best_mx preference mxname rest
      else best_mx lowest_pref best_mx_host rest)"

definition resolveMXDomain :: "smtp_env \<Rightarrow> string \<Rightarrow> string" where
  "resolveMXDomain E domain = best_mx INT_MAX [] (mx_answers E domain)"

section \<open>The end of DATA\<close>

definition subject_of :: "string \<Rightarrow> string" where
  "subject_of headers =
     (case find (\<lambda>headerLine. prefix ''Subject:'' headerLine) (getlines LF headers) of
        Some headerLine \<Rightarrow> trim (drop 8 headerLine)
      | None \<Rightarrow> ''No Subject'')"

definition fill_headers :: "smtp_env \<Rightarrow> session \<Rightarrow> string" where
  "fill_headers E s =
     (let h0 = headersBlock s;
          h1 = (if \<not> contains h0 ''From:'' then h0 @ ''From: '' @ senderEmail s @ [LF] else h0);
          h2 = (if \<not> contains h1 ''To:'' then
                  (if validRecipients s \<noteq> [] then h1 @ ''To: '' @ hd (validRecipients s) @ [LF]
                   else if nonLocalRecipients s \<noteq> [] then h1 @ ''To: '' @ hd (nonLocalRecipients s) @ [LF]
                   else h1)
                else h1);
          h3 = (if \<not> contains h2 ''Date:'' then h2 @ ''Date: '' @ date_text E @ [LF] else h2);
          domain = drop (npos_plus (str_find (senderEmail s) ''@'' 0) 1) (senderEmail s);
          msgId = ''<'' @ to_string (now E) @ ''.'' @ to_string (crem (random_number E) 10000) @ ''@'' @
                  domain @ ''>''
      in h3 @ ''Message-ID: '' @ msgId @ [LF])"

definition deliver_local ::
  "'st kv_ops \<Rightarrow> smtp_env \<Rightarrow> session \<Rightarrow> string \<Rightarrow> string \<Rightarrow> ('st, unit) state" where
  "deliver_local K E s subject recipientEmail = do {
     let rawMeta = ''sender:'' @ senderEmail s @ '';'' @ ''recipient:'' @ recipientEmail @ '';'' @
                   ''subject:'' @ subject @ '';'' @ ''timestamp:'' @ timestamp_text E @ '';'';
     let encryptedMeta = encrypt rawMeta;
     let inboxRow = ''inbox_email:'' @ recipientEmail;
     inboxClient \<leftarrow> kv_lookup K inboxRow;
     res \<leftarrow> kv_put K inboxClient inboxRow encryptedMeta (bodyBlock s);
     smtp_appendToMetadata K inboxRow rawMeta;
     if contains (senderEmail s) ''@localhost'' then do {
       let sentRow = ''sent_email:'' @ senderEmail s;
       sentClient \<leftarrow> kv_lookup K sentRow;
       res2 \<leftarrow> kv_put K sentClient sentRow encryptedMeta (bodyBlock s);
       smtp_appendToMetadata K sentRow rawMeta }
     else State_Monad.return () }"

fun deliver_all ::
  "'st kv_ops \<Rightarrow> smtp_env \<Rightarrow> session \<Rightarrow> string \<Rightarrow> string list \<Rightarrow> ('st, unit) state" where
  "deliver_all K E s subject [] = State_Monad.return ()"
| "deliver_all K E s subject (r # rs) = do {
     deliver_local K E s subject r;
     deliver_all K E s subject rs }"

definition rewrite_sender :: "string \<Rightarrow> string" where
  "rewrite_sender sender =
     (case str_find sender ''@localhost'' 0 of
        None \<Rightarrow> sender
      | Some p \<Rightarrow> take p sender @ ''@seas.upenn.edu'' @ drop (p + 10) sender)"

definition relay_lines :: "session \<Rightarrow> string \<Rightarrow> string \<Rightarrow> string list" where
  "relay_lines s headers recipient =
     map (\<lambda>cmd. cmd @ crlf)
       [''HELO seas.upenn.edu'',
        ''MAIL FROM:<'' @ rewrite_sender (senderEmail s) @ ''>'',
        ''RCPT TO:<'' @ recipient @ ''>'',
        ''DATA'',
        headers @ crlf @ crlf @ bodyBlock s @ crlf @ ''.'',
        ''QUIT'']"

definition relay_one ::
  "'st kv_ops \<Rightarrow> smtp_env \<Rightarrow> session \<Rightarrow> string \<Rightarrow> string \<Rightarrow> ('st, string list list) state" where
  "relay_one K E s headers recipient =
     (case str_find recipient ''@'' 0 of
        None \<Rightarrow> State_Monad.return []
      | Some atPos \<Rightarrow>
          (let mxHost = resolveMXDomain E (drop (atPos + 1) recipient);
               failure = (\<lambda>reason. do {
                 sendDeliveryFailure K E (senderEmail s) recipient reason;
                 State_Monad.return [] })
           in if mxHost = [] then failure ''MX record not found''
              else if \<not> host_found E mxHost then failure ''host not found''
              else if \<not> socket_ok E then failure ''socket creation failed''
              else if \<not> connect_ok E mxHost then failure ''SMTP connect failed''
              else State_Monad.return [relay_lines s headers recipient]))"

fun relay_all ::
  "'st kv_ops \<Rightarrow> smtp_env \<Rightarrow> session \<Rightarrow> string \<Rightarrow> string list \<Rightarrow> ('st, string list list) state" where
  "relay_all K E s headers [] = State_Monad.return []"
| "relay_all K E s headers (r # rs) = do {
     out \<leftarrow> relay_one K E s headers r;
     outs \<leftarrow> relay_all K E s headers rs;
     State_Monad.return (out @ outs) }"

definition no_recipients :: string where
  "no_recipients = ''550 Requested action not taken: no valid recipients'' @ crlf"

definition end_of_data ::
  "'st kv_ops \<Rightarrow> smtp_env \<Rightarrow> session \<Rightarrow> ('st, session \<times> string \<times> string list list) state" where
  "end_of_data K E s =
     (if validRecipients s = [] \<and> nonLocalRecipients s = [] then
        State_Monad.return (s\<lparr>isDataRecptMode := False\<rparr>, no_recipients, [])
      else do {
        let subject = subject_of (headersBlock s);
        let headers = fill_headers E s;
        deliver_all K E s subject (validRecipients s);
        relayed \<leftarrow> (if extraCreditNonLocal E \<and> nonLocalRecipients s \<noteq> []
                    then relay_all K E s headers (nonLocalRecipients s)
                    else State_Monad.return []);
        State_Monad.return
          (s\<lparr>isDataRecptMode := False, validRecipients := [], headersBlock := [], bodyBlock := []\<rparr>,
           ''250 Data input complete. Exiting DATA mode.'' @ crlf, relayed) })"

section \<open>One line\<close>

definition data_line :: "session \<Rightarrow> string \<Rightarrow> session" where
  "data_line s cmd =
     (if inHeaderSection s then
        (if trim cmd = [] then s\<lparr>inHeaderSection := False\<rparr>
         else if \<not> contains (trim cmd) '':'' then
           s\<lparr>inHeaderSection := False, bodyBlock := bodyBlock s @ cmd @ [LF]\<rparr>
         else s\<lparr>headersBlock := headersBlock s @ cmd @ [LF]\<rparr>)
      else s\<lparr>bodyBlock := bodyBlock s @ cmd @ [LF]\<rparr>)"

definition angle_bracketed :: "string \<Rightarrow> bool" where
  "angle_bracketed a \<longleftrightarrow> a \<noteq> [] \<and> hd a = CHR ''<'' \<and> last a = CHR ''>''"

definition strip_brackets :: "string \<Rightarrow> string" where
  "strip_brackets a = filter (\<lambda>c. c \<noteq> CHR ''>'') (filter (\<lambda>c. c \<noteq> CHR ''<'') a)"

definition smtp_mail :: "session \<Rightarrow> string \<Rightarrow> session \<times> string" where
  "smtp_mail s messagePart =
     (if prefix ''FROM:'' messagePart then
        (let sender = trim (drop 5 messagePart)
         in if \<not> angle_bracketed sender then
              (s\<lparr>senderEmail := sender\<rparr>,
               ''500 Syntax error, command format unrecognized. Use format MAIL FROM:<youremail>'' @ crlf)
            else
              (s\<lparr>senderEmail := strip_brackets sender, validRecipients := [], nonLocalRecipients := []\<rparr>,
               ''250 OK'' @ crlf))
      else (s, ''500 Syntax error, command format unrecognized'' @ crlf))"

definition is_local_address :: "string \<Rightarrow> bool" where
  "is_local_address recipientEmail =
     (case str_find recipientEmail ''@localhost'' 0 of
        None \<Rightarrow> False
      | Some pos \<Rightarrow> drop pos recipientEmail = ''@localhost'')"

definition smtp_rcpt :: "bool \<Rightarrow> session \<Rightarrow> string \<Rightarrow> session \<times> string" where
  "smtp_rcpt extraCredit s messagePart =
     (if senderEmail s = [] then
        (s, ''503 Bad sequence of commands: MAIL FROM required before RCPT TO'' @ crlf)
      else if prefix ''TO:'' messagePart then
        (let r = trim (drop 3 messagePart)
         in if \<not> angle_bracketed r then (s, ''500 Syntax error, command format unrecognized'' @ crlf)
            else
              (let recipientEmail = strip_brackets r
               in if \<not> is_local_address recipientEmail then
                    (if extraCredit then
                       (s\<lparr>nonLocalRecipients := nonLocalRecipients s @ [recipientEmail]\<rparr>, ''250 OK'' @ crlf)
                     else (s, ''550 Requested action not taken: unavailable'' @ crlf))
                  else (s\<lparr>validRecipients := validRecipients s @ [recipientEmail]\<rparr>, ''250 OK'' @ crlf)))
      else (s, ''500 Syntax error, command format unrecognized'' @ crlf))"

definition smtp_data :: "bool \<Rightarrow> session \<Rightarrow> session \<times> string" where
  "smtp_data extraCredit s =
     (if senderEmail s = [] then
        (s, ''503 Bad sequence of commands: MAIL FROM required first'' @ crlf)
      else if validRecipients s = [] \<and> (\<not> extraCredit \<or> nonLocalRecipients s = []) then
        (s, ''503 Bad sequence of commands: RCPT TO required first'' @ crlf)
      else
        (s\<lparr>isDataRecptMode := True, inHeaderSection := True, headersBlock := [], bodyBlock := []\<rparr>,
         ''354 Start mail input; end with <CRLF>.<CRLF>'' @ crlf))"

definition smtp_command :: "bool \<Rightarrow> session \<Rightarrow> string \<Rightarrow> session \<times> string" where
  "smtp_command extraCredit s currentCommand =
     (let word = takeWhile (\<lambda>c. c \<noteq> CHR '' '') currentCommand;
          messagePart = (if length word < length currentCommand
                         then drop (length word + 1) currentCommand else []);
          cmdPart = map to_upper_char word
      in if cmdPart = ''HELO'' then
           (s, ''250 localhost HELO '' @ messagePart @ ''. Happy to meet you'' @ crlf)
         else if cmdPart = ''MAIL'' then smtp_mail s messagePart
         else if cmdPart = ''RCPT'' then smtp_rcpt extraCredit s messagePart
         else if cmdPart = ''DATA'' then smtp_data extraCredit s
         else if cmdPart = ''NOOP'' then (s, ''250 OK'' @ crlf)
         else if cmdPart = ''RSET'' then
           (s\<lparr>senderEmail := [], validRecipients := [], headersBlock := [], bodyBlock := [],
              isDataRecptMode := False\<rparr>, ''250 OK'' @ crlf)
         else if cmdPart = ''QUIT'' then
           (s\<lparr>quit := True\<rparr>, ''221 localhost SMTP Service Closing transmission!'' @ crlf)
         else (s, ''500 Syntax error, Unknown command'' @ crlf))"

abbreviation BUFFER_LENGTH :: nat where "BUFFER_LENGTH \<equiv> 1024"

definition smtp_line ::
  "'st kv_ops \<Rightarrow> smtp_env \<Rightarrow> session \<Rightarrow> string \<Rightarrow> ('st, session \<times> string \<times> string list list) state" where
  "smtp_line K E s line =
     (let currentCommand = trim line
      in if currentCommand = [] then State_Monad.return (s, [], [])
         else if BUFFER_LENGTH < length currentCommand then
           State_Monad.return (s, ''-ERR Command given too long'' @ crlf, [])
         else if isDataRecptMode s then
           (if currentCommand = ''.'' then end_of_data K E s
            else State_Monad.return (data_line s currentCommand, [], []))
         else (let (s', r) = smtp_command (extraCreditNonLocal E) s currentCommand
               in State_Monad.return (s', r, [])))"

section \<open>One receive\<close>

text \<open>The complete lines of the buffer and what is left of it.\<close>

function crlf_lines :: "string \<Rightarrow> string list \<times> string" where
  "crlf_lines buf =
     (case str_find buf crlf 0 of
        None \<Rightarrow> ([], buf)
      | Some p \<Rightarrow> (let (ls, rest) = crlf_lines (drop (p + 2) buf) in (take p buf # ls, rest)))"
  by pat_completeness auto
termination
proof (relation "measure length", simp)
  fix buf p
  assume "str_find buf crlf 0 = Some p"
  then have "\<exists>rest. drop p buf = crlf @ rest"
    using find_sub_split [of crlf buf 0 p] by (auto simp: str_find_def)
  then have "p < length buf" by (metis append_Cons drop_all leI list.distinct(1))
  then show "(drop (p + 2) buf, buf) \<in> measure length" by simp
qed

declare crlf_lines.simps [simp del]

fun smtp_lines ::
  "'st kv_ops \<Rightarrow> smtp_env \<Rightarrow> session \<Rightarrow> string list
     \<Rightarrow> ('st, session \<times> string \<times> string list list) state" where
  "smtp_lines K E s [] = State_Monad.return (s, [], [])"
| "smtp_lines K E s (l # ls) = do {
     (s', r, out) \<leftarrow> smtp_line K E s l;
     if quit s' then State_Monad.return (s', r, out)
     else do {
       (s'', rs, outs) \<leftarrow> smtp_lines K E s' ls;
       State_Monad.return (s'', r @ rs, out @ outs) } }"

text \<open>
  One turn of the receive loop: the bytes arrive in a zeroed buffer of 1024 and are appended as a C
  string, that is, up to the first zero byte.
\<close>

definition smtp_receive ::
  "'st kv_ops \<Rightarrow> smtp_env \<Rightarrow> session \<Rightarrow> string \<Rightarrow> ('st, session \<times> string \<times> string list list) state" where
  "smtp_receive K E s bytes =
     (let buf = finalBuf s @ takeWhile (\<lambda>c. c \<noteq> CHR 0x00) (take (BUFFER_LENGTH - 1) bytes);
          (ls, rest) = crlf_lines buf
      in smtp_lines K E (s\<lparr>finalBuf := rest\<rparr>) ls)"

text \<open>
  The receive loop over the chunks \<^verbatim>\<open>recv\<close> returns, each with the surroundings at that moment; the
  end of the list, or an empty chunk, is the end of the connection. Then the whole of \<^verbatim>\<open>handle_client\<close>.
\<close>

fun smtp_session ::
  "'st kv_ops \<Rightarrow> session \<Rightarrow> (smtp_env \<times> string) list
     \<Rightarrow> ('st, session \<times> string \<times> string list list) state" where
  "smtp_session K s [] = State_Monad.return (s, [], [])"
| "smtp_session K s ((E, bytes) # chunks) =
     (if bytes = [] then State_Monad.return (s, [], [])
      else do {
        (s', r, out) \<leftarrow> smtp_receive K E s bytes;
        if quit s' then State_Monad.return (s', r, out)
        else do {
          (s'', rs, outs) \<leftarrow> smtp_session K s' chunks;
          State_Monad.return (s'', r @ rs, out @ outs) } })"

definition smtp_handle_client ::
  "'st kv_ops \<Rightarrow> (smtp_env \<times> string) list \<Rightarrow> ('st, session \<times> string \<times> string list list) state" where
  "smtp_handle_client K chunks = do {
     (s, replies, relayed) \<leftarrow> smtp_session K new_session chunks;
     State_Monad.return (s, welcomeMsg @ replies, relayed) }"

section \<open>The process\<close>

text \<open>The table of connections, what an accepted connection and an interrupt do to it.\<close>

record smtp_process =
  active_client_file_desc :: "int list"
  shuttingDown :: bool

definition smtp_accept :: "int \<Rightarrow> smtp_process \<Rightarrow> smtp_process" where
  "smtp_accept client_fd p =
     (if shuttingDown p then p
      else p\<lparr>active_client_file_desc := active_client_file_desc p @ [client_fd]\<rparr>)"

definition serverShutdown :: "smtp_process \<Rightarrow> (int \<times> string) list \<times> smtp_process" where
  "serverShutdown p =
     (map (\<lambda>client_fd. (client_fd,
        ''421 localhost SMTP Server not available. Shutting down transmission channel'' @ crlf))
        (active_client_file_desc p),
      p\<lparr>shuttingDown := True\<rparr>)"

text \<open>
  The command line after the program's name; \<^term>\<open>None\<close> when \<^verbatim>\<open>-a\<close> ends the program. The port is cut to 16
  bits. \<^verbatim>\<open>atoi\<close> of a text that is no number is 0; of one outside \<^verbatim>\<open>int\<close> it is undefined in C, here 0.
\<close>

record smtp_options =
  smtp_port :: int
  verbose :: bool
  accept_non_local :: bool

definition atoi :: "string \<Rightarrow> int" where
  "atoi s = (case read_int s of None \<Rightarrow> 0 | Some (v, _) \<Rightarrow> v)"

fun smtp_args :: "string list \<Rightarrow> smtp_options \<Rightarrow> smtp_options option" where
  "smtp_args [] opts = Some opts"
| "smtp_args [arg] opts =
     (if arg = ''-a'' then None
      else if arg = ''-v'' then Some (opts\<lparr>verbose := True\<rparr>)
      else if arg = ''-x'' then Some (opts\<lparr>accept_non_local := True\<rparr>)
      else Some opts)"
| "smtp_args (arg # val # args) opts =
     (if arg = ''-p'' then smtp_args args (opts\<lparr>smtp_port := atoi val\<rparr>)
      else if arg = ''-a'' then None
      else if arg = ''-v'' then smtp_args (val # args) (opts\<lparr>verbose := True\<rparr>)
      else if arg = ''-x'' then smtp_args (val # args) (opts\<lparr>accept_non_local := True\<rparr>)
      else smtp_args (val # args) opts)"

definition smtp_main :: "string list \<Rightarrow> (16 word \<times> smtp_options) option" where
  "smtp_main args =
     map_option (\<lambda>opts. (word_of_int (smtp_port opts), opts))
       (smtp_args args \<lparr>smtp_port = 2500, verbose = False, accept_non_local = False\<rparr>)"

text \<open>Only \<^verbatim>\<open>-x\<close> switches relaying on.\<close>

lemma smtp_main_relay:
  assumes "smtp_main args = Some (port, opts)" "accept_non_local opts"
  shows "''-x'' \<in> set args"
proof -
  have "smtp_args args o1 = Some o2 \<Longrightarrow> accept_non_local o2 \<Longrightarrow> accept_non_local o1 \<or> ''-x'' \<in> set args" for o1 o2
    by (induction args o1 rule: smtp_args.induct) (auto split: if_splits)
  note kept = this
  obtain o1 where "smtp_args args o1 = Some opts" "\<not> accept_non_local o1"
    using assms(1) by (auto simp: smtp_main_def)
  then show ?thesis using kept assms(2) by blast
qed

end
