(* ===== verification/Smtp_Properties.thy ===== *)
theory Smtp_Properties
  imports Smtp_Server
begin

text \<open>
  Sessions of the SMTP server: the order of commands is enforced, only local addresses reach the
  local mailboxes, and a mail accepted at the end of \<^verbatim>\<open>DATA\<close> is in the inbox of every local recipient.
\<close>

section \<open>Sessions\<close>

definition session_inv :: "bool \<Rightarrow> session \<Rightarrow> bool" where
  "session_inv extraCredit s \<longleftrightarrow>
     (isDataRecptMode s \<longrightarrow> senderEmail s \<noteq> [] \<and>
        (validRecipients s \<noteq> [] \<or> extraCredit \<and> nonLocalRecipients s \<noteq> [])) \<and>
     (\<forall>r\<in>set (validRecipients s). is_local_address r) \<and>
     (\<not> extraCredit \<longrightarrow> nonLocalRecipients s = [])"

lemma session_inv_new: "session_inv x new_session"
  by (simp add: session_inv_def new_session_def)

lemma session_inv_data_line: "session_inv x s \<Longrightarrow> session_inv x (data_line s l)"
  by (auto simp: session_inv_def data_line_def)

lemma session_inv_mail:
  "session_inv x s \<Longrightarrow> \<not> isDataRecptMode s \<Longrightarrow> session_inv x (fst (smtp_mail s m))"
  by (simp add: session_inv_def smtp_mail_def Let_def)

lemma session_inv_rcpt:
  "session_inv x s \<Longrightarrow> \<not> isDataRecptMode s \<Longrightarrow> session_inv x (fst (smtp_rcpt x s m))"
  by (auto simp add: session_inv_def smtp_rcpt_def Let_def)

lemma session_inv_data: "session_inv x s \<Longrightarrow> session_inv x (fst (smtp_data x s))"
  by (auto simp: session_inv_def smtp_data_def)

lemma session_inv_command:
  assumes "session_inv x s" "\<not> isDataRecptMode s"
  shows "session_inv x (fst (smtp_command x s l))"
proof -
  have "session_inv x (s\<lparr>senderEmail := [], validRecipients := [], headersBlock := [], bodyBlock := [],
      isDataRecptMode := False\<rparr>)" "session_inv x (s\<lparr>quit := True\<rparr>)"
    using assms by (simp_all add: session_inv_def)
  with assms session_inv_mail [OF assms] session_inv_rcpt [OF assms] session_inv_data [OF assms(1)]
  show ?thesis
    unfolding smtp_command_def Let_def by (simp only: if_distrib [of fst] fst_conv split: if_split) simp
qed

text \<open>The state a line leaves does not depend on the store.\<close>

lemma end_of_data_session:
  "fst (fst (run_state (end_of_data K E s) st)) =
     (if validRecipients s = [] \<and> nonLocalRecipients s = [] then s\<lparr>isDataRecptMode := False\<rparr>
      else s\<lparr>isDataRecptMode := False, validRecipients := [], headersBlock := [], bodyBlock := []\<rparr>)"
  by (simp add: end_of_data_def Let_def case_prod_beta)

lemma session_inv_line:
  assumes "session_inv (extraCreditNonLocal E) s"
  shows "session_inv (extraCreditNonLocal E) (fst (fst (run_state (smtp_line K E s l) st)))"
  using assms session_inv_data_line [OF assms] session_inv_command [OF assms]
  by (auto simp: smtp_line_def Let_def case_prod_beta end_of_data_session session_inv_def)

lemma session_inv_lines:
  "session_inv (extraCreditNonLocal E) s \<Longrightarrow>
   session_inv (extraCreditNonLocal E) (fst (fst (run_state (smtp_lines K E s ls) st)))"
proof (induction ls arbitrary: s st)
  case (Cons l ls)
  have "session_inv (extraCreditNonLocal E) (fst (fst (run_state (smtp_line K E s l) st)))"
    using Cons.prems by (rule session_inv_line)
  then show ?case using Cons.IH by (simp add: case_prod_beta)
qed simp

lemma session_inv_receive:
  "session_inv (extraCreditNonLocal E) s \<Longrightarrow>
   session_inv (extraCreditNonLocal E) (fst (fst (run_state (smtp_receive K E s bytes) st)))"
  unfolding smtp_receive_def Let_def case_prod_beta
  by (rule session_inv_lines) (simp add: session_inv_def)

lemma session_inv_run:
  "session_inv x s \<Longrightarrow> \<forall>(E, b)\<in>set xs. extraCreditNonLocal E = x \<Longrightarrow>
   session_inv x (fst (fst (run_state (smtp_session K s xs) st)))"
proof (induction xs arbitrary: s st)
  case (Cons eb xs)
  obtain E b where eb: "eb = (E, b)" by fastforce
  then have "session_inv x (fst (fst (run_state (smtp_receive K E s b) st)))"
    using Cons.prems session_inv_receive [of E s K b st] by simp
  then show ?case using Cons eb by (simp add: case_prod_beta)
qed simp

text \<open>Without the switch \<^verbatim>\<open>-x\<close> nothing leaves the server.\<close>

lemma no_relay_line:
  "\<not> extraCreditNonLocal E \<Longrightarrow> snd (snd (fst (run_state (smtp_line K E s l) st))) = []"
  by (simp add: smtp_line_def end_of_data_def Let_def case_prod_beta)

lemma no_relay_lines:
  "\<not> extraCreditNonLocal E \<Longrightarrow> snd (snd (fst (run_state (smtp_lines K E s ls) st))) = []"
  by (induction ls arbitrary: s st) (simp_all add: case_prod_beta no_relay_line)

lemma no_relay_session:
  "\<forall>(E, b)\<in>set xs. \<not> extraCreditNonLocal E \<Longrightarrow>
   snd (snd (fst (run_state (smtp_session K s xs) st))) = []"
  by (induction xs arbitrary: s st)
    (auto simp: case_prod_beta smtp_receive_def Let_def no_relay_lines)

section \<open>Delivery\<close>

lemma encrypt_meta:
  "encrypt (''sender:'' @ s @ '';'' @ ''recipient:'' @ r @ '';'' @ ''subject:'' @ sub @ '';'' @
     ''timestamp:'' @ ts @ '';'') = mail_id s r sub ts"
  by (simp add: encrypt_def mail_id_def encryptMetadata_def createMetadata_def)

definition smtp_delivered :: "db \<Rightarrow> smtp_env \<Rightarrow> session \<Rightarrow> string \<Rightarrow> string \<Rightarrow> db" where
  "smtp_delivered M E s subject r =
     (let i = mail_id (senderEmail s) r subject (timestamp_text E);
          M1 = delivered M (''inbox_email:'' @ r) i (bodyBlock s)
      in if contains (senderEmail s) ''@localhost''
         then delivered M1 (''sent_email:'' @ senderEmail s) i (bodyBlock s) else M1)"

context kv_service
begin

lemma triple_smtp_append:
  "triple (at M R) (smtp_appendToMetadata K row raw)
     (\<lambda>_. at (db_set M row ''meta'' (Some (append_meta (M row ''meta'') (encrypt raw)))) R)"
proof -
  have "smtp_appendToMetadata K row raw = appendToMetadata K row (encrypt raw)"
    by (simp add: smtp_appendToMetadata_def appendToMetadata_def Let_def)
  then show ?thesis using triple_appendToMetadata by simp
qed

lemma triple_put_append:
  "triple (at M R) (do { a \<leftarrow> kv_lookup K row; res \<leftarrow> kv_put K a row (encrypt raw) body;
       smtp_appendToMetadata K row raw })
     (\<lambda>_. at (delivered M row (encrypt raw) body) R)"
  by (intro steps) (rule triple_weaken [OF triple_smtp_append], simp add: delivered_def Let_def)

lemma triple_deliver_local:
  "triple (at M R) (deliver_local K E s subject r) (\<lambda>_. at (smtp_delivered M E s subject r) R)"
proof -
  let ?raw = "''sender:'' @ senderEmail s @ '';'' @ ''recipient:'' @ r @ '';'' @
     ''subject:'' @ subject @ '';'' @ ''timestamp:'' @ timestamp_text E @ '';''"
  let ?in = "''inbox_email:'' @ r" and ?out = "''sent_email:'' @ senderEmail s"
  have eq: "deliver_local K E s subject r =
      do { do { a \<leftarrow> kv_lookup K ?in; res \<leftarrow> kv_put K a ?in (encrypt ?raw) (bodyBlock s);
            smtp_appendToMetadata K ?in ?raw };
           if contains (senderEmail s) ''@localhost''
           then do { a \<leftarrow> kv_lookup K ?out; res \<leftarrow> kv_put K a ?out (encrypt ?raw) (bodyBlock s);
                  smtp_appendToMetadata K ?out ?raw }
           else State_Monad.return () }"
    by (simp add: deliver_local_def Let_def)
  let ?M1 = "delivered M ?in (encrypt ?raw) (bodyBlock s)"
  have res: "smtp_delivered M E s subject r =
      (if contains (senderEmail s) ''@localhost'' then delivered ?M1 ?out (encrypt ?raw) (bodyBlock s) else ?M1)"
    unfolding smtp_delivered_def Let_def encrypt_meta by (rule refl)
  show ?thesis
    unfolding eq
  proof (rule triple_bind [OF triple_put_append], rule triple_if)
    assume "contains (senderEmail s) ''@localhost''"
    then show "triple (at ?M1 R)
        (do { a \<leftarrow> kv_lookup K ?out; res \<leftarrow> kv_put K a ?out (encrypt ?raw) (bodyBlock s);
              smtp_appendToMetadata K ?out ?raw }) (\<lambda>_. at (smtp_delivered M E s subject r) R)"
      unfolding res by (simp only: if_True triple_put_append)
  next
    assume "\<not> contains (senderEmail s) ''@localhost''"
    then show "triple (at ?M1 R)
        (State_Monad.return ()) (\<lambda>_. at (smtp_delivered M E s subject r) R)"
      unfolding res by (intro triple_return) (simp only: if_False)
  qed
qed

lemma triple_deliver_all:
  "triple (at M R) (deliver_all K E s subject rs)
     (\<lambda>_. at (foldl (\<lambda>M r. smtp_delivered M E s subject r) M rs) R)"
proof (induction rs arbitrary: M)
  case (Cons r rs)
  then show ?case by (simp add: triple_bind [OF triple_deliver_local])
qed (simp add: triple_return)

lemma triple_end_of_data:
  assumes "validRecipients s \<noteq> []" "\<not> extraCreditNonLocal E"
  shows "triple (at M R) (end_of_data K E s)
    (\<lambda>res st. res = (s\<lparr>isDataRecptMode := False, validRecipients := [], headersBlock := [], bodyBlock := []\<rparr>,
         ''250 Data input complete. Exiting DATA mode.'' @ crlf, []) \<and>
       at (foldl (\<lambda>M r. smtp_delivered M E s (subject_of (headersBlock s)) r) M (validRecipients s)) R st)"
  unfolding end_of_data_def Let_def
  using assms by (simp add: triple_bind [OF triple_deliver_all] triple_return)

end

section \<open>Mailboxes after a delivery\<close>

text \<open>The id of the mail as recipient \<open>r\<close> gets it, and what makes all of them single list entries.\<close>

definition smtp_id :: "smtp_env \<Rightarrow> session \<Rightarrow> string \<Rightarrow> string \<Rightarrow> string" where
  "smtp_id E s subject r = mail_id (senderEmail s) r subject (timestamp_text E)"

definition no_commas :: "smtp_env \<Rightarrow> session \<Rightarrow> string \<Rightarrow> bool" where
  "no_commas E s subject \<longleftrightarrow>
     CHR '','' \<notin> set (senderEmail s @ subject @ timestamp_text E @ concat (validRecipients s))"

definition inbox_row :: "string \<Rightarrow> string" where "inbox_row r = ''inbox_email:'' @ r"
definition sent_row :: "string \<Rightarrow> string" where "sent_row r = ''sent_email:'' @ r"

lemma rows_distinct [simp]:
  "inbox_row a \<noteq> sent_row b" "sent_row b \<noteq> inbox_row a"
  "inbox_row a = inbox_row c \<longleftrightarrow> a = c" "sent_row a = sent_row c \<longleftrightarrow> a = c"
  by (simp_all add: inbox_row_def sent_row_def)

lemma smtp_id_clean:
  assumes "CHR '','' \<notin> set (senderEmail s @ subject @ timestamp_text E @ r)"
  shows "CHR '','' \<notin> set (smtp_id E s subject r)" "smtp_id E s subject r \<noteq> []"
    "\<not> is_err (smtp_id E s subject r)" "smtp_id E s subject r \<noteq> ''meta''"
  using assms mail_id_facts mail_id_comma by (auto simp: smtp_id_def)

lemma smtp_delivered_alt:
  "smtp_delivered M E s subject r =
     (let i = smtp_id E s subject r; M1 = delivered M (inbox_row r) i (bodyBlock s)
      in if contains (senderEmail s) ''@localhost''
         then delivered M1 (sent_row (senderEmail s)) i (bodyBlock s) else M1)"
  by (simp add: smtp_delivered_def smtp_id_def inbox_row_def sent_row_def Let_def)

lemma smtp_delivered_inbox:
  "smtp_delivered M E s subject r (inbox_row a) =
     (if a = r then delivered M (inbox_row r) (smtp_id E s subject r) (bodyBlock s) (inbox_row r)
      else M (inbox_row a))"
  by (auto simp: smtp_delivered_alt Let_def delivered_other)

lemma smtp_delivered_sent:
  "smtp_delivered M E s subject r (sent_row a) =
     (if a = senderEmail s \<and> contains (senderEmail s) ''@localhost''
      then delivered M (sent_row a) (smtp_id E s subject r) (bodyBlock s) (sent_row a)
      else M (sent_row a))"
proof -
  have cong: "delivered M1 row i b row = delivered M row i b row" if "M1 row = M row" for M1 row i b
    using that by (simp add: delivered_def db_set_def Let_def fun_eq_iff)
  have "delivered M (inbox_row r) (smtp_id E s subject r) (bodyBlock s) (sent_row a) = M (sent_row a)"
    by (simp add: delivered_other)
  with cong [of "delivered M (inbox_row r) (smtp_id E s subject r) (bodyBlock s)" "sent_row a"] show ?thesis
    by (cases "contains (senderEmail s) ''@localhost''"; cases "a = senderEmail s")
      (simp_all add: smtp_delivered_alt Let_def delivered_other)
qed

lemma smtp_ids_step:
  assumes "CHR '','' \<notin> set (senderEmail s @ subject @ timestamp_text E @ r)"
  shows "mailbox_ids (smtp_delivered M E s subject r) (inbox_row a) =
      mailbox_ids M (inbox_row a) @ (if a = r then [smtp_id E s subject r] else [])"
    "mailbox_ids (smtp_delivered M E s subject r) (sent_row a) =
      mailbox_ids M (sent_row a) @
        (if a = senderEmail s \<and> contains (senderEmail s) ''@localhost'' then [smtp_id E s subject r] else [])"
proof -
  let ?i = "smtp_id E s subject r" and ?M = "smtp_delivered M E s subject r"
  have d: "mailbox_ids ?M row = mailbox_ids M row @ [?i]"
    if "?M row = delivered M row ?i (bodyBlock s) row" for row
    using mailbox_ids_cong [of ?M row "delivered M row ?i (bodyBlock s)"] that
      delivered_ids [OF smtp_id_clean [OF assms]] by simp
  have k: "mailbox_ids ?M row = mailbox_ids M row" if "?M row = M row" for row
    using that by (rule mailbox_ids_cong)
  show "mailbox_ids ?M (inbox_row a) = mailbox_ids M (inbox_row a) @ (if a = r then [?i] else [])"
    using d [of "inbox_row a"] k [of "inbox_row a"] by (cases "a = r") (simp_all add: smtp_delivered_inbox)
  show "mailbox_ids ?M (sent_row a) = mailbox_ids M (sent_row a) @
      (if a = senderEmail s \<and> contains (senderEmail s) ''@localhost'' then [?i] else [])"
    using d [of "sent_row a"] k [of "sent_row a"]
    by (cases "a = senderEmail s \<and> contains (senderEmail s) ''@localhost''")
      (simp_all only: smtp_delivered_sent simp_thms if_True if_False append_Nil2)
qed

lemma smtp_ids_all:
  assumes "\<forall>r\<in>set rs. CHR '','' \<notin> set (senderEmail s @ subject @ timestamp_text E @ r)"
  shows "mailbox_ids (foldl (\<lambda>M r. smtp_delivered M E s subject r) M rs) (inbox_row a) =
      mailbox_ids M (inbox_row a) @ replicate (count_list rs a) (smtp_id E s subject a)"
    "mailbox_ids (foldl (\<lambda>M r. smtp_delivered M E s subject r) M rs) (sent_row a) =
      mailbox_ids M (sent_row a) @
        (if a = senderEmail s \<and> contains (senderEmail s) ''@localhost''
         then map (smtp_id E s subject) rs else [])"
  using assms by (induction rs arbitrary: M) (simp_all add: smtp_ids_step)

lemma smtp_body_kept:
  "M (inbox_row a) (smtp_id E s subject a) = Some (bodyBlock s) \<Longrightarrow>
   smtp_delivered M E s subject r (inbox_row a) (smtp_id E s subject a) = Some (bodyBlock s)"
  using mail_id_facts by (simp add: smtp_delivered_inbox smtp_id_def delivered_body)

lemma smtp_bodies:
  "a \<in> set rs \<or> M (inbox_row a) (smtp_id E s subject a) = Some (bodyBlock s) \<Longrightarrow>
   foldl (\<lambda>M r. smtp_delivered M E s subject r) M rs (inbox_row a) (smtp_id E s subject a) = Some (bodyBlock s)"
proof (induction rs arbitrary: M)
  case (Cons r rs)
  have "smtp_delivered M E s subject a (inbox_row a) (smtp_id E s subject a) = Some (bodyBlock s)"
    using mail_id_facts by (simp add: smtp_delivered_inbox smtp_id_def delivered_body)
  then have "a \<in> set rs \<or>
      smtp_delivered M E s subject r (inbox_row a) (smtp_id E s subject a) = Some (bodyBlock s)"
    using Cons.prems smtp_body_kept [of M a E s subject r] by auto
  then show ?case using Cons.IH by simp
qed simp

section \<open>Properties\<close>

definition sample_env :: smtp_env where
  "sample_env =
     \<lparr>extraCreditNonLocal = False, now = 1746100800, date_text = ''Thu, 01 May 2025 12:00:00 +0000'',
      timestamp_text = ''2025-05-01 12:00:00'', random_number = 4711, mx_answers = (\<lambda>_. []),
      host_found = (\<lambda>_. False), socket_ok = True, connect_ok = (\<lambda>_. False)\<rparr>"

definition sample_session :: session where
  "sample_session = new_session
     \<lparr>senderEmail := ''eve@localhost'', validRecipients := [''bob@localhost'', ''ann@localhost''],
      isDataRecptMode := True, headersBlock := ''Subject: hi'' @ [LF], bodyBlock := ''yo'' @ [LF]\<rparr>"

lemma trim_dot: "trim ''.'' = ''.''"
  by code_simp

lemma header_line:
  assumes "isDataRecptMode s" "inHeaderSection s" "contains (trim l) '':''" "length (trim l) \<le> BUFFER_LENGTH"
  shows "smtp_line K E s l =
    State_Monad.return (s\<lparr>headersBlock := headersBlock s @ trim l @ [LF]\<rparr>, [], [])"
proof -
  have "\<not> contains [] '':''" "\<not> contains ''.'' '':''" by code_simp+
  with assms(3) have "trim l \<noteq> []" "trim l \<noteq> ''.''" by metis+
  then show ?thesis using assms by (simp add: smtp_line_def data_line_def trim_idem)
qed

lemma header_lines:
  "\<lbrakk>isDataRecptMode s; inHeaderSection s; \<not> quit s;
    \<forall>l\<in>set ls. contains (trim l) '':'' \<and> length (trim l) \<le> BUFFER_LENGTH\<rbrakk> \<Longrightarrow>
   smtp_lines K E s ls =
     State_Monad.return (s\<lparr>headersBlock := headersBlock s @ concat (map (\<lambda>l. trim l @ [LF]) ls)\<rparr>, [], [])"
  by (induction ls arbitrary: s) (simp_all add: header_line)

lemma sample_session_simps [simp]:
  "senderEmail sample_session = ''eve@localhost''"
  "validRecipients sample_session = [''bob@localhost'', ''ann@localhost'']"
  "isDataRecptMode sample_session" "bodyBlock sample_session = ''yo'' @ [LF]"
  "subject_of (headersBlock sample_session) = ''hi''"
  by code_simp+

text \<open>
  C22. Whatever bytes a client sends, in whatever chunks, a session of the server is in \<^verbatim>\<open>DATA\<close> mode
  only when a sender and a recipient were given, every recipient kept for local delivery is an
  address at \<^verbatim>\<open>@localhost\<close>, and a server started without \<^verbatim>\<open>-x\<close> keeps no other recipient and
  relays nothing.
\<close>

theorem smtp_session_invariant:
  assumes "\<forall>(E, bytes)\<in>set chunks. extraCreditNonLocal E = x"
    and "run_state (smtp_handle_client K chunks) st = ((s, replies, relayed), st')"
  shows "(isDataRecptMode s \<longrightarrow> senderEmail s \<noteq> [] \<and>
            (validRecipients s \<noteq> [] \<or> x \<and> nonLocalRecipients s \<noteq> [])) \<and>
         (\<forall>r\<in>set (validRecipients s). is_local_address r) \<and>
         (\<not> x \<longrightarrow> nonLocalRecipients s = [] \<and> relayed = [])"
proof -
  let ?run = "run_state (smtp_session K new_session chunks) st"
  have s: "s = fst (fst ?run)" "relayed = snd (snd (fst ?run))"
    using assms(2) by (auto simp: smtp_handle_client_def case_prod_beta)
  have "session_inv x s" unfolding s using session_inv_new assms(1) by (rule session_inv_run)
  moreover have "\<not> x \<Longrightarrow> relayed = []"
    unfolding s using assms(1) by (intro no_relay_session) auto
  ultimately show ?thesis by (simp add: session_inv_def)
qed

theorem smtp_session_invariant_witness:
  "nonLocalRecipients (fst (fst (run_state (smtp_handle_client (cluster_ops sample_platform)
      [(sample_env, ''MAIL FROM:<eve@localhost>'' @ crlf @ ''RCPT TO:<x@y.z>'' @ crlf)])
      (booted_cluster sample_platform)))) = []"
proof -
  let ?run = "run_state (smtp_handle_client (cluster_ops sample_platform)
      [(sample_env, ''MAIL FROM:<eve@localhost>'' @ crlf @ ''RCPT TO:<x@y.z>'' @ crlf)])
      (booted_cluster sample_platform)"
  have "?run = ((fst (fst ?run), fst (snd (fst ?run)), snd (snd (fst ?run))), snd ?run)" by simp
  from smtp_session_invariant [OF _ this, of False] show ?thesis by (simp add: sample_env_def)
qed

text \<open>
  C23. Delivery at the end of \<^verbatim>\<open>DATA\<close>, on a healthy cluster and for a server without \<^verbatim>\<open>-x\<close>: the client is
  told the data is complete, every address gets the mail at the end of its inbox as often as it was
  named as a recipient (so nobody else gets it), with exactly the body lines received, a local
  sender gets one entry per recipient in the sent folder, and the session is ready for the next
  mail. No header field of the mail has a comma, which separates the entries of a mailbox.
\<close>

theorem accepted_mail_in_every_inbox:
  fixes s :: session and E :: smtp_env
  defines "i \<equiv> smtp_id E s (subject_of (headersBlock s))"
  assumes "healthy cl" and "\<not> extraCreditNonLocal E"
    and "isDataRecptMode s" and "validRecipients s \<noteq> []"
    and "no_commas E s (subject_of (headersBlock s))"
    and "run_state (smtp_line (cluster_ops P) E s ''.'') cl = ((s', reply, relayed), cl')"
  shows "reply = ''250 Data input complete. Exiting DATA mode.'' @ crlf \<and> relayed = [] \<and> healthy cl' \<and>
    \<not> isDataRecptMode s' \<and> validRecipients s' = [] \<and>
    (\<forall>a. mailbox_ids (db P cl') (inbox_row a) =
       mailbox_ids (db P cl) (inbox_row a) @ replicate (count_list (validRecipients s) a) (i a)) \<and>
    (\<forall>r\<in>set (validRecipients s). db P cl' (inbox_row r) (i r) = Some (bodyBlock s)) \<and>
    mailbox_ids (db P cl') (sent_row (senderEmail s)) = mailbox_ids (db P cl) (sent_row (senderEmail s)) @
      (if contains (senderEmail s) ''@localhost'' then map i (validRecipients s) else [])"
proof -
  let ?sub = "subject_of (headersBlock s)"
  have line: "smtp_line (cluster_ops P) E s ''.'' = end_of_data (cluster_ops P) E s"
    using assms(4) by (simp add: smtp_line_def trim_dot)
  have c: "s' = s\<lparr>isDataRecptMode := False, validRecipients := [], headersBlock := [], bodyBlock := []\<rparr>"
    "reply = ''250 Data input complete. Exiting DATA mode.'' @ crlf" "relayed = []" "healthy cl'"
    "db P cl' = foldl (\<lambda>M r. smtp_delivered M E s ?sub r) (db P cl) (validRecipients s)"
    using tripleD [OF kv.triple_end_of_data [where P = P, OF assms(5,3)] healthy_kv_at [OF assms(2)]]
      assms(7) by (auto simp: kv_at_def line)
  have "\<forall>r\<in>set (validRecipients s). CHR '','' \<notin> set (senderEmail s @ ?sub @ timestamp_text E @ r)"
    using assms(6) by (auto simp: no_commas_def)
  from smtp_ids_all [OF this] smtp_bodies show ?thesis
    unfolding c i_def by (simp add: c(4))
qed

theorem accepted_mail_in_every_inbox_witness:
  "mailbox_ids (db sample_platform (snd (run_state (smtp_line (cluster_ops sample_platform) sample_env
      sample_session ''.'') (booted_cluster sample_platform)))) (inbox_row ''ann@localhost'') =
   [mail_id ''eve@localhost'' ''ann@localhost'' ''hi'' ''2025-05-01 12:00:00'']"
proof -
  let ?run = "run_state (smtp_line (cluster_ops sample_platform) sample_env
      sample_session ''.'') (booted_cluster sample_platform)"
  have r: "?run = ((fst (fst ?run), fst (snd (fst ?run)), snd (snd (fst ?run))), snd ?run)" by simp
  have e: "mailbox_ids (db sample_platform (booted_cluster sample_platform)) row = []" for row
    using booted_db_empty [OF booted_booted_cluster [OF platform_ok_sample]]
    by (simp add: mailbox_ids_def)
  show ?thesis
    using accepted_mail_in_every_inbox [OF healthy_booted_cluster [OF platform_ok_sample] _ _ _ _ r]
    by (simp add: e no_commas_def smtp_id_def sample_env_def)
qed

text \<open>
  C24. The blank line between the headers and the body never reaches the \<^verbatim>\<open>DATA\<close> state, because empty
  lines are skipped before the mode is looked at. So the lines at the start of a body that have a
  colon are taken as headers, and none of them is in the stored body.
\<close>

theorem colon_lines_lost_from_body:
  assumes "isDataRecptMode s" and "inHeaderSection s"
    and "\<forall>l\<in>set ls. contains (trim l) '':'' \<and> length (trim l) \<le> BUFFER_LENGTH"
    and "run_state (smtp_lines K E s ([] # ls)) st = ((s', reply, relayed), st')" and "\<not> quit s"
  shows "bodyBlock s' = bodyBlock s \<and> isDataRecptMode s' \<and> inHeaderSection s' \<and> st' = st \<and>
    headersBlock s' = headersBlock s @ concat (map (\<lambda>l. trim l @ [LF]) ls)"
proof -
  let ?s = "\<lambda>ls. s\<lparr>headersBlock := headersBlock s @ concat (map (\<lambda>l. trim l @ [LF]) ls)\<rparr>"
  have "run_state (smtp_lines K E s ([] # ls)) st = ((?s ls, [], []), st)"
    using assms(1,2,3,5) by (simp add: smtp_line_def trim_Nil header_lines)
  then show ?thesis using assms by auto
qed

theorem colon_lines_lost_from_body_witness:
  "bodyBlock (fst (fst (run_state (smtp_lines (cluster_ops sample_platform) sample_env
      (sample_session\<lparr>bodyBlock := []\<rparr>) [[], ''Lunch: 12:30''])
      (booted_cluster sample_platform)))) = []"
proof -
  let ?s = "sample_session\<lparr>bodyBlock := []\<rparr>"
  let ?run = "run_state (smtp_lines (cluster_ops sample_platform) sample_env ?s [[], ''Lunch: 12:30''])
      (booted_cluster sample_platform)"
  have r: "?run = ((fst (fst ?run), fst (snd (fst ?run)), snd (snd (fst ?run))), snd ?run)" by simp
  have "\<forall>l\<in>set [''Lunch: 12:30'']. contains (trim l) '':'' \<and> length (trim l) \<le> BUFFER_LENGTH"
    "inHeaderSection ?s" "\<not> quit ?s"
    by code_simp+
  from colon_lines_lost_from_body [OF _ this(2,1) r this(3)] show ?thesis by simp
qed

end
