(* ===== verification/Storage_Http.thy ===== *)
theory Storage_Http
  imports Email_Service
begin

text \<open>
  What the storage service does with bytes (\<^verbatim>\<open>frontend/storage/storage_service.cc\<close>, the functions before
  and between the handlers that do not touch the store): responses, multipart bodies, names,
  URL decoding, request bodies and the chunked transfer encoding. The input of a socket is the list of
  what successive calls of \<^verbatim>\<open>recv\<close> return; its end, or an empty piece, is the end of the connection.
  An \<open>outcome\<close> is how a call ends: it returns, throws, or does not return within the given fuel.
\<close>

section \<open>Outcomes\<close>

datatype exn = Invalid_argument | Out_of_range | Length_error | Runtime_error string | Wild_write | Wild_access

datatype 'a outcome = Returns 'a | Throws exn | Diverges

definition attempt :: "'a outcome \<Rightarrow> ('a \<Rightarrow> ('st, 'b outcome) state) \<Rightarrow> ('st, 'b outcome) state" where
  "attempt r f = (case r of Returns x \<Rightarrow> f x | Throws e \<Rightarrow> State_Monad.return (Throws e)
     | Diverges \<Rightarrow> State_Monad.return Diverges)"

definition and_then ::
  "('st, 'a outcome) state \<Rightarrow> ('a \<Rightarrow> ('st, 'b outcome) state) \<Rightarrow> ('st, 'b outcome) state" where
  "and_then m f = State_Monad.bind m (\<lambda>r. attempt r f)"

fun for_each :: "('x \<Rightarrow> ('st, unit outcome) state) \<Rightarrow> 'x list \<Rightarrow> ('st, unit outcome) state" where
  "for_each f [] = State_Monad.return (Returns ())"
| "for_each f (x # xs) = and_then (f x) (\<lambda>_. for_each f xs)"

definition outcome_bind :: "'a outcome \<Rightarrow> ('a \<Rightarrow> 'b outcome) \<Rightarrow> 'b outcome" where
  "outcome_bind r f = (case r of Returns x \<Rightarrow> f x | Throws e \<Rightarrow> Throws e | Diverges \<Rightarrow> Diverges)"

definition substr :: "string \<Rightarrow> nat \<Rightarrow> nat option \<Rightarrow> string outcome" where
  "substr s pos len = (case substr_at s pos len of None \<Rightarrow> Throws Out_of_range | Some t \<Rightarrow> Returns t)"

lemma attempt_simps [simp]:
  "attempt (Returns x) f = f x" "attempt (Throws e) f = State_Monad.return (Throws e)"
  "attempt Diverges f = State_Monad.return Diverges"
  by (simp_all add: attempt_def)

lemma outcome_bind_simps [simp]:
  "outcome_bind (Returns x) f = f x" "outcome_bind (Throws e) f = Throws e" "outcome_bind Diverges f = Diverges"
  by (simp_all add: outcome_bind_def)

text \<open>\<^verbatim>\<open>s.substr(from, to - from)\<close> for positions found by \<^verbatim>\<open>find\<close>, \<^term>\<open>None\<close> being \<^verbatim>\<open>npos\<close>.\<close>

definition between :: "string \<Rightarrow> nat \<Rightarrow> nat option \<Rightarrow> string" where
  "between s from to = str_substr s from (map_option (\<lambda>e. e - from) to)"

section \<open>Responses\<close>

definition buildHttpHeaderStorage :: "string \<Rightarrow> string \<Rightarrow> nat \<Rightarrow> string \<Rightarrow> string" where
  "buildHttpHeaderStorage status contentType contentLength extraHeaders =
     ''HTTP/1.1 '' @ status @ crlf @
     ''Content-Type: '' @ contentType @ crlf @
     ''Content-Length: '' @ nat_string contentLength @ crlf @
     extraHeaders @
     ''Connection: keep-alive'' @ crlf @ crlf"

definition httpResponseStorage :: "string \<Rightarrow> string \<Rightarrow> string" where
  "httpResponseStorage status body =
     buildHttpHeaderStorage status ''text/html'' (length body) [] @ body"

section \<open>Multipart bodies\<close>

definition parseMultipartFieldStorage :: "string \<Rightarrow> string \<Rightarrow> string" where
  "parseMultipartFieldStorage body fieldName =
     (case str_find body (''name=\"'' @ fieldName @ ''\"'') 0 of
        None \<Rightarrow> []
      | Some pos \<Rightarrow>
          (case str_find body (crlf @ crlf) pos of
             None \<Rightarrow> []
           | Some p \<Rightarrow>
               (let valueStart = p + 4
                in case str_find body crlf valueStart of
                     None \<Rightarrow> []
                   | Some valueEnd \<Rightarrow> between body valueStart (Some valueEnd))))"

definition findHeaderEnd :: "string \<Rightarrow> nat" where
  "findHeaderEnd body =
     (case str_find body (crlf @ crlf) 0 of Some i \<Rightarrow> i + 4 | None \<Rightarrow> length body)"

definition parseMultipartFilenameStorage :: "string \<Rightarrow> string" where
  "parseMultipartFilenameStorage body =
     (let marker = ''filename=\"'';
          header = take (findHeaderEnd body) body
      in case str_find header marker 0 of
           None \<Rightarrow> ''uploaded_file''
         | Some p \<Rightarrow>
             (let pos = p + length marker
              in case str_find header ''\"'' pos of
                   None \<Rightarrow> ''uploaded_file''
                 | Some endPos \<Rightarrow> between header pos (Some endPos)))"

definition parseMultipartFilenameStorageHeader :: "string \<Rightarrow> string" where
  "parseMultipartFilenameStorageHeader headerPart =
     (let marker = ''filename=\"''
      in case str_find headerPart marker 0 of
           None \<Rightarrow> []
         | Some p \<Rightarrow>
             (let pos = p + length marker;
                  filename = between headerPart pos (str_find headerPart ''\"'' pos)
              in case find_last_of filename {CHR ''/'', CHR 0x5C} of
                   Some slash \<Rightarrow> if slash + 1 < length filename then drop (slash + 1) filename else filename
                 | None \<Rightarrow> filename))"

definition extractBoundary :: "string \<Rightarrow> string" where
  "extractBoundary request =
     (case str_find request ''Content-Type: multipart/form-data;'' 0 of
        None \<Rightarrow> []
      | Some ct \<Rightarrow>
          (case str_find request ''boundary='' ct of
             None \<Rightarrow> []
           | Some b0 \<Rightarrow> (let b = b0 + 9 in ''--'' @ between request b (str_find request crlf b))))"

fun read_to_marker :: "string \<Rightarrow> string \<Rightarrow> string list \<Rightarrow> string" where
  "read_to_marker finalMarker buf [] = buf"
| "read_to_marker finalMarker buf (tmp # socket) =
     (if tmp = [] then buf
      else let buf' = buf @ tmp
           in if length finalMarker \<le> length buf' \<and> contains buf' finalMarker then buf'
              else read_to_marker finalMarker buf' socket)"

definition readMultipartBody :: "string list \<Rightarrow> string \<Rightarrow> nat \<Rightarrow> string outcome" where
  "readMultipartBody socket request headerEnd =
     (let boundary = extractBoundary request
      in if boundary = [] then Throws (Runtime_error ''No multipart boundary'')
         else Returns (read_to_marker (crlf @ boundary @ ''--'') (drop (headerEnd + 4) request) socket))"

section \<open>Content types and names\<close>

definition content_types :: "(string \<times> string) list" where
  "content_types =
     [(''.txt'', ''text/plain''), (''.html'', ''text/html''), (''.htm'', ''text/html''),
      (''.css'', ''text/css''), (''.js'', ''application/javascript''), (''.json'', ''application/json''),
      (''.xml'', ''application/xml''), (''.pdf'', ''application/pdf''), (''.png'', ''image/png''),
      (''.jpg'', ''image/jpeg''), (''.jpeg'', ''image/jpeg''), (''.gif'', ''image/gif''),
      (''.bmp'', ''image/bmp''), (''.webp'', ''image/webp''), (''.svg'', ''image/svg+xml''),
      (''.ico'', ''image/x-icon''), (''.mp3'', ''audio/mpeg''), (''.wav'', ''audio/wav''),
      (''.ogg'', ''audio/ogg''), (''.flac'', ''audio/flac''), (''.mp4'', ''video/mp4''),
      (''.mov'', ''video/quicktime''), (''.avi'', ''video/x-msvideo''), (''.mpeg'', ''video/mpeg''),
      (''.webm'', ''video/webm''), (''.mkv'', ''video/x-matroska'')]"

definition get_content_type_storage :: "string \<Rightarrow> string" where
  "get_content_type_storage filename =
     (let slash = find_last_of filename {CHR ''/'', CHR 0x5C};
          fallback = ''application/octet-stream''
      in case find_last_of filename {CHR ''.''} of
           None \<Rightarrow> fallback
         | Some pos \<Rightarrow>
             if (case slash of None \<Rightarrow> True | Some sl \<Rightarrow> sl < pos)
             then (case map_of content_types (drop pos filename) of Some t \<Rightarrow> t | None \<Rightarrow> fallback)
             else fallback)"

text \<open>The regular expression \<^verbatim>\<open>^[A-Za-z0-9()_ ]+(\.[A-Za-z0-9()_ ]+)?$\<close>, matched against the whole string.\<close>

definition name_char :: "char \<Rightarrow> bool" where
  "name_char c \<longleftrightarrow>
     c \<in> set ''ABCDEFGHIJKLMNOPQRSTUVWXYZabcdefghijklmnopqrstuvwxyz0123456789()_ ''"

definition isValidName :: "string \<Rightarrow> bool" where
  "isValidName s \<longleftrightarrow>
     (let segments = splitString s CHR ''.''
      in length segments \<le> 2 \<and> list_all (\<lambda>seg. seg \<noteq> [] \<and> list_all name_char seg) segments)"

definition ensureSameExtension :: "string \<Rightarrow> string \<Rightarrow> string" where
  "ensureSameExtension oldName newName =
     (let extOld = (case find_last_of oldName {CHR ''.''} of
                      Some posOld \<Rightarrow> if posOld + 1 < length oldName then drop posOld oldName else []
                    | None \<Rightarrow> []);
          posNew = find_last_of newName {CHR ''.''}
      in if extOld = [] then (case posNew of Some p \<Rightarrow> take p newName | None \<Rightarrow> newName)
         else case posNew of
                Some p \<Rightarrow> if p + 1 < length newName then take p newName @ extOld else newName @ extOld
              | None \<Rightarrow> newName @ extOld)"

section \<open>Numbers in text\<close>

text \<open>\<^verbatim>\<open>strtol\<close>/\<^verbatim>\<open>strtoul\<close> with base 16: the sign, and the value of the digits, \<^term>\<open>None\<close> without a digit.\<close>

definition hex_value :: "string \<Rightarrow> nat" where
  "hex_value ds = foldl (\<lambda>acc c. 16 * acc + the (hex_digit_val c)) 0 ds"

definition is_hex :: "char \<Rightarrow> bool" where
  "is_hex c \<longleftrightarrow> hex_digit_val c \<noteq> None"

definition strto16 :: "string \<Rightarrow> (bool \<times> nat) option" where
  "strto16 inp =
     (let s = skip_ws inp;
          neg = (s \<noteq> [] \<and> hd s = CHR ''-'');
          s1 = (if s \<noteq> [] \<and> hd s \<in> set ''+-'' then tl s else s);
          s2 = (case s1 of
                  a # b # c # _ \<Rightarrow> if a = CHR ''0'' \<and> b \<in> set ''xX'' \<and> is_hex c then drop 2 s1 else s1
                | _ \<Rightarrow> s1);
          ds = takeWhile is_hex s2
      in if ds = [] then None else Some (neg, hex_value ds))"

definition stoi16 :: "string \<Rightarrow> int outcome" where
  "stoi16 s =
     (case strto16 s of
        None \<Rightarrow> Throws Invalid_argument
      | Some (neg, n) \<Rightarrow>
          (let v = (if neg then - int n else int n)
           in if v < - (2 ^ 31) \<or> 2 ^ 31 \<le> v then Throws Out_of_range else Returns v))"

definition stoul16 :: "string \<Rightarrow> nat outcome" where
  "stoul16 s =
     (case strto16 s of
        None \<Rightarrow> Throws Invalid_argument
      | Some (neg, n) \<Rightarrow>
          if 2 ^ 64 \<le> n then Throws Out_of_range
          else Returns (if neg then (2 ^ 64 - n) mod 2 ^ 64 else n))"

text \<open>\<^verbatim>\<open>stoi\<close> with base 10.\<close>

definition stoi :: "string \<Rightarrow> int outcome" where
  "stoi s = (let t = skip_ws s;
                 u = (if t \<noteq> [] \<and> hd t \<in> set ''+-'' then tl t else t)
             in if u = [] \<or> \<not> is_digit (hd u) then Throws Invalid_argument
                else case read_int s of None \<Rightarrow> Throws Out_of_range | Some (v, _) \<Rightarrow> Returns v)"

section \<open>Query parameters\<close>

fun urlDecode2 :: "string \<Rightarrow> string outcome" where
  "urlDecode2 [] = Returns []"
| "urlDecode2 (c # cs) =
     (if c = CHR ''%'' then
        (case cs of
           a # b # rest \<Rightarrow>
             outcome_bind (stoi16 [a, b]) (\<lambda>v.
             outcome_bind (urlDecode2 rest) (\<lambda>r. Returns (char_of v # r)))
         | _ \<Rightarrow> outcome_bind (urlDecode2 cs) (\<lambda>r. Returns (c # r)))
      else if c = CHR ''+'' then outcome_bind (urlDecode2 cs) (\<lambda>r. Returns (CHR '' '' # r))
      else outcome_bind (urlDecode2 cs) (\<lambda>r. Returns (c # r)))"

definition add_param :: "(string \<rightharpoonup> string) \<Rightarrow> string \<Rightarrow> (string \<rightharpoonup> string)" where
  "add_param params pair =
     (case str_find pair ''='' 0 of
        None \<Rightarrow> params
      | Some eqPos \<Rightarrow> params(take eqPos pair \<mapsto> drop (eqPos + 1) pair))"

definition parseQueryParamsStorage :: "string \<Rightarrow> (string \<rightharpoonup> string) outcome" where
  "parseQueryParamsStorage query =
     outcome_bind (urlDecode2 query) (\<lambda>q. Returns (foldl add_param Map.empty (getlines CHR ''&'' q)))"

text \<open>The query string in a request line, \<^term>\<open>None\<close> when the line has no question mark.\<close>

definition first_line :: "string \<Rightarrow> string" where
  "first_line request = between request 0 (str_find request crlf 0)"

definition query_string :: "string \<Rightarrow> string option" where
  "query_string line =
     (case str_find line ''?'' 0 of
        None \<Rightarrow> None
      | Some q \<Rightarrow> Some (between line (q + 1) (str_find line '' '' (q + 1))))"

section \<open>Request bodies\<close>

abbreviation MAX_FILE_SIZE :: nat where "MAX_FILE_SIZE \<equiv> 10 * 1024 * 1024"

fun read_to_length :: "nat \<Rightarrow> string \<Rightarrow> string list \<Rightarrow> string" where
  "read_to_length contentLength body [] = body"
| "read_to_length contentLength body (buf # socket) =
     (if contentLength \<le> length body \<or> buf = [] then body
      else read_to_length contentLength (body @ buf) socket)"

text \<open>
  The number after \<^verbatim>\<open>Content-Length:\<close>; a failure of \<^verbatim>\<open>substr\<close> or \<^verbatim>\<open>stoi\<close> is caught and leaves 0. The text
  starts with a digit, so the number is not negative.
\<close>

definition first_digit_from :: "string \<Rightarrow> nat \<Rightarrow> nat option" where
  "first_digit_from s pos =
     (let n = length (takeWhile (\<lambda>c. \<not> is_digit c) (drop pos s))
      in if pos + n < length s then Some (pos + n) else None)"

definition content_length :: "string \<Rightarrow> int outcome" where
  "content_length request =
     (case str_find request ''Content-Length:'' 0 of
        None \<Rightarrow> Returns 0
      | Some clPos \<Rightarrow>
          (case first_digit_from request clPos of
             None \<Rightarrow> Throws Out_of_range
           | Some start \<Rightarrow> stoi (between request start (str_find request crlf start))))"

definition readRequestBodyStorage :: "string list \<Rightarrow> string \<Rightarrow> nat option \<Rightarrow> string outcome" where
  "readRequestBodyStorage socket request headerEnd =
     (let n = (case content_length request of Returns v \<Rightarrow> nat v | _ \<Rightarrow> 0);
          contentLength = (if n = 0 \<or> MAX_FILE_SIZE < n then MAX_FILE_SIZE else n)
      in outcome_bind (substr request (npos_plus headerEnd 4) None) (\<lambda>body.
           Returns (read_to_length contentLength body socket)))"

section \<open>Chunked transfer encoding\<close>

definition recvLine :: "string \<Rightarrow> string \<times> string" where
  "recvLine bytes =
     (case str_find bytes crlf 0 of
        None \<Rightarrow> (bytes, [])
      | Some p \<Rightarrow> (take (p + 2) bytes, drop (p + 2) bytes))"

lemma recvLine_rest: "fst (recvLine bs) \<noteq> [] \<Longrightarrow> length (snd (recvLine bs)) < length bs"
  by (auto simp: recvLine_def split: option.splits)

lemma recvLine_le: "length (snd (recvLine bs)) \<le> length bs"
  by (auto simp: recvLine_def split: option.splits)

text \<open>
  \<^verbatim>\<open>body.resize(body.size() + chunkSize)\<close>: the sum is a 64 bit number. When it wraps the vector shrinks,
  and the bytes are then received at an address outside of it; beyond \<^verbatim>\<open>max_size\<close> it throws.
\<close>

function readChunkedBodyRaw :: "string \<Rightarrow> string \<Rightarrow> string outcome" where
  "readChunkedBodyRaw body bytes =
     (let (sizeLine, rest) = recvLine bytes
      in if length sizeLine < 2 then Throws (Runtime_error ''Client closed prematurely'')
         else case stoul16 (take (length sizeLine - 2) sizeLine) of
                Throws e \<Rightarrow> Throws e
              | Diverges \<Rightarrow> Diverges
              | Returns chunkSize \<Rightarrow>
                  if chunkSize = 0 then Returns body
                  else if 2 ^ 64 \<le> length body + chunkSize then Throws Wild_write
                  else if 2 ^ 63 \<le> length body + chunkSize then Throws Length_error
                  else if length rest < chunkSize then Throws (Runtime_error ''Client closed mid-chunk'')
                  else readChunkedBodyRaw (body @ take chunkSize rest) (snd (recvLine (drop chunkSize rest))))"
  by pat_completeness auto
termination
proof (relation "measure (\<lambda>(body, bytes). length bytes)", simp, goal_cases)
  case (1 body bytes x sizeLine rest chunkSize)
  have "fst (recvLine bytes) = sizeLine" "snd (recvLine bytes) = rest" using 1(1,2) by (metis fst_conv snd_conv)+
  then have "length rest < length bytes" using 1(3) recvLine_rest [of bytes] by fastforce
  then show ?case using recvLine_le [of "drop chunkSize rest"] by auto
qed

declare readChunkedBodyRaw.simps [simp del]

definition hex_char_lower :: "nat \<Rightarrow> char" where
  "hex_char_lower d = ''0123456789abcdef'' ! d"

fun hex_string :: "nat \<Rightarrow> string" where
  "hex_string n = (if n < 16 then [hex_char_lower n] else hex_string (n div 16) @ [hex_char_lower (n mod 16)])"

declare hex_string.simps [simp del]

text \<open>The loop over the data, for a positive chunk size; the code calls it with 65536.\<close>

function chunk_stream :: "nat \<Rightarrow> string \<Rightarrow> string" where
  "chunk_stream chunkSize data =
     (if data = [] \<or> chunkSize = 0 then ''0'' @ crlf @ crlf
      else let sz = min chunkSize (length data)
           in hex_string sz @ crlf @ take sz data @ crlf @ chunk_stream chunkSize (drop sz data))"
  by pat_completeness auto
termination by (relation "measure (\<lambda>(chunkSize, data). length data)") auto

declare chunk_stream.simps [simp del]

definition sendChunkedResponse :: "string \<Rightarrow> string \<Rightarrow> string \<Rightarrow> string \<Rightarrow> string" where
  "sendChunkedResponse statusLine contentType data extraheaders =
     statusLine @ crlf @
     ''Content-Type: '' @ contentType @ crlf @
     extraheaders @ crlf @
     ''Transfer-Encoding: chunked'' @ crlf @
     ''Connection: keep-alive'' @ crlf @
     crlf @
     chunk_stream 65536 data"

definition sendBinaryResponse :: "string \<Rightarrow> string \<Rightarrow> string \<Rightarrow> string \<Rightarrow> string" where
  "sendBinaryResponse statusLine contentType filename payload =
     statusLine @ crlf @
     ''Content-Type: '' @ contentType @ crlf @
     ''Content-Length: '' @ nat_string (length payload) @ crlf @
     ''Content-Disposition: attachment; filename=\"'' @ filename @ ''\"'' @ crlf @
     ''Connection: keep-alive'' @ crlf @
     crlf @ payload"

end
