(* ===== verification/Storage_Service.thy ===== *)
theory Storage_Service
  imports Storage_Http
begin

text \<open>
  The storage service (\<^verbatim>\<open>frontend/storage/storage_service.cc\<close>). A user's files are the row
  \<^verbatim>\<open><user>-storage\<close>: the column of a path has a marker (\<^verbatim>\<open>KV-File\<close>, \<^verbatim>\<open>KV-Folder\<close>, or \<^verbatim>\<open>DEL KV-Folder\<close> for a
  deleted folder), \<^verbatim>\<open><folder>-metadata\<close> (\<^verbatim>\<open>metadata\<close> for the root) lists the paths of its entries, and for
  a file \<^verbatim>\<open><path>-metadata\<close> lists its chunks, each stored in \<^verbatim>\<open><chunk>-content\<close>. The recursive
  functions and the loops that look for a free name take fuel \<open>n\<close>.
\<close>

section \<open>Paths\<close>

definition local_name :: "string \<Rightarrow> string" where
  "local_name p = (case find_last_of p {CHR ''/''} of None \<Rightarrow> p | Some k \<Rightarrow> drop (k + 1) p)"

definition parent_path :: "string \<Rightarrow> string" where
  "parent_path p = (case find_last_of p {CHR ''/''} of None \<Rightarrow> [] | Some k \<Rightarrow> take k p)"

definition child_path :: "string \<Rightarrow> string \<Rightarrow> string" where
  "child_path folder name = (if folder = [] then name else folder @ ''/'' @ name)"

definition meta_col :: "string \<Rightarrow> string" where
  "meta_col folder = (if folder = [] then ''metadata'' else folder @ ''-metadata'')"

definition splitStringStorage :: "string \<Rightarrow> string list" where
  "splitStringStorage s = splitString s CHR '',''"

abbreviation join_comma :: "string list \<Rightarrow> string" where "join_comma \<equiv> join_with CHR '',''"

section \<open>Deleting\<close>

definition delete_chunks :: "'st kv_ops \<Rightarrow> string \<Rightarrow> string \<Rightarrow> string list \<Rightarrow> ('st, unit outcome) state" where
  "delete_chunks K client baseKey chunks =
     for_each (\<lambda>chunk. do { res \<leftarrow> kv_delete K client baseKey (chunk @ ''-content'');
                            State_Monad.return (Returns ()) }) chunks"

fun deleteRec :: "nat \<Rightarrow> 'st kv_ops \<Rightarrow> string \<Rightarrow> string \<Rightarrow> string \<Rightarrow> ('st, unit outcome) state" where
  "deleteRec 0 K client baseKey absPath = State_Monad.return Diverges"
| "deleteRec (Suc n) K client baseKey absPath = do {
     marker \<leftarrow> kv_get K client baseKey absPath;
     if marker \<noteq> ''KV-Folder'' then do {
       let fileMetaCol = absPath @ ''-metadata'';
       fileMeta \<leftarrow> kv_get K client baseKey fileMetaCol;
       and_then
         (if fileMeta \<noteq> [] \<and> \<not> is_err fileMeta
          then and_then (delete_chunks K client baseKey (splitStringStorage fileMeta)) (\<lambda>_. do {
                 res \<leftarrow> kv_delete K client baseKey fileMetaCol;
                 State_Monad.return (Returns ()) })
          else State_Monad.return (Returns ()))
         (\<lambda>_. do {
            res \<leftarrow> kv_delete K client baseKey (absPath @ ''-content'');
            res2 \<leftarrow> kv_delete K client baseKey absPath;
            State_Monad.return (Returns ()) }) }
     else do {
       let metaCol = absPath @ ''-metadata'';
       res \<leftarrow> kv_put K client baseKey absPath ''DEL KV-Folder'';
       children \<leftarrow> kv_get K client baseKey metaCol;
       res2 \<leftarrow> kv_delete K client baseKey metaCol;
       if children \<noteq> [] \<and> \<not> is_err children
       then for_each (\<lambda>childAbs. deleteRec n K client baseKey childAbs) (splitStringStorage children)
       else State_Monad.return (Returns ()) } }"

section \<open>Renaming and moving\<close>

text \<open>
  The steps that \<^verbatim>\<open>renameFolderRec\<close>, \<^verbatim>\<open>renameFolderMoveRec\<close>, \<^verbatim>\<open>moveFile\<close> and \<^verbatim>\<open>webStorageRenameFile\<close> take for
  one file: each chunk is copied to its new column and deleted, then the list of chunks; a file without
  a list is one column; last the marker.
\<close>

fun move_chunks ::
  "'st kv_ops \<Rightarrow> string \<Rightarrow> string \<Rightarrow> string \<Rightarrow> string \<Rightarrow> string list \<Rightarrow> ('st, string list outcome) state" where
  "move_chunks K client baseKey oldAbs newAbs [] = State_Monad.return (Returns [])"
| "move_chunks K client baseKey oldAbs newAbs (chunk # chunks) =
     attempt (substr chunk (length oldAbs) None) (\<lambda>suffix. do {
       let newChunk = newAbs @ suffix;
       content \<leftarrow> kv_get K client baseKey (chunk @ ''-content'');
       res \<leftarrow> kv_put K client baseKey (newChunk @ ''-content'') content;
       res2 \<leftarrow> kv_delete K client baseKey (chunk @ ''-content'');
       and_then (move_chunks K client baseKey oldAbs newAbs chunks) (\<lambda>newChunks.
         State_Monad.return (Returns (newChunk # newChunks))) })"

definition move_file_columns ::
  "'st kv_ops \<Rightarrow> string \<Rightarrow> string \<Rightarrow> string \<Rightarrow> string \<Rightarrow> ('st, unit outcome) state" where
  "move_file_columns K client baseKey oldAbs newAbs = do {
     let fileMetaCol = oldAbs @ ''-metadata'';
     fileMeta \<leftarrow> kv_get K client baseKey fileMetaCol;
     and_then
       (if fileMeta \<noteq> [] \<and> \<not> is_err fileMeta
        then and_then (move_chunks K client baseKey oldAbs newAbs (splitStringStorage fileMeta)) (\<lambda>newChunks. do {
               res \<leftarrow> kv_put K client baseKey (newAbs @ ''-metadata'') (join_comma newChunks);
               res2 \<leftarrow> kv_delete K client baseKey fileMetaCol;
               State_Monad.return (Returns ()) })
        else do {
          content \<leftarrow> kv_get K client baseKey (oldAbs @ ''-content'');
          res \<leftarrow> kv_put K client baseKey (newAbs @ ''-content'') content;
          res2 \<leftarrow> kv_delete K client baseKey (oldAbs @ ''-content'');
          State_Monad.return (Returns ()) })
       (\<lambda>_. do {
          res \<leftarrow> kv_put K client baseKey newAbs ''KV-File'';
          res2 \<leftarrow> kv_delete K client baseKey oldAbs;
          State_Monad.return (Returns ()) }) }"

fun renameFolderRec ::
  "nat \<Rightarrow> 'st kv_ops \<Rightarrow> string \<Rightarrow> string \<Rightarrow> string \<Rightarrow> string \<Rightarrow> ('st, unit outcome) state" where
  "renameFolderRec 0 K client baseKey oldAbs newAbs = State_Monad.return Diverges"
| "renameFolderRec (Suc n) K client baseKey oldAbs newAbs = do {
     let oldMetaCol = oldAbs @ ''-metadata'';
     folderMeta \<leftarrow> kv_get K client baseKey oldMetaCol;
     res \<leftarrow> kv_put K client baseKey newAbs ''KV-Folder'';
     res2 \<leftarrow> kv_put K client baseKey (newAbs @ ''-metadata'') folderMeta;
     res3 \<leftarrow> kv_put K client baseKey oldAbs ''DEL KV-Folder'';
     res4 \<leftarrow> kv_delete K client baseKey oldMetaCol;
     for_each (\<lambda>childAbs. do {
         let newChildAbs = newAbs @ ''/'' @ local_name childAbs;
         val \<leftarrow> kv_get K client baseKey childAbs;
         if val = ''KV-Folder'' then renameFolderRec n K client baseKey childAbs newChildAbs
         else move_file_columns K client baseKey childAbs newChildAbs })
       (splitStringStorage folderMeta) }"

definition moved_child :: "string \<Rightarrow> string \<Rightarrow> string" where
  "moved_child newAbs childOld =
     (let l = local_name childOld in if l = [] then newAbs else newAbs @ ''/'' @ l)"

fun renameFolderMoveRec ::
  "nat \<Rightarrow> 'st kv_ops \<Rightarrow> string \<Rightarrow> string \<Rightarrow> string \<Rightarrow> string \<Rightarrow> ('st, unit outcome) state" where
  "renameFolderMoveRec 0 K client baseKey oldAbs newAbs = State_Monad.return Diverges"
| "renameFolderMoveRec (Suc n) K client baseKey oldAbs newAbs = do {
     let oldMetaCol = oldAbs @ ''-metadata'';
     meta \<leftarrow> kv_get K client baseKey oldMetaCol;
     let folderMeta = (if is_err meta then [] else meta);
     let oldChildren = filter (\<lambda>s. s \<noteq> [] \<and> s \<noteq> oldAbs) (splitStringStorage folderMeta);
     let newMeta = join_comma (map (moved_child newAbs) oldChildren);
     res \<leftarrow> kv_put K client baseKey newAbs ''KV-Folder'';
     res2 \<leftarrow> kv_put K client baseKey (newAbs @ ''-metadata'') newMeta;
     res3 \<leftarrow> kv_put K client baseKey oldAbs ''DEL KV-Folder'';
     res4 \<leftarrow> kv_delete K client baseKey oldMetaCol;
     for_each (\<lambda>childOld. do {
         let childNew = moved_child newAbs childOld;
         marker \<leftarrow> kv_get K client baseKey childOld;
         if marker = ''KV-Folder'' then renameFolderMoveRec n K client baseKey childOld childNew
         else if marker = ''KV-File'' then move_file_columns K client baseKey childOld childNew
         else State_Monad.return (Returns ()) })
       oldChildren }"

text \<open>The loop of \<^verbatim>\<open>moveFile\<close> that looks for a free name.\<close>

fun free_target ::
  "nat \<Rightarrow> 'st kv_ops \<Rightarrow> string \<Rightarrow> string \<Rightarrow> string \<Rightarrow> string \<Rightarrow> string \<Rightarrow> int \<Rightarrow> string \<Rightarrow> string
     \<Rightarrow> ('st, string outcome) state" where
  "free_target n K client baseKey folder leafBase leafExt i path existing =
     (if existing = ''KV-File'' \<or> existing = ''KV-Folder'' then
        (case n of
           0 \<Rightarrow> State_Monad.return Diverges
         | Suc m \<Rightarrow> do {
             let newLeaf = leafBase @ ''('' @ to_string i @ '')'' @ leafExt;
             let path' = child_path folder newLeaf;
             existing' \<leftarrow> kv_get K client baseKey path';
             free_target m K client baseKey folder leafBase leafExt (i + 1) path' existing' })
      else State_Monad.return (Returns path))"

declare free_target.simps [simp del]

definition remove_entry ::
  "'st kv_ops \<Rightarrow> string \<Rightarrow> string \<Rightarrow> string \<Rightarrow> string \<Rightarrow> ('st, unit) state" where
  "remove_entry K client baseKey metaCol path = do {
     meta \<leftarrow> kv_get K client baseKey metaCol;
     let kept = filter (\<lambda>item. item \<noteq> path) (splitStringStorage meta);
     if kept = [] then do { res \<leftarrow> kv_delete K client baseKey metaCol; State_Monad.return () }
     else do { res \<leftarrow> kv_put K client baseKey metaCol (join_comma kept); State_Monad.return () } }"

definition moveFile ::
  "nat \<Rightarrow> 'st kv_ops \<Rightarrow> string \<Rightarrow> string \<Rightarrow> string \<Rightarrow> string \<Rightarrow> ('st, unit outcome) state" where
  "moveFile n K client baseKey oldAbsFilePath newFolderAbsPath = do {
     let fileName = local_name oldAbsFilePath;
     let srcFolderPath = parent_path oldAbsFilePath;
     let newAbsFilePath0 = child_path newFolderAbsPath fileName;
     let dotPos = find_last_of fileName {CHR ''.''};
     let leafBase = (case dotPos of None \<Rightarrow> fileName | Some d \<Rightarrow> take d fileName);
     let leafExt = (case dotPos of None \<Rightarrow> [] | Some d \<Rightarrow> drop d fileName);
     existing \<leftarrow> kv_get K client baseKey newAbsFilePath0;
     and_then (free_target n K client baseKey newFolderAbsPath leafBase leafExt 1 newAbsFilePath0 existing)
       (\<lambda>newAbsFilePath. and_then (move_file_columns K client baseKey oldAbsFilePath newAbsFilePath) (\<lambda>_. do {
          let destMetaCol = meta_col newFolderAbsPath;
          destMeta \<leftarrow> kv_get K client baseKey destMetaCol;
          res \<leftarrow> kv_put K client baseKey destMetaCol
                   (join_comma (splitStringStorage destMeta @ [newAbsFilePath]));
          remove_entry K client baseKey (meta_col srcFolderPath) oldAbsFilePath;
          State_Monad.return (Returns ()) })) }"

definition moveFolder ::
  "nat \<Rightarrow> 'st kv_ops \<Rightarrow> string \<Rightarrow> string \<Rightarrow> string \<Rightarrow> string \<Rightarrow> ('st, unit outcome) state" where
  "moveFolder n K client baseKey oldAbs newParentFolder = do {
     let newAbs = child_path newParentFolder (local_name oldAbs);
     and_then (renameFolderMoveRec n K client baseKey oldAbs newAbs) (\<lambda>_. do {
       let destMetaCol = meta_col newParentFolder;
       destMeta \<leftarrow> kv_get K client baseKey destMetaCol;
       res \<leftarrow> kv_put K client baseKey destMetaCol
                (if is_err destMeta \<or> destMeta = [] then newAbs else destMeta @ '','' @ newAbs);
       remove_entry K client baseKey (meta_col (parent_path oldAbs)) oldAbs;
       State_Monad.return (Returns ()) }) }"

section \<open>Handlers\<close>

definition servers_down :: string where
  "servers_down = httpResponseStorage ''503 Service Unavailable''
     ''<html><body>Servers down, sorry for the inconvenience!</body></html>''"

text \<open>How every handler starts: the worker of the user's row, or the error page.\<close>

definition with_storage ::
  "'st kv_ops \<Rightarrow> string \<Rightarrow> (string \<Rightarrow> string \<Rightarrow> ('st, string outcome) state) \<Rightarrow> ('st, string outcome) state" where
  "with_storage K username f = do {
     let baseKey = username @ ''-storage'';
     worker \<leftarrow> kv_lookup K baseKey;
     if is_err worker then State_Monad.return (Returns servers_down) else f worker baseKey }"

definition bad_request :: "string \<Rightarrow> string" where
  "bad_request message = httpResponseStorage ''400 Bad Request'' (''<html><body>'' @ message @ ''</body></html>'')"

definition query_params :: "string \<Rightarrow> (string \<rightharpoonup> string) outcome" where
  "query_params line =
     (case query_string line of None \<Rightarrow> Returns Map.empty | Some q \<Rightarrow> parseQueryParamsStorage q)"

subsection \<open>Listing\<close>

definition list_header :: "string \<Rightarrow> string \<Rightarrow> string" where
  "list_header username currentFolder =
     ''<!DOCTYPE html>'' @ [LF] @ ''<html>'' @ [LF] @ ''<head>'' @ [LF] @
     ''  <meta charset='utf-8'>'' @ [LF] @ ''  <title>Web Storage</title>'' @ [LF] @
     ''  <style>'' @ [LF] @ ''    ul { list-style: none; padding-left: 0; }'' @ [LF] @
     ''    li { padding: 4px 0; }'' @ [LF] @
     ''    img { vertical-align: middle; margin-right: 5px; }'' @ [LF] @ ''  </style>'' @
     [LF] @ ''</head>'' @ [LF] @ ''<body>'' @ [LF] @
     (if currentFolder = [] then ''  <h1>'' @ username @ sq @ ''s Files in Storage Home</h1>'' @ [LF]
      else ''  <h1>'' @ username @ sq @ ''s Files in Folder '' @ currentFolder @ ''</h1>'' @
       [LF])"

definition folder_item :: "string \<Rightarrow> string \<Rightarrow> string" where
  "folder_item item absolutePath =
     ''    <li> '' @ ''<a href='/list?folder='' @ absolutePath @ sq @ ''>'' @ item @
     ''</a>'' @ '' | <a href='/renameFolder?folder='' @ absolutePath @ sq @
     ''>Rename</a>'' @ '' | <a href='/moveFolder?folder='' @ absolutePath @ sq @
     ''>Move</a>'' @ '' | <a href='/deleteStorage?path='' @ absolutePath @ sq @
     ''>Delete</a>'' @ ''</li>'' @ [LF]"

definition file_item :: "string \<Rightarrow> string \<Rightarrow> string \<Rightarrow> string" where
  "file_item currentFolder item absolutePath =
     (let folder_arg = (if currentFolder = [] then [] else ''&folder='' @ currentFolder)
      in ''    <li> '' @ item @ '' | <a href='/download?filename='' @ item @
         folder_arg @ sq @ ''>Download</a>'' @ '' | <a href='rename?filename='' @ item @
         folder_arg @ sq @ ''>Rename</a>'' @ '' | <a href='deleteStorage?path='' @ absolutePath @ sq @
         ''>Delete</a>'' @ '' | <a href='moveFile?filename='' @ item @
         folder_arg @ sq @ ''>Move</a>'' @ ''</li>'' @ [LF])"

fun list_entries ::
  "'st kv_ops \<Rightarrow> string \<Rightarrow> string \<Rightarrow> string \<Rightarrow> string list \<Rightarrow> ('st, string) state" where
  "list_entries K client baseKey currentFolder [] = State_Monad.return []"
| "list_entries K client baseKey currentFolder (entry # entries) =
     (if entry = [] then list_entries K client baseKey currentFolder entries
      else do {
        let item = local_name entry;
        let absolutePath = child_path currentFolder item;
        colValue \<leftarrow> kv_get K client baseKey absolutePath;
        rest \<leftarrow> list_entries K client baseKey currentFolder entries;
        State_Monad.return
          ((if colValue = ''KV-Folder'' then folder_item item absolutePath
            else if colValue = ''KV-File'' then file_item currentFolder item absolutePath
            else []) @ rest) })"

definition list_footer :: "string \<Rightarrow> string \<Rightarrow> string" where
  "list_footer currentFolder url =
     ''<h2>Upload File</h2>'' @ [LF] @
     ''  <form method='POST' action='/upload' enctype='multipart/form-data'>'' @ [LF] @
     (if currentFolder \<noteq> [] then ''    <input type='hidden' name='folder' value='' @ sq @ currentFolder @ sq @ ''>'' @
       [LF] else []) @
     ''    <p><label for='file'>Choose file to upload in this folder:</label>'' @ [LF] @
     ''    <input type='file' id='file' name='file'></p>'' @ [LF] @
     ''  <p>Valid characters in File Name: A-Z a-z 0-9 ( ) _ and space (and the . '' @
     ''extension)</p>'' @ [LF] @ ''    <p><input type='submit' value='Upload'></p>'' @
     [LF] @ ''  </form>'' @ [LF] @
     ''<h2>Create a Sub-folder</h2>'' @ [LF] @
     ''  <form method='POST' action='/createSubFolder'>'' @ [LF] @
     ''    <input type='hidden' name='parentFolder' value='' @ sq @ currentFolder @ sq @
     ''>'' @ [LF] @
     ''  <p>Valid characters in File Name: A-Z a-z 0-9 ( ) _ and space</p>'' @ [LF] @
     ''    <p><label for='newFolder'>New Folder Name:</label>'' @ [LF] @
     ''    <input type='text' id='newFolder' name='newfolder'></p>'' @ [LF] @
     ''    <p><input type='submit' value='Create Folder'></p>'' @ [LF] @ ''  </form>'' @
     [LF] @
     (if contains currentFolder ''/'' then ''<p><a href='/list?folder='' @ parent_path currentFolder @ sq @
       ''>Back to Parent folder</a></p>''
      else if contains url ''folder'' then ''<p><a href='/storage'>Back to Storage Home</a></p>''
      else []) @
     ''<p><a href='/logout'>Logout</a></p>'' @ ''  <br/>'' @ [LF] @ ''</body>'' @ [LF] @
     ''</html>'' @ [LF]"

definition webStorageList :: "'st kv_ops \<Rightarrow> string \<Rightarrow> string \<Rightarrow> ('st, string outcome) state" where
  "webStorageList K username request =
     with_storage K username (\<lambda>client baseKey.
       let url = first_line request
       in attempt (query_params url) (\<lambda>params. do {
            let currentFolder = hdr params ''folder'';
            let metaCol = meta_col currentFolder;
            metadata \<leftarrow> kv_get K client baseKey metaCol;
            (if is_err metadata then do { res \<leftarrow> kv_put K client baseKey metaCol []; State_Monad.return () }
             else State_Monad.return ());
            deleted \<leftarrow> (if currentFolder \<noteq> [] then do {
                          checkFolder \<leftarrow> kv_get K client baseKey currentFolder;
                          State_Monad.return (checkFolder = ''DEL KV-Folder'') }
                        else State_Monad.return False);
            if deleted then
              State_Monad.return (Returns (bad_request
                (''This folder was deleted. <p><a href='/storage'>Back to Storage Home</a></p>'')))
            else do {
              listing \<leftarrow> (if is_err metadata \<or> metadata = [] then
                  State_Monad.return (''  <p>No files or folders uploaded yet.</p>'' @ [LF])
                else do {
                  items \<leftarrow> list_entries K client baseKey currentFolder (splitStringStorage metadata);
                  State_Monad.return (''  <ul>'' @ [LF] @ items @ ''  </ul>'' @ [LF]) });
              State_Monad.return (Returns (httpResponseStorage ''200 OK''
                (list_header username currentFolder @ listing @ list_footer currentFolder url))) } }))"

subsection \<open>Uploading\<close>

definition str_rfind :: "string \<Rightarrow> string \<Rightarrow> nat option" where
  "str_rfind s pat =
     (case filter (\<lambda>i. prefix pat (drop i s)) [0..<Suc (length s)] of [] \<Rightarrow> None | is \<Rightarrow> Some (last is))"

text \<open>The bytes of the file within the multipart body.\<close>

definition file_bytes :: "bool \<Rightarrow> string \<Rightarrow> string \<Rightarrow> nat \<Rightarrow> string outcome" where
  "file_bytes hasFolder boundary rawStr hdrEnd =
     (let dataStart = (if hasFolder
                       then hdrEnd + 4 + npos_plus (str_find (drop (hdrEnd + 4) rawStr) (crlf @ crlf) 0) 4
                       else hdrEnd + 4);
          boundaryPos = (case str_rfind rawStr (crlf @ boundary) of
                           Some b \<Rightarrow> if b < dataStart then length rawStr else b
                         | None \<Rightarrow> length rawStr)
      in if boundaryPos < dataStart then Throws Length_error
         else Returns (between rawStr dataStart (Some boundaryPos)))"

text \<open>
  Everything \<^verbatim>\<open>webStorageUpload\<close> does before it writes to the store: an error page, or the folder, the
  name and the contents of the file.
\<close>

definition upload_request ::
  "string list \<Rightarrow> string \<Rightarrow> (string + string \<times> string \<times> string) outcome" where
  "upload_request socket request =
     outcome_bind (query_params (first_line request)) (\<lambda>params.
     let boundary = extractBoundary request
     in if boundary = [] then Returns (Inl (bad_request ''No multipart boundary.''))
        else
          (let urlFolder = hdr params ''folder'';
               folderPath = (if urlFolder = [] then parseMultipartFieldStorage request ''folder'' else urlFolder);
               hasFolder = (urlFolder = [] \<and> folderPath \<noteq> [])
           in case str_find request (crlf @ crlf) 0 of
                None \<Rightarrow> Returns (Inl (bad_request ''Missing header terminator.''))
              | Some headerEnd \<Rightarrow>
                  outcome_bind
                    (if hasFolder
                     then substr request (npos_plus (str_find request boundary 0) (length boundary)) None
                     else substr request (headerEnd + 4) None) (\<lambda>headerPart.
                  let filename0 = parseMultipartFilenameStorageHeader headerPart;
                      filename = (case str_find filename0 ''/'' 0 of
                                    Some p \<Rightarrow> drop (p + 1) filename0 | None \<Rightarrow> filename0)
                  in if filename = [] \<or> \<not> isValidName filename then
                       Returns (Inl (bad_request ''Missing file name or incorrect format of filename.''))
                     else
                       outcome_bind
                         (if contains request ''Transfer-Encoding: chunked''
                          then readChunkedBodyRaw [] (concat socket)
                          else readMultipartBody socket request headerEnd) (\<lambda>rawStr.
                       case str_find rawStr (crlf @ crlf) 0 of
                         None \<Rightarrow> Returns (Inl (bad_request ''Malformed multipart body.''))
                       | Some hdrEnd \<Rightarrow>
                           outcome_bind (file_bytes hasFolder boundary rawStr hdrEnd) (\<lambda>fileData.
                             Returns (Inr (folderPath, filename, fileData)))))))"

text \<open>
  The loop that looks for a free name: \<open>absolutePath.substr(absolutePath.find("."))\<close> throws when the path
  has no dot.
\<close>

definition numbered :: "string \<Rightarrow> int \<Rightarrow> string outcome" where
  "numbered path i =
     (case str_find path ''.'' 0 of
        None \<Rightarrow> Throws Out_of_range
      | Some d \<Rightarrow> Returns (take d path @ ''('' @ to_string i @ '')'' @ drop d path))"

fun free_upload ::
  "nat \<Rightarrow> 'st kv_ops \<Rightarrow> string \<Rightarrow> string \<Rightarrow> string \<Rightarrow> int \<Rightarrow> ('st, (string \<times> int) outcome) state" where
  "free_upload 0 K client baseKey path i = State_Monad.return Diverges"
| "free_upload (Suc n) K client baseKey path i =
     attempt (numbered path i) (\<lambda>newPath. do {
       resp \<leftarrow> kv_get K client baseKey newPath;
       if resp \<noteq> ''KV-File'' then State_Monad.return (Returns (newPath, i))
       else free_upload n K client baseKey path (i + 1) })"

abbreviation chunkSize :: nat where "chunkSize \<equiv> 1000000"

function store_chunks ::
  "'st kv_ops \<Rightarrow> string \<Rightarrow> string \<Rightarrow> string \<Rightarrow> nat \<Rightarrow> string \<Rightarrow> ('st, unit) state" where
  "store_chunks K client baseKey path i data =
     (if data = [] then State_Monad.return ()
      else do {
        let fileChunkName = path @ ''-'' @ nat_string i;
        fileMetadata \<leftarrow> kv_get K client baseKey (path @ ''-metadata'');
        res \<leftarrow> kv_put K client baseKey (path @ ''-metadata'')
                 (if contains fileMetadata ''not found'' then fileChunkName
                  else fileMetadata @ '','' @ fileChunkName);
        res2 \<leftarrow> kv_put K client baseKey (fileChunkName @ ''-content'') (take chunkSize data);
        store_chunks K client baseKey path (i + 1) (drop chunkSize data) })"
  by pat_completeness auto
termination by (relation "measure (\<lambda>(K, client, baseKey, path, i, data). length data)") auto

declare store_chunks.simps [simp del]

text \<open>\<^verbatim>\<open>int fileSize = fileData.size()\<close> keeps 32 bits; a negative size stores nothing.\<close>

definition int_size :: "string \<Rightarrow> int" where
  "int_size s = (int (length s) + 2 ^ 31) mod 2 ^ 32 - 2 ^ 31"

definition choose_name ::
  "nat \<Rightarrow> 'st kv_ops \<Rightarrow> string \<Rightarrow> string \<Rightarrow> string \<Rightarrow> string \<Rightarrow> ('st, (string \<times> string) outcome) state" where
  "choose_name n K client baseKey path0 filename0 = do {
     resp \<leftarrow> kv_get K client baseKey path0;
     if resp = ''KV-File''
     then and_then (free_upload n K client baseKey path0 1) (\<lambda>(newPath, i).
            State_Monad.return (Returns (newPath, filename0 @ ''('' @ to_string i @ '')'')))
     else State_Monad.return (Returns (path0, filename0)) }"

definition upload_page :: "string \<Rightarrow> string \<Rightarrow> string" where
  "upload_page folderPath filename =
     ''<html><body>Upload Result: UPLOADED'' @ ''<br/>File stored as <strong>'' @ filename @
     ''</strong> in folder <strong>'' @ (if folderPath = [] then ''root'' else folderPath) @
     ''</strong>.'' @ ''<br/><a href='/list?folder='' @ folderPath @ sq @
     ''>Back to folder</a>'' @ ''</body></html>''"

definition write_upload ::
  "'st kv_ops \<Rightarrow> string \<Rightarrow> string \<Rightarrow> string \<Rightarrow> string \<Rightarrow> string \<times> string \<Rightarrow> ('st, string outcome) state" where
  "write_upload K client baseKey folderPath fileData = (\<lambda>(absolutePath, filename). do {
     res \<leftarrow> kv_put K client baseKey absolutePath ''KV-File'';
     store_chunks K client baseKey absolutePath 1 (take (nat (int_size fileData)) fileData);
     let metaCol = meta_col folderPath;
     parentMeta \<leftarrow> kv_get K client baseKey metaCol;
     let newMeta = (if parentMeta = [] then absolutePath
                    else if filename \<in> set (splitStringStorage parentMeta) then parentMeta
                    else parentMeta @ '','' @ absolutePath);
     res2 \<leftarrow> kv_cput K client baseKey metaCol parentMeta newMeta;
     State_Monad.return (Returns (httpResponseStorage ''200 OK'' (upload_page folderPath filename))) })"

definition upload_store ::
  "nat \<Rightarrow> 'st kv_ops \<Rightarrow> string \<Rightarrow> string \<Rightarrow> string \<Rightarrow> string \<Rightarrow> string \<Rightarrow> ('st, string outcome) state" where
  "upload_store n K client baseKey folderPath filename0 fileData =
     and_then (choose_name n K client baseKey (child_path folderPath filename0) filename0)
       (write_upload K client baseKey folderPath fileData)"

definition webStorageUpload ::
  "nat \<Rightarrow> 'st kv_ops \<Rightarrow> string \<Rightarrow> string list \<Rightarrow> string \<Rightarrow> ('st, string outcome) state" where
  "webStorageUpload n K username socket request =
     with_storage K username (\<lambda>client baseKey.
       attempt (upload_request socket request) (\<lambda>r.
         case r of
           Inl page \<Rightarrow> State_Monad.return (Returns page)
         | Inr (folderPath, filename, fileData) \<Rightarrow>
             upload_store n K client baseKey folderPath filename fileData))"

subsection \<open>Downloading\<close>

fun fetch_chunks :: "'st kv_ops \<Rightarrow> string \<Rightarrow> string \<Rightarrow> string list \<Rightarrow> ('st, string) state" where
  "fetch_chunks K client baseKey [] = State_Monad.return []"
| "fetch_chunks K client baseKey (fileChunk # files) = do {
     content \<leftarrow> kv_get K client baseKey (fileChunk @ ''-content'');
     rest \<leftarrow> fetch_chunks K client baseKey files;
     State_Monad.return (content @ rest) }"

definition fetch_file :: "'st kv_ops \<Rightarrow> string \<Rightarrow> string \<Rightarrow> string \<Rightarrow> ('st, string) state" where
  "fetch_file K client baseKey absolutePath = do {
     fileMetadata \<leftarrow> kv_get K client baseKey (absolutePath @ ''-metadata'');
     fetch_chunks K client baseKey (splitStringStorage fileMetadata) }"

text \<open>
  The result has what the handler sends on the socket itself in front of what it returns: the
  caller sends the latter right after it.
\<close>

definition webStorageDownload :: "'st kv_ops \<Rightarrow> string \<Rightarrow> string \<Rightarrow> ('st, string outcome) state" where
  "webStorageDownload K username request =
     with_storage K username (\<lambda>client baseKey.
       attempt (query_params (first_line request)) (\<lambda>params. do {
         let filename = (case params ''filename'' of None \<Rightarrow> ''myfile'' | Some f \<Rightarrow> f);
         let absolutePath = child_path (hdr params ''folder'') filename;
         fileContent \<leftarrow> fetch_file K client baseKey absolutePath;
         State_Monad.return (Returns
           (if fileContent = [] then
              httpResponseStorage ''404 Not Found''
                ''<html><body><h1>404 Not Found</h1><p>File not found.</p></body></html>''
            else sendChunkedResponse ''HTTP/1.1 200 OK'' (get_content_type_storage filename) fileContent
                (''Content-Disposition: attachment; filename=\"'' @ filename @ ''\"''))) }))"

subsection \<open>Creating folders\<close>

definition create_folder ::
  "'st kv_ops \<Rightarrow> string \<Rightarrow> string \<Rightarrow> string \<Rightarrow> string \<Rightarrow> ('st, string outcome) state" where
  "create_folder K client baseKey parentFolder newFolder =
     (if newFolder = [] \<or> \<not> isValidName newFolder then
        State_Monad.return (Returns (bad_request ''Missing new folder name or incorrect folder name.''))
      else do {
        let parentMetaCol = meta_col parentFolder;
        let newFolderAbs = child_path parentFolder newFolder;
        newFolderCol \<leftarrow> kv_get K client baseKey newFolderAbs;
        if newFolderCol \<noteq> [] \<and> \<not> is_err newFolderCol \<and> newFolderCol \<noteq> ''DEL KV-Folder'' then
          State_Monad.return (Returns (bad_request ''Folder already exists.''))
        else do {
          parentMeta \<leftarrow> kv_get K client baseKey parentMetaCol;
          (if newFolder \<in> set (splitStringStorage parentMeta) then State_Monad.return ()
           else do {
             res \<leftarrow> kv_put K client baseKey parentMetaCol
                      (if parentMeta = [] then newFolderAbs else parentMeta @ '','' @ newFolderAbs);
             State_Monad.return () });
          res2 \<leftarrow> kv_put K client baseKey newFolderAbs ''KV-Folder'';
          res3 \<leftarrow> kv_put K client baseKey (newFolderAbs @ ''-metadata'') [];
          State_Monad.return (Returns (httpResponseStorage ''200 OK''
            (''<html><body>'' @ ''<h1>Folder Created</h1>'' @ ''<p>Folder '' @ sq @
             newFolder @ sq @ '' has been created in '' @ sq @
             (if parentFolder = [] then ''root'' else parentFolder) @ sq @ ''.</p>'' @
             ''<p><a href='/list?folder='' @ newFolderAbs @ sq @ ''>View Folder</a></p>'' @
             ''<p><a href='/storage'>Back to Storage</a></p>'' @ ''</body></html>''))) } })"

definition webStorageCreateFolder ::
  "'st kv_ops \<Rightarrow> string \<Rightarrow> string list \<Rightarrow> string \<Rightarrow> ('st, string outcome) state" where
  "webStorageCreateFolder K username socket request =
     with_storage K username (\<lambda>client baseKey.
       attempt (query_params (first_line request)) (\<lambda>params.
         case str_find request (crlf @ crlf) 0 of
           None \<Rightarrow> State_Monad.return (Returns (bad_request ''Missing header terminator.''))
         | Some headerEnd \<Rightarrow>
             attempt (readRequestBodyStorage socket request (Some headerEnd)) (\<lambda>body.
             attempt (parseQueryParamsStorage body) (\<lambda>formFields.
               create_folder K client baseKey
                 (if hdr formFields ''parentFolder'' \<noteq> [] then hdr formFields ''parentFolder''
                  else hdr params ''folder'')
                 (hdr formFields ''newfolder'')))))"

subsection \<open>Deleting, as a handler\<close>

definition delete_path ::
  "nat \<Rightarrow> 'st kv_ops \<Rightarrow> string \<Rightarrow> string \<Rightarrow> string \<Rightarrow> ('st, string outcome) state" where
  "delete_path n K client baseKey absPath = do {
     let parent = parent_path absPath;
     let local = local_name absPath;
     let parentMetaCol = meta_col parent;
     pmeta \<leftarrow> kv_get K client baseKey parentMetaCol;
     let kept = filter (\<lambda>it. \<not> contains it local) (splitStringStorage pmeta);
     res \<leftarrow> kv_put K client baseKey parentMetaCol (join_comma kept);
     and_then (deleteRec n K client baseKey absPath) (\<lambda>_. do {
       marker \<leftarrow> kv_get K client baseKey absPath;
       State_Monad.return (Returns (httpResponseStorage ''200 OK''
         (''<html><body>'' @
          (if marker = ''KV-Folder'' then ''<p>Folder <strong>'' @ local @ ''</strong> deleted.</p>''
           else ''<p>File <strong>'' @ local @ ''</strong> deleted.</p>'') @
          ''<p><a href='/list?folder='' @ parent @ sq @ ''>Back to '' @
          (if parent = [] then ''root'' else parent) @ ''</a></p>'' @ ''</body></html>''))) }) }"

definition webStorageDelete :: "nat \<Rightarrow> 'st kv_ops \<Rightarrow> string \<Rightarrow> string \<Rightarrow> ('st, string outcome) state" where
  "webStorageDelete n K username request =
     with_storage K username (\<lambda>client baseKey.
       case query_string (first_line request) of
         None \<Rightarrow> State_Monad.return (Returns (bad_request ''Missing path parameter.''))
       | Some q \<Rightarrow>
           attempt (parseQueryParamsStorage q) (\<lambda>params.
             case params ''path'' of
               None \<Rightarrow> State_Monad.return (Returns (bad_request ''Missing path parameter.''))
             | Some absPath \<Rightarrow> delete_path n K client baseKey absPath))"

subsection \<open>Renaming\<close>

text \<open>The fields of a posted form.\<close>

definition form_fields :: "string list \<Rightarrow> string \<Rightarrow> (string \<rightharpoonup> string) outcome" where
  "form_fields socket request =
     outcome_bind (readRequestBodyStorage socket request (str_find request (crlf @ crlf) 0))
       parseQueryParamsStorage"

definition rename_form :: "string \<Rightarrow> string \<Rightarrow> string" where
  "rename_form currentFolder oldName =
     ''<html><body>'' @ ''<h1>Rename File</h1>'' @
     ''<form method='POST' action='/rename'>'' @
     ''  <input type='hidden' name='folder' value='' @ sq @ currentFolder @ sq @ ''>'' @
     ''  <input type='hidden' name='oldfilename' value='' @ sq @ oldName @ sq @ ''>'' @
     ''  <p>Current: <strong>'' @ oldName @ ''</strong></p>'' @
     ''  <p><label>New name: <input type='text' name='newfilename'></label></p>'' @
     ''  <p><input type='submit' value='Rename'></p>'' @ ''</form>'' @
     ''<p><a href='/list?folder='' @ currentFolder @ sq @ ''>Back</a></p>'' @
     ''</body></html>''"

definition replace_entry ::
  "'st kv_ops \<Rightarrow> string \<Rightarrow> string \<Rightarrow> string \<Rightarrow> string \<Rightarrow> string \<Rightarrow> ('st, unit) state" where
  "replace_entry K client baseKey metaCol oldAbs newAbs = do {
     meta \<leftarrow> kv_get K client baseKey metaCol;
     res \<leftarrow> kv_put K client baseKey metaCol
              (join_comma (map (\<lambda>e. if e = oldAbs then newAbs else e) (splitStringStorage meta)));
     State_Monad.return () }"

definition rename_file ::
  "'st kv_ops \<Rightarrow> string \<Rightarrow> string \<Rightarrow> string \<Rightarrow> string \<Rightarrow> string \<Rightarrow> ('st, string outcome) state" where
  "rename_file K client baseKey currentFolder oldName newName0 =
     (if newName0 = [] \<or> \<not> isValidName newName0 then
        State_Monad.return (Returns (bad_request ''Invalid new filename.''))
      else do {
        let newName = ensureSameExtension oldName newName0;
        let oldAbs = child_path currentFolder oldName;
        let newAbs = child_path currentFolder newName;
        existing \<leftarrow> kv_get K client baseKey newAbs;
        if existing = ''KV-File'' then State_Monad.return (Returns (bad_request ''File name already exists.''))
        else and_then (move_file_columns K client baseKey oldAbs newAbs) (\<lambda>_. do {
          replace_entry K client baseKey (meta_col currentFolder) oldAbs newAbs;
          State_Monad.return (Returns (httpResponseStorage ''200 OK''
            (''<html><body>'' @ ''<p>Renamed <strong>'' @ oldName @
             ''</strong> to <strong>'' @ newName @ ''</strong>.</p>'' @
             ''<p><a href='/list?folder='' @ currentFolder @ sq @ ''>Back</a></p>'' @
             ''</body></html>''))) }) })"

definition webStorageRenameFile ::
  "'st kv_ops \<Rightarrow> string \<Rightarrow> string list \<Rightarrow> string \<Rightarrow> ('st, string outcome) state" where
  "webStorageRenameFile K username socket request =
     with_storage K username (\<lambda>client baseKey.
       if \<not> prefix ''POST /rename'' request then
         attempt (query_params (first_line request)) (\<lambda>params.
           State_Monad.return (Returns (httpResponseStorage ''200 OK''
             (rename_form (hdr params ''folder'') (hdr params ''filename'')))))
       else
         attempt (form_fields socket request) (\<lambda>fields.
           rename_file K client baseKey (hdr fields ''folder'') (hdr fields ''oldfilename'')
             (hdr fields ''newfilename'')))"

definition rename_folder_form :: "string \<Rightarrow> string \<Rightarrow> string" where
  "rename_folder_form folderPath oldName =
     ''<html><body>'' @ ''<h1>Rename Folder</h1>'' @
     ''<form method='POST' action='/renameFolder'>'' @ [LF] @
     ''  <input type='hidden' name='folder' value='' @ sq @ folderPath @ sq @ ''>'' @ [LF] @
     ''  <p>Current name: <strong>'' @ oldName @ ''</strong></p>'' @ [LF] @
     ''  <p>Valid characters in File Name: A-Z a-z 0-9 ( ) _ and space</p>'' @ [LF] @
     ''  <p><label>New name: <input type='text' name='newname'></label></p>'' @ [LF] @
     ''  <p><input type='submit' value='Rename'></p>'' @ [LF] @ ''</form>'' @
     ''<p><a href='/list?folder='' @ folderPath @ sq @ ''>Back</a></p>'' @
     ''</body></html>''"

definition rename_folder ::
  "nat \<Rightarrow> 'st kv_ops \<Rightarrow> string \<Rightarrow> string \<Rightarrow> string \<Rightarrow> string \<Rightarrow> ('st, string outcome) state" where
  "rename_folder n K client baseKey folderPath newName =
     (if newName = [] \<or> \<not> isValidName newName then
        State_Monad.return (Returns (bad_request
          ''Missing new folder name or incorrect format of folder name.''))
      else do {
        let parent = parent_path folderPath;
        let oldLocal = local_name folderPath;
        let newAbs = child_path parent newName;
        existFolder \<leftarrow> kv_get K client baseKey newAbs;
        if existFolder = ''KV-Folder'' then
          State_Monad.return (Returns (bad_request ''Folder with same name already exists.''))
        else do {
          replace_entry K client baseKey (meta_col parent) folderPath newAbs;
          and_then (renameFolderRec n K client baseKey folderPath newAbs) (\<lambda>_.
            State_Monad.return (Returns (httpResponseStorage ''200 OK''
              (''<html><body>'' @ ''<p>Folder <strong>'' @ oldLocal @
               ''</strong> renamed to <strong>'' @ newName @ ''</strong>.</p>'' @
               ''<p><a href='/list?folder='' @ newAbs @ sq @ ''>View \"'' @ newName @
               ''\"</a></p>'' @ ''</body></html>'')))) } })"

definition webStorageRenameFolder ::
  "nat \<Rightarrow> 'st kv_ops \<Rightarrow> string \<Rightarrow> string list \<Rightarrow> string \<Rightarrow> ('st, string outcome) state" where
  "webStorageRenameFolder n K username socket request =
     with_storage K username (\<lambda>client baseKey.
       if \<not> prefix ''POST /renameFolder'' request then
         attempt (query_params (first_line request)) (\<lambda>params.
           State_Monad.return (Returns (httpResponseStorage ''200 OK''
             (rename_folder_form (hdr params ''folder'') (local_name (hdr params ''folder''))))))
       else
         attempt (form_fields socket request) (\<lambda>fields.
           rename_folder n K client baseKey (hdr fields ''folder'') (hdr fields ''newname'')))"

section \<open>The folder tree as text\<close>

fun buildFolderTreeJSON ::
  "nat \<Rightarrow> 'st kv_ops \<Rightarrow> string \<Rightarrow> string \<Rightarrow> string \<Rightarrow> ('st, string outcome) state"
and tree_entries ::
  "nat \<Rightarrow> 'st kv_ops \<Rightarrow> string \<Rightarrow> string \<Rightarrow> bool \<Rightarrow> string list \<Rightarrow> ('st, string outcome) state" where
  "buildFolderTreeJSON 0 K client baseKey folderPath = State_Monad.return Diverges"
| "buildFolderTreeJSON (Suc n) K client baseKey folderPath = do {
     metadata \<leftarrow> kv_get K client baseKey (meta_col folderPath);
     if is_err metadata \<or> metadata = [] then State_Monad.return (Returns ''[]'')
     else and_then (tree_entries n K client baseKey True (splitStringStorage metadata)) (\<lambda>ss.
       State_Monad.return (Returns (''['' @ ss @ '']''))) }"
| "tree_entries n K client baseKey first [] = State_Monad.return (Returns [])"
| "tree_entries n K client baseKey first (fullPath # entries) = do {
     marker \<leftarrow> kv_get K client baseKey fullPath;
     if marker \<noteq> ''KV-Folder'' then tree_entries n K client baseKey first entries
     else and_then (buildFolderTreeJSON n K client baseKey fullPath) (\<lambda>children.
       and_then (tree_entries n K client baseKey False entries) (\<lambda>rest.
         State_Monad.return (Returns
           ((if first then [] else '','') @
            ''{'' @ ''\"name\":\"'' @ local_name fullPath @ ''\",'' @
            ''\"path\":\"'' @ fullPath @ ''\",'' @ ''\"children\":'' @ children @ ''}'' @ rest)))) }"

section \<open>Moving, as handlers\<close>

definition current_target :: "string \<Rightarrow> string" where
  "current_target currentFolder =
     (if currentFolder = [] then ''  <p>Current target: <strong>Root</strong></p>'' @ [LF]
      else ''  <p>Current target: <strong>'' @ currentFolder @ ''</strong></p>'' @ [LF])"

fun folder_links ::
  "'st kv_ops \<Rightarrow> string \<Rightarrow> string \<Rightarrow> (string \<Rightarrow> string) \<Rightarrow> string list \<Rightarrow> ('st, string) state" where
  "folder_links K client baseKey link [] = State_Monad.return []"
| "folder_links K client baseKey link (fullPath # entries) = do {
     marker \<leftarrow> kv_get K client baseKey fullPath;
     rest \<leftarrow> folder_links K client baseKey link entries;
     State_Monad.return ((if marker \<noteq> ''KV-Folder'' then [] else link fullPath) @ rest) }"

definition move_file_link :: "string \<Rightarrow> string \<Rightarrow> string \<Rightarrow> string" where
  "move_file_link sourceFolder filename fullPath =
     (let local = local_name fullPath
      in ''    <li>'' @ [LF] @ ''      <a href='/moveFile?'' @ ''folder='' @ sourceFolder @
         ''&filename='' @ filename @ ''&currentFolder='' @ fullPath @ sq @ ''>'' @ local @
         ''/</a>'' @ [LF] @ ''      <form method='POST' action='/moveFile'>'' @ [LF] @
         ''        <input type='hidden' name='sourceFolder' value='' @ sq @ sourceFolder @
         sq @ ''>'' @ [LF] @ ''        <input type='hidden' name='filename'     value='' @
         sq @ filename @ sq @ ''>'' @ [LF] @
         ''        <input type='hidden' name='targetFolder' value='' @ sq @ fullPath @ sq @
         ''>'' @ [LF] @ ''        <button type='submit'>Move Here</button>'' @ [LF] @
         ''      </form>'' @ [LF] @ ''    </li>'' @ [LF])"

definition move_file_page :: "string \<Rightarrow> string \<Rightarrow> string \<Rightarrow> string \<Rightarrow> string" where
  "move_file_page sourceFolder filename currentFolder links =
     ''<!DOCTYPE html>'' @ [LF] @ ''<html>'' @ [LF] @ ''<head>'' @ [LF] @
     ''  <meta charset='utf-8'>'' @ [LF] @ ''  <title>Move File</title>'' @ [LF] @
     ''  <style>'' @ [LF] @ ''    ul { list-style:none; padding-left:0; }'' @ [LF] @
     ''    li { margin:4px 0; }'' @ [LF] @ ''    form { display:inline; }'' @ [LF] @
     ''  </style>'' @ [LF] @ ''</head>'' @ [LF] @ ''<body>'' @ [LF] @
     ''  <h1>Move file <strong>'' @ filename @ ''</strong> into:</h1>'' @ [LF] @
     current_target currentFolder @ ''  <ul>'' @ [LF] @
     ''    <li>'' @ [LF] @ ''      <form method='POST' action='/moveFile'>'' @ [LF] @
     ''        <input type='hidden' name='sourceFolder' value='' @ sq @ sourceFolder @ sq @
     ''>'' @ [LF] @ ''        <input type='hidden' name='filename'     value='' @ sq @
     filename @ sq @ ''>'' @ [LF] @
     ''        <input type='hidden' name='targetFolder' value='' @ sq @ sq @ ''>'' @ [LF] @
     ''        <button type='submit'>Home</button>'' @ [LF] @ ''      </form>'' @ [LF] @
     ''    </li>'' @ [LF] @
     links @ ''  </ul>'' @ [LF] @
     (if currentFolder \<noteq> [] then
        (let parent = parent_path currentFolder
         in ''  <p><a href='/moveFile?'' @ ''folder='' @ sourceFolder @ ''&filename='' @
            filename @
            (if parent \<noteq> [] then ''&currentFolder='' @ parent else []) @
            sq @ ''>Up</a></p>'' @ [LF])
      else ''  <p><a href='/list?folder='' @ sourceFolder @ sq @ ''>Cancel</a></p>'' @ [LF]) @
     ''</body>'' @ [LF] @ ''</html>'' @ [LF]"

definition webStorageMoveFile ::
  "nat \<Rightarrow> 'st kv_ops \<Rightarrow> string \<Rightarrow> string list \<Rightarrow> string \<Rightarrow> ('st, string outcome) state" where
  "webStorageMoveFile n K username socket request =
     with_storage K username (\<lambda>client baseKey.
       if \<not> prefix ''POST /moveFile'' request then
         attempt (query_params (first_line request)) (\<lambda>params. do {
           let sourceFolder = hdr params ''folder'';
           let filename = hdr params ''filename'';
           let currentFolder = hdr params ''currentFolder'';
           metadata \<leftarrow> kv_get K client baseKey (meta_col currentFolder);
           links \<leftarrow> folder_links K client baseKey (move_file_link sourceFolder filename)
                      (if is_err metadata \<or> metadata = [] then [] else splitStringStorage metadata);
           State_Monad.return (Returns (httpResponseStorage ''200 OK''
             (move_file_page sourceFolder filename currentFolder links))) })
       else
         attempt (form_fields socket request) (\<lambda>fields.
           let sourceFolder = hdr fields ''sourceFolder'';
               filename = hdr fields ''filename'';
               targetFolder = hdr fields ''targetFolder''
           in if filename = [] then
                State_Monad.return (Returns (bad_request ''Missing filename or target folder.''))
              else and_then (moveFile n K client baseKey (child_path sourceFolder filename) targetFolder) (\<lambda>_.
                State_Monad.return (Returns (httpResponseStorage ''200 OK''
                  (''<!DOCTYPE html>'' @ [LF] @ ''<html>'' @ [LF] @ ''<body>'' @ [LF] @
                   ''<p>Moved file <strong>'' @ filename @ ''</strong> to <strong>'' @
                   (if targetFolder = [] then ''Root'' else targetFolder) @
                   ''</strong>.</p>'' @ [LF] @ ''<p><a href='/list?folder='' @
                   targetFolder @ sq @ ''>View Folder</a></p>'' @ [LF] @ ''</body>'' @
                   [LF] @ ''</html>'' @ [LF]))))))"

definition move_folder_link :: "string \<Rightarrow> string \<Rightarrow> string" where
  "move_folder_link sourceFolder fullPath =
     (let local = local_name fullPath
      in ''    <li>'' @ [LF] @ ''      <a href='/moveFolder?'' @ ''folder='' @
         sourceFolder @ ''&currentFolder='' @ fullPath @ sq @ ''>'' @ local @ ''/</a>'' @
         [LF] @ ''      <form method='POST' action='/moveFolder'>'' @ [LF] @
         ''        <input type='hidden' name='folder' value='' @ sq @ sourceFolder @ sq @
         ''>'' @ [LF] @ ''        <input type='hidden' name='targetFolder' value='' @ sq @
         fullPath @ sq @ ''>'' @ [LF] @
         ''        <button type='submit'>Move Here</button>'' @ [LF] @ ''      </form>'' @
         [LF] @ ''    </li>'' @ [LF])"

definition move_folder_page :: "string \<Rightarrow> string \<Rightarrow> string \<Rightarrow> string" where
  "move_folder_page sourceFolder currentFolder links =
     ''<!DOCTYPE html>'' @ [LF] @ ''<html>'' @ [LF] @ ''<head>'' @ [LF] @
     ''  <meta charset='utf-8'>'' @ [LF] @ ''  <title>Move Folder</title>'' @ [LF] @
     ''  <style>'' @ [LF] @ ''    ul { list-style:none; padding-left:0; }'' @ [LF] @
     ''    li { margin:4px 0; }'' @ [LF] @ ''    form { display:inline; }'' @ [LF] @
     ''  </style>'' @ [LF] @ ''</head>'' @ [LF] @ ''<body>'' @ [LF] @
     ''  <h1>Move folder <strong>'' @ sourceFolder @ ''</strong> into:</h1>'' @ [LF] @
     ''  <p>Current target: <strong>'' @
     (if currentFolder = [] then ''Root'' else currentFolder) @ ''</strong></p>'' @ [LF] @
     ''  <ul>'' @ [LF] @
     ''    <li>'' @ [LF] @ ''      <form method='POST' action='/moveFolder'>'' @ [LF] @
     ''        <input type='hidden' name='folder' value='' @ sq @ sourceFolder @ sq @
     ''>'' @ [LF] @ ''        <input type='hidden' name='targetFolder' value='' @ sq @ sq @
     ''>'' @ [LF] @ ''        <button type='submit'>Home</button>'' @ [LF] @
     ''      </form>'' @ [LF] @ ''    </li>'' @ [LF] @
     links @ ''  </ul>'' @ [LF] @
     (if currentFolder \<noteq> [] then
        (let parent = parent_path currentFolder
         in ''  <p><a href='/moveFolder?'' @ ''folder='' @ sourceFolder @
            (if parent \<noteq> [] then ''&currentFolder='' @ parent else []) @
            sq @ ''>Up</a></p>'' @ [LF])
      else ''  <p><a href='/list?folder='' @ parent_path sourceFolder @ sq @ ''>Cancel</a></p>'' @ [LF]) @
     ''</body>'' @ [LF] @ ''</html>'' @ [LF]"

definition move_folder ::
  "nat \<Rightarrow> 'st kv_ops \<Rightarrow> string \<Rightarrow> string \<Rightarrow> string \<Rightarrow> string \<Rightarrow> ('st, string outcome) state" where
  "move_folder n K client baseKey sourceFolder targetFolder =
     (if targetFolder = sourceFolder \<or> prefix (sourceFolder @ ''/'') targetFolder then
        State_Monad.return (Returns (bad_request ''Cannot move a folder into itself.''))
      else do {
        let childName = local_name sourceFolder;
        meta \<leftarrow> kv_get K client baseKey (meta_col targetFolder);
        let targetMeta = (if is_err meta then [] else meta);
        if childName \<in> set (map local_name (splitStringStorage targetMeta)) then
          State_Monad.return (Returns (bad_request
            (''Cannot move: a folder or file named <strong>'' @ childName @
             ''</strong> already exists in the destination.'')))
        else if sourceFolder = [] then
          State_Monad.return (Returns (bad_request ''Missing source or target folder.''))
        else and_then (moveFolder n K client baseKey sourceFolder targetFolder) (\<lambda>_.
          State_Monad.return (Returns (httpResponseStorage ''200 OK''
            (''<!DOCTYPE html>'' @ [LF] @ ''<html>'' @ [LF] @ ''<body>'' @ [LF] @
             ''<p>Moved folder <strong>'' @ sourceFolder @ ''</strong> into <strong>'' @
             (if targetFolder = [] then ''Root'' else targetFolder) @ ''</strong>.</p>'' @
             [LF] @ ''<p><a href='/list?folder='' @ targetFolder @ sq @
             ''>View Destination</a></p>'' @ [LF] @ ''</body>'' @ [LF] @ ''</html>'' @ [LF])))) })"

definition webStorageMoveFolder ::
  "nat \<Rightarrow> 'st kv_ops \<Rightarrow> string \<Rightarrow> string list \<Rightarrow> string \<Rightarrow> ('st, string outcome) state" where
  "webStorageMoveFolder n K username socket request =
     with_storage K username (\<lambda>client baseKey.
       if \<not> prefix ''POST /moveFolder'' request then
         attempt (query_params (first_line request)) (\<lambda>params. do {
           let sourceFolder = hdr params ''folder'';
           let currentFolder = hdr params ''currentFolder'';
           metadata \<leftarrow> kv_get K client baseKey (meta_col currentFolder);
           links \<leftarrow> folder_links K client baseKey (move_folder_link sourceFolder)
                      (if is_err metadata \<or> metadata = [] then [] else splitStringStorage metadata);
           State_Monad.return (Returns (httpResponseStorage ''200 OK''
             (move_folder_page sourceFolder currentFolder links))) })
       else
         attempt (form_fields socket request) (\<lambda>fields.
           move_folder n K client baseKey (hdr fields ''folder'') (hdr fields ''targetFolder'')))"

end
