(* ===== verification/Admin_Service.thy ===== *)
theory Admin_Service
  imports Storage_Http Recovery
begin

text \<open>
  The admin console (\<^verbatim>\<open>frontend/admin/admin_service.cc\<close>): the state of the workers as the coordinator
  reports it, the switch that shuts a worker down and restarts it, the start and stop of front ends by
  shell commands, and the pages that show the tablets of a worker. The record \<open>admin_ops\<close> has the calls it
  makes to the coordinator and to a worker; what the load balancer answers to the health request on a
  port is a parameter \<open>net\<close> (\<^term>\<open>None\<close> when the connection fails), as is the result of a shell command.
\<close>

section \<open>Calls\<close>

record 'st admin_ops =
  op_alive :: "'st \<Rightarrow> int \<Rightarrow> string"
  op_console :: "'st \<Rightarrow> string \<Rightarrow> string \<Rightarrow> string \<Rightarrow> string \<times> 'st"
  op_copy :: "'st \<Rightarrow> string \<Rightarrow> int \<Rightarrow> string"

definition cluster_admin :: "platform \<Rightarrow> (nat \<Rightarrow> bool) \<Rightarrow> cluster admin_ops" where
  "cluster_admin P net =
     \<lparr>op_alive = client_Alive P, op_console = client_AdminConsole P net,
      op_copy = (\<lambda>cl addr tablet_id. client_CopyTablet P cl addr tablet_id net)\<rparr>"

text \<open>\<^verbatim>\<open>workerClients_[workerId - 1]\<close>: an index outside of the vector is undefined behaviour.\<close>

definition worker_client :: "int \<Rightarrow> string outcome" where
  "worker_client worker_id =
     (if 1 \<le> worker_id \<and> worker_id \<le> 6 then Returns (''127.0.0.1:1000'' @ to_string worker_id)
      else Throws Wild_access)"

section \<open>Switching workers and front ends\<close>

definition console :: "'st admin_ops \<Rightarrow> string \<Rightarrow> int \<Rightarrow> ('st, bool outcome) state" where
  "console A command worker_id =
     attempt (worker_client worker_id) (\<lambda>client. do {
       res \<leftarrow> State (\<lambda>st. op_console A st client ''admin'' command);
       State_Monad.return (Returns (\<not> is_err res)) })"

definition shutdownServer :: "'st admin_ops \<Rightarrow> int \<Rightarrow> ('st, bool outcome) state" where
  "shutdownServer A worker_id = console A ''SHUTDOWN'' worker_id"

definition restartServer :: "'st admin_ops \<Rightarrow> int \<Rightarrow> ('st, bool outcome) state" where
  "restartServer A worker_id = console A ''RESTART'' worker_id"

definition handleToggle :: "'st admin_ops \<Rightarrow> string \<Rightarrow> string \<Rightarrow> ('st, bool outcome) state" where
  "handleToggle A worker command =
     attempt (stoi worker) (\<lambda>worker_id.
       if command = ''shutdown'' then shutdownServer A worker_id else restartServer A worker_id)"

definition frontend_command :: "string \<Rightarrow> string \<Rightarrow> string option" where
  "frontend_command port action =
     (if action = ''shutdown'' then Some (''pkill -f '' @ sq @ ''http_server.*-p '' @ port @ sq)
      else if action = ''restart'' then Some (''./http_server -p '' @ port @ '' &'')
      else None)"

definition handleFrontendToggle :: "(string \<Rightarrow> int) \<Rightarrow> string \<Rightarrow> string \<Rightarrow> bool" where
  "handleFrontendToggle shell port action =
     (case frontend_command port action of
        None \<Rightarrow> False
      | Some cmd \<Rightarrow> shell cmd \<in> {0, 15, 256})"

section \<open>The state of the system\<close>

definition checkHttpAlive :: "(int \<Rightarrow> string option) \<Rightarrow> string \<Rightarrow> string" where
  "checkHttpAlive net hostport =
     (case stoi (drop (npos_plus (str_find hostport '':'' 0) 1) hostport) of
        Returns port \<Rightarrow>
          (case net port of
             None \<Rightarrow> ''false''
           | Some reply \<Rightarrow> takeWhile (\<lambda>c. c \<noteq> CHR 0x00) (take 1023 reply))
      | _ \<Rightarrow> ''false'')"

text \<open>\<^verbatim>\<open>result.substr(result.find("\r\n\r\n")+4)\<close>\<close>

definition http_payload :: "string \<Rightarrow> string outcome" where
  "http_payload result = substr result (npos_plus (str_find result (crlf @ crlf) 0) 4) None"

definition worker_json :: "'st admin_ops \<Rightarrow> 'st \<Rightarrow> int \<Rightarrow> string" where
  "worker_json A st i =
     ''{\"id\":'' @ to_string i @ '',\"alive\":'' @
     (if op_alive A st i = ''Alive'' then ''true'' else ''false'') @ ''}'' @ (if i \<noteq> 6 then '','' else [])"

definition fetchWorkerStatuses ::
  "'st admin_ops \<Rightarrow> (int \<Rightarrow> string option) \<Rightarrow> ('st, string outcome) state" where
  "fetchWorkerStatuses A net = do {
     st \<leftarrow> State_Monad.get;
     attempt (http_payload (checkHttpAlive net ''127.0.0.1:8080'')) (\<lambda>result.
       State_Monad.return (Returns
         (''{\"workers\":['' @ concat (map (worker_json A st) [1..6]) @ ''],'' @
          ''\"frontends\":'' @ result @ ''}''))) }"

definition splitStringAdmin :: "string \<Rightarrow> char \<Rightarrow> string list" where
  "splitStringAdmin str delimiter = splitString str delimiter"

definition frontend_status :: "string \<Rightarrow> bool list" where
  "frontend_status frontends =
     concat (map (\<lambda>fe. if contains fe ''alive'' \<and> contains fe ''true'' then [True]
                        else if contains fe ''alive'' \<and> contains fe ''false'' then [False] else [])
       (splitStringAdmin frontends CHR '',''))"

section \<open>Pages\<close>

definition home_head :: string where
  "home_head =
     [LF] @ ''        <!DOCTYPE html>'' @ [LF] @ ''        <html>'' @ [LF] @
     ''        <head>'' @ [LF] @ ''          <title>Admin Dashboard</title>'' @ [LF] @
     ''          <style>'' @ [LF] @
     ''            body { font-family: Arial; padding: 20px; }'' @ [LF] @
     ''            .worker { display: flex; justify-content: space-between; padding: '' @
     ''6px; border: 1px solid #ccc; margin: 4px 0; align-items: center; }'' @ [LF] @
     ''            .status { font-weight: bold; padding: 0 10px; }'' @ [LF] @
     ''            .alive { color: green; }'' @ [LF] @
     ''            .dead { color: red; }'' @ [LF] @
     ''            button { padding: 4px 10px; }'' @ [LF] @ ''          </style>'' @ [LF] @
     ''        </head>'' @ [LF] @ ''        <body>'' @ [LF] @
     ''          <h1>Admin Dashboard</h1>'' @ [LF] @
     ''          <h2>Front-End Workers</h2>''"

definition frontend_item :: "int \<Rightarrow> string" where
  "frontend_item fid =
     (let port = 8080 + fid
      in ''<div class='worker'>'' @ ''<span>Front-End '' @ to_string fid @ ''</span>'' @
         ''<span>(127.0.0.1:'' @ to_string port @ '')</span>'' @
         ''<span id=\"frontend-status-'' @ to_string fid @
         ''\" class=\"status\">...</span>'' @
         ''<button id=\"frontend-btn-'' @ to_string fid @ ''\" onclick=\"toggleFrontend('' @
         to_string port @ '','' @ to_string fid @ '')\">...</button>'' @ [LF] @ ''</div>'')"

definition backend_item :: "int \<Rightarrow> string" where
  "backend_item i =
     ''<div class=\"worker\">'' @ ''<a href=\"/admin/backend?worker='' @ to_string i @
     ''\">Back-End '' @ to_string i @ ''</a>'' @ ''<span>(127.0.0.1:1000'' @ to_string i @
     '')</span>'' @ [LF] @ ''<span id=\"worker-status-'' @ to_string i @
     ''\" class=\"status\">...</span>'' @
     ''<input type=\"hidden\" name=\"workerId\" value=\"'' @ to_string i @ ''\" />'' @
     ''<input type=\"hidden\" id=\"action-input-'' @ to_string i @
     ''\" name=\"action\" value=\"shutdown\" />'' @ ''<button id=\"worker-btn-'' @
     to_string i @ ''\" onclick=\"toggleWorker('' @ to_string i @ '')\">...</button>'' @
     [LF] @ ''</div>'' @ [LF]"

definition home_script :: string where
  "home_script =
     [LF] @ ''          <script>'' @ [LF] @
     ''            function toggleWorker(workerId) {'' @ [LF] @
     ''                const statusEl = '' @
     ''document.getElementById(`worker-status-${workerId}`);'' @ [LF] @
     ''                const buttonEl = '' @
     ''document.getElementById(`worker-btn-${workerId}`);'' @ [LF] @
     ''                const isAlive = statusEl.classList.contains('alive');'' @ [LF] @
     ''                const action = isAlive ? 'shutdown' : 'restart';'' @ [LF] @
     ''        '' @ [LF] @ ''                fetch('/admin/toggle', {'' @ [LF] @
     ''                    method: 'POST','' @ [LF] @ ''                    headers: '' @
     ''{ 'Content-Type': 'application/x-www-form-urlencoded' },'' @ [LF] @
     ''                    body: `workerId=${workerId}&action=${action}`'' @ [LF] @
     ''                })'' @ [LF] @
     ''                .then(response => response.text())'' @ [LF] @
     ''                .then(_ => {'' @ [LF] @
     ''                    // Toggle the UI on success'' @ [LF] @
     ''                    console.log('toggled');'' @ [LF] @ ''                })'' @
     [LF] @ ''                .catch(err => {'' @ [LF] @
     ''                    alert('Toggle failed');'' @ [LF] @
     ''                    console.error(err);'' @ [LF] @ ''                });'' @ [LF] @
     ''            }'' @ [LF] @ [LF] @ ''            function toggleFrontend(port, id) {'' @
     [LF] @
     ''                const statusEl = document.getElementById(`frontend-status-${id}`);'' @
     [LF] @ [CHR 0x09] @ [CHR 0x09] @ [CHR 0x09] @ [CHR 0x09] @
     ''console.log(\"Fe \"+id+\" status: \"+statusEl);'' @ [LF] @
     ''                const btnEl = document.getElementById(`frontend-btn-${id}`);'' @
     [LF] @ ''                const isAlive = statusEl.classList.contains('alive');'' @
     [LF] @ ''                const action = isAlive ? 'shutdown' : 'restart';'' @ [LF] @
     [LF] @ ''                fetch('/admin/frontend-toggle', {'' @ [LF] @
     ''                    method: 'POST','' @ [LF] @ ''                    headers: '' @
     ''{ 'Content-Type': 'application/x-www-form-urlencoded' },'' @ [LF] @
     ''                    body: `port=${port}&action=${action}`'' @ [LF] @
     ''                })'' @ [LF] @ ''                .then(res => res.text())'' @ [LF] @
     ''                .then(text => {'' @ [LF] @
     ''                    console.log(`[Frontend ${port}] Toggle ${action}: ${text}`);'' @
     [LF] @ ''                    setTimeout(fetchStatus, 500);  // Refresh status'' @
     [LF] @ ''                })'' @ [LF] @ ''                .catch(err => {'' @ [LF] @
     ''                    console.error(`[Frontend ${port}] Toggle failed`, err);'' @
     [LF] @ ''                    alert(`Toggle failed for frontend ${port}`);'' @ [LF] @
     ''                });'' @ [LF] @ ''            }'' @ [LF] @ [LF] @ [LF] @ [LF] @
     ''            function fetchStatus() {'' @ [LF] @
     ''              fetch('/admin/worker-status')'' @ [LF] @
     ''                .then(res => res.json())'' @ [LF] @
     ''                .then(data => {'' @ [LF] @
     ''                  data.workers.forEach(worker => {'' @ [LF] @
     ''                    const id = worker.id;'' @ [LF] @
     ''                    const alive = worker.alive;'' @ [LF] @ ''        '' @ [LF] @
     ''                    const statusElem = document.getElementById('worker-status-' + '' @
     ''id);'' @ [LF] @
     ''                    const btnElem = document.getElementById('worker-btn-' + id);'' @
     [LF] @
     ''                    const inputElem = document.getElementById('action-input-' + '' @
     ''id);'' @ [LF] @ ''        '' @ [LF] @ ''                    if (statusElem) {'' @
     [LF] @ ''                      statusElem.textContent = alive ? 'Alive' : 'Dead';'' @
     [LF] @ ''                      statusElem.className = 'status ' + (alive '' @
     ''? 'alive' : 'dead');'' @ [LF] @ ''                    }'' @ [LF] @
     ''                    if (btnElem) {'' @ [LF] @
     ''                      btnElem.textContent = alive ? 'Shutdown' : 'Restart';'' @
     [LF] @ ''                    }'' @ [LF] @ ''                    if (inputElem) {'' @
     [LF] @ ''                      inputElem.value = alive ? 'shutdown' : 'restart';'' @
     [LF] @ ''                    }'' @ [LF] @ ''                  });'' @ [LF] @
     ''                  data.frontends.forEach(fe => {'' @ [LF] @
     ''                        const id = fe.id;'' @ [LF] @
     ''                        const alive = fe.alive;'' @ [LF] @
     ''                        const row = '' @
     ''document.querySelector(`#frontend-status-${id}`);'' @ [LF] @
     ''                        if (row) {'' @ [LF] @
     ''                            row.textContent = alive ? \"Alive\" : \"Dead\";'' @
     [LF] @
     ''                            row.className = \"status \" + (alive ? \"alive\" '' @
     '': \"dead\");'' @ [LF] @ ''                        }'' @ [LF] @ [LF] @
     ''                        const btn = document.querySelector(`#frontend-btn-${id}`);'' @
     [LF] @ ''                        if (btn) btn.textContent = alive ? \"Shutdown\" '' @
     '': \"Restart\";'' @ [LF] @ ''                    });'' @ [LF] @
     ''                });'' @ [LF] @ ''            }'' @ [LF] @ ''        '' @ [LF] @
     ''            setInterval(fetchStatus, 2000);'' @ [LF] @
     ''            window.onload = fetchStatus;'' @ [LF] @
     ''            console.log(\"Script loaded and fetchStatus registered.\");'' @ [LF] @
     ''          </script>'' @ [LF] @ [LF] @ [LF] @ ''        </body>'' @ [LF] @
     ''        </html>'' @ [LF] @ ''        ''"

definition home :: "'st admin_ops \<Rightarrow> (int \<Rightarrow> string option) \<Rightarrow> ('st, string outcome) state" where
  "home A net =
     attempt (http_payload (checkHttpAlive net ''127.0.0.1:8080'')) (\<lambda>frontends.
       State_Monad.return (Returns
         (home_head @
          concat (map (\<lambda>k. frontend_item (int k + 1)) [0..<length (frontend_status frontends)]) @
          [LF] @ ''          <h2>Back-End Workers</h2>'' @ [LF] @ ''        '' @
          concat (map backend_item [1..6]) @
          home_script)))"

text \<open>\<^verbatim>\<open>%\<close> on \<^verbatim>\<open>int\<close> truncates.\<close>

definition int_rem :: "int \<Rightarrow> int \<Rightarrow> int" where
  "int_rem a b = (if a < 0 then - ((- a) mod b) else a mod b)"

definition isTabletStoredHere :: "int \<Rightarrow> int \<Rightarrow> bool" where
  "isTabletStoredHere worker_id tabletId =
     (let prev1 = int_rem (worker_id + 6 - 2) 6 + 1;
          prev2 = int_rem (worker_id + 6 - 3) 6 + 1
      in tabletId = worker_id \<or> tabletId = prev1 \<or> tabletId = prev2)"

definition workerPage :: "int \<Rightarrow> string" where
  "workerPage worker_id =
     [LF] @ ''    <!DOCTYPE html>'' @ [LF] @ ''    <html>'' @ [LF] @ ''    <head>'' @ [LF] @
     ''    <title>Worker Tablets</title>'' @ [LF] @ ''    <style>'' @ [LF] @
     ''        body { font-family: Arial; padding: 20px; }'' @ [LF] @
     ''        .tablet-list { list-style: none; padding: 0; }'' @ [LF] @
     ''        .tablet-item { margin: 10px 0; }'' @ [LF] @
     ''        a { text-decoration: none; color: #007BFF; font-size: 18px; }'' @ [LF] @
     ''        a:hover { text-decoration: underline; }'' @ [LF] @ ''    </style>'' @ [LF] @
     ''    </head>'' @ [LF] @ ''    <body>'' @ [LF] @ ''    <h1>Tablets Stored in Worker '' @ to_string worker_id @
     ''</h1>'' @ [LF] @ ''    <ul class=\"tablet-list\">'' @ [LF] @ ''    '' @
     concat (map (\<lambda>tablet.
       if isTabletStoredHere worker_id tablet then
         ''<li class='tablet-item'><a href='/admin/backend?worker='' @ to_string worker_id @
         ''&tablet='' @ to_string tablet @ sq @ ''>Tablet '' @ to_string tablet @
         ''</a></li>'' @ [LF]
       else []) [1..6]) @
     [LF] @ ''    </ul>'' @ [LF] @ ''    </body>'' @ [LF] @ ''    </html>'' @ [LF] @
     ''    ''"

text \<open>A value of more than 200 bytes is folded; the fold gets a random id.\<close>

fun value_cell :: "int list \<Rightarrow> string \<Rightarrow> string outcome \<times> int list" where
  "value_cell rands val =
     (if length val \<le> 200 then (Returns val, rands)
      else case rands of
             [] \<Rightarrow> (Diverges, [])
           | r # rs \<Rightarrow>
               (let cid = ''cell_'' @ to_string r; preview = take 200 val
                in (Returns (''<div id='' @ sq @ cid @ ''_preview' class='value-preview'>'' @
                    preview @ ''...</div>'' @ ''<div id='' @ sq @ cid @
                    ''_full' class='value-full'>'' @ val @ ''</div>'' @ ''<button id='' @
                    sq @ cid @ ''_btn' class='toggle-btn' onclick=\"toggle('' @ sq @ cid @
                    sq @ '')\">Show more</button>''), rs)))"

fun tablet_cols :: "int list \<Rightarrow> string \<Rightarrow> nat \<Rightarrow> bool \<Rightarrow> row_map \<Rightarrow> string outcome \<times> int list" where
  "tablet_cols rands row n first [] = (Returns [], rands)"
| "tablet_cols rands row n first ((col, val) # cols) =
     (let (cell, rands') = value_cell rands val;
          (rest, rands'') = tablet_cols rands' row n False cols
      in (outcome_bind cell (\<lambda>c. outcome_bind rest (\<lambda>r. Returns
            (''<tr>'' @ (if first then ''<td rowspan='' @ sq @ nat_string n @ sq @ ''>'' @ row @ ''</td>'' else []) @
             ''<td>'' @ col @ ''</td><td>'' @ c @ ''</td></tr>'' @ r))), rands''))"

fun tablet_rows :: "platform \<Rightarrow> int list \<Rightarrow> tablet \<Rightarrow> string outcome \<times> int list" where
  "tablet_rows P rands [] = (Returns [], rands)"
| "tablet_rows P rands ((row, cols) # rows) =
     (let (this, rands') = tablet_cols rands row (length cols) True (col_order P cols);
          (rest, rands'') = tablet_rows P rands' rows
      in (outcome_bind this (\<lambda>t. outcome_bind rest (\<lambda>r. Returns (t @ r))), rands''))"

definition tablet_head :: string where
  "tablet_head =
     [LF] @ ''    <html>'' @ [LF] @ ''    <head>'' @ [LF] @
     ''      <title>Tablet View</title>'' @ [LF] @ ''      <style>'' @ [LF] @
     ''        td { vertical-align: top; white-space: pre-wrap; max-width: 600px; }'' @
     [LF] @ ''        .value-preview { display: block; }'' @ [LF] @
     ''        .value-full { display: none; }'' @ [LF] @
     ''        .toggle-btn { margin-top: 5px; }'' @ [LF] @ ''      </style>'' @ [LF] @
     ''      <script>'' @ [LF] @ ''        function toggle(id) {'' @ [LF] @
     ''          const preview = document.getElementById(id + \"_preview\");'' @ [LF] @
     ''          const full = document.getElementById(id + \"_full\");'' @ [LF] @
     ''          const btn = document.getElementById(id + \"_btn\");'' @ [LF] @
     ''          const isCollapsed = full.style.display === \"none\";'' @ [LF] @
     ''          full.style.display = isCollapsed ? \"block\" : \"none\";'' @ [LF] @
     ''          preview.style.display = isCollapsed ? \"none\" : \"block\";'' @ [LF] @
     ''          btn.textContent = isCollapsed ? \"Show less\" : \"Show more\";'' @ [LF] @
     ''        }'' @ [LF] @ ''      </script>'' @ [LF] @ ''    </head>'' @ [LF] @
     ''    <body>'' @ [LF] @ ''    ''"

definition tabletPage ::
  "platform \<Rightarrow> 'st admin_ops \<Rightarrow> int list \<Rightarrow> int \<Rightarrow> int \<Rightarrow> ('st, string outcome) state" where
  "tabletPage P A rands worker_id tabletId = do {
     st \<leftarrow> State_Monad.get;
     attempt (worker_client worker_id) (\<lambda>client.
       let binary = op_copy A st client tabletId
       in if is_err binary then State_Monad.return (Returns
            (''<html><body><h1>Could not load tablet data</h1><br><a '' @
            ''href='/admin/dashboard'>Back</a></body></html>''))
          else
            (let (ok, table) = deserializeTablet [] binary
             in if \<not> ok then State_Monad.return (Returns
                  (''<html><body><h1>Deserialization failed</h1><br><a '' @
                  ''href='/admin/dashboard'>Back</a></body></html>''))
                else attempt (fst (tablet_rows P rands (row_order P table))) (\<lambda>rows.
                  State_Monad.return (Returns
                    (tablet_head @
                     ''<h1>Tablet '' @ to_string tabletId @ '' on Worker '' @ to_string worker_id @ ''</h1>'' @
                     ''<table border='1'><tr><th>Row</th><th>Column</th><th>Value</th></tr>'' @
                     rows @
                     ''</table><br><a href='/admin/dashboard'>Back</a></body></html>''))))) }"

end
