(* ===== verification/Http_Server.thy ===== *)
theory Http_Server
  imports Storage_Service Admin_Service
begin

text \<open>
  The HTTP server of a front end (\<^verbatim>\<open>frontend/http_server.cc\<close>): parsing of requests, sessions, and the loop
  of \<^verbatim>\<open>client_connection\<close> that routes a request to the account, admin, storage and mail services. The store is
  reached through \<open>kv_ops\<close> and \<open>admin_ops\<close>. Everything else a request depends on is the record \<open>http_env\<close>: the
  successive values of \<^verbatim>\<open>rand\<close>, the clock, the SMTP server, the answer of the load balancer, the results of
  shell commands and the files of the web pages (empty when missing).
\<close>

section \<open>Responses\<close>

definition buildHttpHeader :: "string \<Rightarrow> string \<Rightarrow> nat \<Rightarrow> string \<Rightarrow> string" where
  "buildHttpHeader status contentType contentLength extraHeaders =
     ''HTTP/1.1 '' @ status @ crlf @
     ''Content-Type: '' @ contentType @ crlf @
     ''Content-Length: '' @ nat_string contentLength @ crlf @
     extraHeaders @
     ''Connection: keep-alive'' @ crlf @ crlf"

definition httpResponse :: "string \<Rightarrow> string \<Rightarrow> string" where
  "httpResponse status body = buildHttpHeader status ''text/html'' (length body) [] @ body"

text \<open>\<^verbatim>\<open>isHead ? buildHttpHeader(...) : httpResponse(...)\<close>, where the two may have different bodies.\<close>

definition head_or_body :: "bool \<Rightarrow> string \<Rightarrow> string \<Rightarrow> string \<Rightarrow> string" where
  "head_or_body isHead status headBody body =
     (if isHead then buildHttpHeader status ''text/html'' (length headBody) [] else httpResponse status body)"

definition mime_types :: "(string \<times> string) list" where
  "mime_types =
     [(''.html'', ''text/html''), (''.css'', ''text/css''), (''.js'', ''application/javascript''),
      (''.png'', ''image/png''), (''.jpg'', ''image/jpeg''), (''.jpeg'', ''image/jpeg''),
      (''.gif'', ''image/gif''), (''.txt'', ''text/plain''), (''.json'', ''application/json''),
      (''.ico'', ''image/x-icon'')]"

definition get_content_type :: "string \<Rightarrow> string" where
  "get_content_type path =
     (case find_last_of path {CHR ''.''} of
        None \<Rightarrow> ''application/octet-stream''
      | Some dot \<Rightarrow> (case map_of mime_types (drop dot path) of
                       Some t \<Rightarrow> t | None \<Rightarrow> ''application/octet-stream''))"

section \<open>Requests\<close>

definition extractSessionId :: "string \<Rightarrow> string" where
  "extractSessionId request =
     (case str_find request ''Cookie:'' 0 of
        None \<Rightarrow> []
      | Some cookiePos \<Rightarrow>
          (case str_find request ''session_id='' cookiePos of
             None \<Rightarrow> []
           | Some sessionStart \<Rightarrow>
               (let cookie = between request (sessionStart + 11) (str_find request '';'' sessionStart)
                in between cookie 0 (str_find cookie [CR] 0))))"

definition first_not_blank :: "string \<Rightarrow> nat \<Rightarrow> nat option" where
  "first_not_blank s pos =
     (let n = pos + length (takeWhile (\<lambda>c. c = CHR '' '') (drop pos s))
      in if n < length s then Some n else None)"

definition extractConnectionHeader :: "string \<Rightarrow> string" where
  "extractConnectionHeader request =
     (case str_find request ''Connection:'' 0 of
        None \<Rightarrow> ''close''
      | Some connPos \<Rightarrow>
          (case first_not_blank request (connPos + 11) of
             None \<Rightarrow> ''close''
           | Some start \<Rightarrow>
               (case str_find request crlf start of
                  None \<Rightarrow> ''close''
                | Some e \<Rightarrow> between request start (Some e))))"

abbreviation MAX_BODY :: nat where "MAX_BODY \<equiv> 2 * 1024 * 1024"

definition readRequestBody :: "string list \<Rightarrow> string \<Rightarrow> nat option \<Rightarrow> string outcome" where
  "readRequestBody socket req headerEnd =
     outcome_bind (content_length req) (\<lambda>v.
     let contentLen = min (nat v) MAX_BODY
     in outcome_bind (substr req (npos_plus headerEnd 4) None) (\<lambda>body.
          Returns (read_to_length contentLen body socket)))"

text \<open>The loop that replaces \<^verbatim>\<open>%2F\<close> by a slash, from left to right.\<close>

function decode_slash :: "string \<Rightarrow> string" where
  "decode_slash s =
     (case s of [] \<Rightarrow> []
      | c # cs \<Rightarrow> if prefix ''%2F'' s then CHR ''/'' # decode_slash (drop 3 s) else c # decode_slash cs)"
  by pat_completeness auto
termination by (relation "measure length") (auto simp: prefix_def)

declare decode_slash.simps [simp del]

definition parseQueryParams :: "string \<Rightarrow> (string \<rightharpoonup> string)" where
  "parseQueryParams q = foldl add_param Map.empty (getlines CHR ''&'' (decode_slash q))"

text \<open>The URL of the request line, between its first two blanks, and its query string.\<close>

definition request_url :: "string \<Rightarrow> string" where
  "request_url request =
     (let req_line = first_line request
      in case str_find req_line '' '' 0 of
           None \<Rightarrow> req_line
         | Some first_space \<Rightarrow> between req_line (first_space + 1) (str_find req_line '' '' (first_space + 1)))"

definition url_query :: "string \<Rightarrow> string option" where
  "url_query url = map_option (\<lambda>qpos. drop (qpos + 1) url) (str_find url ''?'' 0)"

definition query_of :: "string \<Rightarrow> string" where
  "query_of request = (case url_query (request_url request) of None \<Rightarrow> [] | Some q \<Rightarrow> q)"

definition post_data :: "string \<Rightarrow> string" where
  "post_data request =
     (case str_find request (crlf @ crlf) 0 of None \<Rightarrow> [] | Some bodyStart \<Rightarrow> drop (bodyStart + 4) request)"

section \<open>Sessions\<close>

definition getUsernameFromSession :: "'st kv_ops \<Rightarrow> string \<Rightarrow> ('st, string) state" where
  "getUsernameFromSession K sessionId = do {
     worker \<leftarrow> kv_lookup K ''session-ids'';
     if is_err worker then State_Monad.return []
     else do {
       username \<leftarrow> kv_get K worker ''session-ids'' sessionId;
       State_Monad.return (if is_err username then [] else username) } }"

text \<open>The loop that draws session ids until one is free.\<close>

fun free_sid :: "'st kv_ops \<Rightarrow> string \<Rightarrow> int list \<Rightarrow> ('st, string outcome) state" where
  "free_sid K client [] = State_Monad.return Diverges"
| "free_sid K client (r # rands) = do {
     let sid = to_string r;
     v \<leftarrow> kv_get K client ''session-ids'' sid;
     used \<leftarrow> (if v \<noteq> [] then do { v2 \<leftarrow> kv_get K client ''session-ids'' sid; State_Monad.return (\<not> is_err v2) }
              else State_Monad.return False);
     if used then free_sid K client rands else State_Monad.return (Returns sid) }"

definition generateSessionCookie :: "'st kv_ops \<Rightarrow> int list \<Rightarrow> string \<Rightarrow> ('st, string outcome) state" where
  "generateSessionCookie K rands username = do {
     worker \<leftarrow> kv_lookup K ''session-ids'';
     if is_err worker then State_Monad.return (Returns ''error'')
     else and_then (free_sid K worker rands) (\<lambda>sid. do {
       activeUsers \<leftarrow> kv_get K worker ''session-ids'' ''active-users'';
       (if \<not> is_err activeUsers then do {
          res \<leftarrow> kv_put K worker ''session-ids'' sid username;
          res2 \<leftarrow> kv_cput K worker ''session-ids'' ''active-users'' activeUsers
                    (activeUsers @ '';'' @ username @ '':'' @ sid @ '';'');
          State_Monad.return () }
        else do {
          res \<leftarrow> kv_put K worker ''session-ids'' sid username;
          res2 \<leftarrow> kv_put K worker ''session-ids'' ''active-users'' (username @ '':'' @ sid @ '';'');
          State_Monad.return () });
       State_Monad.return (Returns sid) }) }"

text \<open>The loop of \<^verbatim>\<open>handleLogout\<close>: once the entry of the session is found, all later entries are dropped too.\<close>

fun users_before :: "string \<Rightarrow> string list \<Rightarrow> string" where
  "users_before sid [] = []"
| "users_before sid (entry # rest) =
     (if (case str_find entry '':'' 0 of None \<Rightarrow> False | Some eqPos \<Rightarrow> drop (eqPos + 1) entry = sid)
      then [] else entry @ '';'' @ users_before sid rest)"

definition handleLogout :: "'st kv_ops \<Rightarrow> string \<Rightarrow> ('st, unit) state" where
  "handleLogout K sid = do {
     worker \<leftarrow> kv_lookup K ''session-ids'';
     if is_err worker then State_Monad.return ()
     else do {
       activeUsers \<leftarrow> kv_get K worker ''session-ids'' ''active-users'';
       res \<leftarrow> kv_delete K worker ''session-ids'' sid;
       res2 \<leftarrow> kv_cput K worker ''session-ids'' ''active-users'' activeUsers
                 (users_before sid (getlines CHR '';'' activeUsers));
       State_Monad.return () } }"

definition put_password :: "'st kv_ops \<Rightarrow> string \<Rightarrow> string \<Rightarrow> ('st, unit) state \<Rightarrow> ('st, unit) state" where
  "put_password K user pass rest = do {
     worker \<leftarrow> kv_lookup K (user @ ''-userinfo'');
     if is_err worker then State_Monad.return ()
     else do { res \<leftarrow> kv_put K worker (user @ ''-userinfo'') ''password'' pass; rest } }"

definition dummySetUp :: "'st kv_ops \<Rightarrow> ('st, unit) state" where
  "dummySetUp K =
     put_password K ''user1'' ''pass1'' (put_password K ''user2'' ''pass2''
       (put_password K ''admin'' ''admin'' (State_Monad.return ())))"

section \<open>The environment of a request\<close>

record http_env =
  rands :: "int list"
  smtp_up :: bool
  timestamp :: string
  date :: string
  balancer :: "int \<Rightarrow> string option"
  shell :: "string \<Rightarrow> int"
  page_file :: "string \<Rightarrow> string"

text \<open>A response, and the lines handed to the SMTP server.\<close>

type_synonym reply = "(string \<times> string list) outcome"

definition answer :: "string \<Rightarrow> ('st, reply) state" where
  "answer page = State_Monad.return (Returns (page, []))"

definition reply_page :: "('st, string outcome) state \<Rightarrow> ('st, reply) state" where
  "reply_page m = and_then m answer"

definition service_down :: string where
  "service_down = ''<html><body>Servers down, sorry for the inconvenience!</body></html>''"

definition please_login :: string where
  "please_login = ''<html><body>Unauthorized. Please login.</body></html>''"

definition admin_only :: string where
  "admin_only = ''<html><body>Restricted Access. Only Admin can view this page.</body></html>''"

section \<open>Handlers\<close>

definition handleEmailService ::
  "'st kv_ops \<Rightarrow> http_env \<Rightarrow> string \<Rightarrow> string \<Rightarrow> string \<Rightarrow> string \<Rightarrow> string \<Rightarrow> ('st, reply) state" where
  "handleEmailService K env session_id request type queryParams data = do {
     username \<leftarrow> getUsernameFromSession K session_id;
     if username = [] then
       answer (httpResponse ''401 Unauthorized'' ''<html><body>Please login to access emails.</body></html>'')
     else do {
       worker \<leftarrow> kv_lookup K (username @ ''-email'');
       if is_err worker then answer (httpResponse ''503 Service Unavailable'' service_down)
       else do {
         r \<leftarrow> handleRequest K (smtp_up env) (timestamp env) (date env) request type queryParams data;
         let response = fst r;
         State_Monad.return (Returns
           (if is_err response
            then httpResponse ''400 Bad Request'' (''<html><body><h1>'' @ response @ ''</h1></body></html>'')
            else httpResponse ''200 OK'' response, snd r)) } } }"

abbreviation tabs :: string where "tabs \<equiv> replicate 6 (CHR 0x09)"

definition dashboard_page :: "string \<Rightarrow> string" where
  "dashboard_page u =
     [LF] @ tabs @
     ''<!DOCTYPE html><html><head><title>Dashboard</title></head>'' @ [LF] @ tabs @
     ''<body><h1>Welcome '' @ u @ ''</h1>'' @ [LF] @ tabs @
     ''<nav>'' @ [LF] @ tabs @
     ''  <a href=\"/email.html\">Email</a> |'' @ [LF] @ tabs @
     ''  <a href=\"/storage\">Storage</a>'' @ [LF] @ tabs @
     ''</nav>'' @ [LF] @ tabs @
     ''</body></html>'' @ [LF] @
     tabs"

text \<open>The body of a form post: \<^verbatim>\<open>request.substr(request.find("\r\n\r\n")+4)\<close>.\<close>

definition form_body :: "string \<Rightarrow> string outcome" where
  "form_body request = substr request (npos_plus (str_find request (crlf @ crlf) 0) 4) None"

definition session_cookie :: "string \<Rightarrow> string" where
  "session_cookie sid = ''Set-Cookie: session_id='' @ sid @ ''; Path=/; HttpOnly''"

definition login_page :: "string \<Rightarrow> string \<Rightarrow> string" where
  "login_page u sid =
     (if sid = ''error'' then httpResponse ''503 Service Unavailable'' service_down
      else if u = ''admin'' then
        buildHttpHeader ''302 Found'' ''text/html'' 0
          (session_cookie sid @ crlf @ ''Location: /admin/dashboard'' @ crlf)
      else
        buildHttpHeader ''200 OK'' ''text/html'' (length (dashboard_page u)) (session_cookie sid @ crlf) @
          dashboard_page u)"

definition login :: "'st kv_ops \<Rightarrow> http_env \<Rightarrow> string \<Rightarrow> ('st, reply) state" where
  "login K env request =
     attempt (form_body request) (\<lambda>body. do {
       let params = parseQueryParams body;
       let u = hdr params ''username'';
       ok \<leftarrow> State (\<lambda>st. authenticate K st u (hdr params ''password''));
       if ok then and_then (generateSessionCookie K (rands env) u) (\<lambda>sid. answer (login_page u sid))
       else answer (httpResponse ''401 Unauthorized''
         (''<html><body><h1>Invalid credentials</h1>'' @
          ''<a href='/login.html'>Try again</a></body></html>'')) })"

definition sign_up :: "'st kv_ops \<Rightarrow> bool \<Rightarrow> string \<Rightarrow> ('st, reply) state" where
  "sign_up K isHead request =
     attempt (form_body request) (\<lambda>body. do {
       let params = parseQueryParams body;
       ok \<leftarrow> State (\<lambda>st. signup K st (hdr params ''username'') (hdr params ''password''));
       let html = ''<html><body><h1>Signed up!</h1>'' @ ''<a href='/login.html'>Login</a></body></html>'';
       answer
         (if ok then head_or_body isHead ''200 OK'' html html
          else httpResponse ''409 Conflict''
            (''<html><body><h1>User exists</h1>'' @ ''<a href='/login.html'>Login</a></body></html>'')) })"

definition change_password :: "'st kv_ops \<Rightarrow> bool \<Rightarrow> string \<Rightarrow> ('st, reply) state" where
  "change_password K isHead request =
     attempt (form_body request) (\<lambda>body. do {
       let p = parseQueryParams body;
       response \<leftarrow> State (\<lambda>st. changePassword K st (hdr p ''username'') (hdr p ''old_password'') (hdr p ''new_password''));
       let changed = ''<html><body><h1>Password changed</h1>'' @ ''<a href='/login.html'>Login</a></body></html>'';
       let unknown = ''<html><body>User not found</body></html>'';
       let wrong = ''<html><body>Wrong old password</body></html>'';
       answer
         (if response = 0 then head_or_body isHead ''200 OK'' changed changed
          else if response = 1 then head_or_body isHead ''404 Not Found'' unknown unknown
          else if response = 2 then head_or_body isHead ''401 Unauthorized'' wrong wrong
          else head_or_body isHead ''503 Service Unavailable'' service_down wrong) })"

definition log_out :: "'st kv_ops \<Rightarrow> bool \<Rightarrow> string \<Rightarrow> ('st, reply) state" where
  "log_out K isHead request = do {
     let session_id = extractSessionId request;
     username \<leftarrow> getUsernameFromSession K session_id;
     handleLogout K session_id;
     let html = ''<html><body><h1>Logged out successfully!</h1>'' @ ''<a href='/login.html'>Login</a></body></html>'';
     answer (head_or_body isHead ''200 OK'' html html) }"

text \<open>Handlers for which the session must be that of a user, or of the admin.\<close>

definition with_user :: "'st kv_ops \<Rightarrow> string \<Rightarrow> string \<Rightarrow> (string \<Rightarrow> ('st, reply) state) \<Rightarrow> ('st, reply) state" where
  "with_user K request refusal f = do {
     username \<leftarrow> getUsernameFromSession K (extractSessionId request);
     if username = [] then answer refusal else f username }"

definition as_admin :: "'st kv_ops \<Rightarrow> string \<Rightarrow> ('st, reply) state \<Rightarrow> ('st, reply) state" where
  "as_admin K request m = do {
     username \<leftarrow> getUsernameFromSession K (extractSessionId request);
     if username = [] \<or> username \<noteq> ''admin'' then answer (httpResponse ''401 Unauthorized'' admin_only) else m }"

definition admin_dashboard :: "'st kv_ops \<Rightarrow> 'st admin_ops \<Rightarrow> http_env \<Rightarrow> string \<Rightarrow> ('st, reply) state" where
  "admin_dashboard K A env request =
     as_admin K request (and_then (home A (balancer env)) (\<lambda>html. answer (httpResponse ''200 OK'' html)))"

definition worker_status :: "'st admin_ops \<Rightarrow> http_env \<Rightarrow> ('st, reply) state" where
  "worker_status A env =
     and_then (fetchWorkerStatuses A (balancer env)) (\<lambda>json.
       answer (buildHttpHeader ''200 OK'' ''application/json'' (length json) [] @ json))"

text \<open>\<^verbatim>\<open>request[pos] - '0'\<close> on a signed \<^verbatim>\<open>char\<close>; the position one past the end reads a zero.\<close>

definition char_digit :: "string \<Rightarrow> nat \<Rightarrow> int" where
  "char_digit request pos =
     (let n = (if pos < length request then of_char (request ! pos) else 0) :: int
      in (if 128 \<le> n then n - 256 else n) - 48)"

definition backend_page ::
  "platform \<Rightarrow> 'st admin_ops \<Rightarrow> http_env \<Rightarrow> string \<Rightarrow> ('st, reply) state" where
  "backend_page P A env request =
     (let worker_id = char_digit request (npos_plus (str_find request ''worker='' 0) 7)
      in case str_find request ''&tablet='' 0 of
           Some tabletPos \<Rightarrow>
             and_then (tabletPage P A (rands env) worker_id (char_digit request (tabletPos + 8)))
               (\<lambda>html. answer (httpResponse ''200 OK'' html))
         | None \<Rightarrow> answer (httpResponse ''200 OK'' (workerPage worker_id)))"

definition admin_toggle :: "'st kv_ops \<Rightarrow> 'st admin_ops \<Rightarrow> string \<Rightarrow> ('st, reply) state" where
  "admin_toggle K A request =
     as_admin K request
       (let params = parseQueryParams (post_data request)
        in and_then (handleToggle A (hdr params ''workerId'') (hdr params ''action'')) (\<lambda>done. answer
             (if done then httpResponse ''200 OK'' []
              else httpResponse ''500 Internal Server Error''
                ''<html><body>Something went wrong on our end!</body></html>'')))"

definition frontend_toggle ::
  "'st kv_ops \<Rightarrow> http_env \<Rightarrow> string list \<Rightarrow> string \<Rightarrow> ('st, reply) state" where
  "frontend_toggle K env socket request =
     as_admin K request
       (attempt (readRequestBody socket request (str_find request (crlf @ crlf) 0)) (\<lambda>postData.
          let params = parseQueryParams postData
          in answer
             (if handleFrontendToggle (shell env) (hdr params ''port'') (hdr params ''action'')
              then httpResponse ''200 OK'' ''Success''
              else httpResponse ''500 Internal Server Error''
                ''<html><body>Failed to toggle frontend.</body></html>'')))"

definition inbox_query :: "string \<Rightarrow> string \<Rightarrow> string" where
  "inbox_query username request =
     (case url_query (request_url request) of
        None \<Rightarrow> ''username='' @ username
      | Some q \<Rightarrow> if contains q ''username='' then q else q @ ''&username='' @ username)"

definition inbox :: "'st kv_ops \<Rightarrow> http_env \<Rightarrow> string \<Rightarrow> ('st, reply) state" where
  "inbox K env request = do {
     let session_id = extractSessionId request;
     username \<leftarrow> getUsernameFromSession K session_id;
     handleEmailService K env session_id ''/inbox'' ''GET'' (inbox_query username request) [] }"

text \<open>Web pages: fewer than three words in the request line is an access outside of the vector.\<close>

definition no_page :: string where
  "no_page = ''HTTP/1.1 404 Not Found'' @ crlf @ ''Content-Type: text/plain'' @ crlf @
     ''Content-Length: 0'' @ crlf @ ''Connection: keep-alive'' @ crlf @ crlf"

definition get_page :: "http_env \<Rightarrow> string \<Rightarrow> ('st, reply) state" where
  "get_page env request =
     (case getlines CHR '' '' (first_line request) of
        method # target # version # _ \<Rightarrow>
          (let path0 = (case str_find target ''/'' 0 of None \<Rightarrow> ''/'' | Some k \<Rightarrow> drop k target);
               path = ''../frontend/web_pages'' @ (if path0 = ''/'' then ''/index.html'' else path0);
               content = page_file env path
           in answer
             (if content = [] then no_page
              else ''HTTP/1.1 200 OK'' @ crlf @ ''content-type: '' @ get_content_type path @ crlf @
                   ''content-length: '' @ nat_string (length content) @ crlf @
                   ''Connection: keep-alive'' @ crlf @ crlf @ content))
      | _ \<Rightarrow> State_Monad.return (Throws Wild_access))"

definition head_page :: "http_env \<Rightarrow> string \<Rightarrow> ('st, reply) state" where
  "head_page env request =
     (case getlines CHR '' '' (first_line request) of
        method # target # version # _ \<Rightarrow>
          (let path0 = (if contains target ''/'' then target else ''/'');
               path = ''../frontend/web_pages'' @ (if path0 = ''/'' then ''/index.html'' else path0);
               content = page_file env path
           in answer
             (if content = [] then no_page
              else ''HTTP/1.1 200 OK'' @ crlf @ ''Content-Type: '' @ get_content_type path @ crlf @
                   ''Content-Length: '' @ nat_string (length content) @ crlf @
                   ''Connection: keep-alive'' @ crlf @ crlf))
      | _ \<Rightarrow> State_Monad.return (Throws Wild_access))"

section \<open>Routing\<close>

abbreviation mentions :: "string \<Rightarrow> string list \<Rightarrow> bool" where
  "mentions request \<equiv> list_ex (contains request)"

abbreviation starts :: "string \<Rightarrow> string list \<Rightarrow> bool" where
  "starts request \<equiv> list_ex (\<lambda>pat. prefix pat request)"

text \<open>The storage requests, each for the user of the session; \<open>n\<close> is the fuel of the storage service.\<close>

definition storage_route ::
  "nat \<Rightarrow> 'st kv_ops \<Rightarrow> string list \<Rightarrow> bool \<Rightarrow> string \<Rightarrow> ('st, reply) state option" where
  "storage_route n K socket isHead request =
     (let refusal = head_or_body isHead ''401 Unauthorized'' please_login please_login;
          refusal' = httpResponse ''401 Unauthorized'' please_login
      in if mentions request [''GET /storage'', ''GET /list''] then
           Some (with_user K request refusal (\<lambda>u. reply_page (webStorageList K u request)))
         else if starts request [''GET /deleteStorage'', ''HEAD /deleteStorage''] then
           Some (with_user K request refusal (\<lambda>u. reply_page (webStorageDelete n K u request)))
         else if starts request [''GET /renameFolder'', ''POST /renameFolder'', ''HEAD /renameFolder''] then
           Some (with_user K request refusal (\<lambda>u. reply_page (webStorageRenameFolder n K u socket request)))
         else if starts request [''GET /rename'', ''POST /rename'', ''HEAD /rename''] then
           Some (with_user K request refusal (\<lambda>u. reply_page (webStorageRenameFile K u socket request)))
         else if starts request [''POST /moveFile'', ''GET /moveFile''] then
           Some (with_user K request refusal' (\<lambda>u. reply_page (webStorageMoveFile n K u socket request)))
         else if starts request [''POST /moveFolder'', ''GET /moveFolder''] then
           Some (with_user K request refusal' (\<lambda>u. reply_page (webStorageMoveFolder n K u socket request)))
         else if mentions request [''POST /createSubFolder'', ''HEAD /createSubFolder''] then
           Some (with_user K request refusal (\<lambda>u. reply_page (webStorageCreateFolder K u socket request)))
         else if mentions request [''POST /upload'', ''HEAD /upload''] then
           Some (with_user K request refusal (\<lambda>u. reply_page (webStorageUpload n K u socket request)))
         else if mentions request [''GET /download'', ''HEAD /download''] then
           Some (with_user K request refusal (\<lambda>u. reply_page (webStorageDownload K u request)))
         else None)"

text \<open>The mail requests.\<close>

definition email_route :: "'st kv_ops \<Rightarrow> http_env \<Rightarrow> string \<Rightarrow> ('st, reply) state option" where
  "email_route K env request =
     (let sid = extractSessionId request
      in if contains request ''GET /email'' \<and> \<not> contains request ''GET /email.html'' then
           Some (handleEmailService K env sid ''/email'' ''GET'' (query_of request) [])
         else if contains request ''/delete'' then
           Some (handleEmailService K env sid ''/delete'' ''POST'' (query_of request) [])
         else if contains request ''POST /send'' then
           Some (handleEmailService K env sid ''/send'' ''POST'' [] (post_data request))
         else if contains request ''GET /compose'' then
           Some (handleEmailService K env sid ''/compose'' ''GET'' (query_of request) [])
         else if mentions request [''/inbox'', ''/email.html''] then Some (inbox K env request)
         else if contains request ''GET /reply'' then
           Some (handleEmailService K env sid ''/reply'' ''GET'' (query_of request) [])
         else if contains request ''GET /forward'' then
           Some (handleEmailService K env sid ''/forward'' ''GET'' (query_of request) [])
         else None)"

text \<open>The accounts, the admin console, and what is left.\<close>

definition account_route :: "'st kv_ops \<Rightarrow> http_env \<Rightarrow> bool \<Rightarrow> string \<Rightarrow> ('st, reply) state option" where
  "account_route K env isHead request =
     (if mentions request [''POST /credentials'', ''HEAD /credentials''] then Some (login K env request)
      else if mentions request [''POST /signup'', ''HEAD /signup''] then Some (sign_up K isHead request)
      else if mentions request [''POST /changepassword'', ''HEAD /changepassword''] then
        Some (change_password K isHead request)
      else if mentions request [''GET /logout'', ''HEAD /logout''] then Some (log_out K isHead request)
      else None)"

definition admin_route ::
  "platform \<Rightarrow> 'st kv_ops \<Rightarrow> 'st admin_ops \<Rightarrow> http_env \<Rightarrow> string \<Rightarrow> ('st, reply) state option" where
  "admin_route P K A env request =
     (if contains request ''GET /admin/dashboard'' then Some (admin_dashboard K A env request)
      else if contains request ''GET /admin/worker-status'' then Some (worker_status A env)
      else if contains request ''GET /admin/backend?worker='' then Some (backend_page P A env request)
      else if contains request ''POST /admin/toggle'' then Some (admin_toggle K A request)
      else None)"

definition page_route ::
  "'st kv_ops \<Rightarrow> http_env \<Rightarrow> string list \<Rightarrow> string \<Rightarrow> ('st, reply) state" where
  "page_route K env socket request =
     (if contains request ''HEAD /health'' then
        answer (''HTTP/1.1 200 OK'' @ crlf @ ''Content-Length: 2'' @ crlf @ crlf)
      else if contains request ''POST /admin/frontend-toggle'' then frontend_toggle K env socket request
      else if contains request ''GET'' then get_page env request
      else if contains request ''HEAD'' then head_page env request
      else answer (''HTTP/1.1 405 Method Not Allowed'' @ crlf @ ''Connection: keep-alive'' @ crlf @ crlf))"

definition handle_request ::
  "platform \<Rightarrow> nat \<Rightarrow> 'st kv_ops \<Rightarrow> 'st admin_ops \<Rightarrow> http_env \<Rightarrow> string list \<Rightarrow> string \<Rightarrow> ('st, reply) state" where
  "handle_request P n K A env socket request =
     (let isHead = contains request ''HEAD /''
      in case account_route K env isHead request of Some m \<Rightarrow> m
       | None \<Rightarrow> (case admin_route P K A env request of Some m \<Rightarrow> m
       | None \<Rightarrow> (case storage_route n K socket isHead request of Some m \<Rightarrow> m
       | None \<Rightarrow> (case email_route K env request of Some m \<Rightarrow> m
       | None \<Rightarrow> page_route K env socket request))))"

section \<open>Connections\<close>

text \<open>
  One turn of the loop receives at most 1999 bytes and treats them as a C string. The input of a
  connection is, for each turn, what \<^verbatim>\<open>recv\<close> returns, what the handlers read from the socket after it, and the
  environment. The result has the responses, the mails, and how the loop ended: an exception ends
  the whole process.
\<close>

definition received :: "string \<Rightarrow> string" where
  "received bytes = takeWhile (\<lambda>c. c \<noteq> CHR 0x00) (take 1999 bytes)"

fun client_connection ::
  "platform \<Rightarrow> nat \<Rightarrow> 'st kv_ops \<Rightarrow> 'st admin_ops \<Rightarrow> (string \<times> string list \<times> http_env) list
     \<Rightarrow> ('st, (string list \<times> string list) \<times> unit outcome) state" where
  "client_connection P n K A [] = State_Monad.return (([], []), Returns ())"
| "client_connection P n K A ((bytes, socket, env) # turns) =
     (if bytes = [] \<or> extractConnectionHeader (received bytes) \<noteq> ''keep-alive''
      then State_Monad.return (([], []), Returns ())
      else do {
        r \<leftarrow> handle_request P n K A env socket (received bytes);
        (case r of
           Returns (res, mails) \<Rightarrow> do {
             rest \<leftarrow> client_connection P n K A turns;
             State_Monad.return ((res # fst (fst rest), mails @ snd (fst rest)), snd rest) }
         | Throws e \<Rightarrow> State_Monad.return (([], []), Throws e)
         | Diverges \<Rightarrow> State_Monad.return (([], []), Diverges)) })"

text \<open>The tables of open connections.\<close>

record connections =
  sockets_active :: "int list"
  buffer_clients :: "int \<rightharpoonup> string"

definition accept_client :: "int \<Rightarrow> connections \<Rightarrow> connections" where
  "accept_client client s = s\<lparr>sockets_active := sockets_active s @ [client]\<rparr>"

definition record_input :: "int \<Rightarrow> string \<Rightarrow> connections \<Rightarrow> connections" where
  "record_input client bytes s =
     s\<lparr>buffer_clients := (buffer_clients s)(client \<mapsto>
         (case buffer_clients s client of None \<Rightarrow> [] | Some b \<Rightarrow> b) @ received bytes)\<rparr>"

definition remove_client_connection :: "int \<Rightarrow> connections \<Rightarrow> connections" where
  "remove_client_connection client s =
     s\<lparr>buffer_clients := (buffer_clients s)(client := None),
       sockets_active := filter (\<lambda>c. c \<noteq> client) (sockets_active s)\<rparr>"

definition server_shutdown :: "connections \<Rightarrow> (int \<times> string) list \<times> connections" where
  "server_shutdown s =
     (map (\<lambda>client. (client, ''HTTP/1.1 503 Server shutting down'' @ crlf)) (sockets_active s),
      s\<lparr>sockets_active := [], buffer_clients := Map.empty\<rparr>)"

end
