(* ===== verification/Row_Store.thy ===== *)
theory Row_Store
  imports Storage_Service
begin

text \<open>
  The storage service works on one row of the store at a time, relies on the text of the error for a
  missing cell, and its loops end because a row is finite. The locale \<open>row_store\<close> adds these laws to
  \<open>kv_service\<close>; its rules step through programs on the contents \<open>f\<close> of one row.
\<close>

section \<open>The interface\<close>

definition missing_string :: "string \<Rightarrow> bool" where
  "missing_string v \<longleftrightarrow> is_err v \<and> contains v ''not found'' \<and> CHR '','' \<notin> set v \<and> CHR ''/'' \<notin> set v"

definition cell :: "string option \<Rightarrow> string \<Rightarrow> bool" where
  "cell x v = (case x of None \<Rightarrow> missing_string v | Some w \<Rightarrow> v = w)"

lemma cell_simps [simp]: "cell None v = missing_string v" "cell (Some w) v = (v = w)"
  by (simp_all add: cell_def)

lemma is_err_markers [simp]: "\<not> is_err ''KV-File''" "\<not> is_err ''KV-Folder''" "\<not> is_err ''DEL KV-Folder''" "\<not> is_err []"
  by (simp_all add: is_err_prefix)

lemma missing_string_facts:
  "missing_string v \<Longrightarrow> is_err v" "missing_string v \<Longrightarrow> contains v ''not found''"
  "missing_string v \<Longrightarrow> v \<noteq> []"
  by (auto simp: missing_string_def)

lemma cell_eq: "cell x v \<Longrightarrow> \<not> is_err w \<Longrightarrow> v = w \<longleftrightarrow> x = Some w"
  using missing_string_facts(1) by (cases x) auto

text \<open>The state where the map is \<open>M\<close> except for the row, which is \<open>f\<close>.\<close>

definition row_at ::
  "('st \<Rightarrow> bool) \<Rightarrow> ('st \<Rightarrow> db) \<Rightarrow> ('st \<Rightarrow> string \<Rightarrow> string) \<Rightarrow> db \<Rightarrow> (string \<Rightarrow> string) \<Rightarrow> string
     \<Rightarrow> (string \<rightharpoonup> string) \<Rightarrow> 'st \<Rightarrow> bool" where
  "row_at ok contents route M R row f st \<longleftrightarrow> kv_at ok contents route (M(row := f)) R st"

locale row_store = kv_service +
  assumes missing_text: "inv st \<Longrightarrow> contents st r c = None \<Longrightarrow> missing_string (fst (op_get K st (route st r) r c))"
    and finite_row: "inv st \<Longrightarrow> finite (dom (contents st r))"
begin

abbreviation at_row :: "db \<Rightarrow> (string \<Rightarrow> string) \<Rightarrow> string \<Rightarrow> (string \<rightharpoonup> string) \<Rightarrow> 'a \<Rightarrow> bool" where
  "at_row M R row f \<equiv> row_at inv contents route M R row f"

lemma at_row_start: "inv st \<Longrightarrow> at_row (contents st) (route st) row (contents st row) st"
  by (simp add: row_at_def kv_at_def)

lemma at_row_eq: "at_row M R row f = at (M(row := f)) R"
  by (simp add: row_at_def fun_eq_iff)

lemma step_row_get:
  assumes "\<And>v. cell (f col) v \<Longrightarrow> triple (at_row M R row f) (g v) C"
  shows "triple (at_row M R row f) (State_Monad.bind (kv_get K (R row) row col) g) C"
proof -
  have "triple (at_row M R row f) (kv_get K (R row) row col) (\<lambda>v st. cell (f col) v \<and> at_row M R row f st)"
    unfolding triple_def
  proof (intro allI impI)
    fix st assume st: "at_row M R row f st"
    have s: "run_state (kv_get K (R row) row col) st = op_get K st (route st row) row col"
      using st by (simp add: kv_get_def row_at_def kv_at_def)
    have "contents st row col = f col" using st by (simp add: row_at_def kv_at_def)
    then show "cell (f col) (fst (run_state (kv_get K (R row) row col) st)) \<and>
        at_row M R row f (snd (run_state (kv_get K (R row) row col) st))"
      using missing_text [of st row col] get_hit [of st row col] get_keeps st
      unfolding s by (cases "f col") (auto simp: row_at_def kv_at_def)
  qed
  then show ?thesis by (rule triple_bind) (rule triple_pure, rule assms)
qed

lemma row_upd: "db_set (M(row := f)) row c v = M(row := f(c := v))"
  by (auto simp: db_set_def fun_eq_iff)

lemma step_row_put:
  assumes "triple (at_row M R row (f(col \<mapsto> v))) (g ''PUT Successful'') C"
  shows "triple (at_row M R row f) (State_Monad.bind (kv_put K (R row) row col v) g) C"
  using assms unfolding at_row_eq by (intro step_put) (simp add: row_upd)

lemma step_row_delete:
  assumes "triple (at_row M R row (f(col := None))) (g ''Delete Successful'') C"
  shows "triple (at_row M R row f) (State_Monad.bind (kv_delete K (R row) row col) g) C"
  using assms unfolding at_row_eq by (intro step_delete) (simp add: row_upd)

lemma step_row_cput:
  assumes "\<And>res. triple (at_row M R row (if f col = Some cur then f(col \<mapsto> new) else f)) (g res) C"
  shows "triple (at_row M R row f) (State_Monad.bind (kv_cput K (R row) row col cur new) g) C"
proof -
  let ?f = "if f col = Some cur then f(col \<mapsto> new) else f"
  have "triple (at_row M R row f) (kv_cput K (R row) row col cur new) (\<lambda>res. at_row M R row ?f)"
    by (auto simp: triple_def kv_cput_def row_at_def kv_at_def row_upd)
  then show ?thesis by (rule triple_bind) (rule assms)
qed

lemmas row_steps = step_row_get step_row_put step_row_delete step_row_cput

lemma step_marker:
  assumes "\<not> is_err w" "f col = Some w \<Longrightarrow> triple (at_row M R row f) A C"
    "f col \<noteq> Some w \<Longrightarrow> triple (at_row M R row f) B C"
  shows "triple (at_row M R row f) (do { v \<leftarrow> kv_get K (R row) row col; if v = w then A else B }) C"
    and "triple (at_row M R row f) (do { v \<leftarrow> kv_get K (R row) row col; if v \<noteq> w then B else A }) C"
  by (rule step_row_get, use cell_eq [OF _ assms(1)] assms(2,3) in auto)+

lemma and_then_bind: "State_Monad.bind m (\<lambda>v. and_then (g v) h) = and_then (State_Monad.bind m g) h"
  by (simp add: and_then_def)

lemma triple_and_then:
  assumes "triple A m (\<lambda>r st. \<exists>x. r = Returns x \<and> B x st)" and "\<And>x. triple (B x) (g x) C"
  shows "triple A (and_then m g) C"
proof -
  have "triple (\<lambda>st. \<exists>x. r = Returns x \<and> B x st) (attempt r g) C" for r
    using assms(2) by (cases r) (auto simp: triple_def)
  with assms(1) show ?thesis unfolding and_then_def by (rule triple_bind)
qed

lemma triple_and_then_pure:
  assumes "triple A m (\<lambda>r st. r = Returns x \<and> B st)" and "triple B (g x) C"
  shows "triple A (and_then m g) C"
  using assms(1) by (rule triple_and_then [OF triple_weaken, where B = "\<lambda>y st. y = x \<and> B st"])
    (auto intro!: triple_pure assms(2))

lemma triple_for_each:
  assumes "\<And>x f. x \<in> set xs \<Longrightarrow> I f \<Longrightarrow> I (g x f) \<and>
    triple (at_row M R row f) (h x) (\<lambda>r st. r = Returns () \<and> at_row M R row (g x f) st)"
  shows "I f \<Longrightarrow> triple (at_row M R row f) (for_each h xs)
    (\<lambda>r st. r = Returns () \<and> at_row M R row (fold g xs f) st)"
  using assms
proof (induction xs arbitrary: f)
  case (Cons x xs)
  have x: "I (g x f)" "triple (at_row M R row f) (h x) (\<lambda>r st. r = Returns () \<and> at_row M R row (g x f) st)"
    using Cons.prems(2) [of x f] Cons.prems(1) by auto
  have "triple (at_row M R row (g x f)) (for_each h xs)
      (\<lambda>r st. r = Returns () \<and> at_row M R row (fold g xs (g x f)) st)"
    using Cons.IH [OF x(1)] Cons.prems(2) by simp
  then show ?case
    unfolding for_each.simps fold_simps by (rule triple_and_then_pure [OF x(2)])
qed (simp add: triple_return)

lemma triple_with_storage:
  assumes "triple (at M R) (h (R (u @ ''-storage'')) (u @ ''-storage'')) C"
  shows "triple (at M R) (with_storage K u h) C"
  unfolding with_storage_def Let_def using assms by (intro step_lookup) simp

lemma with_storage_row:
  assumes "triple (at_row M R (u @ ''-storage'') (M (u @ ''-storage''))) (h (R (u @ ''-storage'')) (u @ ''-storage'')) C"
  shows "triple (at M R) (with_storage K u h) C"
  using assms by (intro triple_with_storage) (simp add: at_row_eq)

lemma at_row_end:
  assumes "at_row M R row g st"
  shows "inv st" "contents st row = g" "r \<noteq> row \<Longrightarrow> contents st r = M r" "route st = R"
  using assms by (simp_all add: row_at_def kv_at_def)

lemma run_on_row:
  assumes "triple (at_row (contents st) (route st) row (contents st row)) m
      (\<lambda>r st. \<exists>g. Q r g \<and> at_row M R row g st)" "inv st" "run_state m st = (r, st')"
    "M = contents st" "R = route st"
  shows "Q r (contents st' row) \<and> inv st' \<and> route st' = route st \<and> (\<forall>r. r \<noteq> row \<longrightarrow> contents st' r = contents st r)"
proof -
  obtain g where "Q r g" "at_row (contents st) (route st) row g st'"
    using tripleD [OF assms(1) at_row_start [OF assms(2)]] assms(3-5) by auto
  then show ?thesis using at_row_end [of "contents st" "route st" row g st'] by auto
qed

end

section \<open>The cluster implements it\<close>

lemma contains_append: "contains (xs @ pat @ ys) pat"
  by (auto simp: contains_sublist)

lemma missing_err_string:
  assumes "msg = ''Row key not found'' \<or> msg = ''Column key not found''"
  shows "missing_string (err_string P code msg)"
proof -
  have d: "c \<in> set (to_string (error_code P code)) \<Longrightarrow> c = CHR ''-'' \<or> is_digit c" for c
    using nat_string_digits by (auto simp: to_string_def split: if_splits)
  have "\<exists>xs ys. err_string P code msg = xs @ ''not found'' @ ys"
    using assms
  proof
    assume "msg = ''Row key not found''"
    then have "err_string P code msg = (''ERR '' @ to_string (error_code P code) @ '': Row key '') @ ''not found'' @ [LF]"
      by (simp add: err_string_def)
    then show ?thesis by blast
  next
    assume "msg = ''Column key not found''"
    then have "err_string P code msg = (''ERR '' @ to_string (error_code P code) @ '': Column key '') @ ''not found'' @ [LF]"
      by (simp add: err_string_def)
    then show ?thesis by blast
  qed
  then have "contains (err_string P code msg) ''not found''" using contains_append by metis
  moreover have "CHR '','' \<notin> set (err_string P code msg)" "CHR ''/'' \<notin> set (err_string P code msg)"
    using assms d [of "CHR '',''"] d [of "CHR ''/''"] by (auto simp: err_string_def is_digit_def)
  ultimately show ?thesis by (simp add: missing_string_def err_string_def is_err_prefix)
qed

lemma healthy_missing:
  assumes "healthy cl" "db P cl r c = None"
  shows "missing_string (fst (client_Get P cl (cluster_route P cl r) r c))"
proof -
  obtain i where i: "cluster_route P cl r = worker_addr i" "i \<in> set (holders (tablet_of P r))"
      "serving cl i" "reach cl (worker_addr i) = Some i"
    using healthy_first [OF assms(1), of P r] .
  let ?w = "workers cl i"
  obtain k where k: "getTabletSlot i (tablet_of P r) = Some k"
    using holder_slot [OF tablet_of_range i(2)] .
  have w: "workerId ?w = i" "admin_workerUp ?w"
    using healthy_view(1) [OF assms(1)] i(3) holders_range [OF tablet_of_range i(2)]
    by (auto simp: cluster_wf_def serving_def)
  have "fst (Get P ?w r c) \<noteq> OK"
    using Get_held(2) [OF healthy_view(1) [OF assms(1)] i(3,2), of c]
      db_held [OF healthy_view(2) [OF assms(1)] i(3,2)] assms(2) by simp
  then have "\<exists>msg. fst (Get P ?w r c) = Failed NOT_FOUND msg \<and>
      (msg = ''Row key not found'' \<or> msg = ''Column key not found'')"
    using w k by (auto simp: Get_def split: option.splits)
  moreover have "fst (client_Get P cl (cluster_route P cl r) r c) =
      client_result P (fst (Get P ?w r c)) (snd (snd (Get P ?w r c)))"
    by (simp add: client_Get_def worker_rpc_def i case_prod_beta Let_def)
  ultimately show ?thesis using missing_err_string by auto
qed

lemma finite_tablet_find: "finite (dom (tablet_find t r))"
proof -
  have "dom (tablet_find t r) \<subseteq> (case map_of t r of None \<Rightarrow> {} | Some cols \<Rightarrow> dom (map_of cols))"
    by (auto simp: tablet_find_def split: option.splits)
  then show ?thesis by (rule finite_subset) (auto simp: finite_dom_map_of split: option.split)
qed

lemma finite_db_row: "finite (dom (db P cl r))"
proof -
  have "finite (dom (held cl i t r))" for i t
    using finite_tablet_find by (simp add: held_def dom_def split: option.split)
  then show ?thesis
    by (cases "first_serving cl (tablet_of P r)") (simp_all add: db_def [abs_def] Let_def dom_def)
qed

interpretation rs: row_store "cluster_ops P" healthy "db P" "cluster_route P" for P
  by unfold_locales (simp_all add: cluster_ops_def healthy_missing finite_db_row)

end
