(* ===== verification/Storage_Files.thy ===== *)
theory Storage_Files
  imports Row_Store
begin

text \<open>
  Files in a row: what uploading stores, what downloading reads back, and how a file's columns move.
  \<open>stored\<close> and \<open>moved\<close> are the effect on the contents of the row; \<open>file_data\<close> is the file a path has.
\<close>

section \<open>Text\<close>

lemma sublist_sep:
  assumes "c \<notin> set pat"
  shows "sublist pat (xs @ c # ys) \<longleftrightarrow> sublist pat xs \<or> sublist pat ys"
proof -
  have "prefix q (c # ys) \<Longrightarrow> set q \<subseteq> set pat \<Longrightarrow> q = []" for q
    using assms by (cases q) auto
  then show ?thesis
    using assms by (auto simp: sublist_append sublist_Cons_right) (metis Un_upper2 append_Nil2 suffix_imp_sublist)
qed

lemma contains_sep: "c \<notin> set pat \<Longrightarrow> contains (xs @ c # ys) pat \<longleftrightarrow> contains xs pat \<or> contains ys pat"
  by (simp add: contains_sublist sublist_sep)

lemma contains_join:
  "d \<notin> set pat \<Longrightarrow> pat \<noteq> [] \<Longrightarrow> contains (join_with d xs) pat \<longleftrightarrow> (\<exists>x\<in>set xs. contains x pat)"
  by (induction d xs rule: join_with.induct) (auto simp: contains_sep contains_sublist sublist_sep)

lemma contains_subset: "contains s pat \<Longrightarrow> set pat \<subseteq> set s"
  by (auto simp: contains_sublist dest: set_mono_sublist)

lemma digits_only: "c \<in> set (nat_string n) \<Longrightarrow> is_digit c"
  using nat_string_digits by blast

lemma not_digit [simp]: "\<not> is_digit CHR ''-''" "\<not> is_digit CHR '',''" "\<not> is_digit CHR ''n''" "\<not> is_digit CHR ''m''"
  by (simp_all add: is_digit_def)

section \<open>Names\<close>

lemma split_all_chars: "set (concat (split_all d acc s)) \<union> {d} = set acc \<union> set s \<union> {d}"
  by (induction d acc s rule: split_all.induct) auto

lemma valid_name_chars:
  assumes "isValidName s" "c \<in> set s"
  shows "name_char c \<or> c = CHR ''.''"
proof -
  have "c \<in> set (concat (splitString s CHR ''.'')) \<or> c = CHR ''.''"
    using split_all_chars [of "CHR ''.''" "[]" s] assms(2) by (auto simp: splitString_def)
  then show ?thesis using assms(1) by (auto simp: isValidName_def Let_def list_all_iff)
qed

lemma name_char_not [simp]:
  "\<not> name_char CHR ''/''" "\<not> name_char CHR '',''" "\<not> name_char CHR ''-''" "\<not> name_char CHR ''&''"
  "\<not> name_char CHR ''=''" "\<not> name_char CHR 0x27" "\<not> name_char CR" "\<not> name_char LF" "\<not> name_char CHR ''<''"
  "\<not> name_char CHR ''%''" "\<not> name_char CHR ''+''" "\<not> name_char CHR ''.''"
  by (simp_all add: name_char_def)

lemma valid_name_clean:
  assumes "isValidName s"
  shows "CHR ''/'' \<notin> set s" "CHR '','' \<notin> set s" "CHR ''-'' \<notin> set s" "s \<noteq> []"
  using valid_name_chars [OF assms, of "CHR ''/''"] valid_name_chars [OF assms, of "CHR '',''"]
    valid_name_chars [OF assms, of "CHR ''-''"] assms
  by (auto simp: isValidName_def splitString_def)

lemma child_path_chars: "c \<noteq> CHR ''/'' \<Longrightarrow> c \<in> set (child_path folder name) \<longleftrightarrow> c \<in> set folder \<or> c \<in> set name"
  by (auto simp: child_path_def)

lemma upload_request_valid:
  assumes "upload_request socket request = Returns (Inr (folder, name, data))"
  shows "isValidName name"
  using assms
  by (auto simp: upload_request_def Let_def outcome_bind_def split: outcome.splits if_splits option.splits sum.splits)

section \<open>The columns of a file\<close>

definition chunk_name :: "string \<Rightarrow> nat \<Rightarrow> string" where
  "chunk_name path i = path @ ''-'' @ nat_string i"

definition md :: "string \<Rightarrow> string" where "md path = path @ ''-metadata''"
definition ct :: "string \<Rightarrow> string" where "ct name = name @ ''-content''"

lemma nat_string_Cons: "\<exists>c cs. nat_string n = c # cs \<and> is_digit c"
  using nat_string_not_Nil [of n] digits_only [of _ n] by (cases "nat_string n") auto

lemma md_ct [simp]: "md p \<noteq> ct q" "ct q \<noteq> md p" "md p \<noteq> p" "ct p \<noteq> p" "p \<noteq> md p" "p \<noteq> ct p"
proof -
  have "last (md p) = CHR ''a''" "last (ct q) = CHR ''t''" by (simp_all add: md_def ct_def)
  then show "md p \<noteq> ct q" "ct q \<noteq> md p" by auto
qed (simp_all add: md_def ct_def)

lemma md_inject [simp]: "md p = md q \<longleftrightarrow> p = q" by (simp add: md_def)
lemma ct_inject [simp]: "ct p = ct q \<longleftrightarrow> p = q" by (simp add: ct_def)

lemma chunk_name_inject [simp]: "chunk_name p i = chunk_name p j \<longleftrightarrow> i = j"
  by (simp add: chunk_name_def)

lemma ct_chunk_path [simp]: "ct (chunk_name p i) \<noteq> p" "p \<noteq> ct (chunk_name p i)"
  by (simp_all add: ct_def chunk_name_def)

lemma append_eq_longer: "xs = xs @ ys \<longleftrightarrow> ys = []" "xs @ ys = xs \<longleftrightarrow> ys = []"
  by auto

lemma split_at:
  assumes "c \<notin> set xs" "c \<notin> set ys" "xs @ c # us = ys @ c # vs"
  shows "xs = ys \<and> us = vs"
  using assms until_char(1,2) [of c xs us] until_char(1,2) [of c ys vs] by (metis list.inject)

lemma chunk_name_path:
  "CHR ''-'' \<notin> set p \<Longrightarrow> CHR ''-'' \<notin> set q \<Longrightarrow> chunk_name p i = chunk_name q j \<longleftrightarrow> p = q \<and> i = j"
  using split_at [of "CHR ''-''" p q "nat_string i" "nat_string j"] by (auto simp: chunk_name_def)

lemma chunk_name_contains: "contains (chunk_name p i) ''not found'' \<longleftrightarrow> contains p ''not found''"
proof -
  have "\<not> contains (nat_string i) ''not found''"
    using contains_subset [of "nat_string i" "''not found''"] digits_only [of "CHR ''n''" i] by auto
  then show ?thesis unfolding chunk_name_def using contains_sep [of "CHR ''-''" "''not found''" p] by simp
qed

lemma chunk_name_comma: "CHR '','' \<in> set (chunk_name p i) \<longleftrightarrow> CHR '','' \<in> set p"
  using digits_only [of "CHR '',''" i] by (auto simp: chunk_name_def)

section \<open>Storing\<close>

function chunks_of :: "string \<Rightarrow> string list" where
  "chunks_of data = (if data = [] then [] else take chunkSize data # chunks_of (drop chunkSize data))"
  by pat_completeness auto
termination by (relation "measure length") auto

declare chunks_of.simps [simp del]

lemma chunks_of_Nil [simp]: "chunks_of [] = []" by (simp add: chunks_of.simps)

lemma concat_chunks_of: "concat (chunks_of data) = data"
  by (induction data rule: chunks_of.induct) (subst chunks_of.simps, simp)

lemma pieces_step:
  assumes "0 < c" "0 < (n :: nat)"
  shows "Suc ((n - c + (c - 1)) div c) = (n + (c - 1)) div c"
proof -
  have e: "(n - c + (c - 1)) div c = (n - 1) div c"
  proof (cases "c \<le> n")
    case True
    then have "n - c + (c - 1) = n - 1" using assms by simp
    then show ?thesis by simp
  next
    case False
    then show ?thesis using assms by simp
  qed
  have m: "n + (c - 1) = (n - 1) + c" using assms by simp
  show ?thesis unfolding e m using assms(1) div_add_self2 [of c "n - 1"] by simp
qed

lemma chunks_of_length: "length (chunks_of data) = (length data + (chunkSize - 1)) div chunkSize"
proof (induction data rule: chunks_of.induct)
  case (1 data)
  show ?case
  proof (cases "data = []")
    case False
    then have "length (chunks_of data) = Suc ((length data - chunkSize + (chunkSize - 1)) div chunkSize)"
      using 1 by (subst chunks_of.simps) simp
    then show ?thesis using pieces_step [of chunkSize "length data"] False by simp
  qed simp
qed

lemma chunks_of_nth: "i < length (chunks_of data) \<Longrightarrow> chunks_of data ! i = take chunkSize (drop (i * chunkSize) data)"
proof (induction data arbitrary: i rule: chunks_of.induct)
  case (1 data)
  show ?case
  proof (cases "data = []")
    case False
    then have c: "chunks_of data = take chunkSize data # chunks_of (drop chunkSize data)"
      by (subst chunks_of.simps) simp
    show ?thesis
    proof (cases i)
      case (Suc j)
      then have "j < length (chunks_of (drop chunkSize data))" using 1(2) c by simp
      then show ?thesis using 1(1) [OF False] Suc c by (simp add: add.commute)
    qed (simp add: c)
  qed (use 1(2) in simp)
qed

definition names_from :: "string \<Rightarrow> nat \<Rightarrow> nat \<Rightarrow> string list" where
  "names_from path i n = map (chunk_name path) [i..<i + n]"

lemma names_from_Suc: "names_from path i (Suc n) = chunk_name path i # names_from path (Suc i) n"
  by (simp add: names_from_def upt_conv_Cons)

lemma names_from_nth [simp]:
  "length (names_from path i n) = n" "k < n \<Longrightarrow> names_from path i n ! k = chunk_name path (i + k)"
  by (simp_all add: names_from_def)

fun put_chunks :: "string \<Rightarrow> nat \<Rightarrow> string list \<Rightarrow> (string \<rightharpoonup> string) \<Rightarrow> (string \<rightharpoonup> string)" where
  "put_chunks path i [] f = f"
| "put_chunks path i (c # cs) f =
     put_chunks path (Suc i) cs
       (f(md path \<mapsto> (case f (md path) of None \<Rightarrow> chunk_name path i | Some m \<Rightarrow>
            if contains m ''not found'' then chunk_name path i else m @ '','' @ chunk_name path i),
          ct (chunk_name path i) \<mapsto> c))"

lemma put_chunks_frame:
  "col \<noteq> md path \<Longrightarrow> (\<forall>j. col \<noteq> ct (chunk_name path j)) \<Longrightarrow> put_chunks path i cs f col = f col"
  by (induction cs arbitrary: i f) auto

lemma put_chunks_earlier: "j < i \<Longrightarrow> put_chunks path i cs f (ct (chunk_name path j)) = f (ct (chunk_name path j))"
  by (induction cs arbitrary: i f) auto

lemma put_chunks_content:
  "k < length cs \<Longrightarrow> put_chunks path i cs f (ct (chunk_name path (i + k))) = Some (cs ! k)"
proof (induction cs arbitrary: i f k)
  case (Cons c cs)
  show ?case
  proof (cases k)
    case 0
    then show ?thesis by (simp add: put_chunks_earlier)
  next
    case (Suc k')
    then show ?thesis using Cons.IH [of k' "Suc i"] Cons.prems by simp
  qed
qed simp

lemma put_chunks_md:
  assumes "\<not> contains path ''not found''"
  shows "f (md path) = Some (join_with CHR '','' ns) \<Longrightarrow> ns \<noteq> [] \<Longrightarrow>
      \<forall>n\<in>set ns. \<not> contains n ''not found'' \<Longrightarrow>
    put_chunks path i cs f (md path) = Some (join_with CHR '','' (ns @ names_from path i (length cs)))"
proof (induction cs arbitrary: i f ns)
  case Nil
  then show ?case by (simp add: names_from_def)
next
  case (Cons c cs)
  have j: "join_with d ns @ d # x = join_with d (ns @ [x])" if "ns \<noteq> []" for d x and ns :: "string list"
    using that by (induction d ns rule: join_with.induct) auto
  have "\<not> contains (join_with CHR '','' ns) ''not found''"
    using Cons.prems(3) contains_join [of "CHR '',''" "''not found''" ns] by simp
  then show ?case
    using Cons.prems assms j [of ns "CHR '',''" "chunk_name path i"]
      Cons.IH [where ns = "ns @ [chunk_name path i]" and i = "Suc i"]
    by (simp add: names_from_Suc chunk_name_contains)
qed


section \<open>Reading\<close>

definition file_data :: "(string \<rightharpoonup> string) \<Rightarrow> string \<Rightarrow> string option" where
  "file_data f path =
     (case f (md path) of
        None \<Rightarrow> None
      | Some m \<Rightarrow>
          (let cells = map (\<lambda>n. f (ct n)) (splitStringStorage m)
           in if None \<in> set cells then None else Some (concat (map the cells))))"

lemma meta_col_not [simp]:
  "meta_col folder \<noteq> ct n" "ct n \<noteq> meta_col folder" "md (child_path folder name) \<noteq> meta_col folder"
  "meta_col folder \<noteq> md (child_path folder name)"
proof -
  have "last (meta_col folder) = CHR ''a''" "last (ct n) = CHR ''t''" by (simp_all add: meta_col_def ct_def)
  then show "meta_col folder \<noteq> ct n" "ct n \<noteq> meta_col folder" by auto
  have "length (md (child_path folder name)) \<noteq> length (meta_col folder)"
    by (simp add: meta_col_def md_def child_path_def)
  then show "md (child_path folder name) \<noteq> meta_col folder" "meta_col folder \<noteq> md (child_path folder name)"
    by metis+
qed

lemma int_size_small: "length data < 2 ^ 31 \<Longrightarrow> int_size data = int (length data)"
  by (simp add: int_size_def)

text \<open>A file as the service stores it: a marker, the list of its chunks, and the chunks.\<close>

definition has_file :: "(string \<rightharpoonup> string) \<Rightarrow> string \<Rightarrow> string \<Rightarrow> bool" where
  "has_file f path data \<longleftrightarrow>
     f path = Some ''KV-File'' \<and>
     (\<exists>n>0. f (md path) = Some (join_comma (names_from path 1 n)) \<and>
        (\<forall>k\<in>{1..n}. f (ct (chunk_name path k)) \<noteq> None) \<and>
        data = concat (map (\<lambda>c. the (f (ct c))) (names_from path 1 n)))"

definition clean_path :: "string \<Rightarrow> bool" where
  "clean_path p \<longleftrightarrow> p \<noteq> [] \<and> CHR '','' \<notin> set p \<and> CHR ''-'' \<notin> set p \<and> \<not> is_err p"

lemma names_from_set: "set (names_from path 1 n) = chunk_name path ` {1..n}"
  by (auto simp: names_from_def)

lemma split_names:
  assumes "CHR '','' \<notin> set path" "0 < n"
  shows "splitStringStorage (join_comma (names_from path i n)) = names_from path i n"
  unfolding splitStringStorage_def
  using assms by (intro splitString_join) (auto simp: names_from_def chunk_name_comma)

lemma has_file_data: "has_file f path data \<Longrightarrow> CHR '','' \<notin> set path \<Longrightarrow> file_data f path = Some data"
proof -
  assume h: "has_file f path data" and c: "CHR '','' \<notin> set path"
  obtain n where n: "0 < n" "f (md path) = Some (join_comma (names_from path 1 n))"
      "\<forall>k\<in>{1..n}. f (ct (chunk_name path k)) \<noteq> None"
      "data = concat (map (\<lambda>c. the (f (ct c))) (names_from path 1 n))"
    using h by (auto simp: has_file_def)
  have "None \<notin> set (map (\<lambda>n. f (ct n)) (names_from path 1 n))"
    unfolding set_map names_from_set using n(3) by force
  then show ?thesis
    unfolding file_data_def n(2) option.case Let_def split_names [OF c n(1)]
    by (simp only: if_False n(4) map_map comp_def)
qed

lemma chunk_list_ok:
  assumes "\<not> is_err path" "0 < n"
  shows "join_comma (names_from path 1 n) \<noteq> []" "\<not> is_err (join_comma (names_from path 1 n))"
proof -
  obtain k where k: "n = Suc k" using assms(2) by (cases n) auto
  have "\<exists>x. join_comma (names_from path 1 n) = path @ CHR ''-'' # x"
    unfolding k names_from_Suc
    by (cases "names_from path (Suc 1) k") (simp_all add: chunk_name_def)
  then show "join_comma (names_from path 1 n) \<noteq> []" "\<not> is_err (join_comma (names_from path 1 n))"
    using assms(1) is_err_sep [of "CHR ''-''"] by auto
qed

definition uploaded ::
  "(string \<rightharpoonup> string) \<Rightarrow> string \<Rightarrow> string \<Rightarrow> string \<Rightarrow> string \<Rightarrow> (string \<rightharpoonup> string)" where
  "uploaded f folder path name data =
     (let g = put_chunks path 1 (chunks_of (take (nat (int_size data)) data)) (f(path \<mapsto> ''KV-File''))
      in case g (meta_col folder) of
           None \<Rightarrow> g
         | Some m \<Rightarrow> g(meta_col folder \<mapsto>
             (if m = [] then path else if name \<in> set (splitStringStorage m) then m else m @ '','' @ path)))"

lemma uploaded_layout:
  assumes "\<not> contains (child_path folder name) ''not found''" "child_path folder name \<noteq> meta_col folder"
    "f (md (child_path folder name)) = None" "data \<noteq> []" "length data < 2 ^ 31"
  shows "uploaded f folder (child_path folder name) name data (md (child_path folder name)) =
      Some (join_comma (names_from (child_path folder name) 1 (length (chunks_of data))))"
    and "j \<in> {1..length (chunks_of data)} \<Longrightarrow>
      uploaded f folder (child_path folder name) name data (ct (chunk_name (child_path folder name) j)) =
        Some (chunks_of data ! (j - 1))"
    and "uploaded f folder (child_path folder name) name data (child_path folder name) = Some ''KV-File''"
proof -
  let ?p = "child_path folder name" and ?cs = "chunks_of data"
  let ?f = "f(?p \<mapsto> ''KV-File'')"
  let ?g = "put_chunks ?p 1 ?cs ?f"
  have g: "uploaded f folder ?p name data col = ?g col" if "col \<noteq> meta_col folder" for col
    using that by (simp add: uploaded_def int_size_small [OF assms(5)] Let_def split: option.split)
  obtain c cs where cs: "?cs = c # cs" using assms(4) chunks_of.simps [of data] by auto
  have "?g (md ?p) = Some (join_comma ([chunk_name ?p 1] @ names_from ?p (Suc 1) (length cs)))"
    unfolding cs put_chunks.simps
    by (rule put_chunks_md [OF assms(1)]) (simp_all add: assms(3) chunk_name_contains assms(1))
  then show "uploaded f folder ?p name data (md ?p) = Some (join_comma (names_from ?p 1 (length ?cs)))"
    unfolding g [OF meta_col_not(3)] by (simp add: cs names_from_Suc)
  show "uploaded f folder ?p name data (ct (chunk_name ?p j)) = Some (?cs ! (j - 1))" if "j \<in> {1..length ?cs}"
    unfolding g [OF meta_col_not(2)] using put_chunks_content [of "j - 1" ?cs ?p 1 ?f] that by auto
  have "?g ?p = Some ''KV-File''" by (subst put_chunks_frame) simp_all
  then show "uploaded f folder ?p name data ?p = Some ''KV-File''" unfolding g [OF assms(2)] .
qed

lemma has_file_uploaded:
  assumes "\<not> contains (child_path folder name) ''not found''" "child_path folder name \<noteq> meta_col folder"
    "f (md (child_path folder name)) = None" "data \<noteq> []" "length data < 2 ^ 31"
  shows "has_file (uploaded f folder (child_path folder name) name data) (child_path folder name) data"
proof -
  let ?p = "child_path folder name" and ?cs = "chunks_of data"
  let ?g = "uploaded f folder ?p name data"
  note layout = uploaded_layout [where f = f and folder = folder and name = name and data = data, OF assms]
  note k = layout(2)
  have "map (\<lambda>c. the (?g (ct c))) (names_from ?p 1 (length ?cs)) = ?cs"
    using k by (intro nth_equalityI) simp_all
  then have d: "data = concat (map (\<lambda>c. the (?g (ct c))) (names_from ?p 1 (length ?cs)))"
    using concat_chunks_of by simp
  have "0 < length ?cs" using assms(4) by (subst chunks_of.simps) simp
  then show ?thesis
    unfolding has_file_def using layout(1,3) k d by (intro conjI exI [of _ "length ?cs"]) auto
qed

section \<open>Moving\<close>

fun shift :: "string \<Rightarrow> string \<Rightarrow> string list \<Rightarrow> (string \<rightharpoonup> string) \<Rightarrow> (string \<rightharpoonup> string)" where
  "shift old new [] f = f"
| "shift old new (c # cs) f =
     shift old new cs (f(ct (new @ drop (length old) c) \<mapsto> the (f (ct c)), ct c := None))"

definition moved :: "(string \<rightharpoonup> string) \<Rightarrow> string \<Rightarrow> string \<Rightarrow> (string \<rightharpoonup> string)" where
  "moved f old new =
     (let names = splitStringStorage (the (f (md old)))
      in (shift old new names f)
           (md new \<mapsto> join_comma (map (\<lambda>c. new @ drop (length old) c) names), md old := None,
            new \<mapsto> ''KV-File'', old := None))"

lemma drop_chunk_name [simp]: "new @ drop (length old) (chunk_name old k) = chunk_name new k"
  by (simp add: chunk_name_def)

lemma shift_frame:
  "\<forall>c\<in>set cs. col \<noteq> ct c \<and> col \<noteq> ct (new @ drop (length old) c) \<Longrightarrow> shift old new cs f col = f col"
  by (induction cs arbitrary: f) auto

lemma shift_names:
  assumes "clean_path old" "clean_path new" "old \<noteq> new"
  shows "k \<in> {i..<i + n} \<Longrightarrow>
    shift old new (names_from old i n) f (ct (chunk_name new k)) = Some (the (f (ct (chunk_name old k))))"
proof (induction n arbitrary: i f)
  case (Suc n)
  have d: "chunk_name old a \<noteq> chunk_name new b" for a b
    using assms chunk_name_path by (simp add: clean_path_def)
  show ?case
  proof (cases "k = i")
    case True
    then show ?thesis using d d [symmetric]
      by (simp add: names_from_Suc, subst shift_frame) (auto simp: names_from_def)
  next
    case False
    then have "k \<in> {Suc i..<Suc i + n}" using Suc.prems by auto
    from Suc.IH [OF this] show ?thesis using d d [symmetric] False by (simp add: names_from_Suc)
  qed
qed simp


definition movable :: "(string \<rightharpoonup> string) \<Rightarrow> string \<Rightarrow> bool" where
  "movable f old \<longleftrightarrow>
     (\<exists>m. f (md old) = Some m \<and> m \<noteq> [] \<and> \<not> is_err m \<and> distinct (splitStringStorage m) \<and>
        (\<forall>c\<in>set (splitStringStorage m). length old \<le> length c \<and> f (ct c) \<noteq> None))"

lemma names_distinct: "distinct (names_from path i n)"
  by (simp add: names_from_def distinct_map inj_on_def)

lemma names_from_member: "c \<in> set (names_from path i n) \<Longrightarrow> length path \<le> length c"
  by (auto simp: names_from_def chunk_name_def)

lemma has_file_movable:
  assumes "has_file f path data" "clean_path path"
  shows "movable f path"
proof -
  obtain n where n: "0 < n" "f (md path) = Some (join_comma (names_from path 1 n))"
      "\<forall>k\<in>{1..n}. f (ct (chunk_name path k)) \<noteq> None"
    using assms(1) by (auto simp: has_file_def)
  have "\<forall>c\<in>set (names_from path 1 n). length path \<le> length c \<and> f (ct c) \<noteq> None"
    using n(3) names_from_member [of _ path 1 n] unfolding names_from_set by blast
  then show ?thesis
    unfolding movable_def
    using n chunk_list_ok [of path n] split_names [of path n 1] names_distinct [of path 1 n] assms(2)
    by (intro exI [of _ "join_comma (names_from path 1 n)"]) (simp only: clean_path_def, simp)
qed

lemma has_file_moved:
  assumes h: "has_file f old data" and c: "clean_path old" "clean_path new" "old \<noteq> new"
  shows "has_file (moved f old new) new data"
proof -
  obtain n where n: "0 < n" "f (md old) = Some (join_comma (names_from old 1 n))"
      "\<forall>k\<in>{1..n}. f (ct (chunk_name old k)) \<noteq> None"
      "data = concat (map (\<lambda>c. the (f (ct c))) (names_from old 1 n))"
    using h by (auto simp: has_file_def)
  let ?g = "shift old new (names_from old 1 n) f"
  have ns: "splitStringStorage (the (f (md old))) = names_from old 1 n"
    using split_names [of old n 1] n(1,2) c(1) by (simp add: clean_path_def)
  have nn: "map (\<lambda>c. new @ drop (length old) c) (names_from old 1 n) = names_from new 1 n"
    by (simp add: names_from_def)
  have nd: "x \<noteq> ct y" if "CHR ''-'' \<notin> set x" for x y using that by (auto simp: ct_def)
  have k: "moved f old new (ct (chunk_name new k)) = Some (the (f (ct (chunk_name old k))))" if "k \<in> {1..n}" for k
    using shift_names [OF c, of k 1 n f] that nd c
    by (auto simp: moved_def ns nn Let_def clean_path_def)
  have "map (\<lambda>c. the (moved f old new (ct c))) (names_from new 1 n) = map (\<lambda>c. the (f (ct c))) (names_from old 1 n)"
    using k by (intro nth_equalityI) auto
  moreover have "moved f old new new = Some ''KV-File''" using c(3) by (simp add: moved_def Let_def)
  moreover have "moved f old new (md new) = Some (join_comma (names_from new 1 n))"
    unfolding moved_def Let_def ns nn using c by (auto simp: clean_path_def md_def)
  ultimately show ?thesis
    unfolding has_file_def using n(1,4) k by (intro conjI exI [of _ n]) simp_all
qed

context row_store
begin

lemma triple_store_chunks:
  "triple (at_row M R row f) (store_chunks K (R row) row path i data)
     (\<lambda>_. at_row M R row (put_chunks path i (chunks_of data) f))"
proof (induction data arbitrary: i f rule: chunks_of.induct)
  case (1 data)
  show ?case
  proof (cases "data = []")
    case True
    then show ?thesis by (simp add: store_chunks.simps triple_return)
  next
    case False
    let ?n = "chunk_name path i"
    have cs: "chunks_of data = take chunkSize data # chunks_of (drop chunkSize data)"
      using False by (subst chunks_of.simps) simp
    have "(if contains v ''not found'' then path @ ''-'' @ nat_string i else v @ '','' @ path @ ''-'' @ nat_string i) =
        (case f (md path) of None \<Rightarrow> ?n | Some m \<Rightarrow>
            if contains m ''not found'' then ?n else m @ '','' @ ?n)"
      if "cell (f (md path)) v" for v
      using that missing_string_facts(2) by (cases "f (md path)") (auto simp: chunk_name_def)
    then show ?thesis
      unfolding store_chunks.simps [of _ _ _ _ _ data] cs put_chunks.simps if_not_P [OF False] Let_def
      using 1 [OF False, where i = "Suc i"]
      by (intro row_steps) (simp add: md_def ct_def chunk_name_def)
  qed
qed

lemma triple_fetch_chunks:
  "\<forall>n\<in>set ns. f (ct n) \<noteq> None \<Longrightarrow>
   triple (at_row M R row f) (fetch_chunks K (R row) row ns)
     (\<lambda>r st. r = concat (map (\<lambda>n. the (f (ct n))) ns) \<and> at_row M R row f st)"
proof (induction ns)
  case (Cons n ns)
  then obtain v where v: "f (ct n) = Some v" by auto
  show ?case
    unfolding fetch_chunks.simps
  proof (rule step_row_get)
    fix w assume "cell (f (n @ ''-content'')) w"
    then have w: "w = v" using v by (simp add: ct_def)
    show "triple (at_row M R row f)
        (do { rest \<leftarrow> fetch_chunks K (R row) row ns; State_Monad.return (w @ rest) })
        (\<lambda>r st. r = concat (map (\<lambda>n. the (f (ct n))) (n # ns)) \<and> at_row M R row f st)"
      by (rule triple_bind [OF Cons.IH]) (use Cons.prems v w in \<open>auto intro!: triple_pure triple_return\<close>)
  qed
qed (simp add: triple_return)

lemma triple_fetch_file:
  assumes "file_data f path = Some d"
  shows "triple (at_row M R row f) (fetch_file K (R row) row path) (\<lambda>r st. r = d \<and> at_row M R row f st)"
proof -
  obtain m where m: "f (md path) = Some m" using assms by (auto simp: file_data_def split: option.splits)
  then have ns: "\<forall>n\<in>set (splitStringStorage m). f (ct n) \<noteq> None"
    and d: "d = concat (map (\<lambda>n. the (f (ct n))) (splitStringStorage m))"
    using assms by (force simp: file_data_def Let_def comp_def split: if_splits)+
  show ?thesis
    unfolding fetch_file_def
    by (rule step_row_get) (use triple_fetch_chunks [OF ns] m d in \<open>simp add: md_def\<close>)
qed

lemma triple_write_upload:
  "triple (at_row M R row f) (write_upload K (R row) row folder data (path, name))
     (\<lambda>r st. r = Returns (httpResponseStorage ''200 OK'' (upload_page folder name)) \<and>
        at_row M R row (uploaded f folder path name data) st)"
proof -
  let ?g = "put_chunks path 1 (chunks_of (take (nat (int_size data)) data)) (f(path \<mapsto> ''KV-File''))"
  let ?new = "\<lambda>m. if m = [] then path else if name \<in> set (splitStringStorage m) then m else m @ '','' @ path"
  have up: "uploaded f folder path name data =
      (if ?g (meta_col folder) = Some v then ?g(meta_col folder \<mapsto> ?new v) else ?g)"
    if "cell (?g (meta_col folder)) v" for v
    using that by (cases "?g (meta_col folder)") (simp_all add: uploaded_def Let_def)
  show ?thesis
    unfolding write_upload_def prod.case Let_def
    by (rule step_row_put, rule triple_bind [OF triple_store_chunks], rule step_row_get,
        rule step_row_cput, rule triple_return) (simp only: up)
qed

lemma triple_choose_fresh:
  assumes "f path \<noteq> Some ''KV-File''"
  shows "triple (at_row M R row f) (choose_name n K (R row) row path name)
    (\<lambda>r st. r = Returns (path, name) \<and> at_row M R row f st)"
  unfolding choose_name_def
proof (rule step_row_get)
  fix v assume "cell (f path) v"
  then have "v \<noteq> ''KV-File''" using assms cell_eq by auto
  then show "triple (at_row M R row f)
      (if v = ''KV-File''
       then and_then (free_upload n K (R row) row path 1)
             (\<lambda>(newPath, i). State_Monad.return (Returns (newPath, name @ ''('' @ to_string i @ '')'')))
       else State_Monad.return (Returns (path, name)))
      (\<lambda>r st. r = Returns (path, name) \<and> at_row M R row f st)"
    by (simp add: triple_return)
qed

lemma triple_upload_fresh:
  assumes "f (child_path folder name) \<noteq> Some ''KV-File''"
  shows "triple (at_row M R row f) (upload_store n K (R row) row folder name data)
    (\<lambda>r st. r = Returns (httpResponseStorage ''200 OK'' (upload_page folder name)) \<and>
       at_row M R row (uploaded f folder (child_path folder name) name data) st)"
  unfolding upload_store_def
  by (rule triple_and_then_pure [OF triple_choose_fresh [of f _, OF assms]], rule triple_write_upload)


lemma triple_move_chunks:
  "\<forall>c\<in>set cs. length old \<le> length c \<and> f (ct c) \<noteq> None \<Longrightarrow> distinct cs \<Longrightarrow>
   triple (at_row M R row f) (move_chunks K (R row) row old new cs)
     (\<lambda>r st. r = Returns (map (\<lambda>c. new @ drop (length old) c) cs) \<and> at_row M R row (shift old new cs f) st)"
proof (induction cs arbitrary: f)
  case (Cons c cs)
  let ?n = "new @ drop (length old) c"
  obtain v where v: "f (ct c) = Some v" using Cons.prems by auto
  let ?f = "f(ct ?n \<mapsto> v, ct c := None)"
  have "\<forall>d\<in>set cs. length old \<le> length d \<and> ?f (ct d) \<noteq> None" "distinct cs"
    using Cons.prems by auto
  note IH = Cons.IH [of ?f, OF this]
  have s: "substr c (length old) None = Returns (drop (length old) c)"
    using Cons.prems by (simp add: substr_def substr_at_def str_substr_def)
  show ?case
    unfolding move_chunks.simps s attempt_simps Let_def
  proof (rule step_row_get, rule step_row_put, rule step_row_delete)
    fix w assume "cell (f (c @ ''-content'')) w"
    then have w: "w = v" using v by (simp add: ct_def)
    show "triple (at_row M R row (f((?n) @ ''-content'' \<mapsto> w, c @ ''-content'' := None)))
        (and_then (move_chunks K (R row) row old new cs)
          (\<lambda>newChunks. State_Monad.return (Returns (?n # newChunks))))
        (\<lambda>r st. r = Returns (map (\<lambda>c. new @ drop (length old) c) (c # cs)) \<and>
           at_row M R row (shift old new (c # cs) f) st)"
      unfolding ct_def [symmetric] w
      by (rule triple_and_then_pure [OF IH]) (simp add: v triple_return fun_upd_def)
  qed
qed (simp add: triple_return)

lemma triple_move_file_columns:
  assumes "movable f old"
  shows "triple (at_row M R row f) (move_file_columns K (R row) row old new)
    (\<lambda>r st. r = Returns () \<and> at_row M R row (moved f old new) st)"
proof -
  obtain m where m: "f (md old) = Some m" "m \<noteq> []" "\<not> is_err m" "distinct (splitStringStorage m)"
      "\<forall>c\<in>set (splitStringStorage m). length old \<le> length c \<and> f (ct c) \<noteq> None"
    using assms by (auto simp: movable_def)
  let ?ns = "splitStringStorage m"
  let ?g = "(shift old new ?ns f)(md new \<mapsto> join_comma (map (\<lambda>c. new @ drop (length old) c) ?ns), md old := None)"
  have mv: "moved f old new = ?g(new \<mapsto> ''KV-File'', old := None)" by (simp add: moved_def m(1) Let_def)
  show ?thesis
    unfolding move_file_columns_def Let_def md_def [symmetric]
  proof (rule step_row_get)
    fix v assume "cell (f (md old)) v"
    then have v: "v = m" using m(1) by simp
    show "triple (at_row M R row f)
      (and_then
        (if v \<noteq> [] \<and> \<not> is_err v
         then and_then (move_chunks K (R row) row old new (splitStringStorage v)) (\<lambda>newChunks. do {
                res \<leftarrow> kv_put K (R row) row (md new) (join_comma newChunks);
                res2 \<leftarrow> kv_delete K (R row) row (md old);
                State_Monad.return (Returns ()) })
         else do {
           content \<leftarrow> kv_get K (R row) row (old @ ''-content'');
           res \<leftarrow> kv_put K (R row) row (new @ ''-content'') content;
           res2 \<leftarrow> kv_delete K (R row) row (old @ ''-content'');
           State_Monad.return (Returns ()) })
        (\<lambda>_. do {
           res \<leftarrow> kv_put K (R row) row new ''KV-File'';
           res2 \<leftarrow> kv_delete K (R row) row old;
           State_Monad.return (Returns ()) }))
      (\<lambda>r st. r = Returns () \<and> at_row M R row (moved f old new) st)"
      unfolding mv v if_P [OF conjI [OF m(2,3)]]
      by (rule triple_and_then_pure [where B = "at_row M R row ?g"],
          rule triple_and_then_pure [OF triple_move_chunks [OF m(5,4)]])
        (intro row_steps triple_return, simp)+
  qed
qed

end

end
