(* ===== verification/Storage_Delete.thy ===== *)
theory Storage_Delete
  imports Storage_Files
begin

text \<open>
  Deleting a tree. \<open>del\<close> is what \<open>deleteRec\<close> does to the contents of the row; the folders of the row
  bound the depth of its recursion, even where the listings have a cycle. The invariant \<open>partial\<close> is that
  of a depth-first search: a folder that was visited has only visited or pending children. The invariant
  \<open>tidy\<close> speaks of all columns: a path is as it was or gone, and the columns of other paths do not change.
\<close>

section \<open>The tree of a row\<close>

definition kids :: "(string \<rightharpoonup> string) \<Rightarrow> string \<Rightarrow> string list" where
  "kids f p =
     (case f (md p) of None \<Rightarrow> [] | Some m \<Rightarrow> if m \<noteq> [] \<and> \<not> is_err m then splitStringStorage m else [])"

definition folders :: "(string \<rightharpoonup> string) \<Rightarrow> string set" where
  "folders f = {p. f p = Some ''KV-Folder''}"

definition live :: "string option \<Rightarrow> bool" where
  "live v \<longleftrightarrow> v = Some ''KV-Folder'' \<or> v = Some ''KV-File''"

lemma live_simps [simp]: "\<not> live None" "\<not> live (Some ''DEL KV-Folder'')"
  "live (Some ''KV-File'')" "live (Some ''KV-Folder'')"
  by (simp_all add: live_def)

inductive below :: "(string \<rightharpoonup> string) \<Rightarrow> string \<Rightarrow> string \<Rightarrow> bool" for f p where
  below_self: "below f p p"
| below_child: "below f p q \<Longrightarrow> f q = Some ''KV-Folder'' \<Longrightarrow> c \<in> set (kids f q) \<Longrightarrow> below f p c"

declare below_self [simp, intro]

section \<open>Deleting as a function on the row\<close>

definition del_file :: "string \<Rightarrow> (string \<rightharpoonup> string) \<Rightarrow> (string \<rightharpoonup> string)" where
  "del_file p f =
     (let g = (if kids f p = [] then f else (fold (\<lambda>c g. g(ct c := None)) (kids f p) f)(md p := None))
      in g(ct p := None, p := None))"

fun del :: "nat \<Rightarrow> string \<Rightarrow> (string \<rightharpoonup> string) \<Rightarrow> (string \<rightharpoonup> string)" where
  "del 0 p f = f"
| "del (Suc n) p f =
     (if f p \<noteq> Some ''KV-Folder'' then del_file p f
      else fold (del n) (kids f p) (f(p \<mapsto> ''DEL KV-Folder'', md p := None)))"

lemma fold_clear: "fold (\<lambda>c g. g(ct c := None)) cs f col = (if col \<in> ct ` set cs then None else f col)"
  by (induction cs arbitrary: f) auto

lemma del_file_cases: "del_file p f col = f col \<or> del_file p f col = None"
  by (simp add: del_file_def Let_def fold_clear)

text \<open>Deleting only clears columns, or marks a folder as deleted.\<close>

definition shrinks :: "(string \<rightharpoonup> string) \<Rightarrow> (string \<rightharpoonup> string) \<Rightarrow> bool" where
  "shrinks f g \<longleftrightarrow> (\<forall>c. g c = f c \<or> g c = None \<or> f c = Some ''KV-Folder'' \<and> g c = Some ''DEL KV-Folder'')"

lemma shrinks_refl [simp]: "shrinks f f" by (simp add: shrinks_def)

lemma shrinksD:
  "shrinks f g \<Longrightarrow> g c = f c \<or> g c = None \<or> f c = Some ''KV-Folder'' \<and> g c = Some ''DEL KV-Folder''"
  by (simp add: shrinks_def)

lemma shrinks_trans:
  assumes "shrinks f g" "shrinks g h"
  shows "shrinks f h"
  unfolding shrinks_def
proof
  fix c
  show "h c = f c \<or> h c = None \<or> f c = Some ''KV-Folder'' \<and> h c = Some ''DEL KV-Folder''"
    using shrinksD [OF assms(1), of c] shrinksD [OF assms(2), of c] by auto
qed

lemma shrinks_fold: "(\<And>x f. shrinks f (h x f)) \<Longrightarrow> shrinks f (fold h xs f)"
proof (induction xs arbitrary: f)
  case (Cons x xs)
  then show ?case using shrinks_trans [of f "h x f"] by simp
qed simp

lemma shrinks_del_file: "shrinks f (del_file p f)"
  unfolding shrinks_def using del_file_cases by blast

lemma shrinks_del: "shrinks f (del n p f)"
proof (induction n arbitrary: p f)
  case (Suc n)
  have "shrinks f (f(p \<mapsto> ''DEL KV-Folder'', md p := None))" if "f p = Some ''KV-Folder''"
    using that by (simp add: shrinks_def)
  moreover have "shrinks g (fold (del n) xs g)" for xs g by (rule shrinks_fold) (rule Suc)
  moreover note shrinks_del_file [of f p]
  ultimately show ?case using shrinks_trans by auto
qed simp

lemma shrinks_folders:
  assumes "shrinks f g"
  shows "folders g \<subseteq> folders f"
proof
  fix x assume "x \<in> folders g"
  then show "x \<in> folders f" using shrinksD [OF assms, of x] by (auto simp: folders_def)
qed

lemma shrinks_dead: "shrinks f g \<Longrightarrow> \<not> live (f c) \<Longrightarrow> \<not> live (g c)"
  unfolding shrinks_def by (metis live_simps(1,2))

lemma shrinks_card: "shrinks f g \<Longrightarrow> finite (folders f) \<Longrightarrow> card (folders g) \<le> card (folders f)"
  by (meson card_mono shrinks_folders)

lemma folders_enter:
  assumes "f p = Some ''KV-Folder''"
  shows "folders (f(p \<mapsto> ''DEL KV-Folder'', md p := None)) \<subseteq> folders f - {p}"
  by (auto simp: folders_def)

lemma enter_card:
  assumes "f p = Some ''KV-Folder''" "finite (folders f)"
  shows "card (folders (f(p \<mapsto> ''DEL KV-Folder'', md p := None))) < card (folders f)"
proof -
  have "p \<in> folders f" using assms(1) by (simp add: folders_def)
  then show ?thesis
    using folders_enter [of f p, OF assms(1)] assms(2) by (intro psubset_card_mono) auto
qed

section \<open>What is gone afterwards\<close>

text \<open>\<open>S\<close> is the set of paths that may be visited, \<open>W\<close> that of pending ones.\<close>

definition partial :: "(string \<rightharpoonup> string) \<Rightarrow> string set \<Rightarrow> string set \<Rightarrow> (string \<rightharpoonup> string) \<Rightarrow> bool" where
  "partial f S W g \<longleftrightarrow> shrinks f g \<and>
     (\<forall>x\<in>S. f x = Some ''KV-Folder'' \<longrightarrow> g x \<noteq> Some ''KV-Folder'' \<longrightarrow> (\<forall>c\<in>set (kids f x). c \<in> W \<or> \<not> live (g c))) \<and>
     (\<forall>x\<in>S. g x = Some ''KV-Folder'' \<longrightarrow> g (md x) = f (md x)) \<and>
     (\<forall>x. x \<notin> S \<longrightarrow> CHR ''-'' \<notin> set x \<longrightarrow> g x = f x)"

definition clean_set :: "string set \<Rightarrow> bool" where
  "clean_set S \<longleftrightarrow> (\<forall>x\<in>S. CHR ''-'' \<notin> set x)"

lemma clean_cols: "CHR ''-'' \<notin> set x \<Longrightarrow> x \<noteq> md y \<and> x \<noteq> ct y \<and> md y \<noteq> x \<and> ct y \<noteq> x"
  by (auto simp: md_def ct_def)

lemma del_file_clean: "CHR ''-'' \<notin> set x \<Longrightarrow> del_file p f x = (if x = p then None else f x)"
  using clean_cols [of x] by (auto simp: del_file_def Let_def fold_clear)

lemma del_file_md: "x \<noteq> p \<Longrightarrow> CHR ''-'' \<notin> set p \<Longrightarrow> del_file p f (md x) = f (md x)"
  using clean_cols [of p] by (auto simp: del_file_def Let_def fold_clear)

lemma partial_dead: "partial f S W g \<Longrightarrow> shrinks g h \<Longrightarrow> \<not> live (g c) \<Longrightarrow> \<not> live (h c)"
  using shrinks_dead by blast

lemma partial_file:
  assumes "partial f S W g" "clean_set S" "p \<in> S" "g p \<noteq> Some ''KV-Folder''"
  shows "partial f S W (del_file p g)"
proof -
  have c: "CHR ''-'' \<notin> set p" using assms(2,3) by (simp add: clean_set_def)
  note s = shrinks_del_file [of g p]
  have m: "del_file p g x = (if x = p then None else g x)" if "x \<in> S" for x
    using del_file_clean that assms(2) by (simp add: clean_set_def)
  have d: "\<not> live (del_file p g y)" if "\<not> live (g y)" for y using shrinks_dead [OF s that] .
  have "del_file p g x = f x" if "x \<notin> S" "CHR ''-'' \<notin> set x" for x
    using del_file_clean [OF that(2)] that assms(1,3) by (auto simp: partial_def)
  moreover have "\<forall>x\<in>S. del_file p g x = Some ''KV-Folder'' \<longrightarrow> del_file p g (md x) = f (md x)"
  proof (intro ballI impI)
    fix x assume x: "x \<in> S" "del_file p g x = Some ''KV-Folder''"
    then have "x \<noteq> p" "g x = Some ''KV-Folder''" using m [OF x(1)] by (auto split: if_splits)
    then show "del_file p g (md x) = f (md x)" using del_file_md [OF _ c] assms(1) x(1) by (simp add: partial_def)
  qed
  moreover have "\<forall>x\<in>S. f x = Some ''KV-Folder'' \<longrightarrow> del_file p g x \<noteq> Some ''KV-Folder'' \<longrightarrow>
      (\<forall>c\<in>set (kids f x). c \<in> W \<or> \<not> live (del_file p g c))"
  proof (intro ballI impI)
    fix x k assume x: "x \<in> S" "f x = Some ''KV-Folder''" "del_file p g x \<noteq> Some ''KV-Folder''" "k \<in> set (kids f x)"
    then have "g x \<noteq> Some ''KV-Folder''" using m [OF x(1)] assms(4) by (cases "x = p") auto
    then have "k \<in> W \<or> \<not> live (g k)" using assms(1) x unfolding partial_def by blast
    then show "k \<in> W \<or> \<not> live (del_file p g k)" using d by blast
  qed
  moreover have "shrinks f (del_file p g)" using assms(1) shrinks_trans [OF _ s] unfolding partial_def by blast
  ultimately show ?thesis unfolding partial_def by blast
qed

lemma partial_enter:
  assumes "partial f S W g" "clean_set S" "p \<in> S" "g p = Some ''KV-Folder''"
  shows "partial f S (W \<union> set (kids f p)) (g(p \<mapsto> ''DEL KV-Folder'', md p := None))" (is "partial f S _ ?h")
proof -
  have s: "shrinks g ?h" using assms(4) by (simp add: shrinks_def)
  have c: "CHR ''-'' \<notin> set x" if "x \<in> S" for x using assms(2) that by (simp add: clean_set_def)
  have m: "?h x = (if x = p then Some ''DEL KV-Folder'' else g x)" if "CHR ''-'' \<notin> set x" for x
    using clean_cols [OF that] by auto
  have d: "\<not> live (?h y)" if "\<not> live (g y)" for y using shrinks_dead [OF s that] .
  have md: "?h (md x) = g (md x)" if "x \<noteq> p" for x using clean_cols [OF c [OF assms(3)]] that by auto
  have f: "shrinks f g" "\<forall>x. x \<notin> S \<longrightarrow> CHR ''-'' \<notin> set x \<longrightarrow> g x = f x"
    "\<forall>x\<in>S. g x = Some ''KV-Folder'' \<longrightarrow> g (md x) = f (md x)"
    "\<forall>x\<in>S. f x = Some ''KV-Folder'' \<longrightarrow> g x \<noteq> Some ''KV-Folder'' \<longrightarrow> (\<forall>c\<in>set (kids f x). c \<in> W \<or> \<not> live (g c))"
    using assms(1) unfolding partial_def by blast+
  show ?thesis
    unfolding partial_def
  proof (intro conjI ballI allI impI)
    show "shrinks f ?h" using shrinks_trans [OF f(1) s] .
  next
    fix x k assume x: "x \<in> S" "f x = Some ''KV-Folder''" "?h x \<noteq> Some ''KV-Folder''" "k \<in> set (kids f x)"
    show "k \<in> W \<union> set (kids f p) \<or> \<not> live (?h k)"
    proof (cases "x = p")
      case False
      then have "g x \<noteq> Some ''KV-Folder''" using x(3) m [OF c [OF x(1)]] by simp
      then have "k \<in> W \<or> \<not> live (g k)" using f(4) x by blast
      then show ?thesis using d by blast
    qed (use x in simp)
  next
    fix x assume x: "x \<in> S" "?h x = Some ''KV-Folder''"
    then have "x \<noteq> p" "g x = Some ''KV-Folder''" using m [OF c [OF x(1)]] by (auto split: if_splits)
    then show "?h (md x) = f (md x)" using f(3) md x(1) by auto
  next
    fix x assume x: "x \<notin> S" "CHR ''-'' \<notin> set x"
    then show "?h x = f x" using m [OF x(2)] f(2) assms(3) by auto
  qed
qed

lemma partial_shrink:
  "partial f S (W \<union> X) g \<Longrightarrow> \<forall>x\<in>X. \<not> live (g x) \<Longrightarrow> partial f S W g"
  unfolding partial_def by blast

lemma partial_fold:
  assumes "\<And>c g. c \<in> set cs \<Longrightarrow> partial f S W g \<Longrightarrow> finite (folders g) \<Longrightarrow> card (folders g) < n \<Longrightarrow>
      partial f S W (h c g) \<and> \<not> live (h c g c) \<and> shrinks g (h c g)"
  shows "partial f S W g \<Longrightarrow> finite (folders g) \<Longrightarrow> card (folders g) < n \<Longrightarrow>
    partial f S W (fold h cs g) \<and> (\<forall>c\<in>set cs. \<not> live (fold h cs g c)) \<and> shrinks g (fold h cs g)"
  using assms
proof (induction cs arbitrary: g)
  case (Cons c cs)
  have c: "partial f S W (h c g)" "\<not> live (h c g c)" "shrinks g (h c g)"
    using Cons.prems(4) [of c g] Cons.prems(1-3) by auto
  have f: "finite (folders (h c g))" "card (folders (h c g)) < n"
    using shrinks_folders [OF c(3)] shrinks_card [OF c(3)] Cons.prems(2,3) finite_subset by fastforce+
  have IH: "partial f S W (fold h cs (h c g))" "\<forall>x\<in>set cs. \<not> live (fold h cs (h c g) x)"
    "shrinks (h c g) (fold h cs (h c g))"
    using Cons.IH [OF c(1) f] Cons.prems(4) by simp_all
  then show ?case
    using shrinks_trans [OF c(3)] shrinks_dead [OF IH(3) c(2)] by simp
qed simp

lemma partial_kids:
  assumes "partial f S W g" "p \<in> S" "g p = Some ''KV-Folder''"
  shows "kids g p = kids f p"
  using assms by (simp add: partial_def kids_def)

lemma partial_del:
  assumes "clean_set S" and closed: "\<And>x c. x \<in> S \<Longrightarrow> f x = Some ''KV-Folder'' \<Longrightarrow> c \<in> set (kids f x) \<Longrightarrow> c \<in> S"
  shows "partial f S W g \<Longrightarrow> p \<in> S \<Longrightarrow> finite (folders g) \<Longrightarrow> card (folders g) < n \<Longrightarrow>
    partial f S W (del n p g) \<and> \<not> live (del n p g p)"
proof (induction n arbitrary: p g W)
  case (Suc n)
  note p = Suc.prems(1,2)
  show ?case
  proof (cases "g p = Some ''KV-Folder''")
    case False
    then show ?thesis
      using partial_file [OF p(1) assms(1) p(2) False] del_file_clean [of p p g] p(2) assms(1)
      by (simp add: clean_set_def)
  next
    case True
    let ?h = "g(p \<mapsto> ''DEL KV-Folder'', md p := None)"
    let ?W = "W \<union> set (kids f p)"
    have fp: "f p = Some ''KV-Folder''" using p(1) True shrinksD [of f g p] by (auto simp: partial_def)
    have fin: "finite (folders ?h)" using folders_enter [of g p, OF True] Suc.prems(3) finite_subset by blast
    have "card (folders ?h) < n" using enter_card [of g p, OF True Suc.prems(3)] Suc.prems(4) by simp
    moreover have "partial f S ?W (del n c g') \<and> \<not> live (del n c g' c) \<and> shrinks g' (del n c g')"
      if "c \<in> set (kids f p)" "partial f S ?W g'" "finite (folders g')" "card (folders g') < n" for c g'
      using Suc.IH [OF that(2) closed [OF p(2) fp that(1)] that(3,4)] shrinks_del by blast
    ultimately have all: "partial f S ?W (fold (del n) (kids f p) ?h) \<and>
        (\<forall>c\<in>set (kids f p). \<not> live (fold (del n) (kids f p) ?h c)) \<and> shrinks ?h (fold (del n) (kids f p) ?h)"
      by (intro partial_fold partial_enter [OF p(1) assms(1) p(2) True] fin)
    moreover have "del (Suc n) p g = fold (del n) (kids f p) ?h"
      using True partial_kids [OF p True] by simp
    moreover have "\<not> live (fold (del n) (kids f p) ?h p)" using all shrinks_dead [of ?h _ p] by simp
    ultimately show ?thesis using partial_shrink [of f S W "set (kids f p)"] by simp
  qed
qed simp

lemma del_below:
  assumes "\<And>q. below f p q \<Longrightarrow> CHR ''-'' \<notin> set q" "finite (folders f)" "card (folders f) < n"
  shows "below f p q \<Longrightarrow> \<not> live (del n p f q)"
    and "CHR ''-'' \<notin> set q \<Longrightarrow> \<not> below f p q \<Longrightarrow> del n p f q = f q"
proof -
  let ?S = "{q. below f p q}"
  have "clean_set ?S" using assms(1) by (simp add: clean_set_def)
  moreover have "partial f ?S {} f" by (simp add: partial_def)
  ultimately have d: "partial f ?S {} (del n p f)" "\<not> live (del n p f p)"
    using partial_del [of ?S f "{}" f p n] assms(2,3) below_child by blast+
  show "below f p q \<Longrightarrow> \<not> live (del n p f q)"
  proof (induction rule: below.induct)
    case (below_child q c)
    then have "del n p f q \<noteq> Some ''KV-Folder''" by auto
    then show ?case using d(1) below_child unfolding partial_def by blast
  qed (rule d(2))
  show "CHR ''-'' \<notin> set q \<Longrightarrow> \<not> below f p q \<Longrightarrow> del n p f q = f q"
    using d(1) by (simp add: partial_def)
qed

section \<open>All columns of the row\<close>

text \<open>The columns that belong to a path, and what is left of a file when it is deleted: none of them.\<close>

definition columns_of :: "(string \<rightharpoonup> string) \<Rightarrow> string \<Rightarrow> string set" where
  "columns_of f q = {q, md q, ct q} \<union> ct ` set (kids f q)"

definition file_gone :: "(string \<rightharpoonup> string) \<Rightarrow> (string \<rightharpoonup> string) \<Rightarrow> string \<Rightarrow> bool" where
  "file_gone f g q \<longleftrightarrow> g q = None \<and> g (ct q) = None \<and> (\<forall>c\<in>set (kids f q). g (ct c) = None) \<and>
     (kids f q \<noteq> [] \<longrightarrow> g (md q) = None)"

text \<open>A state of a deletion: every path of \<open>S\<close> is as it was or gone, and only columns of \<open>S\<close> change.\<close>

definition tidy :: "(string \<rightharpoonup> string) \<Rightarrow> string set \<Rightarrow> (string \<rightharpoonup> string) \<Rightarrow> bool" where
  "tidy f S g \<longleftrightarrow>
     (\<forall>x. g (md x) = f (md x) \<or> g (md x) = None) \<and>
     (\<forall>x\<in>S. g x = Some ''KV-Folder'' \<longrightarrow> f x = Some ''KV-Folder'') \<and>
     (\<forall>x\<in>S. f x \<noteq> Some ''KV-Folder'' \<longrightarrow> g (md x) = f (md x) \<and> g x = f x \<or> file_gone f g x) \<and>
     (\<forall>x\<in>S. f x = Some ''KV-Folder'' \<longrightarrow> g x \<noteq> Some ''KV-Folder'' \<longrightarrow> g (md x) = None) \<and>
     (\<forall>col. (\<forall>x\<in>S. col \<notin> columns_of f x) \<longrightarrow> g col = f col)"

lemma file_gone_mono: "file_gone f g q \<Longrightarrow> (\<And>col. g col = None \<Longrightarrow> h col = None) \<Longrightarrow> file_gone f h q"
  by (auto simp: file_gone_def)

lemma tidyD:
  assumes "tidy f S g"
  shows "g (md x) = f (md x) \<or> g (md x) = None"
    "x \<in> S \<Longrightarrow> g x = Some ''KV-Folder'' \<Longrightarrow> f x = Some ''KV-Folder''"
    "x \<in> S \<Longrightarrow> f x \<noteq> Some ''KV-Folder'' \<Longrightarrow> g (md x) = f (md x) \<and> g x = f x \<or> file_gone f g x"
    "x \<in> S \<Longrightarrow> f x = Some ''KV-Folder'' \<Longrightarrow> g x \<noteq> Some ''KV-Folder'' \<Longrightarrow> g (md x) = None"
    "\<forall>x\<in>S. col \<notin> columns_of f x \<Longrightarrow> g col = f col"
  using assms unfolding tidy_def by simp_all

lemma kids_cong: "g (md x) = f (md x) \<Longrightarrow> kids g x = kids f x"
  unfolding kids_def by (rule arg_cong)

lemma tidy_kids:
  assumes "tidy f S g"
  shows "set (kids g x) \<subseteq> set (kids f x)"
  using tidyD(1) [OF assms, of x]
proof
  assume "g (md x) = f (md x)"
  then have "kids g x = kids f x" by (rule kids_cong)
  then show ?thesis by simp
next
  assume "g (md x) = None"
  then have "kids g x = []" unfolding kids_def by simp
  then show ?thesis by simp
qed

lemma del_file_columns: "col \<notin> columns_of g p \<Longrightarrow> del_file p g col = g col"
  by (auto simp: columns_of_def del_file_def Let_def fold_clear)

lemma del_file_none: "g col = None \<Longrightarrow> del_file p g col = None"
  using del_file_cases [of p g col] by auto

lemma del_file_gone:
  assumes "CHR ''-'' \<notin> set p" "kids g p = kids f p"
  shows "file_gone f (del_file p g) p"
  using assms(2) clean_cols [OF assms(1)]
  by (auto simp: file_gone_def del_file_def Let_def fold_clear)

lemma tidy_del_file:
  assumes t: "tidy f S g" and S: "clean_set S" "p \<in> S" and np: "g p \<noteq> Some ''KV-Folder''"
  shows "tidy f S (del_file p g)"
proof -
  have c: "CHR ''-'' \<notin> set x" if "x \<in> S" for x using S(1) that by (simp add: clean_set_def)
  have m: "del_file p g x = (if x = p then None else g x)" if "x \<in> S" for x
    by (rule del_file_clean) (rule c [OF that])
  have md: "del_file p g (md x) = g (md x)" if "x \<noteq> p" for x using del_file_md [OF that c [OF S(2)]] .
  have gone: "file_gone f (del_file p g) x" if "file_gone f g x" for x
    using that by (rule file_gone_mono) (rule del_file_none)
  have p: "file_gone f (del_file p g) p" if "f p \<noteq> Some ''KV-Folder''"
  proof -
    have "g (md p) = f (md p) \<or> file_gone f g p" using tidyD(3) [OF t S(2) that] by blast
    then show ?thesis
    proof
      assume "g (md p) = f (md p)"
      then have "kids g p = kids f p" by (rule kids_cong)
      then show ?thesis by (rule del_file_gone [OF c [OF S(2)]])
    qed (rule gone)
  qed
  have cols: "columns_of g p \<subseteq> columns_of f p" using tidy_kids [OF t] by (auto simp: columns_of_def)
  show ?thesis
    unfolding tidy_def
  proof (intro conjI ballI allI impI)
    fix x show "del_file p g (md x) = f (md x) \<or> del_file p g (md x) = None"
      using del_file_cases [of p g "md x"] tidyD(1) [OF t, of x] by auto
  next
    fix x assume x: "x \<in> S" "del_file p g x = Some ''KV-Folder''"
    then have "g x = Some ''KV-Folder''" using m [OF x(1)] by (simp split: if_splits)
    then show "f x = Some ''KV-Folder''" by (rule tidyD(2) [OF t x(1)])
  next
    fix x assume x: "x \<in> S" "f x \<noteq> Some ''KV-Folder''"
    from tidyD(3) [OF t x]
    show "del_file p g (md x) = f (md x) \<and> del_file p g x = f x \<or> file_gone f (del_file p g) x"
      using p x m [OF x(1)] md [of x] gone [of x] by (cases "x = p") auto
  next
    fix x assume x: "x \<in> S" "f x = Some ''KV-Folder''" "del_file p g x \<noteq> Some ''KV-Folder''"
    then have "g x \<noteq> Some ''KV-Folder''" using m [OF x(1)] np by (cases "x = p") auto
    from tidyD(4) [OF t x(1,2) this] show "del_file p g (md x) = None" by (rule del_file_none)
  next
    fix col assume col: "\<forall>x\<in>S. col \<notin> columns_of f x"
    then have "col \<notin> columns_of g p" using cols S(2) by blast
    then show "del_file p g col = f col" using del_file_columns tidyD(5) [OF t col] by simp
  qed
qed

lemma tidy_enter:
  assumes t: "tidy f S g" and S: "clean_set S" "p \<in> S" and f: "f p = Some ''KV-Folder''"
  shows "tidy f S (g(p \<mapsto> ''DEL KV-Folder'', md p := None))" (is "tidy f S ?h")
proof -
  have c: "CHR ''-'' \<notin> set x" if "x \<in> S" for x using S(1) that by (simp add: clean_set_def)
  have m: "?h x = (if x = p then Some ''DEL KV-Folder'' else g x)" if "x \<in> S" for x
    using clean_cols [OF c [OF that]] by auto
  have md: "?h (md x) = (if x = p then None else g (md x))" for x
    using clean_cols [OF c [OF S(2)]] by auto
  have ct: "?h (ct x) = g (ct x)" for x using clean_cols [OF c [OF S(2)]] by auto
  have gone: "file_gone f ?h x" if "file_gone f g x" "x \<in> S" "x \<noteq> p" for x
    using that(1,3) m [OF that(2)] md [of x] ct by (simp add: file_gone_def)
  show ?thesis
    unfolding tidy_def
  proof (intro conjI ballI allI impI)
    fix x show "?h (md x) = f (md x) \<or> ?h (md x) = None"
      using tidyD(1) [OF t, of x] md [of x] by (cases "x = p") auto
  next
    fix x assume x: "x \<in> S" "?h x = Some ''KV-Folder''"
    then have "g x = Some ''KV-Folder''" using m [OF x(1)] by (simp split: if_splits)
    then show "f x = Some ''KV-Folder''" by (rule tidyD(2) [OF t x(1)])
  next
    fix x assume x: "x \<in> S" "f x \<noteq> Some ''KV-Folder''"
    have "x \<noteq> p" using x(2) f by blast
    with tidyD(3) [OF t x] show "?h (md x) = f (md x) \<and> ?h x = f x \<or> file_gone f ?h x"
      using x m [OF x(1)] md [of x] gone [of x] by auto
  next
    fix x assume x: "x \<in> S" "f x = Some ''KV-Folder''" "?h x \<noteq> Some ''KV-Folder''"
    show "?h (md x) = None"
    proof (cases "x = p")
      case False
      then have "g x \<noteq> Some ''KV-Folder''" using x(3) m [OF x(1)] by simp
      from tidyD(4) [OF t x(1,2) this] show ?thesis using False md [of x] by simp
    qed (simp add: md)
  next
    fix col assume col: "\<forall>x\<in>S. col \<notin> columns_of f x"
    then have "col \<noteq> p" "col \<noteq> md p" using S(2) by (auto simp: columns_of_def)
    then show "?h col = f col" using tidyD(5) [OF t col] by simp
  qed
qed

lemma tidy_del:
  assumes "clean_set S" and closed: "\<And>x c. x \<in> S \<Longrightarrow> f x = Some ''KV-Folder'' \<Longrightarrow> c \<in> set (kids f x) \<Longrightarrow> c \<in> S"
  shows "tidy f S g \<Longrightarrow> p \<in> S \<Longrightarrow> tidy f S (del n p g)"
proof (induction n arbitrary: p g)
  case (Suc n)
  show ?case
  proof (cases "g p = Some ''KV-Folder''")
    case False
    then show ?thesis using tidy_del_file [OF Suc.prems(1) assms(1) Suc.prems(2)] by simp
  next
    case True
    have f: "f p = Some ''KV-Folder''" by (rule tidyD(2) [OF Suc.prems True])
    have all: "tidy f S h \<Longrightarrow> set cs \<subseteq> S \<Longrightarrow> tidy f S (fold (del n) cs h)" for cs h
      by (induction cs arbitrary: h) (auto intro: Suc.IH)
    have "set (kids g p) \<subseteq> S" using tidy_kids [OF Suc.prems(1), of p] closed [OF Suc.prems(2) f] by blast
    then show ?thesis using True all tidy_enter [OF Suc.prems(1) assms(1) Suc.prems(2) f] by simp
  qed
qed simp

lemma del_columns:
  assumes "\<And>q. below f p q \<Longrightarrow> CHR ''-'' \<notin> set q" "finite (folders f)" "card (folders f) < n"
  shows "below f p q \<Longrightarrow> f q = Some ''KV-File'' \<Longrightarrow> file_gone f (del n p f) q"
    and "below f p q \<Longrightarrow> f q = Some ''KV-Folder'' \<Longrightarrow>
      del n p f q \<in> {None, Some ''DEL KV-Folder''} \<and> del n p f (md q) = None"
    and "\<forall>q. below f p q \<longrightarrow> col \<notin> columns_of f q \<Longrightarrow> del n p f col = f col"
proof -
  let ?S = "{q. below f p q}" and ?g = "del n p f"
  have "tidy f ?S f" by (simp add: tidy_def)
  moreover have "clean_set ?S" using assms(1) by (simp add: clean_set_def)
  ultimately have t: "tidy f ?S ?g" using tidy_del [of ?S f f p n] below_child by blast
  note dead = del_below(1) [of f p n q, OF assms]
  show "file_gone f ?g q" if "below f p q" "f q = Some ''KV-File''"
    using tidyD(3) [OF t, of q] that dead by auto
  show "?g q \<in> {None, Some ''DEL KV-Folder''} \<and> ?g (md q) = None"
    if "below f p q" "f q = Some ''KV-Folder''"
    using tidyD(4) [OF t, of q] that dead shrinksD [OF shrinks_del, of n p f q] by auto
  show "?g col = f col" if "\<forall>q. below f p q \<longrightarrow> col \<notin> columns_of f q"
    using tidyD(5) [OF t] that by blast
qed

section \<open>The program does this\<close>

context row_store
begin

lemma triple_delete_chunks:
  "triple (at_row M R row f) (delete_chunks K (R row) row cs)
     (\<lambda>r st. r = Returns () \<and> at_row M R row (fold (\<lambda>c g. g(ct c := None)) cs f) st)"
  unfolding delete_chunks_def
proof (rule triple_for_each [where I = "\<lambda>_. True"])
  fix c f
  have "triple (at_row M R row f)
      (do { res \<leftarrow> kv_delete K (R row) row (c @ ''-content''); State_Monad.return (Returns ()) })
      (\<lambda>r st. r = Returns () \<and> at_row M R row (f(ct c := None)) st)"
    by (rule step_row_delete) (simp add: ct_def triple_return)
  then show "True \<and> triple (at_row M R row f)
      (do { res \<leftarrow> kv_delete K (R row) row (c @ ''-content''); State_Monad.return (Returns ()) })
      (\<lambda>r st. r = Returns () \<and> at_row M R row (f(ct c := None)) st)" by simp
qed simp

lemma kids_cell:
  "cell (f (md p)) v \<Longrightarrow> kids f p = (if v \<noteq> [] \<and> \<not> is_err v then splitStringStorage v else [])"
  using missing_string_facts by (cases "f (md p)") (auto simp: kids_def)

lemma split_not_Nil [simp]: "splitStringStorage v \<noteq> []"
  by (simp add: splitStringStorage_def splitString_def)

lemma triple_clear_file:
  "triple (at_row M R row f)
     (do { m \<leftarrow> kv_get K (R row) row (md p);
       (if m \<noteq> [] \<and> \<not> is_err m
        then and_then (delete_chunks K (R row) row (splitStringStorage m))
               (\<lambda>_. do { res \<leftarrow> kv_delete K (R row) row (md p); State_Monad.return (Returns ()) })
        else State_Monad.return (Returns ())) })
     (\<lambda>r st. r = Returns () \<and> at_row M R row
        (if kids f p = [] then f else (fold (\<lambda>c g. g(ct c := None)) (kids f p) f)(md p := None)) st)"
proof (rule step_row_get, rule triple_if)
  fix m assume m: "cell (f (md p)) m"
  {
    assume "m \<noteq> [] \<and> \<not> is_err m"
    then have k: "kids f p = splitStringStorage m" using kids_cell [of f p m] m by simp
    show "triple (at_row M R row f)
        (and_then (delete_chunks K (R row) row (splitStringStorage m)) (\<lambda>_. do {
               res \<leftarrow> kv_delete K (R row) row (md p);
               State_Monad.return (Returns ()) }))
        (\<lambda>r st. r = Returns () \<and> at_row M R row
          (if kids f p = [] then f else (fold (\<lambda>c g. g(ct c := None)) (kids f p) f)(md p := None)) st)"
      unfolding k
      by (rule triple_and_then_pure [OF triple_delete_chunks], rule step_row_delete) (simp add: triple_return)
  next
    assume "\<not> (m \<noteq> [] \<and> \<not> is_err m)"
    then have k: "kids f p = []" using kids_cell [of f p m] m by auto
    show "triple (at_row M R row f) (State_Monad.return (Returns ())) (\<lambda>r st. r = Returns () \<and> at_row M R row
          (if kids f p = [] then f else (fold (\<lambda>c g. g(ct c := None)) (kids f p) f)(md p := None)) st)"
      by (simp add: k triple_return)
  }
qed

lemma triple_del_file:
  assumes "f p \<noteq> Some ''KV-Folder''"
  shows "triple (at_row M R row f) (deleteRec (Suc n) K (R row) row p)
    (\<lambda>r st. r = Returns () \<and> at_row M R row (del_file p f) st)"
  unfolding deleteRec.simps Let_def md_def [symmetric] ct_def [symmetric] and_then_bind
  by (rule step_marker(2), simp, use assms in simp, rule triple_and_then_pure [OF triple_clear_file],
      intro row_steps triple_return, simp add: del_file_def)

lemma triple_deleteRec:
  "finite (folders f) \<Longrightarrow> card (folders f) < n \<Longrightarrow>
   triple (at_row M R row f) (deleteRec n K (R row) row p)
     (\<lambda>r st. r = Returns () \<and> at_row M R row (del n p f) st)"
proof (induction n arbitrary: p f)
  case (Suc n)
  show ?case
  proof (cases "f p = Some ''KV-Folder''")
    case False
    then show ?thesis using triple_del_file [of f p, OF False] by simp
  next
    case True
    let ?h = "f(p \<mapsto> ''DEL KV-Folder'', md p := None)"
    let ?I = "\<lambda>g. finite (folders g) \<and> card (folders g) < n"
    have h: "?I ?h"
      using enter_card [of f p, OF True Suc.prems(1)] folders_enter [of f p, OF True] Suc.prems finite_subset by fastforce
    have I: "?I (del n c g)" if "?I g" for c g
      using that shrinks_card [OF shrinks_del, of g n c] shrinks_folders [OF shrinks_del, of n c g] finite_subset by fastforce
    have all: "triple (at_row M R row ?h) (for_each (deleteRec n K (R row) row) cs)
        (\<lambda>r st. r = Returns () \<and> at_row M R row (fold (del n) cs ?h) st)" for cs
      using triple_for_each [where I = ?I and g = "del n", OF _ h] Suc.IH I by simp
    have k: "triple (at_row M R row ?h)
        (if v \<noteq> [] \<and> \<not> is_err v then for_each (deleteRec n K (R row) row) (splitStringStorage v)
         else State_Monad.return (Returns ()))
        (\<lambda>r st. r = Returns () \<and> at_row M R row (del (Suc n) p f) st)"
      if "cell ((f(p \<mapsto> ''DEL KV-Folder'')) (md p)) v" for v
      using kids_cell [of f p v] that True all [of "splitStringStorage v"] all [of "[]"] by auto
    show ?thesis
      unfolding deleteRec.simps Let_def md_def [symmetric] ct_def [symmetric]
      by (rule step_marker(2), simp, rule step_row_put, rule step_row_get, rule step_row_delete, erule k)
        (use True in simp)
  qed
qed simp

end

end
