(* ===== verification/Storage_Moves.thy ===== *)
theory Storage_Moves
  imports Storage_Delete
begin

text \<open>
  Moving and renaming a file. The loops that number a name until it is free end because a row has
  finitely many columns; the file then has its contents under the new path, and the listing of the
  destination has that path. Columns of other files, and other entries of the listings, stay.
\<close>

section \<open>Numbered names\<close>

lemma to_string_inject: "0 \<le> i \<Longrightarrow> 0 \<le> j \<Longrightarrow> to_string i = to_string j \<longleftrightarrow> i = j"
  by (auto simp: to_string_def)

definition taken :: "(string \<rightharpoonup> string) \<Rightarrow> (int \<Rightarrow> string) \<Rightarrow> int \<Rightarrow> int set" where
  "taken f name i = {j. i \<le> j \<and> f (name j) \<noteq> None}"

lemma taken_card:
  assumes "finite (dom f)" "inj_on name {0..}" "0 \<le> i"
  shows "finite (taken f name i)" "card (taken f name i) \<le> card (dom f)"
proof -
  have "taken f name i \<subseteq> {0..}" using assms(3) by (auto simp: taken_def)
  then have i: "inj_on name (taken f name i)" using assms(2) inj_on_subset by blast
  have s: "name ` taken f name i \<subseteq> dom f" by (auto simp: taken_def)
  show "finite (taken f name i)" using finite_imageD [OF finite_subset [OF s assms(1)] i] .
  show "card (taken f name i) \<le> card (dom f)" using card_inj_on_le [OF i s assms(1)] .
qed

lemma taken_next:
  assumes "f (name i) \<noteq> None" "finite (taken f name i)"
  shows "finite (taken f name (i + 1))" "card (taken f name (i + 1)) < card (taken f name i)"
proof -
  have "taken f name (i + 1) = taken f name i - {i}" "i \<in> taken f name i"
    using assms(1) by (auto simp: taken_def)
  then show "finite (taken f name (i + 1))" "card (taken f name (i + 1)) < card (taken f name i)"
    using assms(2) card_Diff1_less [OF assms(2)] by simp_all
qed

definition numbered_leaf :: "string \<Rightarrow> string \<Rightarrow> string \<Rightarrow> int \<Rightarrow> string" where
  "numbered_leaf folder base ext i = child_path folder (base @ ''('' @ to_string i @ '')'' @ ext)"

lemma child_path_inject [simp]: "child_path folder a = child_path folder b \<longleftrightarrow> a = b"
  by (simp add: child_path_def)

lemma numbered_leaf_inj: "inj_on (numbered_leaf folder base ext) {0..}"
  by (auto simp: inj_on_def numbered_leaf_def to_string_inject)

context row_store
begin

lemma triple_free_target:
  assumes "card (taken f (numbered_leaf folder base ext) i) < n" "finite (taken f (numbered_leaf folder base ext) i)"
    "cell (f path) existing"
  shows "triple (at_row M R row f) (free_target n K (R row) row folder base ext i path existing)
     (\<lambda>r st. \<exists>q. r = Returns q \<and> (\<not> live (f q) \<and> (q = path \<or> (\<exists>j\<ge>i. q = numbered_leaf folder base ext j)) \<and>
        at_row M R row f st))"
  using assms
proof (induction n arbitrary: i path existing)
  case (Suc n)
  let ?name = "numbered_leaf folder base ext"
  show ?case
  proof (cases "existing = ''KV-File'' \<or> existing = ''KV-Folder''")
    case False
    then have "\<not> live (f path)" using Suc.prems(3) by (auto simp: live_def)
    then show ?thesis using False by (simp add: free_target.simps triple_return)
  next
    case True
    have "triple (at_row M R row f) (free_target n K (R row) row folder base ext (i + 1) (?name i) v)
       (\<lambda>r st. \<exists>q. r = Returns q \<and> (\<not> live (f q) \<and> (q = path \<or> (\<exists>j\<ge>i. q = ?name j)) \<and> at_row M R row f st))"
      if v: "cell (f (?name i)) v" for v
    proof (cases "f (?name i) = None")
      case None: True
      then have "v \<noteq> ''KV-File''" "v \<noteq> ''KV-Folder''" using v missing_string_facts(1) [of v] by auto
      then show ?thesis using None by (auto simp: free_target.simps intro!: triple_return)
    next
      case False
      note t = taken_next [of f ?name i, OF False Suc.prems(2)]
      then have "card (taken f ?name (i + 1)) < n" using Suc.prems(1) by simp
      note IH = Suc.IH [OF this t(1) v]
      have "q = path \<or> (\<exists>j\<ge>i. q = ?name j)" if "q = ?name i \<or> (\<exists>j\<ge>i + 1. q = ?name j)" for q
        using that by (metis add1_zle_eq less_imp_le order_refl)
      then show ?thesis by (intro triple_weaken [OF IH]) blast
    qed
    then show ?thesis
      using True by (subst free_target.simps) (auto simp: numbered_leaf_def Let_def intro!: step_row_get)
  qed
qed simp

end

section \<open>Clean paths\<close>

lemma numbered_leaf_clean:
  assumes "clean_path (child_path folder (base @ ext))" "0 \<le> i"
  shows "clean_path (numbered_leaf folder base ext i)"
proof -
  have d: "c \<in> set (to_string i) \<Longrightarrow> is_digit c" for c
    using assms(2) digits_only by (simp add: to_string_def)
  have e: "\<not> is_err (numbered_leaf folder base ext i)"
  proof (cases "folder = []")
    case True
    then have "\<not> is_err base" using assms(1) by (auto simp: clean_path_def child_path_def is_err_prefix)
    then show ?thesis using True is_err_sep [of "CHR ''(''" base] by (simp add: numbered_leaf_def child_path_def)
  next
    case False
    then show ?thesis using assms(1) is_err_sep [of "CHR ''/''" folder]
      by (simp add: clean_path_def numbered_leaf_def child_path_def)
  qed
  then show ?thesis
    using assms(1) d [of "CHR '',''"] d [of "CHR ''-''"]
    by (auto simp: clean_path_def numbered_leaf_def child_path_chars) (simp add: child_path_def split: if_splits)
qed

definition listing :: "(string \<rightharpoonup> string) \<Rightarrow> string \<Rightarrow> string list" where
  "listing f folder = (case f (meta_col folder) of None \<Rightarrow> [] | Some m \<Rightarrow> splitStringStorage m)"

lemma has_file_upd:
  assumes "has_file f path data" "col \<noteq> path" "col \<noteq> md path" "\<And>c. col \<noteq> ct c"
  shows "has_file (f(col := v)) path data"
proof -
  have "(f(col := v)) (ct c) = f (ct c)" "(f(col := v)) path = f path" "(f(col := v)) (md path) = f (md path)" for c
    using assms(2-4) by (auto simp: fun_upd_def)
  then show ?thesis using assms(1) unfolding has_file_def by simp
qed

lemma meta_col_clean:
  assumes "clean_path p" "p \<noteq> ''metadata''" "p \<noteq> folder"
  shows "meta_col folder \<noteq> p" "meta_col folder \<noteq> md p" "meta_col folder \<noteq> ct c"
proof -
  show "meta_col folder \<noteq> ct c" by simp
  show "meta_col folder \<noteq> p" using assms by (auto simp: meta_col_def clean_path_def)
  have "CHR ''-'' \<notin> set ''metadata''" by simp
  then show "meta_col folder \<noteq> md p" using assms by (auto simp: meta_col_def clean_path_def md_def)
qed

lemma split_join_comma:
  "xs \<noteq> [] \<Longrightarrow> \<forall>x\<in>set xs. CHR '','' \<notin> set x \<Longrightarrow> splitStringStorage (join_comma xs) = xs"
  by (simp add: splitStringStorage_def splitString_join)

lemma split_clean: "t \<in> set (splitStringStorage s) \<Longrightarrow> CHR '','' \<notin> set t"
  by (simp add: splitStringStorage_def splitString_no_sep)

section \<open>Moving a file\<close>

definition drop_entry :: "(string \<rightharpoonup> string) \<Rightarrow> string \<Rightarrow> string \<Rightarrow> (string \<rightharpoonup> string) \<Rightarrow> bool" where
  "drop_entry f col old g \<longleftrightarrow>
     (\<exists>v. cell (f col) v \<and>
        (let kept = filter (\<lambda>item. item \<noteq> old) (splitStringStorage v)
         in g = (if kept = [] then f(col := None) else f(col \<mapsto> join_comma kept))))"

definition add_entry :: "(string \<rightharpoonup> string) \<Rightarrow> string \<Rightarrow> string \<Rightarrow> (string \<rightharpoonup> string) \<Rightarrow> bool" where
  "add_entry f col new g \<longleftrightarrow> (\<exists>v. cell (f col) v \<and> g = f(col \<mapsto> join_comma (splitStringStorage v @ [new])))"

definition target_names :: "string \<Rightarrow> string \<Rightarrow> string set" where
  "target_names folder name =
     (let dot = find_last_of name {CHR ''.''};
          base = (case dot of None \<Rightarrow> name | Some d \<Rightarrow> take d name);
          ext = (case dot of None \<Rightarrow> [] | Some d \<Rightarrow> drop d name)
      in insert (child_path folder name) (numbered_leaf folder base ext ` {1..}))"

definition relocated ::
  "(string \<rightharpoonup> string) \<Rightarrow> string \<Rightarrow> string \<Rightarrow> string \<Rightarrow> (string \<rightharpoonup> string) \<Rightarrow> bool" where
  "relocated f old folder new g \<longleftrightarrow>
     \<not> live (f new) \<and> new \<in> target_names folder (local_name old) \<and>
     (\<exists>h. add_entry (moved f old new) (meta_col folder) new h \<and>
        drop_entry h (meta_col (parent_path old)) old g)"

context row_store
begin

lemma triple_remove_entry:
  "triple (at_row M R row f) (remove_entry K (R row) row col old) (\<lambda>_ st. \<exists>g. drop_entry f col old g \<and> at_row M R row g st)"
  unfolding remove_entry_def Let_def
proof (rule step_row_get)
  fix v assume v: "cell (f col) v"
  let ?kept = "filter (\<lambda>item. item \<noteq> old) (splitStringStorage v)"
  let ?g = "if ?kept = [] then f(col := None) else f(col \<mapsto> join_comma ?kept)"
  have "drop_entry f col old ?g" unfolding drop_entry_def Let_def using v by blast
  then show "triple (at_row M R row f)
     (if ?kept = [] then do { res \<leftarrow> kv_delete K (R row) row col; State_Monad.return () }
      else do { res \<leftarrow> kv_put K (R row) row col (join_comma ?kept); State_Monad.return () })
     (\<lambda>_ st. \<exists>g. drop_entry f col old g \<and> at_row M R row g st)"
    by (intro triple_if row_steps) (auto intro!: triple_return split: if_splits)
qed

lemma triple_moveFile:
  assumes "movable f old" "finite (dom f)" "card (dom f) < n"
  shows "triple (at_row M R row f) (moveFile n K (R row) row old folder)
    (\<lambda>r st. r = Returns () \<and> (\<exists>new g. relocated f old folder new g \<and> at_row M R row g st))"
proof -
  let ?name = "local_name old"
  let ?dot = "find_last_of ?name {CHR ''.''}"
  let ?base = "case ?dot of None \<Rightarrow> ?name | Some d \<Rightarrow> take d ?name"
  let ?ext = "case ?dot of None \<Rightarrow> [] | Some d \<Rightarrow> drop d ?name"
  let ?path = "child_path folder ?name"
  have c: "finite (taken f (numbered_leaf folder ?base ?ext) 1)" "card (taken f (numbered_leaf folder ?base ?ext) 1) < n"
    using taken_card [OF assms(2) numbered_leaf_inj, of 1 folder ?base ?ext] assms(3) by simp_all
  have t: "triple (at_row M R row f) (free_target n K (R row) row folder ?base ?ext 1 ?path v)
     (\<lambda>r st. \<exists>q. r = Returns q \<and> (\<not> live (f q) \<and> q \<in> target_names folder ?name) \<and> at_row M R row f st)"
    if "cell (f ?path) v" for v
    by (rule triple_weaken [OF triple_free_target [OF c(2,1) that]]) (auto simp: target_names_def Let_def)
  show ?thesis
    unfolding moveFile_def Let_def
    by (rule step_row_get, rule triple_and_then [OF t], assumption, rule triple_pure,
        rule triple_and_then_pure [OF triple_move_file_columns [OF assms(1)]], rule step_row_get, rule step_row_put,
        rule triple_bind [OF triple_remove_entry], rule triple_return)
      (auto simp: relocated_def add_entry_def)
qed

end

lemma target_names_clean:
  assumes "clean_path (child_path folder name)" "q \<in> target_names folder name"
  shows "clean_path q"
proof -
  let ?dot = "find_last_of name {CHR ''.''}"
  let ?base = "case ?dot of None \<Rightarrow> name | Some d \<Rightarrow> take d name"
  let ?ext = "case ?dot of None \<Rightarrow> [] | Some d \<Rightarrow> drop d name"
  have "?base @ ?ext = name" by (simp split: option.split)
  then have "clean_path (numbered_leaf folder ?base ?ext j)" if "1 \<le> j" for j
    using numbered_leaf_clean [of folder ?base ?ext j] assms(1) that by simp
  then show ?thesis using assms by (auto simp: target_names_def Let_def)
qed

lemma target_names_not:
  assumes "q \<in> target_names folder name" "child_path folder name \<noteq> ''metadata''" "child_path folder name \<noteq> []"
  shows "q \<noteq> ''metadata''" "q \<noteq> folder"
proof -
  have "q = child_path folder name \<or> CHR ''('' \<in> set q"
    using assms(1) by (auto simp: target_names_def Let_def numbered_leaf_def child_path_def)
  moreover have "CHR ''('' \<notin> set ''metadata''" by simp
  ultimately show "q \<noteq> ''metadata''" using assms(2) by metis
  have "child_path folder x \<noteq> folder" if "x \<noteq> []" for x
    using that by (auto simp: child_path_def)
  then show "q \<noteq> folder"
    using assms(1,3) by (auto simp: target_names_def Let_def numbered_leaf_def) (auto simp: child_path_def split: if_splits)
qed

lemma add_entry_listing:
  assumes "add_entry f (meta_col folder) new g" "CHR '','' \<notin> set new"
  shows "new \<in> set (listing g folder)"
proof -
  obtain v where "g = f(meta_col folder \<mapsto> join_comma (splitStringStorage v @ [new]))"
    using assms(1) by (auto simp: add_entry_def)
  then show ?thesis using split_join_comma [of "splitStringStorage v @ [new]"] assms(2) split_clean [of _ v]
    by (auto simp: listing_def)
qed

lemma drop_entry_listing:
  assumes "drop_entry f (meta_col src) old g"
  shows "old \<notin> set (listing g src)" "new \<noteq> old \<Longrightarrow> new \<in> set (listing f folder) \<Longrightarrow> new \<in> set (listing g folder)"
proof -
  obtain v where v: "cell (f (meta_col src)) v" and
    g: "g = (let kept = filter (\<lambda>item. item \<noteq> old) (splitStringStorage v)
             in if kept = [] then f(meta_col src := None) else f(meta_col src \<mapsto> join_comma kept))"
    using assms by (auto simp: drop_entry_def Let_def)
  let ?kept = "filter (\<lambda>item. item \<noteq> old) (splitStringStorage v)"
  have l: "listing g src = ?kept"
    using split_join_comma [of ?kept] split_clean [of _ v] by (auto simp: g Let_def listing_def)
  then show "old \<notin> set (listing g src)" by simp
  show "new \<in> set (listing g folder)" if "new \<noteq> old" "new \<in> set (listing f folder)"
  proof (cases "meta_col folder = meta_col src")
    case True
    then have "listing g folder = ?kept" using l by (simp add: listing_def)
    moreover have "splitStringStorage v = listing f folder" using that v True
      by (cases "f (meta_col src)") (simp_all add: listing_def)
    ultimately show ?thesis using that by simp
  next
    case False
    then show ?thesis using that by (simp add: listing_def g Let_def)
  qed
qed

lemma has_file_entries:
  assumes "has_file f p data" "clean_path p" "p \<noteq> ''metadata''" "p \<noteq> folder"
  shows "add_entry f (meta_col folder) x g \<Longrightarrow> has_file g p data"
    and "drop_entry f (meta_col folder) x g \<Longrightarrow> has_file g p data"
  using has_file_upd [OF assms(1) meta_col_clean [OF assms(2-4)]]
  by (auto simp: add_entry_def drop_entry_def Let_def split: if_splits)

lemma entries_frame:
  assumes "CHR ''-'' \<notin> set x" "x \<noteq> ''metadata''"
  shows "add_entry f (meta_col folder) y g \<Longrightarrow> g x = f x"
    and "drop_entry f (meta_col folder) y g \<Longrightarrow> g x = f x"
proof -
  have "x \<noteq> meta_col folder" using assms by (auto simp: meta_col_def)
  then show "add_entry f (meta_col folder) y g \<Longrightarrow> g x = f x" "drop_entry f (meta_col folder) y g \<Longrightarrow> g x = f x"
    by (auto simp: add_entry_def drop_entry_def Let_def split: if_splits)
qed

lemma moved_frame:
  assumes "CHR ''-'' \<notin> set x" "x \<noteq> new"
  shows "moved f old new x = (if x = old then None else f x)"
proof -
  have "shift old new cs f x = f x" for cs using clean_cols [OF assms(1)] by (intro shift_frame) auto
  then show ?thesis using clean_cols [OF assms(1)] assms(2) by (auto simp: moved_def Let_def)
qed

lemma relocated_ok:
  assumes r: "relocated f old folder new g" and h: "has_file f old data"
    and c: "clean_path old" "old \<noteq> ''metadata''" "clean_path (child_path folder (local_name old))"
      "child_path folder (local_name old) \<noteq> ''metadata''"
    and src: "parent_path old = [] \<or> live (f (parent_path old))"
  shows "has_file g new data" "new \<in> set (listing g folder)" "g old = None" "old \<notin> set (listing g (parent_path old))"
    and "x \<noteq> old \<Longrightarrow> x \<noteq> new \<Longrightarrow> CHR ''-'' \<notin> set x \<Longrightarrow> x \<noteq> ''metadata'' \<Longrightarrow> g x = f x"
proof -
  obtain k where k: "add_entry (moved f old new) (meta_col folder) new k"
      "drop_entry k (meta_col (parent_path old)) old g"
    and n: "\<not> live (f new)" "new \<in> target_names folder (local_name old)"
    using r by (auto simp: relocated_def)
  have "child_path folder (local_name old) \<noteq> []" using c(3) by (simp add: clean_path_def)
  note new = target_names_clean [OF c(3) n(2)] target_names_not [OF n(2) c(4) this]
  have "f old = Some ''KV-File''" using h by (simp add: has_file_def)
  then have ne: "new \<noteq> old" using n(1) by auto
  have np: "new \<noteq> parent_path old" using src n(1) new(1) by (auto simp: clean_path_def)
  have f: "has_file (moved f old new) new data" using has_file_moved [OF h c(1) new(1)] ne by blast
  show "has_file g new data"
    by (rule has_file_entries(2) [OF has_file_entries(1) [OF f new k(1)] new(1,2) np k(2)])
  have "new \<in> set (listing k folder)" using add_entry_listing [OF k(1)] new(1) by (simp add: clean_path_def)
  then show "new \<in> set (listing g folder)" by (rule drop_entry_listing(2) [OF k(2) ne])
  show "old \<notin> set (listing g (parent_path old))" by (rule drop_entry_listing(1) [OF k(2)])
  have fr: "g y = moved f old new y" if "CHR ''-'' \<notin> set y" "y \<noteq> ''metadata''" for y
    using entries_frame(2) [OF that k(2)] entries_frame(1) [OF that k(1)] by simp
  show "g old = None" using fr c(1,2) moved_frame [of old new f old] ne by (simp add: clean_path_def)
  show "x \<noteq> old \<Longrightarrow> x \<noteq> new \<Longrightarrow> CHR ''-'' \<notin> set x \<Longrightarrow> x \<noteq> ''metadata'' \<Longrightarrow> g x = f x"
    using fr moved_frame [of x new f old] by simp
qed

section \<open>Renaming a file\<close>

definition swap_entry ::
  "(string \<rightharpoonup> string) \<Rightarrow> string \<Rightarrow> string \<Rightarrow> string \<Rightarrow> (string \<rightharpoonup> string) \<Rightarrow> bool" where
  "swap_entry f col old new g \<longleftrightarrow>
     (\<exists>v. cell (f col) v \<and>
        g = f(col \<mapsto> join_comma (map (\<lambda>e. if e = old then new else e) (splitStringStorage v))))"

lemma swap_entry_listing:
  assumes "swap_entry f (meta_col folder) old new g" "CHR '','' \<notin> set new" "new \<noteq> old"
  shows "old \<notin> set (listing g folder)" "old \<in> set (listing f folder) \<Longrightarrow> new \<in> set (listing g folder)"
proof -
  obtain v where v: "cell (f (meta_col folder)) v" and
    g: "g = f(meta_col folder \<mapsto> join_comma (map (\<lambda>e. if e = old then new else e) (splitStringStorage v)))"
    using assms(1) by (auto simp: swap_entry_def)
  let ?es = "map (\<lambda>e. if e = old then new else e) (splitStringStorage v)"
  have "\<forall>x\<in>set ?es. CHR '','' \<notin> set x" using split_clean [of _ v] assms(2) by auto
  then have l: "listing g folder = ?es" using split_join_comma [of ?es] by (simp add: g listing_def)
  show "old \<notin> set (listing g folder)" using assms(3) unfolding l by auto
  show "new \<in> set (listing g folder)" if "old \<in> set (listing f folder)"
  proof -
    have "splitStringStorage v = listing f folder"
      using that v by (cases "f (meta_col folder)") (simp_all add: listing_def)
    then show ?thesis using that unfolding l by auto
  qed
qed

lemma has_file_swap:
  assumes "has_file f p data" "clean_path p" "p \<noteq> ''metadata''" "p \<noteq> folder"
    "swap_entry f (meta_col folder) x y g"
  shows "has_file g p data"
  using has_file_upd [OF assms(1) meta_col_clean [OF assms(2-4)]] assms(5) by (auto simp: swap_entry_def)

lemma child_path_neq: "child_path folder x \<noteq> [] \<Longrightarrow> child_path folder x \<noteq> folder"
  by (auto simp: child_path_def)

lemma moved_meta:
  assumes "clean_path p" "clean_path q" "p \<noteq> ''metadata''" "q \<noteq> ''metadata''" "p \<noteq> folder" "q \<noteq> folder"
  shows "moved f p q (meta_col folder) = f (meta_col folder)"
proof -
  note c = meta_col_clean [OF assms(1,3,5)] meta_col_clean [OF assms(2,4,6)]
  have "shift p q cs f (meta_col folder) = f (meta_col folder)" for cs using c by (intro shift_frame) auto
  then show ?thesis using c by (simp add: moved_def Let_def)
qed

lemma renamed_ok:
  fixes folder old name
  defines "p \<equiv> child_path folder old" and "q \<equiv> child_path folder name"
  assumes "has_file f p data" "clean_path p" "clean_path q" "p \<noteq> ''metadata''" "q \<noteq> ''metadata''"
    "f q \<noteq> Some ''KV-File''" "swap_entry (moved f p q) (meta_col folder) p q g"
  shows "has_file g q data" "p \<notin> set (listing g folder)"
    "p \<in> set (listing f folder) \<Longrightarrow> q \<in> set (listing g folder)"
proof -
  have ne: "q \<noteq> p" using assms(3,8) by (auto simp: has_file_def)
  have fo: "p \<noteq> folder" "q \<noteq> folder"
    using assms(4,5) child_path_neq unfolding p_def q_def clean_path_def by blast+
  have "has_file (moved f p q) q data" using has_file_moved [OF assms(3-5)] ne by blast
  then show "has_file g q data" by (rule has_file_swap) (use assms fo in auto)
  have l: "listing (moved f p q) folder = listing f folder"
    using moved_meta [OF assms(4-7) fo] by (simp add: listing_def)
  have "CHR '','' \<notin> set q" using assms(5) by (simp add: clean_path_def)
  from swap_entry_listing [OF assms(9) this ne] show "p \<notin> set (listing g folder)"
    "p \<in> set (listing f folder) \<Longrightarrow> q \<in> set (listing g folder)" by (simp_all add: l)
qed

context row_store
begin

lemma triple_replace_entry:
  "triple (at_row M R row f) (replace_entry K (R row) row col old new)
     (\<lambda>_ st. \<exists>g. swap_entry f col old new g \<and> at_row M R row g st)"
  unfolding replace_entry_def
  by (rule step_row_get, rule step_row_put, rule triple_return) (auto simp: swap_entry_def)

lemma triple_rename_file:
  assumes "isValidName name" "movable f (child_path folder old)"
    "f (child_path folder (ensureSameExtension old name)) \<noteq> Some ''KV-File''"
  shows "triple (at_row M R row f) (rename_file K (R row) row folder old name)
    (\<lambda>r st. \<exists>body. r = Returns (httpResponseStorage ''200 OK'' body) \<and>
       (\<exists>g. swap_entry (moved f (child_path folder old) (child_path folder (ensureSameExtension old name)))
              (meta_col folder) (child_path folder old) (child_path folder (ensureSameExtension old name)) g \<and>
            at_row M R row g st))"
proof -
  have "\<not> (name = [] \<or> \<not> isValidName name)" using assms(1) valid_name_clean(4) by blast
  then show ?thesis
    unfolding rename_file_def Let_def if_not_P [OF \<open>\<not> (name = [] \<or> \<not> isValidName name)\<close>]
    by (intro step_marker(1) triple_and_then_pure [OF triple_move_file_columns [OF assms(2)]]
          triple_bind [OF triple_replace_entry] triple_return)
      (use assms(3) in auto)
qed

lemma triple_rename_taken:
  assumes "isValidName name" "f (child_path folder (ensureSameExtension old name)) = Some ''KV-File''"
  shows "triple (at_row M R row f) (rename_file K (R row) row folder old name)
    (\<lambda>r st. r = Returns (bad_request ''File name already exists.'') \<and> at_row M R row f st)"
proof -
  have "\<not> (name = [] \<or> \<not> isValidName name)" using assms(1) valid_name_clean(4) by blast
  then show ?thesis
    unfolding rename_file_def Let_def if_not_P [OF \<open>\<not> (name = [] \<or> \<not> isValidName name)\<close>]
    by (intro step_marker(1) triple_return) (use assms(2) in auto)
qed

end

section \<open>Other columns\<close>

text \<open>The columns of a stored file: its marker, the list of its chunks, and the chunks.\<close>

definition file_columns :: "string \<Rightarrow> string set" where
  "file_columns p = {p, p @ ''-metadata''} \<union> (\<lambda>i. chunk_name p i @ ''-content'') ` UNIV"

lemma file_columns_md_ct: "file_columns p = {p, md p} \<union> range (\<lambda>i. ct (chunk_name p i))"
  by (simp add: file_columns_def md_def ct_def)

lemma file_columns_disjoint:
  assumes "CHR ''-'' \<notin> set p" "CHR ''-'' \<notin> set q" "p \<noteq> q"
  shows "file_columns p \<inter> file_columns q = {}"
  using assms(3) clean_cols [OF assms(1)] clean_cols [OF assms(2)] chunk_name_path [OF assms(1,2)]
  by (auto simp: file_columns_md_ct)

lemma moved_columns:
  assumes "has_file f old data" "clean_path old" "col \<notin> file_columns old" "col \<notin> file_columns new"
  shows "moved f old new col = f col"
proof -
  obtain n where n: "0 < n" "f (md old) = Some (join_comma (names_from old 1 n))"
    using assms(1) by (auto simp: has_file_def)
  have ns: "splitStringStorage (the (f (md old))) = names_from old 1 n"
    using split_names [of old n 1] n assms(2) by (simp add: clean_path_def)
  have "shift old new (names_from old 1 n) f col = f col"
    using assms(3,4) by (intro shift_frame) (auto simp: names_from_def file_columns_md_ct)
  then show ?thesis using assms(3,4) by (simp add: moved_def ns Let_def file_columns_md_ct)
qed

lemma entries_column:
  assumes "col \<noteq> c"
  shows "add_entry f c y g \<Longrightarrow> g col = f col" "drop_entry f c y g \<Longrightarrow> g col = f col"
    "swap_entry f c x y g \<Longrightarrow> g col = f col"
  using assms by (auto simp: add_entry_def drop_entry_def swap_entry_def Let_def split: if_splits)

lemma relocated_columns:
  assumes "relocated f old folder new g" "has_file f old data" "clean_path old"
    "col \<notin> file_columns old" "col \<notin> file_columns new" "col \<noteq> meta_col folder" "col \<noteq> meta_col (parent_path old)"
  shows "g col = f col"
proof -
  obtain k where k: "add_entry (moved f old new) (meta_col folder) new k"
      "drop_entry k (meta_col (parent_path old)) old g"
    using assms(1) by (auto simp: relocated_def)
  show ?thesis
    using entries_column(2) [OF assms(7) k(2)] entries_column(1) [OF assms(6) k(1)] moved_columns [OF assms(2-5)]
    by simp
qed

lemma add_entry_keeps:
  assumes "add_entry f (meta_col folder) new g" "CHR '','' \<notin> set new" "x \<in> set (listing f F)"
  shows "x \<in> set (listing g F)"
proof -
  obtain v where v: "cell (f (meta_col folder)) v"
    and g: "g = f(meta_col folder \<mapsto> join_comma (splitStringStorage v @ [new]))"
    using assms(1) by (auto simp: add_entry_def)
  have l: "splitStringStorage (join_comma (splitStringStorage v @ [new])) = splitStringStorage v @ [new]"
    using assms(2) split_clean [of _ v] by (intro split_join_comma) auto
  show ?thesis
  proof (cases "meta_col F = meta_col folder")
    case True
    then have "splitStringStorage v = listing f F"
      using assms(3) v by (cases "f (meta_col folder)") (simp_all add: listing_def)
    then have "x \<in> set (splitStringStorage v @ [new])" using assms(3) by simp
    then show ?thesis using True l by (simp add: g listing_def)
  qed (use assms(3) in \<open>simp add: g listing_def\<close>)
qed

lemma relocated_listing:
  assumes r: "relocated f old folder new g" and h: "has_file f old data"
    and c: "clean_path old" "old \<noteq> ''metadata''" "clean_path (child_path folder (local_name old))"
      "child_path folder (local_name old) \<noteq> ''metadata''"
    and src: "parent_path old = [] \<or> live (f (parent_path old))"
    and F: "F = folder \<or> F = parent_path old" "F \<noteq> old"
    and x: "x \<noteq> old" "x \<in> set (listing f F)"
  shows "x \<in> set (listing g F)"
proof -
  obtain k where k: "add_entry (moved f old new) (meta_col folder) new k"
      "drop_entry k (meta_col (parent_path old)) old g"
    and n: "\<not> live (f new)" "new \<in> target_names folder (local_name old)"
    using r by (auto simp: relocated_def)
  have "child_path folder (local_name old) \<noteq> []" using c(3) by (simp add: clean_path_def)
  note new = target_names_clean [OF c(3) n(2)] target_names_not [OF n(2) c(4) this]
  have "new \<noteq> parent_path old" using src n(1) new(1) by (auto simp: clean_path_def)
  then have "new \<noteq> F" using F(1) new(3) by auto
  then have "moved f old new (meta_col F) = f (meta_col F)"
    using F(2) by (intro moved_meta [OF c(1) new(1) c(2) new(2)]) auto
  then have "x \<in> set (listing (moved f old new) F)" using x(2) by (simp add: listing_def)
  then have "x \<in> set (listing k F)" using add_entry_keeps [OF k(1)] new(1) by (simp add: clean_path_def)
  then show ?thesis using drop_entry_listing(2) [OF k(2) x(1)] by simp
qed

lemma swap_entry_keeps:
  assumes "swap_entry f (meta_col folder) old new g" "CHR '','' \<notin> set new" "x \<noteq> old" "x \<in> set (listing f folder)"
  shows "x \<in> set (listing g folder)"
proof -
  obtain v where v: "cell (f (meta_col folder)) v" and
    g: "g = f(meta_col folder \<mapsto> join_comma (map (\<lambda>e. if e = old then new else e) (splitStringStorage v)))"
    using assms(1) by (auto simp: swap_entry_def)
  let ?es = "map (\<lambda>e. if e = old then new else e) (splitStringStorage v)"
  have "\<forall>x\<in>set ?es. CHR '','' \<notin> set x" using split_clean [of _ v] assms(2) by auto
  then have l: "listing g folder = ?es" using split_join_comma [of ?es] by (simp add: g listing_def)
  have "splitStringStorage v = listing f folder"
    using assms(4) v by (cases "f (meta_col folder)") (simp_all add: listing_def)
  then show ?thesis using assms(3,4) unfolding l by force
qed

lemma renamed_frame:
  fixes folder old name
  defines "p \<equiv> child_path folder old" and "q \<equiv> child_path folder name"
  assumes "has_file f p data" "clean_path p" "clean_path q" "p \<noteq> ''metadata''" "q \<noteq> ''metadata''"
    "f q \<noteq> Some ''KV-File''" "swap_entry (moved f p q) (meta_col folder) p q g"
  shows "g p = None" "x \<noteq> p \<Longrightarrow> x \<in> set (listing f folder) \<Longrightarrow> x \<in> set (listing g folder)"
    "col \<notin> file_columns p \<Longrightarrow> col \<notin> file_columns q \<Longrightarrow> col \<noteq> meta_col folder \<Longrightarrow> g col = f col"
proof -
  have ne: "q \<noteq> p" using assms(3,8) by (auto simp: has_file_def)
  have fo: "p \<noteq> folder" "q \<noteq> folder"
    using assms(4,5) child_path_neq unfolding p_def q_def clean_path_def by blast+
  have "CHR ''-'' \<notin> set p" using assms(4) by (simp add: clean_path_def)
  moreover have "p \<noteq> meta_col folder" using meta_col_clean(1) [OF assms(4,6) fo(1)] by metis
  ultimately show "g p = None" using entries_column(3) [OF _ assms(9)] moved_frame [of p q f p] ne by simp
  have "listing (moved f p q) folder = listing f folder"
    using moved_meta [OF assms(4-7) fo] by (simp add: listing_def)
  then show "x \<noteq> p \<Longrightarrow> x \<in> set (listing f folder) \<Longrightarrow> x \<in> set (listing g folder)"
    using swap_entry_keeps [OF assms(9)] assms(5) by (simp add: clean_path_def)
  show "col \<notin> file_columns p \<Longrightarrow> col \<notin> file_columns q \<Longrightarrow> col \<noteq> meta_col folder \<Longrightarrow> g col = f col"
    using entries_column(3) [OF _ assms(9)] moved_columns [OF assms(3,4)] by simp
qed

section \<open>Extensions\<close>

lemma valid_name_cases:
  assumes "isValidName s"
  obtains (plain) "CHR ''.'' \<notin> set s" "s \<noteq> []"
  | (dotted) a b where "s = a @ CHR ''.'' # b" "CHR ''.'' \<notin> set a" "CHR ''.'' \<notin> set b" "a \<noteq> []" "b \<noteq> []"
proof -
  let ?segs = "splitString s CHR ''.''"
  have v: "length ?segs \<le> 2" "\<forall>seg\<in>set ?segs. seg \<noteq> [] \<and> CHR ''.'' \<notin> set seg"
    using assms splitString_no_sep [of _ s "CHR ''.''"] by (auto simp: isValidName_def Let_def list_all_iff)
  have s: "join_with CHR ''.'' ?segs = s" by (rule join_splitString)
  have "?segs \<noteq> []" by (simp add: splitString_def)
  then consider a where "?segs = [a]" | a b where "?segs = [a, b]"
    using v(1) by (cases ?segs; cases "tl ?segs") auto
  then show thesis
  proof cases
    case 1
    then show ?thesis using plain v(2) s by simp
  next
    case (2 a b)
    then have "s = a @ CHR ''.'' # b" using s by simp
    then show ?thesis using dotted 2 v(2) by simp
  qed
qed

lemma find_last_of_char:
  "c \<notin> set s \<Longrightarrow> find_last_of s {c} = None"
  "c \<notin> set b \<Longrightarrow> find_last_of (a @ c # b) {c} = Some (length a)"
proof -
  show "find_last_of s {c} = None" if "c \<notin> set s"
  proof -
    have "dropWhile (\<lambda>x. x \<notin> {c}) (rev s) = []" using that by (auto simp: dropWhile_eq_Nil_conv)
    then show ?thesis by (simp add: find_last_of_def)
  qed
  show "find_last_of (a @ c # b) {c} = Some (length a)" if "c \<notin> set b"
  proof -
    have "dropWhile (\<lambda>x. x \<notin> {c}) (rev b @ c # rev a) = c # rev a"
      using that by (subst dropWhile_append2) auto
    then show ?thesis by (simp add: find_last_of_def)
  qed
qed

lemma ensureSameExtension_valid:
  assumes "isValidName old" "isValidName name" "CHR ''.'' \<in> set old \<or> CHR ''.'' \<notin> set name"
  shows "ensureSameExtension old name =
    takeWhile (\<lambda>c. c \<noteq> CHR ''.'') name @ dropWhile (\<lambda>c. c \<noteq> CHR ''.'') old"
proof -
  let ?t = "takeWhile (\<lambda>c. c \<noteq> CHR ''.'')" and ?d = "dropWhile (\<lambda>c. c \<noteq> CHR ''.'')"
  have stem: "(case find_last_of name {CHR ''.''} of
      Some p \<Rightarrow> if p + 1 < length name then take p name @ e else name @ e | None \<Rightarrow> name @ e) = ?t name @ e" for e
    using assms(2)
  proof (cases rule: valid_name_cases)
    case plain
    then show ?thesis by (simp add: find_last_of_char until_char)
  next
    case (dotted a b)
    then show ?thesis by (simp add: find_last_of_char until_char)
  qed
  show ?thesis
    using assms(1)
  proof (cases rule: valid_name_cases)
    case plain
    then have td: "find_last_of name {CHR ''.''} = None" "?t name = name" "?d old = []"
      using assms(3) by (simp_all add: find_last_of_char until_char)
    show ?thesis unfolding td(2,3) using td(1) plain by (simp add: ensureSameExtension_def find_last_of_char)
  next
    case (dotted a b)
    then have "?d old = CHR ''.'' # b" "find_last_of old {CHR ''.''} = Some (length a)"
      by (simp_all add: find_last_of_char until_char)
    then show ?thesis
      using dotted stem [of "CHR ''.'' # b"] by (simp add: ensureSameExtension_def Let_def)
  qed
qed

section \<open>Deleting a file from its listing\<close>

lemma parent_shorter:
  assumes "p \<noteq> []"
  shows "length (parent_path p) < length p"
proof (cases "find_last_of p {CHR ''/''}")
  case (Some k)
  then have "k < length p"
    using length_dropWhile_le [of "\<lambda>c. c \<notin> {CHR ''/''}" "rev p"] assms
    by (cases p) (auto simp: find_last_of_def Let_def split: if_splits)
  then show ?thesis using Some by (simp add: parent_path_def)
qed (use assms in \<open>simp add: parent_path_def\<close>)

lemma meta_col_parent:
  assumes "clean_path p" "p \<noteq> ''metadata''"
  shows "meta_col (parent_path p) \<noteq> p" "meta_col (parent_path p) \<noteq> md p" "meta_col (parent_path p) \<noteq> ct c"
proof -
  have "p \<noteq> parent_path p" using assms(1) parent_shorter [of p] by (auto simp: clean_path_def)
  from meta_col_clean [OF assms this] show "meta_col (parent_path p) \<noteq> p" "meta_col (parent_path p) \<noteq> md p"
    "meta_col (parent_path p) \<noteq> ct c" .
qed

lemma join_comma_listing:
  assumes "f (meta_col folder) = Some (join_comma xs)" "\<forall>x\<in>set xs. CHR '','' \<notin> set x" "x \<noteq> []"
  shows "x \<in> set (listing f folder) \<longleftrightarrow> x \<in> set xs"
proof (cases "xs = []")
  case True
  then show ?thesis using assms(1,3) by (simp add: listing_def splitStringStorage_def splitString_def)
next
  case False
  then show ?thesis using assms(1) split_join_comma [OF False assms(2)] by (simp add: listing_def)
qed

lemma delete_file_ok:
  fixes f p m
  defines "g \<equiv> del_file p (f(meta_col (parent_path p) \<mapsto>
      join_comma (filter (\<lambda>it. \<not> contains it (local_name p)) (splitStringStorage m))))"
  assumes "f (meta_col (parent_path p)) = Some m" "clean_path p" "p \<noteq> ''metadata''"
  shows "\<forall>x. x \<noteq> [] \<longrightarrow> (x \<in> set (listing g (parent_path p)) \<longleftrightarrow>
      x \<in> set (listing f (parent_path p)) \<and> \<not> contains x (local_name p))"
    and "\<forall>x. x \<noteq> p \<longrightarrow> CHR ''-'' \<notin> set x \<longrightarrow> x \<noteq> ''metadata'' \<longrightarrow> g x = f x"
proof -
  let ?col = "meta_col (parent_path p)" and ?kept = "filter (\<lambda>it. \<not> contains it (local_name p)) (splitStringStorage m)"
  have "g ?col = Some (join_comma ?kept)"
    using meta_col_parent [OF assms(3,4)] by (auto simp: g_def del_file_def Let_def fold_clear)
  moreover have "\<forall>x\<in>set ?kept. CHR '','' \<notin> set x" using split_clean [of _ m] by auto
  ultimately have "x \<in> set (listing g (parent_path p)) \<longleftrightarrow> x \<in> set ?kept" if "x \<noteq> []" for x
    using join_comma_listing that by blast
  moreover have "listing f (parent_path p) = splitStringStorage m" using assms(2) by (simp add: listing_def)
  ultimately show "\<forall>x. x \<noteq> [] \<longrightarrow> (x \<in> set (listing g (parent_path p)) \<longleftrightarrow>
      x \<in> set (listing f (parent_path p)) \<and> \<not> contains x (local_name p))" by auto
  have "x \<noteq> ?col" if "CHR ''-'' \<notin> set x" "x \<noteq> ''metadata''" for x using that by (auto simp: meta_col_def)
  then show "\<forall>x. x \<noteq> p \<longrightarrow> CHR ''-'' \<notin> set x \<longrightarrow> x \<noteq> ''metadata'' \<longrightarrow> g x = f x"
    unfolding g_def by (simp add: del_file_clean)
qed

context row_store
begin

lemma triple_delete_file:
  assumes "f (meta_col (parent_path p)) = Some m" "0 < n" "f p \<noteq> Some ''KV-Folder''" "clean_path p" "p \<noteq> ''metadata''"
  shows "triple (at_row M R row f) (delete_path n K (R row) row p)
    (\<lambda>r st. \<exists>g. ((\<exists>page. r = Returns page) \<and> g = del_file p (f(meta_col (parent_path p) \<mapsto>
         join_comma (filter (\<lambda>it. \<not> contains it (local_name p)) (splitStringStorage m))))) \<and> at_row M R row g st)"
proof -
  let ?col = "meta_col (parent_path p)"
  let ?g = "\<lambda>v. f(?col \<mapsto> join_comma (filter (\<lambda>it. \<not> contains it (local_name p)) (splitStringStorage v)))"
  obtain k where k: "n = Suc k" using assms(2) by (cases n) auto
  have v: "cell (f ?col) v \<Longrightarrow> v = m" for v using assms(1) by simp
  have "?g v p \<noteq> Some ''KV-Folder''" for v using meta_col_parent(1) [OF assms(4,5)] assms(3) by auto
  note d = triple_del_file [of "?g _" p, OF this]
  show ?thesis
    unfolding delete_path_def Let_def k
    by (rule step_row_get, rule step_row_put, rule triple_and_then_pure [OF d], rule step_row_get, rule triple_return)
      (use v in blast)
qed

end

end
