(* ===== verification/Storage_Wire.thy ===== *)
theory Storage_Wire
  imports Storage_Delete
begin

text \<open>
  The byte formats of the storage service: what it sends in chunks it also reads in chunks, and its URL
  decoder agrees with the one of the mail service.
\<close>

section \<open>Hexadecimal numbers\<close>

lemma less_16_cases:
  "d < (16 :: nat) \<Longrightarrow> d = 0 \<or> d = 1 \<or> d = 2 \<or> d = 3 \<or> d = 4 \<or> d = 5 \<or> d = 6 \<or> d = 7 \<or> d = 8 \<or> d = 9 \<or>
     d = 10 \<or> d = 11 \<or> d = 12 \<or> d = 13 \<or> d = 14 \<or> d = 15"
  by presburger

lemma hex_char_lower_val:
  assumes "d < 16"
  shows "hex_digit_val (hex_char_lower d) = Some d" "is_hex (hex_char_lower d)"
proof -
  show "hex_digit_val (hex_char_lower d) = Some d"
    using less_16_cases [OF assms] by (auto simp: hex_digit_val_def hex_char_lower_def)
  then show "is_hex (hex_char_lower d)" by (simp add: is_hex_def)
qed

lemma hex_value_snoc: "hex_value (ds @ [c]) = 16 * hex_value ds + the (hex_digit_val c)"
  by (simp add: hex_value_def)

lemma hex_string_facts:
  "hex_string n \<noteq> [] \<and> list_all is_hex (hex_string n) \<and> hex_value (hex_string n) = n"
proof (induction n rule: hex_string.induct)
  case (1 n)
  show ?case
  proof (cases "n < 16")
    case True
    then show ?thesis
      using hex_char_lower_val [OF True] by (subst (1 2 3) hex_string.simps) (simp add: hex_value_def)
  next
    case False
    have "n mod 16 < 16" by simp
    then show ?thesis
      using hex_char_lower_val [of "n mod 16"] 1 [OF False] False
      by (subst (1 2 3) hex_string.simps) (simp add: hex_value_snoc)
  qed
qed

lemma is_hex_not: "is_hex c \<Longrightarrow> c \<noteq> CR \<and> c \<noteq> CHR ''x'' \<and> c \<noteq> CHR ''X'' \<and> c \<noteq> CHR ''+'' \<and> c \<noteq> CHR ''-'' \<and> \<not> is_space c"
  by (auto simp: is_hex_def hex_digit_val_def is_space_def)

lemma takeWhile_hex: "\<forall>x\<in>set xs. is_hex x \<Longrightarrow> takeWhile is_hex xs = xs"
  by (simp add: takeWhile_eq_all_conv)

lemma stoul16_hex_string:
  assumes "n < 2 ^ 64"
  shows "stoul16 (hex_string n) = Returns n"
proof -
  obtain c cs where s: "hex_string n = c # cs" using hex_string_facts [of n] by (cases "hex_string n") auto
  have h: "list_all is_hex (c # cs)" "hex_value (c # cs) = n" using hex_string_facts [of n] s by auto
  then have "c \<noteq> CHR ''+'' \<and> c \<noteq> CHR ''-'' \<and> \<not> is_space c" using is_hex_not by auto
  then have "strto16 (c # cs) = Some (False, n)"
    using h is_hex_not by (auto simp: strto16_def skip_ws_def Let_def list_all_iff takeWhile_hex split: list.splits)
  then show ?thesis using assms by (simp add: stoul16_def s)
qed

section \<open>Chunks\<close>

lemma find_crlf: "CR \<notin> set xs \<Longrightarrow> str_find (xs @ crlf @ ys) crlf 0 = Some (length xs)"
proof -
  have "CR \<notin> set xs \<Longrightarrow> find_sub crlf (xs @ crlf @ ys) k = Some (k + length xs)" for k
    by (induction xs arbitrary: k) (auto simp: prefix_Cons)
  then show "CR \<notin> set xs \<Longrightarrow> ?thesis" by (simp add: str_find_def)
qed

lemma recvLine_line: "CR \<notin> set xs \<Longrightarrow> recvLine (xs @ crlf @ ys) = (xs @ crlf, ys)"
  using find_crlf [of xs ys] by (simp add: recvLine_def)

lemma hex_string_no_CR: "CR \<notin> set (hex_string n)"
  using hex_string_facts [of n] is_hex_not by (auto simp: list_all_iff)

lemma readChunked_size:
  assumes "n < 2 ^ 64"
  shows "readChunkedBodyRaw body (hex_string n @ crlf @ rest) =
    (if n = 0 then Returns body
     else if 2 ^ 64 \<le> length body + n then Throws Wild_write
     else if 2 ^ 63 \<le> length body + n then Throws Length_error
     else if length rest < n then Throws (Runtime_error ''Client closed mid-chunk'')
     else readChunkedBodyRaw (body @ take n rest) (snd (recvLine (drop n rest))))"
  unfolding readChunkedBodyRaw.simps [of body "hex_string n @ crlf @ rest"] recvLine_line [OF hex_string_no_CR] prod.case Let_def
  by (simp add: stoul16_hex_string [OF assms])

lemma hex_string_0: "hex_string 0 = ''0''"
  by (subst hex_string.simps) (simp add: hex_char_lower_def)

lemma readChunked_stream:
  assumes "0 < k"
  shows "length body + length data < 2 ^ 63 \<Longrightarrow>
    readChunkedBodyRaw body (chunk_stream k data @ rest) = Returns (body @ data)"
  using assms
proof (induction k data arbitrary: body rule: chunk_stream.induct)
  case (1 k data)
  show ?case
  proof (cases "data = []")
    case True
    then show ?thesis
      using readChunked_size [of 0 body "crlf @ rest"] by (subst chunk_stream.simps) (simp add: hex_string_0)
  next
    case False
    let ?n = "min k (length data)"
    have n: "0 < ?n" "length body + ?n < 2 ^ 63" using False 1 by auto
    have c: "chunk_stream k data @ rest =
        hex_string ?n @ crlf @ (take ?n data @ crlf @ chunk_stream k (drop ?n data) @ rest)"
      using False 1(3) by (subst chunk_stream.simps) (simp add: Let_def)
    have "length (body @ take ?n data) + length (drop ?n data) < 2 ^ 63" using 1(2) by simp
    then have IH: "readChunkedBodyRaw (body @ take ?n data) (chunk_stream k (drop ?n data) @ rest) = Returns (body @ data)"
      using 1(1) [OF _ refl, of "body @ take ?n data"] False 1(3) by simp
    have "snd (recvLine (crlf @ chunk_stream k (drop ?n data) @ rest)) = chunk_stream k (drop ?n data) @ rest"
      using recvLine_line [of "[]"] by simp
    then show ?thesis
      unfolding c using readChunked_size [of ?n body] n IH by simp
  qed
qed

section \<open>URL decoding\<close>

lemma hex_value_one [simp]: "hex_value [a] = the (hex_digit_val a)" "hex_value [a, b] = 16 * the (hex_digit_val a) + the (hex_digit_val b)"
  by (simp_all add: hex_value_def)

lemma strto16_two:
  "strto16 [a, b] =
     (if is_hex a then (if is_hex b then Some (False, hex_value [a, b]) else Some (False, hex_value [a]))
      else if (is_space a \<or> a = CHR ''+'') \<and> is_hex b then Some (False, hex_value [b])
      else if a = CHR ''-'' \<and> is_hex b then Some (True, hex_value [b])
      else None)"
  using is_hex_not [of a] is_hex_not [of b]
  by (cases "is_space a"; cases "is_space b"; auto simp: strto16_def skip_ws_def Let_def is_space_def)

lemma read_hex2_stoi:
  assumes "stoi16 [a, b] = Returns v" "\<not> (a = CHR ''0'' \<and> (b = CHR ''x'' \<or> b = CHR ''X''))"
  shows "read_hex2 a b = Some v"
proof -
  have "of_char a = (48 :: nat) \<Longrightarrow> a = CHR ''0''"
    using of_char_eq_iff [where 'a = nat, of a "CHR ''0''"] by simp
  then have "hex_digit_val a = Some 0 \<Longrightarrow> a = CHR ''0''"
    by (auto simp: hex_digit_val_def Let_def split: if_splits)
  then show ?thesis
    using assms is_hex_not [of a]
    by (auto simp: stoi16_def strto16_two read_hex2_def is_hex_def Let_def split: if_splits option.splits)
qed

lemma stoi16_two_range: "stoi16 [a, b] \<noteq> Diverges"
  by (auto simp: stoi16_def Let_def split: option.splits)

lemma contains_tail: "contains xs pat \<Longrightarrow> contains (c # xs) pat"
  by (simp add: contains_sublist sublist_Cons_right)

lemma contains_escape: "\<not> contains (CHR ''%'' # a # b # rest) ''%0x'' \<Longrightarrow> \<not> (a = CHR ''0'' \<and> b = CHR ''x'')"
  "\<not> contains (CHR ''%'' # a # b # rest) ''%0X'' \<Longrightarrow> \<not> (a = CHR ''0'' \<and> b = CHR ''X'')"
  by (auto simp: contains_sublist sublist_Cons_right)

lemma urlDecode_plain:
  assumes "\<not> (c = CHR ''%'' \<and> 2 \<le> length cs)"
  shows "urlDecode (c # cs) = (if c = CHR ''+'' then CHR '' '' else c) # urlDecode cs"
proof (cases "c = CHR ''%''")
  case True
  then have "length cs < 2" using assms by simp
  then consider "cs = []" | x where "cs = [x]" by (cases cs; cases "tl cs") auto
  then show ?thesis using True by cases simp_all
qed simp

lemma urlDecode2_urlDecode:
  "urlDecode2 s = Returns t \<Longrightarrow> \<not> contains s ''%0x'' \<Longrightarrow> \<not> contains s ''%0X'' \<Longrightarrow> t = urlDecode s"
proof (induction s arbitrary: t rule: length_induct)
  case (1 s)
  have IH: "t' = urlDecode s'" if "length s' < length s" "urlDecode2 s' = Returns t'"
    "\<not> contains s' ''%0x''" "\<not> contains s' ''%0X''" for s' t'
    using 1(1) that by blast
  show ?case
  proof (cases s)
    case (Cons c cs)
    have tail: "\<not> contains cs ''%0x''" "\<not> contains cs ''%0X''" using 1(3,4) contains_tail unfolding Cons by blast+
    show ?thesis
    proof (cases "c = CHR ''%'' \<and> 2 \<le> length cs")
      case True
      then obtain a b rest where cs: "cs = a # b # rest" by (auto simp: Suc_le_length_iff numeral_2_eq_2)
      obtain v r where v: "stoi16 [a, b] = Returns v" "urlDecode2 rest = Returns r" "t = char_of v # r"
        using 1(2) True unfolding Cons cs by (auto simp: outcome_bind_def split: outcome.splits)
      have "\<not> contains rest ''%0x''" "\<not> contains rest ''%0X''" using tail contains_tail unfolding cs by blast+
      then have "r = urlDecode rest" by (intro IH v(2)) (simp_all add: Cons cs)
      moreover have s: "s = CHR ''%'' # a # b # rest" using True Cons cs by simp
      have "\<not> (a = CHR ''0'' \<and> b = CHR ''x'')" "\<not> (a = CHR ''0'' \<and> b = CHR ''X'')"
        by (rule contains_escape, use 1(3,4) s in simp)+
      then have "read_hex2 a b = Some v" by (intro read_hex2_stoi [OF v(1)]) simp
      ultimately show ?thesis using True v(3) by (simp add: Cons cs)
    next
      case False
      obtain r where r: "urlDecode2 cs = Returns r" "t = (if c = CHR ''+'' then CHR '' '' else c) # r"
        using 1(2) False unfolding Cons
        by (cases "urlDecode2 cs") (auto simp: numeral_2_eq_2 split: list.splits if_splits)
      then have "r = urlDecode cs" by (intro IH tail) (simp_all add: Cons)
      then show ?thesis unfolding Cons urlDecode_plain [OF False] r(2) by simp
    qed
  qed (use 1(2) in simp)
qed

section \<open>Properties\<close>

text \<open>
  C29. Chunked transfer encoding round trip: the chunks that a download sends, in pieces of any positive
  size, are read back by the reader of chunked request bodies as the bytes that were sent, whatever follows.
\<close>

theorem chunked_roundtrip:
  assumes "0 < k" "length data < 2 ^ 63"
  shows "readChunkedBodyRaw [] (chunk_stream k data @ rest) = Returns data"
  using readChunked_stream [OF assms(1), of "[]" data rest] assms(2) by simp

theorem chunked_roundtrip_witness:
  "readChunkedBodyRaw [] (chunk_stream 65536 ''hello'' @ []) = Returns ''hello''"
  using chunked_roundtrip [of 65536 "''hello''" "[]"] by simp

text \<open>
  C30. The two URL decoders agree: whenever the decoder of the storage service returns, that of the mail
  service returns the same text, unless an escape is \<^verbatim>\<open>%0x\<close> or \<^verbatim>\<open>%0X\<close>, where the first reads a zero and the
  second drops the escape.
\<close>

theorem url_decoders_agree:
  assumes "urlDecode2 s = Returns t" "\<not> contains s ''%0x''" "\<not> contains s ''%0X''"
  shows "urlDecode s = t"
  using urlDecode2_urlDecode [OF assms] by simp

theorem url_decoders_agree_witness: "urlDecode ''a%2Fb+c'' = ''a/b c''"
proof -
  have "urlDecode2 ''a%2Fb+c'' = Returns ''a/b c''" "\<not> contains ''a%2Fb+c'' ''%0x''" "\<not> contains ''a%2Fb+c'' ''%0X''"
    by code_simp+
  then show ?thesis by (rule url_decoders_agree)
qed

end
