(* ===== verification/Storage_Properties.thy ===== *)
theory Storage_Properties
  imports Storage_Moves Storage_Wire Email_Properties
begin

text \<open>What the storage service guarantees on a healthy cluster.\<close>

section \<open>Samples\<close>

definition sample_upload :: string where
  "sample_upload =
     ''POST /upload HTTP/1.1'' @ crlf @
     ''Content-Type: multipart/form-data; boundary=xyz'' @ crlf @ crlf @
     ''--xyz'' @ crlf @ ''Content-Disposition: form-data; name=\"file\"; filename=\"a.txt\"'' @ crlf @ crlf @
     ''hello'' @ crlf @ ''--xyz--'' @ crlf"

definition sample_download :: string where
  "sample_download = ''GET /download?filename=a.txt HTTP/1.1'' @ crlf @ crlf"

lemma sample_upload_request: "upload_request [] sample_upload = Returns (Inr ([], ''a.txt'', ''hello''))"
  by code_simp

lemma sample_download_params:
  "query_params (first_line sample_download) = Returns [''filename'' \<mapsto> ''a.txt'']"
proof -
  have q: "query_string (first_line sample_download) = Some ''filename=a.txt''"
    "urlDecode2 ''filename=a.txt'' = Returns ''filename=a.txt''"
    "getlines CHR ''&'' ''filename=a.txt'' = [''filename=a.txt'']"
    "str_find ''filename=a.txt'' ''='' 0 = Some 8"
    by code_simp+
  show ?thesis by (simp add: query_params_def q parseQueryParamsStorage_def add_param_def)
qed

section \<open>From triples to runs\<close>

context row_store
begin

lemma triple_upload:
  assumes "upload_request socket request = Returns (Inr (folder, name, data))"
    "M (u @ ''-storage'') (child_path folder name) \<noteq> Some ''KV-File''"
  shows "triple (at M R) (webStorageUpload n K u socket request)
    (\<lambda>r st. r = Returns (httpResponseStorage ''200 OK'' (upload_page folder name)) \<and>
       at_row M R (u @ ''-storage'') (uploaded (M (u @ ''-storage'')) folder (child_path folder name) name data) st)"
  unfolding webStorageUpload_def assms(1) attempt_simps sum.case prod.case
  by (rule with_storage_row, rule triple_upload_fresh) (rule assms(2))

lemma triple_upload_throws:
  assumes "upload_request socket request = Returns (Inr (folder, name, data))"
    "M (u @ ''-storage'') (child_path folder name) = Some ''KV-File''" "CHR ''.'' \<notin> set (child_path folder name)" "0 < n"
  shows "triple (at M R) (webStorageUpload n K u socket request)
    (\<lambda>r st. r = Throws Out_of_range \<and> at_row M R (u @ ''-storage'') (M (u @ ''-storage'')) st)"
proof -
  let ?p = "child_path folder name"
  obtain k where k: "n = Suc k" using assms(4) by (cases n) auto
  have "numbered ?p i = Throws Out_of_range" for i
    using find_sub_char_absent [OF assms(3)] by (simp add: numbered_def str_find_def)
  then have f: "free_upload n K c row ?p i = State_Monad.return (Throws Out_of_range)" for c row i by (simp add: k)
  show ?thesis
    unfolding webStorageUpload_def assms(1) attempt_simps sum.case prod.case upload_store_def and_then_def choose_name_def f
    by (rule with_storage_row, rule triple_bind [where B = "\<lambda>r st. r = Throws Out_of_range \<and>
          at_row M R (u @ ''-storage'') (M (u @ ''-storage'')) st"], rule step_marker(1))
      (auto simp: assms(2) intro!: triple_pure triple_return)
qed

lemma triple_download:
  assumes "query_params (first_line request) = Returns params" "params ''filename'' = Some name"
    "file_data (M (u @ ''-storage'')) (child_path (hdr params ''folder'') name) = Some data" "data \<noteq> []"
  shows "triple (at M R) (webStorageDownload K u request)
    (\<lambda>r st. r = Returns (sendChunkedResponse ''HTTP/1.1 200 OK'' (get_content_type_storage name) data
                (''Content-Disposition: attachment; filename=\"'' @ name @ ''\"'')) \<and> at M R st)"
  unfolding webStorageDownload_def assms(1) attempt_simps assms(2) option.case Let_def
proof (rule with_storage_row, rule triple_bind [OF triple_fetch_file [OF assms(3)]], rule triple_pure, rule triple_return)
qed (use assms(4) in \<open>simp add: at_row_eq\<close>)

end

section \<open>Uploading and downloading\<close>

text \<open>
  C25. What was uploaded is what is downloaded: on a healthy cluster an upload with a fresh name answers
  200, and a download of that folder and name then sends exactly the uploaded bytes, with the content type
  of the name, however many chunks the file was split into. This holds for files that are not empty (an
  empty file has no list of chunks, and its download is the store's error text with status 200) and shorter
  than 2 GB, for folders without a comma, and for paths that do not contain
  \<^verbatim>\<open>not found\<close> (the list of their chunks would be taken for an error) and are not
  \<^verbatim>\<open>metadata\<close> (that column is the listing of the root folder); fresh means that the
  path is no file and has no list of chunks left from an earlier one.
\<close>

theorem upload_download:
  assumes "healthy cl"
    and "upload_request socket request = Returns (Inr (folder, name, data))" "data \<noteq> []" "length data < 2 ^ 31"
    and "CHR '','' \<notin> set folder" "\<not> contains (child_path folder name) ''not found''"
      "child_path folder name \<noteq> meta_col folder"
    and "db P cl (u @ ''-storage'') (child_path folder name) \<noteq> Some ''KV-File''"
      "db P cl (u @ ''-storage'') (child_path folder name @ ''-metadata'') = None"
    and "run_state (webStorageUpload n (cluster_ops P) u socket request) cl = (res, cl')"
    and "query_params (first_line get) = Returns params" "params ''filename'' = Some name" "hdr params ''folder'' = folder"
  shows "res = Returns (httpResponseStorage ''200 OK'' (upload_page folder name)) \<and>
    fst (run_state (webStorageDownload (cluster_ops P) u get) cl') =
      Returns (sendChunkedResponse ''HTTP/1.1 200 OK'' (get_content_type_storage name) data
        (''Content-Disposition: attachment; filename=\"'' @ name @ ''\"''))"
proof -
  let ?row = "u @ ''-storage''" and ?p = "child_path folder name"
  let ?f = "uploaded (db P cl ?row) folder ?p name data"
  have up: "res = Returns (httpResponseStorage ''200 OK'' (upload_page folder name))"
    "row_at healthy (db P) (cluster_route P) (db P cl) (cluster_route P cl) ?row ?f cl'"
    using tripleD [OF rs.triple_upload [where P = P and u = u and n = n and M = "db P cl", OF assms(2,8)] healthy_kv_at [OF assms(1)]] assms(10)
    by simp_all
  have cl': "healthy cl'" "db P cl' ?row = ?f" using rs.at_row_end(1,2) [OF up(2)] by simp_all
  have "has_file ?f ?p data"
    using has_file_uploaded [OF assms(6,7) _ assms(3,4)] assms(9) by (simp add: md_def)
  moreover have "CHR '','' \<notin> set ?p"
    using valid_name_clean(2) [OF upload_request_valid [OF assms(2)]] assms(5) by (simp add: child_path_chars)
  ultimately have d: "file_data (db P cl' ?row) (child_path (hdr params ''folder'') name) = Some data"
    using has_file_data cl'(2) assms(13) by simp
  show ?thesis
    using tripleD [OF rs.triple_download [where P = P and M = "db P cl'" and u = u, OF assms(11,12) d assms(3)] healthy_kv_at [OF cl'(1)]] up(1) by simp
qed

theorem upload_download_witness:
  "fst (run_state (webStorageDownload (cluster_ops sample_platform) ''bob'' sample_download)
      (snd (run_state (webStorageUpload 0 (cluster_ops sample_platform) ''bob'' [] sample_upload)
         (booted_cluster sample_platform)))) =
     Returns (sendChunkedResponse ''HTTP/1.1 200 OK'' ''text/plain'' ''hello''
       (''Content-Disposition: attachment; filename=\"a.txt\"''))"
proof -
  let ?run = "run_state (webStorageUpload 0 (cluster_ops sample_platform) ''bob'' [] sample_upload) (booted_cluster sample_platform)"
  have r: "?run = (fst ?run, snd ?run)" by simp
  have e: "db sample_platform (booted_cluster sample_platform) row col = None" for row col
    using booted_db_empty [OF booted_booted_cluster [OF platform_ok_sample]] by simp
  have c: "\<not> contains (child_path [] ''a.txt'') ''not found''" "child_path [] ''a.txt'' \<noteq> meta_col []"
    "get_content_type_storage ''a.txt'' = ''text/plain''"
    by code_simp+
  show ?thesis
    using upload_download [OF healthy_booted_cluster [OF platform_ok_sample] sample_upload_request _ _ _ c(1,2) _ _ r sample_download_params]
    by (simp add: e c(3) hdr_def)
qed

text \<open>The state after that upload, for the examples below.\<close>

definition stored :: cluster where
  "stored = snd (run_state (webStorageUpload 0 (cluster_ops sample_platform) ''bob'' [] sample_upload)
     (booted_cluster sample_platform))"

lemma stored_facts:
  "healthy stored"
  "db sample_platform stored ''bob-storage'' =
     [''a.txt'' \<mapsto> ''KV-File'', ''a.txt-metadata'' \<mapsto> ''a.txt-1'', ''a.txt-1-content'' \<mapsto> ''hello'']"
  "r \<noteq> ''bob-storage'' \<Longrightarrow> db sample_platform stored r c = None"
proof -
  let ?cl = "booted_cluster sample_platform"
  have e: "db sample_platform ?cl = (\<lambda>row col. None)"
    using booted_db_empty [OF booted_booted_cluster [OF platform_ok_sample]] by (simp add: fun_eq_iff)
  have p: "child_path [] ''a.txt'' = ''a.txt''" "meta_col [] = ''metadata''" "nat_string (Suc 0) = ''1''"
    by code_simp+
  have "row_at healthy (db sample_platform) (cluster_route sample_platform) (db sample_platform ?cl)
      (cluster_route sample_platform ?cl) ''bob-storage'' (uploaded Map.empty [] ''a.txt'' ''a.txt'' ''hello'') stored"
    using tripleD [OF rs.triple_upload [where P = sample_platform and u = "''bob''" and M = "db sample_platform ?cl",
          OF sample_upload_request] healthy_kv_at [OF healthy_booted_cluster [OF platform_ok_sample]]]
    by (simp add: e p stored_def)
  note facts = rs.at_row_end(1-3) [OF this]
  from facts show "healthy stored"
    "db sample_platform stored ''bob-storage'' =
     [''a.txt'' \<mapsto> ''KV-File'', ''a.txt-metadata'' \<mapsto> ''a.txt-1'', ''a.txt-1-content'' \<mapsto> ''hello'']"
    by (simp_all add: uploaded_def int_size_def chunks_of.simps p md_def ct_def chunk_name_def)
  show "r \<noteq> ''bob-storage'' \<Longrightarrow> db sample_platform stored r c = None"
    using facts(3) by (simp add: e)
qed

lemma stored_has_file: "has_file (db sample_platform stored ''bob-storage'') ''a.txt'' ''hello''"
proof -
  have "nat_string (Suc 0) = ''1''" by code_simp
  then show ?thesis
    unfolding has_file_def
    by (intro conjI exI [of _ 1])
      (simp_all add: stored_facts(2) md_def ct_def chunk_name_def names_from_def)
qed

section \<open>Deleting\<close>

text \<open>
  C26. Deleting a path ends and deletes exactly what is below it: with fuel above the number of folders of
  the row (a recursive call always enters a folder that it has marked as deleted, so even cyclic listings
  end), \<open>deleteRec\<close> returns. Of every file that can be reached from the deleted path through
  the listings the marker, the list of chunks, the content of every chunk of the list and the content column
  are gone. A folder reached so loses its listing; its marker becomes
  \<^verbatim>\<open>DEL KV-Folder\<close> and stays in the row (or is gone, if the folder was listed
  twice). Every column that is not one of these columns of a path reached keeps its value, so all other
  files and folders stay whole, and no other row changes. The paths reached must have no dash, the character
  that separates a path from the suffix of its columns (names of uploaded files have none, C32).
\<close>

theorem deleteRec_removes:
  assumes "healthy cl" and "card (folders (db P cl row)) < n"
    and "\<And>q. below (db P cl row) p q \<Longrightarrow> CHR ''-'' \<notin> set q"
    and "run_state (deleteRec n (cluster_ops P) (cluster_route P cl row) row p) cl = (res, cl')"
  shows "res = Returns () \<and> healthy cl' \<and>
    (\<forall>q. below (db P cl row) p q \<longrightarrow> \<not> live (db P cl' row q)) \<and>
    (\<forall>q. below (db P cl row) p q \<longrightarrow> db P cl row q = Some ''KV-File'' \<longrightarrow>
       db P cl' row q = None \<and> db P cl' row (q @ ''-content'') = None \<and>
       (\<forall>c\<in>set (kids (db P cl row) q). db P cl' row (c @ ''-content'') = None) \<and>
       (kids (db P cl row) q \<noteq> [] \<longrightarrow> db P cl' row (q @ ''-metadata'') = None)) \<and>
    (\<forall>q. below (db P cl row) p q \<longrightarrow> db P cl row q = Some ''KV-Folder'' \<longrightarrow>
       db P cl' row q \<in> {None, Some ''DEL KV-Folder''} \<and> db P cl' row (q @ ''-metadata'') = None) \<and>
    (\<forall>col. (\<forall>q. below (db P cl row) p q \<longrightarrow> col \<noteq> q \<and> col \<noteq> q @ ''-metadata'' \<and> col \<noteq> q @ ''-content'' \<and>
         (\<forall>c\<in>set (kids (db P cl row) q). col \<noteq> c @ ''-content'')) \<longrightarrow>
       db P cl' row col = db P cl row col) \<and>
    (\<forall>r. r \<noteq> row \<longrightarrow> db P cl' r = db P cl r)"
proof -
  let ?f = "db P cl row"
  have fin: "finite (folders ?f)"
    using finite_db_row [of P cl row] by (rule finite_subset [rotated]) (auto simp: folders_def)
  have "triple (row_at healthy (db P) (cluster_route P) (db P cl) (cluster_route P cl) row ?f)
      (deleteRec n (cluster_ops P) (cluster_route P cl row) row p)
      (\<lambda>r st. \<exists>g. (r = Returns () \<and> g = del n p ?f) \<and>
         row_at healthy (db P) (cluster_route P) (db P cl) (cluster_route P cl) row g st)"
    using triple_weaken [OF rs.triple_deleteRec [where P = P, OF fin assms(2)]] by simp
  then have "(res = Returns () \<and> db P cl' row = del n p ?f) \<and> healthy cl' \<and>
      cluster_route P cl' = cluster_route P cl \<and> (\<forall>r. r \<noteq> row \<longrightarrow> db P cl' r = db P cl r)"
    by (rule rs.run_on_row) (use assms(1,4) in simp_all)
  then have run: "res = Returns ()" "db P cl' row = del n p ?f" "healthy cl'" "\<forall>r. r \<noteq> row \<longrightarrow> db P cl' r = db P cl r"
    by blast+
  note gone = del_below(1) [of ?f p n, OF assms(3) fin assms(2)]
  note cols = del_columns [of ?f p n, OF assms(3) fin assms(2)]
  have "del n p ?f col = ?f col" if "\<forall>q. below ?f p q \<longrightarrow> col \<noteq> q \<and> col \<noteq> md q \<and> col \<noteq> ct q \<and>
      (\<forall>c\<in>set (kids ?f q). col \<noteq> ct c)" for col
    using that by (intro cols(3)) (auto simp: columns_of_def)
  then show ?thesis
    using run gone cols(1,2) unfolding file_gone_def md_def ct_def by simp
qed

theorem deleteRec_removes_witness:
  "map (db sample_platform (snd (run_state
      (deleteRec 1 (cluster_ops sample_platform) (cluster_route sample_platform stored ''bob-storage'') ''bob-storage'' ''a.txt'')
      stored)) ''bob-storage'') [''a.txt'', ''a.txt-metadata'', ''a.txt-1-content''] = [None, None, None]"
proof -
  let ?f = "db sample_platform stored ''bob-storage''"
  let ?run = "run_state (deleteRec 1 (cluster_ops sample_platform) (cluster_route sample_platform stored ''bob-storage'')
      ''bob-storage'' ''a.txt'') stored"
  have r: "?run = (fst ?run, snd ?run)" by simp
  have c: "card (folders ?f) < 1" by (simp add: stored_facts(2) folders_def)
  have b: "CHR ''-'' \<notin> set q" if "below ?f ''a.txt'' q" for q
    using that by (induction rule: below.induct) (auto simp: stored_facts(2) split: if_splits)
  have k: "kids ?f ''a.txt'' = [''a.txt-1'']"
  proof -
    have "splitStringStorage ''a.txt-1'' = [''a.txt-1'']" "\<not> is_err ''a.txt-1''" by code_simp+
    then show ?thesis by (simp add: kids_def md_def stored_facts(2))
  qed
  have "?f ''a.txt'' = Some ''KV-File''" by (simp add: stored_facts(2))
  then show ?thesis
    using deleteRec_removes [OF stored_facts(1) c b r] below_self [of ?f "''a.txt''"] k by auto
qed

section \<open>Moving and renaming\<close>

text \<open>
  C27. Moving a file keeps its contents and overwrites nothing: with fuel above the number of columns of the
  row, \<open>moveFile\<close> returns, the file is then under a path that was neither a file nor a folder
  before, with the same contents and listed in the destination folder; the old path is gone, from the row
  and from the listing of its folder. Every column of the row, other than the columns of the old and the new
  path (marker, list of chunks, chunks) and the two listings, keeps its value, so all other files and
  folders stay whole; the listings keep their other entries; no other row changes. The paths must have no
  comma and no dash, must not start with \<^verbatim>\<open>ERR\<close> and must not be
  \<^verbatim>\<open>metadata\<close>, and the old path is in the root folder or in a folder that exists.
\<close>

theorem moveFile_keeps:
  assumes "healthy cl" and "card (dom (db P cl row)) < n"
    and "has_file (db P cl row) old data" "clean_path old" "old \<noteq> ''metadata''"
    and "clean_path (child_path folder (local_name old))" "child_path folder (local_name old) \<noteq> ''metadata''"
    and "parent_path old = [] \<or> live (db P cl row (parent_path old))"
    and "run_state (moveFile n (cluster_ops P) (cluster_route P cl row) row old folder) cl = (res, cl')"
  shows "res = Returns () \<and> healthy cl' \<and>
    (\<exists>new. \<not> live (db P cl row new) \<and> has_file (db P cl' row) new data \<and> new \<in> set (listing (db P cl' row) folder) \<and>
       (\<forall>col. col \<notin> file_columns old \<longrightarrow> col \<notin> file_columns new \<longrightarrow> col \<noteq> meta_col folder \<longrightarrow>
          col \<noteq> meta_col (parent_path old) \<longrightarrow> db P cl' row col = db P cl row col)) \<and>
    db P cl' row old = None \<and> old \<notin> set (listing (db P cl' row) (parent_path old)) \<and>
    (\<forall>F x. F \<in> {folder, parent_path old} - {old} \<longrightarrow> x \<noteq> old \<longrightarrow> x \<in> set (listing (db P cl row) F) \<longrightarrow>
       x \<in> set (listing (db P cl' row) F)) \<and>
    (\<forall>r. r \<noteq> row \<longrightarrow> db P cl' r = db P cl r)"
proof -
  let ?f = "db P cl row"
  have "triple (row_at healthy (db P) (cluster_route P) (db P cl) (cluster_route P cl) row ?f)
      (moveFile n (cluster_ops P) (cluster_route P cl row) row old folder)
      (\<lambda>r st. \<exists>g. (r = Returns () \<and> (\<exists>new. relocated ?f old folder new g)) \<and>
         row_at healthy (db P) (cluster_route P) (db P cl) (cluster_route P cl) row g st)"
    by (rule triple_weaken [OF rs.triple_moveFile [where P = P,
          OF has_file_movable [OF assms(3,4)] finite_db_row assms(2)]]) blast
  then have "(res = Returns () \<and> (\<exists>new. relocated ?f old folder new (db P cl' row))) \<and> healthy cl' \<and>
      cluster_route P cl' = cluster_route P cl \<and> (\<forall>r. r \<noteq> row \<longrightarrow> db P cl' r = db P cl r)"
    by (rule rs.run_on_row) (use assms(1,9) in simp_all)
  then obtain new where new: "relocated ?f old folder new (db P cl' row)" "res = Returns ()" "healthy cl'"
      "\<forall>r. r \<noteq> row \<longrightarrow> db P cl' r = db P cl r" by blast
  have "\<not> live (?f new)" using new(1) by (simp add: relocated_def)
  moreover note relocated_ok(1-4) [OF new(1) assms(3-8)]
  moreover have "db P cl' row col = ?f col" if "col \<notin> file_columns old" "col \<notin> file_columns new"
      "col \<noteq> meta_col folder" "col \<noteq> meta_col (parent_path old)" for col
    by (rule relocated_columns [OF new(1) assms(3,4) that])
  moreover have "x \<in> set (listing (db P cl' row) F)"
    if "F \<in> {folder, parent_path old} - {old}" "x \<noteq> old" "x \<in> set (listing ?f F)" for F x
    using relocated_listing [OF new(1) assms(3-8) _ _ that(2,3)] that(1) by blast
  ultimately show ?thesis using new(2-4) by blast
qed

theorem moveFile_keeps_witness:
  "\<exists>new. has_file (db sample_platform (snd (run_state
      (moveFile 4 (cluster_ops sample_platform) (cluster_route sample_platform stored ''bob-storage'') ''bob-storage''
         ''a.txt'' ''pics'') stored)) ''bob-storage'') new ''hello''"
proof -
  let ?run = "run_state (moveFile 4 (cluster_ops sample_platform) (cluster_route sample_platform stored ''bob-storage'')
      ''bob-storage'' ''a.txt'' ''pics'') stored"
  have r: "?run = (fst ?run, snd ?run)" by simp
  have n: "local_name ''a.txt'' = ''a.txt''" "parent_path ''a.txt'' = []" "child_path ''pics'' ''a.txt'' = ''pics/a.txt''"
    by code_simp+
  have c: "clean_path ''a.txt''" "clean_path ''pics/a.txt''" by (simp_all add: clean_path_def is_err_def)
  have d: "card (dom (db sample_platform stored ''bob-storage'')) < 4" by (simp add: stored_facts(2))
  show ?thesis
    using moveFile_keeps [OF stored_facts(1) d stored_has_file c(1) _ _ _ _ r] by (auto simp: n c(2))
qed

text \<open>
  C28. Renaming a file: a valid name that is not that of a file moves the contents to the new path, and
  replaces the old path in the listing of the folder; if the new path is a file the request is refused and
  nothing changes (only files are looked for: the marker of a folder with that name is overwritten). The
  last component of the new path is the new name up to its dot, followed by the old name from its dot on:
  the file keeps its extension. The old path is gone; all columns but those of the two paths and the
  listing, the other entries of the listing, and all other rows stay as they were. Both names are valid, and
  the new one has a dot only if the old one has (where it alone has one, the code drops the extension that
  the comment of \<open>ensureSameExtension\<close> says is kept); the paths have no comma and no dash, do
  not start with \<^verbatim>\<open>ERR\<close> and are not \<^verbatim>\<open>metadata\<close>.
\<close>

theorem rename_file_keeps:
  fixes folder old name
  defines "p \<equiv> child_path folder old"
    and "q \<equiv> child_path folder (takeWhile (\<lambda>c. c \<noteq> CHR ''.'') name @ dropWhile (\<lambda>c. c \<noteq> CHR ''.'') old)"
  assumes "healthy cl" "isValidName old" "isValidName name" "CHR ''.'' \<in> set old \<or> CHR ''.'' \<notin> set name"
    and "has_file (db P cl row) p data" "clean_path p" "clean_path q"
      "p \<noteq> ''metadata'' \<and> q \<noteq> ''metadata''"
    and "run_state (rename_file (cluster_ops P) (cluster_route P cl row) row folder old name) cl = (res, cl')"
  shows "if db P cl row q = Some ''KV-File''
    then res = Returns (bad_request ''File name already exists.'') \<and> db P cl' = db P cl
    else (\<exists>body. res = Returns (httpResponseStorage ''200 OK'' body)) \<and> has_file (db P cl' row) q data \<and>
      db P cl' row p = None \<and> p \<notin> set (listing (db P cl' row) folder) \<and>
      (p \<in> set (listing (db P cl row) folder) \<longrightarrow> q \<in> set (listing (db P cl' row) folder)) \<and>
      (\<forall>x. x \<noteq> p \<longrightarrow> x \<in> set (listing (db P cl row) folder) \<longrightarrow> x \<in> set (listing (db P cl' row) folder)) \<and>
      (\<forall>col. col \<notin> file_columns p \<longrightarrow> col \<notin> file_columns q \<longrightarrow> col \<noteq> meta_col folder \<longrightarrow>
         db P cl' row col = db P cl row col) \<and>
      (\<forall>r. r \<noteq> row \<longrightarrow> db P cl' r = db P cl r)"
proof (cases "db P cl row q = Some ''KV-File''")
  case True
  note ext = ensureSameExtension_valid [OF assms(4-6)]
  have "triple (row_at healthy (db P) (cluster_route P) (db P cl) (cluster_route P cl) row (db P cl row))
      (rename_file (cluster_ops P) (cluster_route P cl row) row folder old name)
      (\<lambda>r st. r = Returns (bad_request ''File name already exists.'') \<and>
         row_at healthy (db P) (cluster_route P) (db P cl) (cluster_route P cl) row (db P cl row) st)"
    using rs.triple_rename_taken [where P = P and f = "db P cl row", OF assms(5)] True by (simp add: q_def ext)
  from tripleD [OF this rs.at_row_start [OF assms(3)]] assms(11) show ?thesis
    using True by (simp add: row_at_def kv_at_def)
next
  case False
  let ?f = "db P cl row"
  note ext = ensureSameExtension_valid [OF assms(4-6)]
  have q: "child_path folder (ensureSameExtension old name) = q" by (simp add: q_def ext)
  have "triple (row_at healthy (db P) (cluster_route P) (db P cl) (cluster_route P cl) row ?f)
      (rename_file (cluster_ops P) (cluster_route P cl row) row folder old name)
      (\<lambda>r st. \<exists>g. ((\<exists>body. r = Returns (httpResponseStorage ''200 OK'' body)) \<and>
            swap_entry (moved ?f p q) (meta_col folder) p q g) \<and>
         row_at healthy (db P) (cluster_route P) (db P cl) (cluster_route P cl) row g st)"
    unfolding p_def
    by (rule triple_weaken [OF rs.triple_rename_file [where P = P and f = ?f and folder = folder and old = old,
          OF assms(5) has_file_movable [OF assms(7,8), unfolded p_def] False [folded q], unfolded q]]) blast
  then have "((\<exists>body. res = Returns (httpResponseStorage ''200 OK'' body)) \<and>
        swap_entry (moved ?f p q) (meta_col folder) p q (db P cl' row)) \<and> healthy cl' \<and>
      cluster_route P cl' = cluster_route P cl \<and> (\<forall>r. r \<noteq> row \<longrightarrow> db P cl' r = db P cl r)"
    by (rule rs.run_on_row) (use assms(3,11) in simp_all)
  then have run: "\<exists>body. res = Returns (httpResponseStorage ''200 OK'' body)"
      "swap_entry (moved ?f p q) (meta_col folder) p q (db P cl' row)" "\<forall>r. r \<noteq> row \<longrightarrow> db P cl' r = db P cl r"
    by blast+
  have names: "p \<noteq> ''metadata''" "q \<noteq> ''metadata''" using assms(10) by auto
  note ok = renamed_ok [of ?f folder old data
      "takeWhile (\<lambda>c. c \<noteq> CHR ''.'') name @ dropWhile (\<lambda>c. c \<noteq> CHR ''.'') old",
      folded p_def q_def, OF assms(7-9) names False run(2)]
  note frame = renamed_frame [of ?f folder old data
      "takeWhile (\<lambda>c. c \<noteq> CHR ''.'') name @ dropWhile (\<lambda>c. c \<noteq> CHR ''.'') old",
      folded p_def q_def, OF assms(7-9) names False run(2)]
  show ?thesis unfolding if_not_P [OF False] using run(1,3) ok frame by blast
qed

theorem rename_file_keeps_witness:
  "has_file (db sample_platform (snd (run_state
      (rename_file (cluster_ops sample_platform) (cluster_route sample_platform stored ''bob-storage'') ''bob-storage''
         [] ''a.txt'' ''b'') stored)) ''bob-storage'') ''b.txt'' ''hello''"
proof -
  let ?run = "run_state (rename_file (cluster_ops sample_platform) (cluster_route sample_platform stored ''bob-storage'')
      ''bob-storage'' [] ''a.txt'' ''b'') stored"
  have r: "?run = (fst ?run, snd ?run)" by simp
  have n: "isValidName ''a.txt''" "isValidName ''b''" "child_path [] ''a.txt'' = ''a.txt''"
    "child_path [] ''b.txt'' = ''b.txt''"
    by code_simp+
  have c: "clean_path ''a.txt''" "clean_path ''b.txt''" by (simp_all add: clean_path_def is_err_def)
  have h: "has_file (db sample_platform stored ''bob-storage'') (child_path [] ''a.txt'') ''hello''"
    using stored_has_file by (simp add: n)
  have "db sample_platform stored ''bob-storage'' ''b.txt'' \<noteq> Some ''KV-File''" by (simp add: stored_facts(2))
  then show ?thesis
    using rename_file_keeps [OF stored_facts(1) n(1,2) _ h _ _ _ r] c n(3,4) by simp
qed

section \<open>The layout of a stored file\<close>

text \<open>
  C31. An upload splits a file into pieces of at most a million bytes: the list of chunks has one name for
  each begun million, and the i-th chunk is the i-th piece of the file.
\<close>

theorem upload_layout:
  fixes folder name data
  defines "p \<equiv> child_path folder name" and "k \<equiv> (length data + (chunkSize - 1)) div chunkSize"
  assumes "healthy cl"
    and "upload_request socket request = Returns (Inr (folder, name, data))" "data \<noteq> []" "length data < 2 ^ 31"
    and "\<not> contains p ''not found''" "p \<noteq> meta_col folder"
    and "db P cl (u @ ''-storage'') p \<noteq> Some ''KV-File''" "db P cl (u @ ''-storage'') (md p) = None"
    and "run_state (webStorageUpload n (cluster_ops P) u socket request) cl = (res, cl')"
  shows "db P cl' (u @ ''-storage'') (md p) = Some (join_comma (names_from p 1 k)) \<and>
    (\<forall>i\<in>{1..k}. db P cl' (u @ ''-storage'') (ct (chunk_name p i)) = Some (take chunkSize (drop ((i - 1) * chunkSize) data)))"
proof -
  let ?row = "u @ ''-storage''"
  have "row_at healthy (db P) (cluster_route P) (db P cl) (cluster_route P cl) ?row
      (uploaded (db P cl ?row) folder p name data) cl'"
    using tripleD [OF rs.triple_upload [where P = P and u = u and n = n and M = "db P cl", OF assms(4)]
        healthy_kv_at [OF assms(3)]] assms(9,11) by (simp add: p_def)
  then have "db P cl' ?row = uploaded (db P cl ?row) folder p name data" by (rule rs.at_row_end(2))
  moreover have k: "k = length (chunks_of data)" by (simp add: k_def chunks_of_length)
  moreover have "chunks_of data ! (i - 1) = take chunkSize (drop ((i - 1) * chunkSize) data)" if "i \<in> {1..k}" for i
    using chunks_of_nth [of "i - 1" data] that k by auto
  ultimately show ?thesis
    using uploaded_layout(1,2) [of folder name "db P cl ?row" data] assms(5-8,10) by (simp add: p_def)
qed

theorem upload_layout_witness:
  "db sample_platform stored ''bob-storage'' (ct (chunk_name ''a.txt'' 1)) = Some ''hello''"
proof -
  let ?run = "run_state (webStorageUpload 0 (cluster_ops sample_platform) ''bob'' [] sample_upload) (booted_cluster sample_platform)"
  have r: "?run = (fst ?run, snd ?run)" by simp
  have e: "db sample_platform (booted_cluster sample_platform) row col = None" for row col
    using booted_db_empty [OF booted_booted_cluster [OF platform_ok_sample]] by simp
  have c: "\<not> contains (child_path [] ''a.txt'') ''not found''" "child_path [] ''a.txt'' \<noteq> meta_col []"
    "child_path [] ''a.txt'' = ''a.txt''"
    by code_simp+
  show ?thesis
    using upload_layout [OF healthy_booted_cluster [OF platform_ok_sample] sample_upload_request _ _ c(1,2) _ _ r]
    by (simp add: e c(3) stored_def [symmetric])
qed

text \<open>
  C32. The names of uploaded files are safe as columns: whatever the request, the file name that an upload
  stores consists of letters, digits, brackets, underscores, blanks and dots, so it has no slash that would
  leave the folder, no comma that would split a listing, no dash that would collide with the columns of
  another file, and no character that would end a header or a tag. (The comment in
  \<open>isValidName\<close> names the comma among the characters that are allowed; the regular expression
  does not allow it.)
\<close>

theorem upload_name_safe:
  assumes "upload_request socket request = Returns (Inr (folder, name, data))"
  shows "name \<noteq> [] \<and> (\<forall>c\<in>set name. name_char c \<or> c = CHR ''.'') \<and>
    set name \<inter> {CHR ''/'', CHR '','', CHR ''-'', CHR ''<'', CHR 0x27, CHR ''&'', CHR ''='', CR, LF} = {}"
proof -
  note v = upload_request_valid [OF assms]
  have "c \<notin> set name" if "\<not> name_char c" "c \<noteq> CHR ''.''" for c using valid_name_chars [OF v] that by blast
  then show ?thesis using valid_name_chars [OF v] valid_name_clean(4) [OF v] by simp
qed

theorem upload_name_safe_witness:
  "\<exists>folder name data. upload_request [] sample_upload = Returns (Inr (folder, name, data)) \<and> name \<noteq> [] \<and>
     set name \<inter> {CHR ''/'', CHR '','', CHR ''-'', CHR ''<'', CHR 0x27, CHR ''&'', CHR ''='', CR, LF} = {}"
proof (intro exI conjI)
  show "upload_request [] sample_upload = Returns (Inr ([], ''a.txt'', ''hello''))" by (rule sample_upload_request)
  note safe = upload_name_safe [OF sample_upload_request]
  from safe show "''a.txt'' \<noteq> []" by (rule conjunct1)
  from safe [THEN conjunct2, THEN conjunct2]
  show "set ''a.txt'' \<inter> {CHR ''/'', CHR '','', CHR ''-'', CHR ''<'', CHR 0x27, CHR ''&'', CHR ''='', CR, LF} = {}" .
qed

section \<open>Errors\<close>

text \<open>
  C33. Uploading a file without an extension a second time throws: looking for a free name, the handler cuts
  the path at its first dot, and without one \<^verbatim>\<open>substr\<close> throws. Nothing catches it; the store is unchanged.
\<close>

theorem upload_duplicate_throws:
  assumes "healthy cl" and "upload_request socket request = Returns (Inr (folder, name, data))"
    and "db P cl (u @ ''-storage'') (child_path folder name) = Some ''KV-File''"
    and "CHR ''.'' \<notin> set (child_path folder name)" and "0 < n"
    and "run_state (webStorageUpload n (cluster_ops P) u socket request) cl = (res, cl')"
  shows "res = Throws Out_of_range \<and> healthy cl' \<and> db P cl' = db P cl"
proof -
  have "triple (kv_at healthy (db P) (cluster_route P) (db P cl) (cluster_route P cl))
      (webStorageUpload n (cluster_ops P) u socket request)
      (\<lambda>r st. r = Throws Out_of_range \<and>
         row_at healthy (db P) (cluster_route P) (db P cl) (cluster_route P cl) (u @ ''-storage'') (db P cl (u @ ''-storage'')) st)"
    by (rule rs.triple_upload_throws [where P = P and M = "db P cl" and u = u, OF assms(2-5)])
  from tripleD [OF this healthy_kv_at [OF assms(1)]] assms(6) show ?thesis
    by (simp add: row_at_def kv_at_def)
qed

section \<open>Listings\<close>

text \<open>
  Deleting a file drops more than its entry: after \<open>delete_path\<close> for a file the listing of its folder
  keeps exactly the entries that do not contain the local name of the file as a part. The other files whose
  paths contain it keep their markers and contents, but no page lists them any more.
\<close>

theorem delete_drops_similar:
  assumes "healthy cl" "0 < n" and "db P cl row p \<noteq> Some ''KV-Folder''" "clean_path p" "p \<noteq> ''metadata''"
    and "db P cl row (meta_col (parent_path p)) \<noteq> None"
    and "run_state (delete_path n (cluster_ops P) (cluster_route P cl row) row p) cl = (res, cl')"
  shows "(\<exists>page. res = Returns page) \<and>
    (\<forall>x. x \<noteq> [] \<longrightarrow> (x \<in> set (listing (db P cl' row) (parent_path p)) \<longleftrightarrow>
       x \<in> set (listing (db P cl row) (parent_path p)) \<and> \<not> contains x (local_name p))) \<and>
    (\<forall>x. x \<noteq> p \<longrightarrow> CHR ''-'' \<notin> set x \<longrightarrow> x \<noteq> ''metadata'' \<longrightarrow> db P cl' row x = db P cl row x)"
proof -
  let ?f = "db P cl row" and ?col = "meta_col (parent_path p)"
  obtain m where m: "?f ?col = Some m" using assms(6) by auto
  let ?g = "?f(?col \<mapsto> join_comma (filter (\<lambda>it. \<not> contains it (local_name p)) (splitStringStorage m)))"
  have "triple (row_at healthy (db P) (cluster_route P) (db P cl) (cluster_route P cl) row ?f)
      (delete_path n (cluster_ops P) (cluster_route P cl row) row p)
      (\<lambda>r st. \<exists>g. ((\<exists>page. r = Returns page) \<and> g = del_file p ?g) \<and>
         row_at healthy (db P) (cluster_route P) (db P cl) (cluster_route P cl) row g st)"
    by (rule rs.triple_delete_file [where P = P, OF m assms(2-5)])
  then have "((\<exists>page. res = Returns page) \<and> db P cl' row = del_file p ?g) \<and> healthy cl' \<and>
      cluster_route P cl' = cluster_route P cl \<and> (\<forall>r. r \<noteq> row \<longrightarrow> db P cl' r = db P cl r)"
    by (rule rs.run_on_row) (use assms(1,7) in simp_all)
  then show ?thesis using delete_file_ok [of ?f p m, OF m assms(4,5)] by simp
qed

section \<open>States with one more cell\<close>

definition with_cell :: "string \<Rightarrow> string \<Rightarrow> string \<Rightarrow> cluster" where
  "with_cell row col v = snd (run_state
     (kv_put (cluster_ops sample_platform) (cluster_route sample_platform (booted_cluster sample_platform) row) row col v)
     (booted_cluster sample_platform))"

lemma with_cell_facts:
  "healthy (with_cell row col v)"
  "db sample_platform (with_cell row col v) r c = (if r = row \<and> c = col then Some v else None)"
  using tripleD [OF kv.triple_put [where P = sample_platform and row = row and col = col and v = v]
      healthy_kv_at [OF healthy_booted_cluster [OF platform_ok_sample]]]
    booted_db_empty [OF booted_booted_cluster [OF platform_ok_sample]]
  by (auto simp: kv_at_def with_cell_def db_set_def)

theorem delete_drops_similar_witness:
  "''aa'' \<notin> set (listing (db sample_platform (snd (run_state
      (delete_path 1 (cluster_ops sample_platform)
         (cluster_route sample_platform (with_cell ''bob-storage'' ''metadata'' ''a,aa,b'') ''bob-storage'') ''bob-storage'' ''a'')
      (with_cell ''bob-storage'' ''metadata'' ''a,aa,b''))) ''bob-storage'') [])"
proof -
  let ?cl = "with_cell ''bob-storage'' ''metadata'' ''a,aa,b''"
  let ?run = "run_state (delete_path 1 (cluster_ops sample_platform) (cluster_route sample_platform ?cl ''bob-storage'')
      ''bob-storage'' ''a'') ?cl"
  have r: "?run = (fst ?run, snd ?run)" by simp
  have c: "parent_path ''a'' = []" "local_name ''a'' = ''a''" "meta_col [] = ''metadata''" "contains ''aa'' ''a''"
    by code_simp+
  show ?thesis
    using delete_drops_similar [OF with_cell_facts(1) _ _ _ _ _ r]
    by (simp add: with_cell_facts(2) c clean_path_def is_err_def)
qed

definition sample_upload2 :: string where
  "sample_upload2 =
     ''POST /upload HTTP/1.1'' @ crlf @
     ''Content-Type: multipart/form-data; boundary=xyz'' @ crlf @ crlf @
     ''--xyz'' @ crlf @ ''Content-Disposition: form-data; name=\"file\"; filename=\"notes\"'' @ crlf @ crlf @
     ''hello'' @ crlf @ ''--xyz--'' @ crlf"

theorem upload_duplicate_throws_witness:
  "fst (run_state (webStorageUpload 1 (cluster_ops sample_platform) ''bob'' [] sample_upload2)
     (with_cell ''bob-storage'' ''notes'' ''KV-File'')) = Throws Out_of_range"
proof -
  let ?run = "run_state (webStorageUpload 1 (cluster_ops sample_platform) ''bob'' [] sample_upload2)
      (with_cell ''bob-storage'' ''notes'' ''KV-File'')"
  have r: "?run = (fst ?run, snd ?run)" by simp
  have u: "upload_request [] sample_upload2 = Returns (Inr ([], ''notes'', ''hello''))" by code_simp
  have p: "child_path [] ''notes'' = ''notes''" by code_simp
  show ?thesis
    using upload_duplicate_throws [OF with_cell_facts(1) u _ _ _ r] by (simp add: with_cell_facts(2) p)
qed

end
