(* ===== verification/Storage_Isolation.thy ===== *)
theory Storage_Isolation
  imports Row_Store Storage_Service
begin

text \<open>
  What a storage handler can touch: whatever the request, a handler called for a user changes nothing
  but the row of that user. \<open>keeps I m\<close> says that \<open>m\<close> preserves \<open>I\<close>; its rules follow the shape of a program,
  so every handler is checked by the same few steps.
\<close>

named_theorems keeps_rules

definition keeps :: "('st \<Rightarrow> bool) \<Rightarrow> ('st, 'a) state \<Rightarrow> bool" where
  "keeps I m \<longleftrightarrow> triple I m (\<lambda>_. I)"

lemma keeps_return [keeps_rules]: "keeps I (State_Monad.return x)"
  by (simp add: keeps_def triple_return)

lemma keeps_bind [keeps_rules]: "keeps I m \<Longrightarrow> (\<And>x. keeps I (f x)) \<Longrightarrow> keeps I (State_Monad.bind m f)"
  unfolding keeps_def by (rule triple_bind)

lemma keeps_if [keeps_rules]: "keeps I m \<Longrightarrow> keeps I n \<Longrightarrow> keeps I (if b then m else n)"
  by simp

lemma keeps_case_option [keeps_rules]:
  "keeps I m \<Longrightarrow> (\<And>x. keeps I (f x)) \<Longrightarrow> keeps I (case v of None \<Rightarrow> m | Some x \<Rightarrow> f x)"
  by (cases v) simp_all

lemma keeps_case_sum [keeps_rules]:
  "(\<And>x. keeps I (f x)) \<Longrightarrow> (\<And>x. keeps I (g x)) \<Longrightarrow> keeps I (case v of Inl x \<Rightarrow> f x | Inr x \<Rightarrow> g x)"
  by (cases v) simp_all

lemma keeps_case_prod [keeps_rules]: "(\<And>x y. keeps I (f x y)) \<Longrightarrow> keeps I (case p of (x, y) \<Rightarrow> f x y)"
  by (cases p) simp

lemma keeps_case_nat [keeps_rules]:
  "keeps I m \<Longrightarrow> (\<And>k. keeps I (f k)) \<Longrightarrow> keeps I (case n of 0 \<Rightarrow> m | Suc k \<Rightarrow> f k)"
  by (cases n) simp_all

lemma keeps_attempt [keeps_rules]: "(\<And>x. keeps I (f x)) \<Longrightarrow> keeps I (attempt r f)"
  by (cases r) (simp_all add: keeps_return)

lemma keeps_and_then [keeps_rules]: "keeps I m \<Longrightarrow> (\<And>x. keeps I (f x)) \<Longrightarrow> keeps I (and_then m f)"
  unfolding and_then_def by (intro keeps_rules)

lemma keeps_for_each [keeps_rules]: "(\<And>x. keeps I (f x)) \<Longrightarrow> keeps I (for_each f xs)"
  by (induction xs) (auto intro: keeps_rules)

context kv_service
begin

text \<open>The states in which at most one row differs from \<open>M\<close>.\<close>

definition within :: "db \<Rightarrow> (string \<Rightarrow> string) \<Rightarrow> string \<Rightarrow> 'st \<Rightarrow> bool" where
  "within M R row st \<longleftrightarrow> (\<exists>f. at (M(row := f)) R st)"

lemma keeps_withinI:
  "(\<And>f. triple (at (M(row := f)) R) m (\<lambda>_. within M R row)) \<Longrightarrow> keeps (within M R row) m"
  by (auto simp: keeps_def triple_def within_def)

lemma withinI: "at (M(row := f)) R st \<Longrightarrow> within M R row st"
  "at (db_set (M(row := f)) row col v) R st \<Longrightarrow> within M R row st"
proof -
  show w: "at (M(row := f)) R st \<Longrightarrow> within M R row st" for f by (auto simp: within_def)
  have "db_set (M(row := f)) row col v = M(row := f(col := v))" by (simp add: db_set_def fun_eq_iff)
  then show "at (db_set (M(row := f)) row col v) R st \<Longrightarrow> within M R row st" using w by simp
qed

lemma within_calls [keeps_rules]:
  "keeps (within M R row) (kv_lookup K key)"
  "keeps (within M R row) (kv_get K (R row) row col)"
  "keeps (within M R row) (kv_put K (R row) row col v)"
  "keeps (within M R row) (kv_delete K (R row) row col)"
  "keeps (within M R row) (kv_cput K (R row) row col cur v)"
  by (rule keeps_withinI, rule triple_weaken, rule triple_lookup triple_get triple_put triple_delete triple_cput,
      auto intro: withinI split: if_splits)+

lemma within_files [keeps_rules]:
  "keeps (within M R row) (delete_chunks K (R row) row chunks)"
  "keeps (within M R row) (move_chunks K (R row) row oldAbs newAbs chunks)"
  "keeps (within M R row) (fetch_chunks K (R row) row chunks)"
  "keeps (within M R row) (list_entries K (R row) row folder chunks)"
  "keeps (within M R row) (folder_links K (R row) row link chunks)"
proof -
  show "keeps (within M R row) (delete_chunks K (R row) row chunks)"
    unfolding delete_chunks_def by (intro keeps_rules)
  show "keeps (within M R row) (move_chunks K (R row) row oldAbs newAbs chunks)"
    by (induction chunks) (auto simp: Let_def intro!: keeps_rules)
  show "keeps (within M R row) (fetch_chunks K (R row) row chunks)"
    by (induction chunks) (auto intro!: keeps_rules)
  show "keeps (within M R row) (list_entries K (R row) row folder chunks)"
    by (induction chunks) (auto simp: Let_def intro!: keeps_rules)
  show "keeps (within M R row) (folder_links K (R row) row link chunks)"
    by (induction chunks) (auto intro!: keeps_rules)
qed

lemma within_store_chunks [keeps_rules]: "keeps (within M R row) (store_chunks K (R row) row path i data)"
proof (induction data arbitrary: i rule: length_induct)
  case (1 data)
  then show ?case
    by (subst store_chunks.simps) (auto simp: Let_def intro!: keeps_rules)
qed

lemma within_free_names [keeps_rules]:
  "keeps (within M R row) (free_target n K (R row) row folder base ext i path existing)"
  "keeps (within M R row) (free_upload n K (R row) row path i)"
proof -
  show "keeps (within M R row) (free_target n K (R row) row folder base ext i path existing)"
    by (induction n arbitrary: i path existing; subst free_target.simps)
      (auto simp: Let_def intro!: keeps_rules)
  show "keeps (within M R row) (free_upload n K (R row) row path i)"
    by (induction n arbitrary: i) (auto intro!: keeps_rules)
qed

lemma within_columns [keeps_rules]:
  "keeps (within M R row) (move_file_columns K (R row) row oldAbs newAbs)"
  "keeps (within M R row) (remove_entry K (R row) row metaCol path)"
  "keeps (within M R row) (replace_entry K (R row) row metaCol oldAbs newAbs)"
  unfolding move_file_columns_def remove_entry_def replace_entry_def Let_def by (intro keeps_rules)+

lemma within_folders [keeps_rules]:
  "keeps (within M R row) (deleteRec n K (R row) row path)"
  "keeps (within M R row) (renameFolderRec n K (R row) row path newAbs)"
  "keeps (within M R row) (renameFolderMoveRec n K (R row) row path newAbs)"
proof -
  show "keeps (within M R row) (deleteRec n K (R row) row path)"
    by (induction n arbitrary: path) (auto simp: Let_def intro!: keeps_rules)
  show "keeps (within M R row) (renameFolderRec n K (R row) row path newAbs)"
    by (induction n arbitrary: path newAbs) (auto simp: Let_def intro!: keeps_rules)
  show "keeps (within M R row) (renameFolderMoveRec n K (R row) row path newAbs)"
    by (induction n arbitrary: path newAbs) (auto simp: Let_def intro!: keeps_rules)
qed

lemma within_moves [keeps_rules]:
  "keeps (within M R row) (moveFile n K (R row) row oldAbs folder)"
  "keeps (within M R row) (moveFolder n K (R row) row oldAbs folder)"
  "keeps (within M R row) (upload_store n K (R row) row folder filename data)"
  "keeps (within M R row) (create_folder K (R row) row folder name)"
  "keeps (within M R row) (delete_path n K (R row) row path)"
  "keeps (within M R row) (rename_file K (R row) row folder oldName name)"
  "keeps (within M R row) (rename_folder n K (R row) row folder name)"
  "keeps (within M R row) (move_folder n K (R row) row source folder)"
  unfolding moveFile_def moveFolder_def upload_store_def choose_name_def write_upload_def create_folder_def
    delete_path_def rename_file_def rename_folder_def move_folder_def Let_def
  by (intro keeps_rules)+

text \<open>How a handler starts: the worker of the user's row is the one the calls may use.\<close>

lemma within_with_storage:
  assumes "\<And>row. row = u @ ''-storage'' \<Longrightarrow> keeps (within M R row) (h (R row) row)"
  shows "triple (at M R) (with_storage K u h) (\<lambda>_. within M R (u @ ''-storage''))"
proof -
  have "triple (at M R) (h (R (u @ ''-storage'')) (u @ ''-storage'')) (\<lambda>_. within M R (u @ ''-storage''))"
    using assms unfolding keeps_def triple_def within_def by (metis fun_upd_triv)
  then show ?thesis unfolding with_storage_def Let_def by (intro step_lookup) simp
qed

lemma handlers_within:
  "triple (at M R) (webStorageList K u request) (\<lambda>_. within M R (u @ ''-storage''))"
  "triple (at M R) (webStorageUpload n K u socket request) (\<lambda>_. within M R (u @ ''-storage''))"
  "triple (at M R) (webStorageDownload K u request) (\<lambda>_. within M R (u @ ''-storage''))"
  "triple (at M R) (webStorageCreateFolder K u socket request) (\<lambda>_. within M R (u @ ''-storage''))"
  "triple (at M R) (webStorageDelete n K u request) (\<lambda>_. within M R (u @ ''-storage''))"
  "triple (at M R) (webStorageRenameFile K u socket request) (\<lambda>_. within M R (u @ ''-storage''))"
  "triple (at M R) (webStorageRenameFolder n K u socket request) (\<lambda>_. within M R (u @ ''-storage''))"
  "triple (at M R) (webStorageMoveFile n K u socket request) (\<lambda>_. within M R (u @ ''-storage''))"
  "triple (at M R) (webStorageMoveFolder n K u socket request) (\<lambda>_. within M R (u @ ''-storage''))"
  unfolding webStorageList_def webStorageUpload_def webStorageDownload_def fetch_file_def webStorageCreateFolder_def
    webStorageDelete_def webStorageRenameFile_def webStorageRenameFolder_def webStorageMoveFile_def
    webStorageMoveFolder_def Let_def
  by (rule within_with_storage, intro keeps_rules)+

end

end
