(* ===== verification/Load_Balancer.thy ===== *)
theory Load_Balancer
  imports Utils
begin

text \<open>
  The load balancer (\<^verbatim>\<open>frontend/load_balancer.cc\<close>): health probes of the front ends, the round-robin
  choice of a live one, and the answer to a client. The network is a parameter: \<open>probe host port\<close>
  is what a front end answers to the \<^verbatim>\<open>HEAD /health\<close> request, \<^term>\<open>None\<close> when a socket call fails. The
  state is the index \<^verbatim>\<open>next_frontend\<close>.
\<close>

definition FRONTENDS :: "string list" where
  "FRONTENDS = [''http://127.0.0.1:8081'', ''http://127.0.0.1:8082'', ''http://127.0.0.1:8083'']"

type_synonym network = "string \<Rightarrow> int \<Rightarrow> string option"

definition strip_scheme :: "string \<Rightarrow> string" where
  "strip_scheme frontend = (if prefix ''http://'' frontend then drop 7 frontend else frontend)"

text \<open>What a probe sends.\<close>

definition health_request :: "string \<Rightarrow> string" where
  "health_request host =
     ''HEAD /health HTTP/1.1'' @ crlf @ ''Host: '' @ host @ crlf @ ''Connection: keep-alive'' @ crlf @ crlf"

text \<open>\<^verbatim>\<open>stoi\<close> throws where \<open>read_int\<close> fails; the caller does not catch it.\<close>

definition is_alive :: "network \<Rightarrow> string \<Rightarrow> bool option" where
  "is_alive probe frontend =
     (let url = strip_scheme frontend
      in case find_last_of url {CHR '':''} of
           None \<Rightarrow> Some False
         | Some colon \<Rightarrow>
             (case read_int (drop (colon + 1) url) of
                None \<Rightarrow> None
              | Some (port, _) \<Rightarrow>
                  (case probe (take colon url) port of
                     None \<Rightarrow> Some False
                   | Some reply \<Rightarrow>
                       (let buf = take 127 reply
                        in Some (buf \<noteq> [] \<and> contains (takeWhile (\<lambda>c. c \<noteq> CHR 0x00) buf) ''200'')))))"

definition up :: "network \<Rightarrow> string \<Rightarrow> bool" where
  "up probe frontend \<longleftrightarrow> is_alive probe frontend = Some True"

definition select_frontend :: "network \<Rightarrow> nat \<Rightarrow> string \<times> nat" where
  "select_frontend probe next_frontend =
     (let N = length FRONTENDS
      in case find (\<lambda>idx. up probe (FRONTENDS ! idx)) (map (\<lambda>i. (next_frontend + i) mod N) [0..<N]) of
           Some idx \<Rightarrow> (FRONTENDS ! idx, (idx + 1) mod N)
         | None \<Rightarrow> ([], next_frontend))"

text \<open>\<^verbatim>\<open>read_request_line\<close> on the bytes one \<^verbatim>\<open>recv\<close> of at most 4095 returned.\<close>

definition read_request_line :: "string \<Rightarrow> (string \<times> string) option" where
  "read_request_line received =
     (let req = take 4095 received
      in if req = [] then None
         else case str_find req crlf 0 of
           None \<Rightarrow> None
         | Some pos \<Rightarrow>
             (case read_word (take pos req) of
                None \<Rightarrow> None
              | Some (method, rest) \<Rightarrow>
                  (case read_word rest of
                     None \<Rightarrow> None
                   | Some (path, _) \<Rightarrow> Some (method, path))))"

definition health_entry :: "network \<Rightarrow> nat \<Rightarrow> string" where
  "health_entry probe i =
     (let url = strip_scheme (FRONTENDS ! i);
          port = drop (npos_plus (find_last_of url {CHR '':''}) 1) url
      in ''{\"id\":'' @ nat_string (i + 1) @ '',\"port\":\"'' @ port @ ''\",\"alive\":'' @
         (if up probe (FRONTENDS ! i) then ''true'' else ''false'') @ ''}'')"

definition health_body :: "network \<Rightarrow> string" where
  "health_body probe =
     ''['' @ join_with CHR '','' (map (health_entry probe) [0..<length FRONTENDS]) @ '']''"

text \<open>The response sent, \<^term>\<open>None\<close> when the connection is closed without one, and the new index.\<close>

definition handle_client :: "network \<Rightarrow> nat \<Rightarrow> string \<Rightarrow> string option \<times> nat" where
  "handle_client probe next_frontend received =
     (case read_request_line received of
        None \<Rightarrow> (None, next_frontend)
      | Some (method, path) \<Rightarrow>
          if method = ''GET'' \<and> path = ''/health'' then
            (let b = health_body probe
             in (Some (''HTTP/1.1 200 OK'' @ crlf @
                   ''Content-Type: application/json'' @ crlf @
                   ''Content-Length: '' @ nat_string (length b) @ crlf @
                   ''Connection: close'' @ crlf @ crlf @ b), next_frontend))
          else
            (let (target, next_frontend') = select_frontend probe next_frontend
             in if target = [] then
                  (Some (''HTTP/1.1 503 Service Unavailable'' @ crlf @
                     ''Content-Length: 0'' @ crlf @
                     ''Connection: close'' @ crlf @ crlf), next_frontend')
                else
                  (Some (''HTTP/1.1 307 Temporary Redirect'' @ crlf @
                     ''Location: '' @ target @ path @ crlf @
                     ''Content-Length: 0'' @ crlf @
                     ''Connection: close'' @ crlf @ crlf), next_frontend')))"

section \<open>Round robin\<close>

fun pick_run :: "network \<Rightarrow> nat \<Rightarrow> nat \<Rightarrow> string list" where
  "pick_run probe next_frontend 0 = []"
| "pick_run probe next_frontend (Suc n) =
     (let (target, next') = select_frontend probe next_frontend in target # pick_run probe next' n)"

lemma frontends_simps: "length FRONTENDS = 3" "FRONTENDS ! idx \<noteq> [] \<or> 3 \<le> idx"
  by (auto simp: FRONTENDS_def nth_Cons' not_le)

lemma upt_3: "[0..<3] = [0, Suc 0, Suc (Suc 0)]"
  by (simp add: upt_rec numeral_3_eq_3)

lemma select_frontend_cases:
  assumes "next < 3"
  obtains (live) i where "i < 3" "up probe (FRONTENDS ! ((next + i) mod 3))"
      "\<forall>j<i. \<not> up probe (FRONTENDS ! ((next + j) mod 3))"
      "select_frontend probe next = (FRONTENDS ! ((next + i) mod 3), (next + i + 1) mod 3)"
  | (down) "select_frontend probe next = ([], next)" "\<forall>f\<in>set FRONTENDS. \<not> up probe f"
proof -
  let ?order = "map (\<lambda>i. (next + i) mod 3) [0..<3]"
  have "next = 0 \<or> next = 1 \<or> next = 2" using assms by linarith
  then have set: "set ?order = {0, 1, 2}" by (elim disjE) (simp_all add: upt_3, auto)
  show thesis
  proof (cases "find (\<lambda>idx. up probe (FRONTENDS ! idx)) ?order")
    case None
    then have "\<forall>idx\<in>set ?order. \<not> up probe (FRONTENDS ! idx)" by (auto simp only: find_None_iff)
    then have "\<forall>idx\<in>{0, 1, 2}. \<not> up probe (FRONTENDS ! idx)" unfolding set .
    then have "\<forall>f\<in>set FRONTENDS. \<not> up probe f" by (simp add: FRONTENDS_def)
    then show ?thesis using None down by (simp add: select_frontend_def frontends_simps)
  next
    case (Some idx)
    then obtain i where "i < 3" "idx = (next + i) mod 3" "up probe (FRONTENDS ! idx)"
        "\<forall>j<i. \<not> up probe (FRONTENDS ! ((next + j) mod 3))"
      by (auto simp: find_Some_iff)
    then show ?thesis
      using Some live [of i] by (simp add: select_frontend_def frontends_simps mod_Suc_eq)
  qed
qed

section \<open>Properties\<close>

text \<open>
  C17. Redirects: a request other than \<^verbatim>\<open>GET /health\<close> whose request line names a path is answered with
  a redirect to that path on the first front end, from the round-robin position on and around the
  list, that answers its health probe, and the position moves behind that front end; the answer is
  \<^verbatim>\<open>503\<close>, and the position stays, only when no front end answers.
\<close>

theorem handle_client_redirects_to_live:
  assumes "next < 3" and "read_request_line received = Some (method, path)"
    and "(method, path) \<noteq> (''GET'', ''/health'')"
  shows "if \<exists>f\<in>set FRONTENDS. up probe f
     then \<exists>i<3. up probe (FRONTENDS ! ((next + i) mod 3)) \<and>
       (\<forall>j<i. \<not> up probe (FRONTENDS ! ((next + j) mod 3))) \<and>
       handle_client probe next received =
         (Some (''HTTP/1.1 307 Temporary Redirect'' @ crlf @
                ''Location: '' @ FRONTENDS ! ((next + i) mod 3) @ path @ crlf @
                ''Content-Length: 0'' @ crlf @ ''Connection: close'' @ crlf @ crlf),
          (next + i + 1) mod 3)
     else handle_client probe next received =
       (Some (''HTTP/1.1 503 Service Unavailable'' @ crlf @ ''Content-Length: 0'' @ crlf @
              ''Connection: close'' @ crlf @ crlf), next)"
  using assms(1)
proof (cases rule: select_frontend_cases [where probe = probe])
  case (live i)
  have "FRONTENDS ! ((next + i) mod 3) \<in> set FRONTENDS" by (simp add: frontends_simps(1))
  moreover have "FRONTENDS ! ((next + i) mod 3) \<noteq> []"
    using frontends_simps(2) [of "(next + i) mod 3"] mod_less_divisor [of 3 "next + i"] by linarith
  ultimately show ?thesis
    using live assms(2,3) by (auto simp: handle_client_def Let_def intro!: exI [of _ i])
next
  case down
  then show ?thesis using assms(2,3) by (auto simp: handle_client_def Let_def)
qed

definition sample_probe :: network where
  "sample_probe host port = (if port = 8082 then Some ''HTTP/1.1 200 OK'' else None)"

lemma sample_up: "f \<in> set FRONTENDS \<Longrightarrow> up sample_probe f \<longleftrightarrow> f = ''http://127.0.0.1:8082''"
proof -
  have "is_alive sample_probe ''http://127.0.0.1:8081'' = Some False"
    "is_alive sample_probe ''http://127.0.0.1:8082'' = Some True"
    "is_alive sample_probe ''http://127.0.0.1:8083'' = Some False"
    by code_simp+
  then show "f \<in> set FRONTENDS \<Longrightarrow> up sample_probe f \<longleftrightarrow> f = ''http://127.0.0.1:8082''"
    by (auto simp: FRONTENDS_def up_def)
qed

theorem handle_client_redirects_to_live_witness:
  "handle_client sample_probe 2 (''GET /x HTTP/1.1'' @ crlf) =
     (Some (''HTTP/1.1 307 Temporary Redirect'' @ crlf @ ''Location: '' @ ''http://127.0.0.1:8082'' @ ''/x'' @
       crlf @ ''Content-Length: 0'' @ crlf @ ''Connection: close'' @ crlf @ crlf), 2)"
proof -
  have r: "read_request_line (''GET /x HTTP/1.1'' @ crlf) = Some (''GET'', ''/x'')"
    by (simp add: read_request_line_def str_find_def read_word_def skip_ws_def is_space_def numeral_nat)
  have live: "\<exists>f\<in>set FRONTENDS. up sample_probe f" using sample_up by (auto simp: FRONTENDS_def)
  have ok: "(2 :: nat) < 3" "(''GET'', ''/x'') \<noteq> (''GET'', ''/health'')" by simp_all
  obtain i where i: "i < 3" "up sample_probe (FRONTENDS ! ((2 + i) mod 3))"
    and h: "handle_client sample_probe 2 (''GET /x HTTP/1.1'' @ crlf) =
      (Some (''HTTP/1.1 307 Temporary Redirect'' @ crlf @
        ''Location: '' @ FRONTENDS ! ((2 + i) mod 3) @ ''/x'' @ crlf @
        ''Content-Length: 0'' @ crlf @ ''Connection: close'' @ crlf @ crlf), (2 + i + 1) mod 3)"
    using handle_client_redirects_to_live [OF ok(1) r ok(2), where probe = sample_probe]
    unfolding if_P [OF live] by (elim exE conjE)
  have "\<not> up sample_probe (FRONTENDS ! 2)" "\<not> up sample_probe (FRONTENDS ! 0)"
    using sample_up [of "FRONTENDS ! 2"] sample_up [of "FRONTENDS ! 0"] by (simp_all add: FRONTENDS_def)
  moreover have "i = 0 \<or> i = 1 \<or> i = 2" using i(1) by linarith
  ultimately have "i = 2" using i(2) by (elim disjE) simp_all
  then show ?thesis using h by (simp add: FRONTENDS_def)
qed

text \<open>
  C18. Fairness: while the answers of the front ends do not change, three consecutive redirects
  reach every live front end.
\<close>

theorem round_robin_fair:
  assumes "next < 3" and "f \<in> set FRONTENDS" and "up probe f"
  shows "f \<in> set (pick_run probe next 3)"
proof -
  have n: "next = 0 \<or> next = 1 \<or> next = 2" using assms(1) by linarith
  let ?u = "\<lambda>i. up probe (FRONTENDS ! i)"
  have sel: "select_frontend probe 0 = (if ?u 0 then (FRONTENDS ! 0, 1)
      else if ?u 1 then (FRONTENDS ! 1, 2) else if ?u 2 then (FRONTENDS ! 2, 0) else ([], 0))"
    "select_frontend probe 1 = (if ?u 1 then (FRONTENDS ! 1, 2)
      else if ?u 2 then (FRONTENDS ! 2, 0) else if ?u 0 then (FRONTENDS ! 0, 1) else ([], 1))"
    "select_frontend probe 2 = (if ?u 2 then (FRONTENDS ! 2, 0)
      else if ?u 0 then (FRONTENDS ! 0, 1) else if ?u 1 then (FRONTENDS ! 1, 2) else ([], 2))"
    by (simp_all add: select_frontend_def frontends_simps(1) upt_3 numeral_2_eq_2)
  have run: "pick_run probe n 3 = (let (a, n1) = select_frontend probe n;
      (b, n2) = select_frontend probe n1; (c, n3) = select_frontend probe n2 in [a, b, c])" for n
    by (simp add: numeral_3_eq_3 case_prod_beta Let_def)
  have picked: "?u i \<longrightarrow> FRONTENDS ! i \<in> set (pick_run probe next 3)"
    if "i = 0 \<or> i = 1 \<or> i = 2" for i
    using n that unfolding run by (elim disjE) (simp_all add: sel del: One_nat_def)
  obtain i where "i < 3" "f = FRONTENDS ! i"
    using assms(2) unfolding in_set_conv_nth frontends_simps(1) by blast
  moreover from this have "i = 0 \<or> i = 1 \<or> i = 2" by linarith
  ultimately show ?thesis using picked assms(3) by blast
qed

theorem round_robin_fair_witness:
  "''http://127.0.0.1:8082'' \<in> set (pick_run sample_probe 2 3)"
  using round_robin_fair [of 2 "''http://127.0.0.1:8082''" sample_probe] sample_up
  by (simp add: FRONTENDS_def)

end
