(* ===== verification/Http_Properties.thy ===== *)
theory Http_Properties
  imports Http_Server Storage_Properties Storage_Isolation Load_Balancer
begin

text \<open>
  What the HTTP server guarantees: sessions begin and end as they should, and without a session nothing in
  the store changes; and what goes wrong, the session id that is not one.
\<close>

section \<open>Sessions\<close>

definition session_user :: "(string \<rightharpoonup> string) \<Rightarrow> string \<Rightarrow> string" where
  "session_user f sid = (case f sid of None \<Rightarrow> [] | Some u \<Rightarrow> if is_err u then [] else u)"

definition quiet :: "reply \<Rightarrow> bool" where
  "quiet r \<longleftrightarrow> (case r of Returns (page, mails) \<Rightarrow> mails = [] | _ \<Rightarrow> True)"

lemma quiet_simps [simp]: "quiet (Returns (p, ms)) \<longleftrightarrow> ms = []" "quiet (Throws e)" "quiet Diverges"
  by (simp_all add: quiet_def)

lemma to_string_no_err [simp]: "\<not> is_err (to_string i)" "to_string i \<noteq> ''active-users''" "to_string i \<noteq> ''error''"
proof -
  have d: "c \<in> set (to_string i) \<Longrightarrow> c = CHR ''-'' \<or> is_digit c" for c
    using nat_string_digits by (auto simp: to_string_def split: if_splits)
  have "CHR ''E'' \<notin> set (to_string i)" "CHR ''u'' \<notin> set (to_string i)" "CHR ''r'' \<notin> set (to_string i)"
    using d [of "CHR ''E''"] d [of "CHR ''u''"] d [of "CHR ''r''"] by (auto simp: is_digit_def)
  then show "\<not> is_err (to_string i)" "to_string i \<noteq> ''active-users''" "to_string i \<noteq> ''error''"
    by (auto simp: is_err_prefix prefix_def)
qed

lemma maybe_set:
  "X (if b then db_set M r c (Some v) else M) \<Longrightarrow> \<exists>list. X (db_set M r c list)"
proof -
  assume x: "X (if b then db_set M r c (Some v) else M)"
  have "db_set M r c (M r c) = M" by (auto simp: db_set_def fun_eq_iff)
  then show "\<exists>list. X (db_set M r c list)" using x by (cases b) (auto intro: exI [of _ "Some v"] exI [of _ "M r c"])
qed

lemma db_set_swap: "c \<noteq> d \<Longrightarrow> db_set (db_set M r c v) r d w = db_set (db_set M r d w) r c v"
  by (auto simp: db_set_def fun_eq_iff)

lemma db_set_idem [simp]: "db_set M r c (M r c) = M" "db_set (db_set M r c v) r c w = db_set M r c w"
  by (auto simp: db_set_def fun_eq_iff)

lemma maybe_clear:
  assumes "X (if db_set M r d None r c = Some cur then db_set (db_set M r d None) r c (Some v) else db_set M r d None)"
  shows "\<exists>list. X (db_set (db_set M r c list) r d None)"
proof (cases "db_set M r d None r c = Some cur")
  case True
  then have "c \<noteq> d" by (auto simp: db_set_def)
  then show ?thesis using assms True db_set_swap [of c d M r "Some v" None] by (intro exI [of _ "Some v"]) simp
next
  case False
  then show ?thesis using assms by (intro exI [of _ "M r c"]) simp
qed

lemma contains_header: "contains (buildHttpHeader status t n (p @ q) @ body) p"
proof -
  have "buildHttpHeader status t n (p @ q) @ body =
    (''HTTP/1.1 '' @ status @ crlf @ ''Content-Type: '' @ t @ crlf @ ''Content-Length: '' @ nat_string n @ crlf) @
      p @ (q @ ''Connection: keep-alive'' @ crlf @ crlf @ body)"
    by (simp add: buildHttpHeader_def)
  then show ?thesis using contains_append by metis
qed

lemma login_page_cookie: "sid \<noteq> ''error'' \<Longrightarrow> contains (login_page u sid) (session_cookie sid)"
  using contains_header [of "''302 Found''" "''text/html''" 0 "session_cookie sid" "crlf @ ''Location: /admin/dashboard'' @ crlf" "[]"]
    contains_header [of "''200 OK''" "''text/html''" "length (dashboard_page u)" "session_cookie sid" crlf "dashboard_page u"]
  by (simp add: login_page_def)

context row_store
begin

lemma step_cell:
  assumes "\<And>v. cell (M row col) v \<Longrightarrow> triple (at M R) (g v) C"
  shows "triple (at M R) (State_Monad.bind (kv_get K (R row) row col) g) C"
  by (rule step_row_get [where f = "M row" and M = M and R = R and row = row, unfolded at_row_eq fun_upd_triv]) (rule assms)

lemma triple_session:
  "triple (at M R) (getUsernameFromSession K sid) (\<lambda>u st. u = session_user (M ''session-ids'') sid \<and> at M R st)"
  unfolding getUsernameFromSession_def
  by (rule step_lookup, simp, rule step_cell, rule triple_return)
    (auto simp: session_user_def cell_def missing_string_def split: option.splits)

lemma step_session:
  assumes "triple (at M R) (g (session_user (M ''session-ids'') sid)) C"
  shows "triple (at M R) (State_Monad.bind (getUsernameFromSession K sid) g) C"
  by (rule triple_bind [OF triple_session], rule triple_pure) (use assms in simp)

lemma triple_authenticate:
  "triple (at M R) (State (\<lambda>st. authenticate K st u p)) (\<lambda>ok st. ok = (password_of M u = Some p \<and> p \<noteq> []) \<and> at M R st)"
  unfolding triple_def
proof (intro allI impI)
  fix st assume st: "at M R st"
  then have i: "inv st" "contents st = M" "route st = R" by (simp_all add: kv_at_def)
  obtain st1 v where "op_lookup K st (userinfo u) = (route st (userinfo u), st1)"
    "op_get K st1 (route st (userinfo u)) (userinfo u) ''password'' = (v, st1)" "inv st1"
    "contents st1 = contents st" "route st1 = route st" "\<not> is_err (route st (userinfo u))"
    "password_of (contents st) u = (if is_err v then None else Some v)"
    using password_get [OF i(1), of u] .
  then show "fst (run_state (State (\<lambda>st. authenticate K st u p)) st) = (password_of M u = Some p \<and> p \<noteq> []) \<and>
      at M R (snd (run_state (State (\<lambda>st. authenticate K st u p)) st))"
    using i by (auto simp: authenticate_def kv_at_def)
qed

lemma triple_answer: "triple A (answer p) (\<lambda>r st. quiet r \<and> A st)"
  by (simp add: answer_def triple_return)

lemma triple_reply_attempt: "triple A (attempt r (\<lambda>x. answer (f x))) (\<lambda>r st. quiet r \<and> A st)"
  by (cases r) (simp_all add: triple_answer triple_return)

lemma triple_tablet_page:
  "triple A (and_then (tabletPage P Ad rs w t) (\<lambda>html. answer (f html))) (\<lambda>r st. quiet r \<and> A st)"
  by (auto simp: triple_def tabletPage_def and_then_def attempt_def answer_def Let_def
      split: outcome.splits prod.splits if_splits)

lemma triple_worker_status: "triple A (worker_status Ad env) (\<lambda>r st. quiet r \<and> A st)"
  by (auto simp: triple_def worker_status_def fetchWorkerStatuses_def and_then_def attempt_def answer_def
      split: outcome.splits)

lemma triple_backend_page: "triple A (backend_page P Ad env request) (\<lambda>r st. quiet r \<and> A st)"
  unfolding backend_page_def Let_def
  by (auto intro: triple_tablet_page triple_answer split: option.split)

lemma triple_pages:
  "triple A (get_page env request) (\<lambda>r st. quiet r \<and> A st)" "triple A (head_page env request) (\<lambda>r st. quiet r \<and> A st)"
  by (auto simp: get_page_def head_page_def Let_def intro!: triple_answer triple_return split: list.split)

text \<open>Handlers that ask for a session answer a request without one at once.\<close>

lemma triple_refused:
  assumes "session_user (M ''session-ids'') (extractSessionId request) = []"
  shows "triple (at M R) (with_user K request refusal f) (\<lambda>r st. quiet r \<and> at M R st)"
    and "triple (at M R) (as_admin K request m) (\<lambda>r st. quiet r \<and> at M R st)"
  unfolding with_user_def as_admin_def using assms by (auto intro!: step_session triple_answer)

lemma triple_email_refused:
  assumes "session_user (M ''session-ids'') sid = []"
  shows "triple (at M R) (handleEmailService K env sid path type q d) (\<lambda>r st. quiet r \<and> at M R st)"
  unfolding handleEmailService_def using assms by (auto intro!: step_session triple_answer)

lemma triple_inbox_refused:
  assumes "session_user (M ''session-ids'') (extractSessionId request) = []"
  shows "triple (at M R) (inbox K env request) (\<lambda>r st. quiet r \<and> at M R st)"
  unfolding inbox_def Let_def by (rule step_session, rule triple_email_refused) (rule assms)

lemmas refused = triple_refused triple_email_refused triple_inbox_refused triple_worker_status
  triple_backend_page triple_pages triple_answer

lemma triple_unauthenticated:
  assumes s: "session_user (M ''session-ids'') (extractSessionId request) = []"
    and "account_route K env (contains request ''HEAD /'') request = None"
  shows "triple (at M R) (handle_request P n K Ad env socket request) (\<lambda>r st. quiet r \<and> at M R st)"
proof -
  have "triple (at M R) m (\<lambda>r st. quiet r \<and> at M R st)" if "admin_route P K Ad env request = Some m" for m
    using that by (auto simp: admin_route_def admin_dashboard_def admin_toggle_def intro: refused s split: if_splits)
  moreover have "triple (at M R) m (\<lambda>r st. quiet r \<and> at M R st)" if "storage_route n K socket h request = Some m" for m h
    using that by (auto simp: storage_route_def Let_def intro: refused s split: if_splits)
  moreover have "triple (at M R) m (\<lambda>r st. quiet r \<and> at M R st)" if "email_route K env request = Some m" for m
    using that by (auto simp: email_route_def Let_def intro: refused s split: if_splits)
  moreover have "triple (at M R) (page_route K env socket request) (\<lambda>r st. quiet r \<and> at M R st)"
    by (auto simp: page_route_def frontend_toggle_def intro: refused s)
  ultimately show ?thesis
    unfolding handle_request_def Let_def assms(2) by (auto split: option.split)
qed

lemma session_cell: "cell (f sid) v \<Longrightarrow> (v \<noteq> [] \<and> \<not> is_err v) \<longleftrightarrow> session_user f sid \<noteq> []"
  using missing_string_facts(1) by (cases "f sid") (auto simp: session_user_def)

lemma cell_again: "cell x v \<Longrightarrow> cell x w \<Longrightarrow> is_err v = is_err w"
  using missing_string_facts(1) by (cases x) auto

text \<open>One round of the loop: whether the session id is in use.\<close>

lemma step_used:
  assumes "triple (at M R) (g (session_user (M ''session-ids'') sid \<noteq> [])) C"
  shows "triple (at M R)
    (do { v \<leftarrow> kv_get K (R ''session-ids'') ''session-ids'' sid;
          used \<leftarrow> (if v \<noteq> [] then do { v2 \<leftarrow> kv_get K (R ''session-ids'') ''session-ids'' sid; State_Monad.return (\<not> is_err v2) }
                   else State_Monad.return False);
          g used }) C"
proof (rule step_cell)
  fix v assume v: "cell (M ''session-ids'' sid) v"
  note u = session_cell [where f = "M ''session-ids''", OF v]
  have "triple (at M R)
      (if v \<noteq> [] then do { v2 \<leftarrow> kv_get K (R ''session-ids'') ''session-ids'' sid; State_Monad.return (\<not> is_err v2) }
       else State_Monad.return False) (\<lambda>used st. used = (session_user (M ''session-ids'') sid \<noteq> []) \<and> at M R st)"
    using u cell_again [OF v] by (intro triple_if step_cell triple_return) auto
  then show "triple (at M R)
     (do { used \<leftarrow> (if v \<noteq> [] then do { v2 \<leftarrow> kv_get K (R ''session-ids'') ''session-ids'' sid; State_Monad.return (\<not> is_err v2) }
                   else State_Monad.return False);
          g used }) C"
    by (rule triple_bind) (rule triple_pure, use assms in simp)
qed

lemma triple_free_sid:
  "\<exists>r\<in>set rs. session_user (M ''session-ids'') (to_string r) = [] \<Longrightarrow>
   triple (at M R) (free_sid K (R ''session-ids'') rs)
     (\<lambda>r st. \<exists>sid. r = Returns sid \<and> (session_user (M ''session-ids'') sid = [] \<and> sid \<in> range to_string) \<and> at M R st)"
proof (induction rs)
  case (Cons r rs)
  then show ?case
    unfolding free_sid.simps Let_def by (intro step_used) (auto intro!: triple_return)
qed simp

lemma triple_start:
  "triple (at M R)
     (do { activeUsers \<leftarrow> kv_get K (R ''session-ids'') ''session-ids'' ''active-users'';
       (if \<not> is_err activeUsers then do {
          res \<leftarrow> kv_put K (R ''session-ids'') ''session-ids'' sid u;
          res2 \<leftarrow> kv_cput K (R ''session-ids'') ''session-ids'' ''active-users'' activeUsers (new1 activeUsers);
          State_Monad.return () }
        else do {
          res \<leftarrow> kv_put K (R ''session-ids'') ''session-ids'' sid u;
          res2 \<leftarrow> kv_put K (R ''session-ids'') ''session-ids'' ''active-users'' new2;
          State_Monad.return () });
       State_Monad.return (Returns sid) })
     (\<lambda>r st. r = Returns sid \<and>
        (\<exists>list. at (db_set (db_set M ''session-ids'' sid (Some u)) ''session-ids'' ''active-users'' list) R st))"
proof (rule step_cell, rule triple_bind)
  let ?M = "\<lambda>list. db_set (db_set M ''session-ids'' sid (Some u)) ''session-ids'' ''active-users'' list"
  fix v
  show "triple (at M R)
      (if \<not> is_err v then do {
          res \<leftarrow> kv_put K (R ''session-ids'') ''session-ids'' sid u;
          res2 \<leftarrow> kv_cput K (R ''session-ids'') ''session-ids'' ''active-users'' v (new1 v);
          State_Monad.return () }
        else do {
          res \<leftarrow> kv_put K (R ''session-ids'') ''session-ids'' sid u;
          res2 \<leftarrow> kv_put K (R ''session-ids'') ''session-ids'' ''active-users'' new2;
          State_Monad.return () })
      (\<lambda>_ st. \<exists>list. at (?M list) R st)"
    by (rule triple_if; rule step_put; (rule step_cput | rule step_put); rule triple_return)
      (erule maybe_set [where X = "\<lambda>m. at m R _"], blast)
qed (rule triple_return, simp)

lemma triple_cookie:
  assumes "\<exists>r\<in>set rs. session_user (M ''session-ids'') (to_string r) = []"
  shows "triple (at M R) (generateSessionCookie K rs u)
     (\<lambda>r st. \<exists>sid. r = Returns sid \<and> (session_user (M ''session-ids'') sid = [] \<and> sid \<in> range to_string) \<and>
        (\<exists>list. at (db_set (db_set M ''session-ids'' sid (Some u)) ''session-ids'' ''active-users'' list) R st))"
  unfolding generateSessionCookie_def
  by (rule step_lookup, simp, rule triple_and_then [OF triple_free_sid [where M = M, OF assms]], rule triple_pure,
      rule triple_weaken [OF triple_start]) blast

lemma triple_login_answer:
  assumes "session_user f sid = [] \<and> sid \<in> range to_string"
  shows "triple (A sid) (answer (login_page u sid))
     (\<lambda>r st. \<exists>sid. session_user f sid = [] \<and> sid \<noteq> ''active-users'' \<and>
           (\<exists>page. r = Returns (page, []) \<and> contains page (session_cookie sid)) \<and> A sid st)"
proof -
  have "sid \<noteq> ''active-users''" "sid \<noteq> ''error''" using assms by auto
  then show ?thesis
    unfolding answer_def using assms login_page_cookie [of sid u] by (intro triple_return) blast
qed

lemma triple_login:
  assumes "form_body request = Returns body"
    "password_of M (hdr (parseQueryParams body) ''username'') = Some (hdr (parseQueryParams body) ''password'')"
    "hdr (parseQueryParams body) ''password'' \<noteq> []"
    "\<exists>r\<in>set (rands env). session_user (M ''session-ids'') (to_string r) = []"
  shows "triple (at M R) (login K env request)
     (\<lambda>r st. \<exists>sid. (session_user (M ''session-ids'') sid = [] \<and> sid \<noteq> ''active-users'' \<and>
           (\<exists>page. r = Returns (page, []) \<and> contains page (session_cookie sid))) \<and>
        (\<exists>list. at (db_set (db_set M ''session-ids'' sid (Some (hdr (parseQueryParams body) ''username'')))
            ''session-ids'' ''active-users'' list) R st))"
  unfolding login_def assms(1) attempt_simps Let_def
  by (rule triple_bind [OF triple_authenticate], rule triple_pure, unfold assms(2), simp add: assms(3),
    rule triple_and_then [OF triple_cookie [where M = M, OF assms(4)]], rule triple_pure,
    rule triple_login_answer [where A = "\<lambda>sid st. \<exists>list. at (db_set (db_set M ''session-ids'' sid
      (Some (hdr (parseQueryParams body) ''username''))) ''session-ids'' ''active-users'' list) R st"])

lemma triple_logout:
  "triple (at M R) (handleLogout K sid)
     (\<lambda>_ st. \<exists>list. at (db_set (db_set M ''session-ids'' ''active-users'' list) ''session-ids'' sid None) R st)"
  unfolding handleLogout_def
  by (rule step_lookup, simp, rule step_cell, rule step_delete, rule step_cput, rule triple_return, rule maybe_clear)

end

context row_store
begin

lemma within_answer: "triple (at M R) (answer page) (\<lambda>_. within M R row)"
  unfolding answer_def by (rule triple_return) (rule withinI(1) [of _ _ "M row"], simp)

lemma within_with_user:
  assumes "\<And>u. triple (at M R) (f u) (\<lambda>_. within M R (u @ ''-storage''))"
  shows "triple (at M R) (with_user K request refusal (\<lambda>u. reply_page (f u)))
    (\<lambda>_. within M R (session_user (M ''session-ids'') (extractSessionId request) @ ''-storage''))"
proof -
  have "triple (at M R) (reply_page (f u)) (\<lambda>_. within M R (u @ ''-storage''))" for u
    unfolding reply_page_def and_then_def
    by (rule triple_bind [OF assms], fold keeps_def) (unfold answer_def, intro keeps_rules)
  then show ?thesis
    unfolding with_user_def by (intro step_session triple_if within_answer) simp_all
qed

lemma storage_route_within:
  assumes "storage_route n K socket h request = Some m"
  shows "triple (at M R) m (\<lambda>_. within M R (session_user (M ''session-ids'') (extractSessionId request) @ ''-storage''))"
  using assms
  by (auto simp: storage_route_def Let_def intro!: within_with_user handlers_within split: if_splits)

end

section \<open>Without a session\<close>

text \<open>
  C35. Without a session nothing changes: a request whose session id belongs to no user, and which is not a
  login, a sign-up, a change of password or a logout, leaves the whole store as it was, sends no mail, and
  keeps the cluster healthy, whatever it asks for.
\<close>

theorem unauthenticated_changes_nothing:
  assumes "healthy cl"
    and "session_user (db P cl ''session-ids'') (extractSessionId request) = []"
    and "\<not> list_ex (contains request) [''POST /credentials'', ''HEAD /credentials'', ''POST /signup'', ''HEAD /signup'',
       ''POST /changepassword'', ''HEAD /changepassword'', ''GET /logout'', ''HEAD /logout'']"
    and "run_state (handle_request P n (cluster_ops P) (cluster_admin P net) env socket request) cl = (res, cl')"
  shows "healthy cl' \<and> db P cl' = db P cl \<and> (\<forall>page mails. res = Returns (page, mails) \<longrightarrow> mails = [])"
proof -
  have "account_route K env (contains request ''HEAD /'') request = None" for K :: "cluster kv_ops"
    using assms(3) by (simp add: account_route_def)
  from tripleD [OF rs.triple_unauthenticated [where P = P and M = "db P cl" and n = n and Ad = "cluster_admin P net" and
        socket = socket, OF assms(2) this] healthy_kv_at [OF assms(1)]]
  show ?thesis using assms(4) by (auto simp: kv_at_def)
qed

definition sample_env :: http_env where
  "sample_env = \<lparr>rands = [42], smtp_up = False, timestamp = [], date = [], balancer = (\<lambda>_. None),
     shell = (\<lambda>_. 0), page_file = (\<lambda>_. [])\<rparr>"

theorem unauthenticated_changes_nothing_witness:
  "db sample_platform (snd (run_state (handle_request sample_platform 9 (cluster_ops sample_platform)
      (cluster_admin sample_platform (\<lambda>_. True)) sample_env [] sample_upload) stored)) = db sample_platform stored"
proof -
  let ?run = "run_state (handle_request sample_platform 9 (cluster_ops sample_platform)
      (cluster_admin sample_platform (\<lambda>_. True)) sample_env [] sample_upload) stored"
  have r: "?run = (fst ?run, snd ?run)" by simp
  have c: "\<not> list_ex (contains sample_upload) [''POST /credentials'', ''HEAD /credentials'', ''POST /signup'', ''HEAD /signup'',
       ''POST /changepassword'', ''HEAD /changepassword'', ''GET /logout'', ''HEAD /logout'']"
    by code_simp
  have "db sample_platform stored ''session-ids'' x = None" for x by (simp add: stored_facts(3))
  then have s: "session_user (db sample_platform stored ''session-ids'') (extractSessionId sample_upload) = []"
    by (simp add: session_user_def)
  show ?thesis using unauthenticated_changes_nothing [OF stored_facts(1) s c r] by simp
qed

section \<open>Users cannot reach each other's files\<close>

text \<open>
  C34. Storage requests are isolated: whatever a storage request asks for, a request with a session changes at
  most the row of the session's user, and one without a session changes nothing of any user; the cluster
  stays healthy.
\<close>

theorem storage_requests_isolated:
  assumes "healthy cl" and "storage_route n (cluster_ops P) socket isHead request = Some m"
    and "run_state m cl = (res, cl')"
  shows "healthy cl' \<and>
    (\<forall>row. row \<noteq> session_user (db P cl ''session-ids'') (extractSessionId request) @ ''-storage'' \<longrightarrow>
       db P cl' row = db P cl row)"
  using tripleD [OF rs.storage_route_within [where P = P and M = "db P cl", OF assms(2)] healthy_kv_at [OF assms(1)]]
    assms(3)
  by (auto simp: kv.within_def kv_at_def)

definition sample_listing :: string where
  "sample_listing = ''GET /storage HTTP/1.1'' @ crlf @ ''Cookie: session_id=42'' @ crlf @ crlf"

theorem storage_requests_isolated_witness:
  "\<exists>m. storage_route 9 (cluster_ops sample_platform) [] False sample_listing = Some m \<and>
    db sample_platform (snd (run_state m (with_cell ''session-ids'' ''42'' ''bob''))) ''alice-storage'' =
      db sample_platform (with_cell ''session-ids'' ''42'' ''bob'') ''alice-storage''"
proof -
  have c: "contains sample_listing ''GET /storage''" "extractSessionId sample_listing = ''42''" "\<not> is_err ''bob''"
    by code_simp+
  then obtain m where m: "storage_route 9 (cluster_ops sample_platform) [] False sample_listing = Some m"
    by (simp add: storage_route_def Let_def)
  have "session_user (db sample_platform (with_cell ''session-ids'' ''42'' ''bob'') ''session-ids'') ''42'' = ''bob''"
    using c(3) by (simp add: session_user_def with_cell_facts(2))
  then show ?thesis
    using storage_requests_isolated [OF with_cell_facts(1) m prod.collapse [symmetric], of "''session-ids''" "''42''" "''bob''"]
      c(2) m by auto
qed

section \<open>Logging in and out\<close>

text \<open>
  C36. A login starts a session: with the right password and a random number whose session id is free, the
  answer sets a cookie, the session id in it was unused and now belongs to the user, and every other session
  and every other row is as before.
\<close>

theorem login_starts_session:
  fixes request
  assumes "healthy cl" "form_body request = Returns body"
    and "password_of (db P cl) (hdr (parseQueryParams body) ''username'') = Some (hdr (parseQueryParams body) ''password'')"
      "hdr (parseQueryParams body) ''password'' \<noteq> []"
    and "hdr (parseQueryParams body) ''username'' \<noteq> []" "\<not> is_err (hdr (parseQueryParams body) ''username'')"
    and "\<exists>r\<in>set (rands env). session_user (db P cl ''session-ids'') (to_string r) = []"
    and "run_state (login (cluster_ops P) env request) cl = (res, cl')"
  shows "\<exists>page sid. res = Returns (page, []) \<and> contains page (session_cookie sid) \<and>
    session_user (db P cl ''session-ids'') sid = [] \<and>
    session_user (db P cl' ''session-ids'') sid = hdr (parseQueryParams body) ''username'' \<and>
    (\<forall>s. s \<noteq> sid \<longrightarrow> s \<noteq> ''active-users'' \<longrightarrow> db P cl' ''session-ids'' s = db P cl ''session-ids'' s) \<and>
    (\<forall>row. row \<noteq> ''session-ids'' \<longrightarrow> db P cl' row = db P cl row)"
proof -
  let ?u = "hdr (parseQueryParams body) ''username''"
  have "triple (kv_at healthy (db P) (cluster_route P) (db P cl) (cluster_route P cl)) (login (cluster_ops P) env request)
     (\<lambda>r st. \<exists>sid. (session_user (db P cl ''session-ids'') sid = [] \<and> sid \<noteq> ''active-users'' \<and>
           (\<exists>page. r = Returns (page, []) \<and> contains page (session_cookie sid))) \<and>
        (\<exists>list. kv_at healthy (db P) (cluster_route P)
           (db_set (db_set (db P cl) ''session-ids'' sid (Some ?u)) ''session-ids'' ''active-users'' list) (cluster_route P cl) st))"
    by (rule rs.triple_login [where P = P, OF assms(2-4,7)])
  from tripleD [OF this healthy_kv_at [OF assms(1)]] show ?thesis
    using assms(5,6,8) by (auto simp: kv_at_def session_user_def db_set_def)
qed

definition sample_login :: string where
  "sample_login = ''POST /credentials HTTP/1.1'' @ crlf @ crlf @ ''username=bob&password=pw''"

lemma sample_login_form:
  "form_body sample_login = Returns ''username=bob&password=pw''"
  "parseQueryParams ''username=bob&password=pw'' = [''username'' \<mapsto> ''bob'', ''password'' \<mapsto> ''pw'']"
proof -
  show "form_body sample_login = Returns ''username=bob&password=pw''" by code_simp
  have d: "decode_slash ''username=bob&password=pw'' = ''username=bob&password=pw''" by code_simp
  have g: "getlines CHR ''&'' ''username=bob&password=pw'' = [''username=bob'', ''password=pw'']" by code_simp
  have f: "str_find ''username=bob'' ''='' 0 = Some 8" "str_find ''password=pw'' ''='' 0 = Some 8" by code_simp+
  show "parseQueryParams ''username=bob&password=pw'' = [''username'' \<mapsto> ''bob'', ''password'' \<mapsto> ''pw'']"
    by (simp add: parseQueryParams_def d g add_param_def f)
qed

theorem login_starts_session_witness:
  "\<exists>sid. session_user (db sample_platform (snd (run_state (login (cluster_ops sample_platform) sample_env sample_login)
      (with_cell (userinfo ''bob'') ''password'' ''pw''))) ''session-ids'') sid = ''bob''"
proof -
  let ?cl = "with_cell (userinfo ''bob'') ''password'' ''pw''"
  let ?run = "run_state (login (cluster_ops sample_platform) sample_env sample_login) ?cl"
  have r: "?run = (fst ?run, snd ?run)" by simp
  have n: "userinfo ''bob'' \<noteq> ''session-ids''" "\<not> is_err ''bob''" "\<not> is_err ''pw''" by code_simp+
  then have "password_of (db sample_platform ?cl) ''bob'' = Some ''pw''"
    "session_user (db sample_platform ?cl ''session-ids'') s = []" for s
    by (simp_all add: password_of_def session_user_def with_cell_facts(2))
  then show ?thesis
    using login_starts_session [OF with_cell_facts(1) sample_login_form(1) _ _ _ _ _ r] n(2)
    by (simp add: sample_login_form(2) hdr_def sample_env_def) blast
qed

text \<open>
  C37. A logout ends the session and no other: afterwards the session id belongs to nobody, every other
  session still belongs to its user, and no other row has changed.
\<close>

theorem logout_ends_session:
  assumes "healthy cl" and "run_state (handleLogout (cluster_ops P) sid) cl = (u, cl')"
  shows "healthy cl' \<and> session_user (db P cl' ''session-ids'') sid = [] \<and>
    (\<forall>s. s \<noteq> sid \<longrightarrow> s \<noteq> ''active-users'' \<longrightarrow> db P cl' ''session-ids'' s = db P cl ''session-ids'' s) \<and>
    (\<forall>row. row \<noteq> ''session-ids'' \<longrightarrow> db P cl' row = db P cl row)"
proof -
  from tripleD [OF rs.triple_logout [where P = P and M = "db P cl" and sid = sid] healthy_kv_at [OF assms(1)]]
  show ?thesis using assms(2) by (auto simp: kv_at_def session_user_def db_set_def split: if_splits)
qed

theorem logout_ends_session_witness:
  "session_user (db sample_platform (snd (run_state (handleLogout (cluster_ops sample_platform) ''42'')
      (with_cell ''session-ids'' ''42'' ''bob''))) ''session-ids'') ''42'' = []"
  using logout_ends_session [OF with_cell_facts(1) prod.collapse [symmetric]] by blast

section \<open>Health probes\<close>

text \<open>
  The network the load balancer sees when front ends run on the ports \<open>listening\<close>: each answers the probe the
  way the server does, whatever its store and its environment are at that moment.
\<close>

definition frontend_network ::
  "platform \<Rightarrow> nat \<Rightarrow> 'st kv_ops \<Rightarrow> 'st admin_ops \<Rightarrow> http_env \<Rightarrow> 'st \<Rightarrow> (int \<Rightarrow> bool) \<Rightarrow> network" where
  "frontend_network P n K A env st listening host port =
     (if listening port
      then (case fst (fst (fst (run_state (client_connection P n K A [(health_request host, [], env)]) st))) of
              [] \<Rightarrow> None | res # _ \<Rightarrow> Some res)
      else None)"

lemma probe_contains:
  "\<not> list_ex (contains (health_request ''127.0.0.1''))
    [''GET /storage'', ''GET /list'', ''POST /createSubFolder'', ''HEAD /createSubFolder'',
      ''POST /upload'', ''HEAD /upload'', ''GET /download'', ''HEAD /download'', ''GET /email'',
      ''/delete'', ''POST /send'', ''GET /compose'', ''/inbox'', ''/email.html'', ''GET /reply'',
      ''GET /forward'', ''POST /credentials'', ''HEAD /credentials'', ''POST /signup'', ''HEAD /signup'',
      ''POST /changepassword'', ''HEAD /changepassword'', ''GET /logout'', ''HEAD /logout'',
      ''GET /admin/dashboard'', ''GET /admin/worker-status'', ''GET /admin/backend?worker='',
      ''POST /admin/toggle'']"
  "\<not> list_ex (\<lambda>pat. prefix pat (health_request ''127.0.0.1''))
    [''GET /deleteStorage'', ''HEAD /deleteStorage'', ''GET /renameFolder'', ''POST /renameFolder'',
      ''HEAD /renameFolder'', ''GET /rename'', ''POST /rename'', ''HEAD /rename'', ''POST /moveFile'',
      ''GET /moveFile'', ''POST /moveFolder'', ''GET /moveFolder'']"
  "contains (health_request ''127.0.0.1'') ''HEAD /health''"
  "received (health_request ''127.0.0.1'') = health_request ''127.0.0.1''"
  "extractConnectionHeader (health_request ''127.0.0.1'') = ''keep-alive''"
  "health_request ''127.0.0.1'' \<noteq> []"
  by code_simp+

lemma health_request_routes:
  "account_route K env h (health_request ''127.0.0.1'') = None"
  "admin_route P K A env (health_request ''127.0.0.1'') = None"
  "storage_route n K socket h (health_request ''127.0.0.1'') = None"
  "email_route K env (health_request ''127.0.0.1'') = None"
  "page_route K env socket (health_request ''127.0.0.1'') =
     answer (''HTTP/1.1 200 OK'' @ crlf @ ''Content-Length: 2'' @ crlf @ crlf)"
  using probe_contains
  by (simp_all add: account_route_def admin_route_def storage_route_def email_route_def page_route_def Let_def)

lemma probe_answered:
  "run_state (client_connection P n K A [(health_request ''127.0.0.1'', socket, env)]) st =
     ((([''HTTP/1.1 200 OK'' @ crlf @ ''Content-Length: 2'' @ crlf @ crlf], []), Returns ()), st)"
  by (simp add: probe_contains(4-6) handle_request_def Let_def health_request_routes answer_def)

text \<open>
  C38. The probes of the load balancer tell the truth: it takes a front end for live exactly when that front
  end is running, because the server answers the probe with 200 whatever is stored, and answering leaves the
  store untouched.
\<close>

theorem probe_tells_truth:
  assumes "i < 3"
  shows "is_alive (frontend_network P n K A env st listening) (FRONTENDS ! i) = Some (listening (8081 + int i)) \<and>
    snd (run_state (client_connection P n K A [(health_request ''127.0.0.1'', socket, env)]) st) = st"
proof -
  define ans where "ans = ''HTTP/1.1 200 OK'' @ crlf @ ''Content-Length: 2'' @ crlf @ crlf"
  have a: "take 127 ans \<noteq> []" "contains (takeWhile (\<lambda>c. c \<noteq> CHR 0x00) (take 127 ans)) ''200''"
    unfolding ans_def by code_simp+
  have "frontend_network P n K A env st listening ''127.0.0.1'' port = (if listening port then Some ans else None)" for port
    unfolding frontend_network_def probe_answered by (simp add: ans_def)
  note net = this probe_answered [THEN arg_cong [where f = snd]]
  have f: "find_last_of (strip_scheme (FRONTENDS ! j)) {CHR '':''} = Some 9 \<and>
      take 9 (strip_scheme (FRONTENDS ! j)) = ''127.0.0.1'' \<and>
      read_int (drop 10 (strip_scheme (FRONTENDS ! j))) = Some (8081 + int j, [])" if "j \<in> {0, 1, 2}" for j
    using that by (elim insertE emptyE; hypsubst; code_simp)
  have "i \<in> {0, 1, 2}" using assms by auto
  from f [OF this] show ?thesis
    using a by (simp add: is_alive_def Let_def net del: client_connection.simps)
qed

theorem probe_tells_truth_witness:
  "is_alive (frontend_network sample_platform 0 (cluster_ops sample_platform) (cluster_admin sample_platform (\<lambda>_. True))
      sample_env stored (\<lambda>port. port = 8082)) (FRONTENDS ! 1) = Some True"
  using probe_tells_truth [of 1 sample_platform 0 "cluster_ops sample_platform" "cluster_admin sample_platform (\<lambda>_. True)"
      sample_env stored "\<lambda>port. port = 8082" "[]"] by simp

end
