(* ===== verification/Admin_Properties.thy ===== *)
theory Admin_Properties
  imports Admin_Service Load_Balancer
begin

text \<open>
  What the admin console shows: the tablets of a worker as the ring places them, and the state of the
  front ends as the load balancer reports it.
\<close>

section \<open>Placement\<close>

text \<open>The page of a worker lists exactly the tablets that the worker stores.\<close>

lemma isTabletStoredHere_slot:
  assumes "1 \<le> w" "w \<le> 6" "1 \<le> t" "t \<le> 6"
  shows "isTabletStoredHere w t \<longleftrightarrow> getTabletSlot w t \<noteq> None"
proof -
  have "w \<in> {1, 2, 3, 4, 5, 6}" "t \<in> {1, 2, 3, 4, 5, 6}" using assms by auto
  then show ?thesis
    by (elim insertE emptyE; hypsubst; code_simp)
qed

section \<open>Front ends\<close>

definition admin_probe :: string where
  "admin_probe = ''GET /health HTTP/1.1'' @ crlf @ ''Host: localhost'' @ crlf @ crlf"

text \<open>The network of the admin service: the load balancer listens on port 8080.\<close>

definition balancer_network :: "network \<Rightarrow> nat \<Rightarrow> int \<Rightarrow> string option" where
  "balancer_network probe next_frontend port =
     (if port = 8080 then fst (handle_client probe next_frontend admin_probe) else None)"

text \<open>The answer of the load balancer, for front ends that are up or down.\<close>

definition entry_text :: "nat \<Rightarrow> bool \<Rightarrow> string" where
  "entry_text i alive =
     (let url = strip_scheme (FRONTENDS ! i);
          port = drop (npos_plus (find_last_of url {CHR '':''}) 1) url
      in ''{\"id\":'' @ nat_string (i + 1) @ '',\"port\":\"'' @ port @ ''\",\"alive\":'' @
         (if alive then ''true'' else ''false'') @ ''}'')"

definition health_text :: "bool \<Rightarrow> bool \<Rightarrow> bool \<Rightarrow> string" where
  "health_text a b c = ''['' @ join_with CHR '','' [entry_text 0 a, entry_text 1 b, entry_text 2 c] @ '']''"

definition health_reply :: "bool \<Rightarrow> bool \<Rightarrow> bool \<Rightarrow> string" where
  "health_reply a b c =
     ''HTTP/1.1 200 OK'' @ crlf @ ''Content-Type: application/json'' @ crlf @
     ''Content-Length: '' @ nat_string (length (health_text a b c)) @ crlf @
     ''Connection: close'' @ crlf @ crlf @ health_text a b c"

lemma health_body_text:
  "health_body probe = health_text (up probe (FRONTENDS ! 0)) (up probe (FRONTENDS ! 1)) (up probe (FRONTENDS ! 2))"
  by (simp add: health_body_def health_text_def entry_text_def health_entry_def frontends_simps(1) upt_3 numeral_2_eq_2)

lemma balancer_answers:
  "balancer_network probe next_frontend 8080 =
     Some (health_reply (up probe (FRONTENDS ! 0)) (up probe (FRONTENDS ! 1)) (up probe (FRONTENDS ! 2)))"
proof -
  have "read_request_line admin_probe = Some (''GET'', ''/health'')" by code_simp
  then show ?thesis
    unfolding balancer_network_def handle_client_def health_reply_def health_body_text by (simp add: Let_def)
qed

lemma console_reads:
  "http_payload (takeWhile (\<lambda>ch. ch \<noteq> CHR 0x00) (take 1023 (health_reply a b c))) = Returns (health_text a b c)"
  "frontend_status (health_text a b c) = [a, b, c]"
proof -
  show "http_payload (takeWhile (\<lambda>ch. ch \<noteq> CHR 0x00) (take 1023 (health_reply a b c))) = Returns (health_text a b c)"
    by (induction a; induction b; induction c; code_simp)
  show "frontend_status (health_text a b c) = [a, b, c]"
    by (induction a; induction b; induction c; code_simp)
qed

text \<open>
  C16. The dashboard shows the front ends that are up: from the answer of the load balancer to the request of
  the admin service, which fits into its buffer, it reads for the three front ends exactly whether the load
  balancer finds them live.
\<close>

theorem dashboard_shows_live_front_ends:
  "\<exists>body. http_payload (checkHttpAlive (balancer_network probe next_frontend) ''127.0.0.1:8080'') = Returns body \<and>
    frontend_status body = map (up probe) FRONTENDS"
proof -
  have "stoi (drop (npos_plus (str_find ''127.0.0.1:8080'' '':'' 0) 1) ''127.0.0.1:8080'') = Returns 8080"
    by code_simp
  moreover have "map (up probe) FRONTENDS = [up probe (FRONTENDS ! 0), up probe (FRONTENDS ! 1), up probe (FRONTENDS ! 2)]"
    by (simp add: FRONTENDS_def)
  ultimately show ?thesis
    by (simp add: checkHttpAlive_def balancer_answers console_reads)
qed

end
