(* ===== verification/Single_Node.thy ===== *)
theory Single_Node
  imports Storage_Http
begin

text \<open>
  The single-node stores that came before the workers: the gRPC service of \<^verbatim>\<open>backend/kvs_server.h\<close>, the
  session protocol over TCP in the first half of \<^verbatim>\<open>backend/key_val_store.cc\<close>, and the one-command
  protocol in its second half. All keep one table of rows and columns, modelled like a tablet of a
  worker. The input of a connection is what successive calls of \<^verbatim>\<open>recv\<close> return, \<^term>\<open>None\<close> for -1; after the
  last piece the peer has closed and \<^verbatim>\<open>recv\<close> returns 0 for ever.
\<close>

section \<open>The gRPC service\<close>

datatype node_status = Node_OK | Node_CANCELLED

definition node_Get :: "tablet \<Rightarrow> string \<Rightarrow> string \<Rightarrow> node_status \<times> bool \<times> string" where
  "node_Get kvs row column =
     (case map_of kvs row of
        None \<Rightarrow> (Node_CANCELLED, False, [])
      | Some cols \<Rightarrow>
          (case map_of cols column of
             None \<Rightarrow> (Node_CANCELLED, False, [])
           | Some value \<Rightarrow> (Node_OK, True, value)))"

definition node_Put :: "tablet \<Rightarrow> string \<Rightarrow> string \<Rightarrow> string \<Rightarrow> node_status \<times> bool \<times> tablet" where
  "node_Put kvs row column value = (Node_OK, True, tablet_put kvs row column value)"

definition node_CPut ::
  "tablet \<Rightarrow> string \<Rightarrow> string \<Rightarrow> string \<Rightarrow> string \<Rightarrow> node_status \<times> bool \<times> tablet" where
  "node_CPut kvs row column current_value new_value =
     (case map_of kvs row of
        None \<Rightarrow> (Node_CANCELLED, False, kvs)
      | Some cols \<Rightarrow>
          (case map_of cols column of
             None \<Rightarrow> (Node_CANCELLED, False, kvs)
           | Some value \<Rightarrow>
               if value \<noteq> current_value then (Node_CANCELLED, False, kvs)
               else (Node_OK, True, tablet_put kvs row column new_value)))"

definition node_Delete :: "tablet \<Rightarrow> string \<Rightarrow> string \<Rightarrow> node_status \<times> bool \<times> tablet" where
  "node_Delete kvs row column = (Node_OK, True, tablet_delete kvs row column)"

section \<open>The session protocol\<close>

record node =
  kvstore :: tablet
  activeClients :: "int set"

definition accept_fd :: "int \<Rightarrow> node \<Rightarrow> node" where
  "accept_fd client_fd s = s\<lparr>activeClients := insert client_fd (activeClients s)\<rparr>"

fun readFromSocket :: "string \<Rightarrow> string option list \<Rightarrow> (string \<times> string option list) outcome" where
  "readFromSocket recvdMsg [] = Diverges"
| "readFromSocket recvdMsg (None # input) = Throws Length_error"
| "readFromSocket recvdMsg (Some piece # input) =
     (if contains (recvdMsg @ piece) crlf then Returns (recvdMsg @ piece, input)
      else readFromSocket (recvdMsg @ piece) input)"

lemma readFromSocket_shorter: "readFromSocket acc input = Returns (m, rest) \<Longrightarrow> length rest < length input"
  by (induction acc input rule: readFromSocket.induct) (auto split: if_splits)

text \<open>The answers sent, and the input after the greeting.\<close>

function expectHELLO :: "string option list \<Rightarrow> string list \<times> string option list outcome" where
  "expectHELLO input =
     (case readFromSocket [] input of
        Returns (message, rest) \<Rightarrow>
          if message \<noteq> ''HELLO'' @ crlf then
            (let (sent, r) = expectHELLO rest
             in ((''-ERR Invalid command, start with HELLO'' @ crlf) # sent, r))
          else ([''+OK Server Ready'' @ crlf], Returns rest)
      | Throws e \<Rightarrow> ([], Throws e)
      | Diverges \<Rightarrow> ([], Diverges))"
  by pat_completeness auto
termination by (relation "measure length") (auto dest: readFromSocket_shorter)

declare expectHELLO.simps [simp del]

definition handleGET :: "tablet \<Rightarrow> string \<Rightarrow> string \<Rightarrow> string" where
  "handleGET kvs row col =
     (case map_of kvs row of
        None \<Rightarrow> ''-ERR Row does not exist'' @ crlf
      | Some cols \<Rightarrow>
          (case map_of cols col of
             None \<Rightarrow> ''-ERR Column does not exist'' @ crlf
           | Some value \<Rightarrow> ''+OK'' @ [LF] @ value @ crlf))"

definition handlePUT :: "tablet \<Rightarrow> string \<Rightarrow> string \<Rightarrow> string \<Rightarrow> string \<times> tablet" where
  "handlePUT kvs row col value = (''+OK'' @ crlf, tablet_put kvs row col value)"

definition handleCPUT ::
  "tablet \<Rightarrow> string \<Rightarrow> string \<Rightarrow> string \<Rightarrow> string \<Rightarrow> string \<times> tablet" where
  "handleCPUT kvs row col oldvalue newvalue =
     (case map_of kvs row of
        None \<Rightarrow> (''-ERR Row does not exist'' @ crlf, kvs)
      | Some cols \<Rightarrow>
          (case map_of cols col of
             None \<Rightarrow> (''-ERR Column does not exist'' @ crlf, kvs)
           | Some value \<Rightarrow>
               if value \<noteq> oldvalue then (''-ERR Current value is different from provided value'' @ crlf, kvs)
               else (''+OK'' @ crlf, tablet_put kvs row col newvalue)))"

definition handleDELETE :: "tablet \<Rightarrow> string \<Rightarrow> string \<Rightarrow> string \<times> tablet" where
  "handleDELETE kvs row col = (''+OK'' @ crlf, tablet_delete kvs row col)"

text \<open>The parameters of a message; the last two characters are cut without being looked at.\<close>

definition message_params :: "string \<Rightarrow> string \<times> string list" where
  "message_params message =
     (let pos = str_find message '' '' 0;
          parameterString = drop (npos_plus pos 1) message;
          len = length parameterString
      in (case pos of None \<Rightarrow> message | Some n \<Rightarrow> take n message,
          getlines CHR ''|'' (if len < 2 then parameterString else take (len - 2) parameterString)))"

text \<open>The answer and whether the session ends; \<^verbatim>\<open>params.at\<close> throws when a parameter is missing.\<close>

definition processMessage :: "tablet \<Rightarrow> string \<Rightarrow> (string \<times> bool \<times> tablet) outcome" where
  "processMessage kvs message =
     (let (command, params) = message_params message;
          need = (\<lambda>n f. if length params < n then Throws Out_of_range
                        else let (reply, kvs') = f in Returns (reply, False, kvs'))
      in if command = ''GET'' then need 2 (handleGET kvs (params ! 0) (params ! 1), kvs)
         else if command = ''PUT'' then need 3 (handlePUT kvs (params ! 0) (params ! 1) (params ! 2))
         else if command = ''CPUT'' then
           need 4 (handleCPUT kvs (params ! 0) (params ! 1) (params ! 2) (params ! 3))
         else if command = ''DELETE'' then need 2 (handleDELETE kvs (params ! 0) (params ! 1))
         else if message = ''QUIT'' @ crlf then Returns (''+OK Goodbye'' @ crlf, True, kvs)
         else Returns (''-ERR Command unrecognized'' @ crlf, False, kvs))"

function message_loop :: "tablet \<Rightarrow> string option list \<Rightarrow> string list \<times> tablet \<times> unit outcome" where
  "message_loop kvs input =
     (case readFromSocket [] input of
        Returns (message, rest) \<Rightarrow>
          (case processMessage kvs message of
             Returns (reply, quit, kvs') \<Rightarrow>
               if quit then ([reply], kvs', Returns ())
               else (let (sent, r) = message_loop kvs' rest in (reply # sent, r))
           | Throws e \<Rightarrow> ([], kvs, Throws e)
           | Diverges \<Rightarrow> ([], kvs, Diverges))
      | Throws e \<Rightarrow> ([], kvs, Throws e)
      | Diverges \<Rightarrow> ([], kvs, Diverges))"
  by pat_completeness auto
termination by (relation "measure (\<lambda>(kvs, input). length input)") (auto dest: readFromSocket_shorter)

declare message_loop.simps [simp del]

definition communicationThreadFunc ::
  "int \<Rightarrow> node \<Rightarrow> string option list \<Rightarrow> string list \<times> node \<times> unit outcome" where
  "communicationThreadFunc client_fd s input =
     (let (greeting, r) = expectHELLO input
      in case r of
           Returns rest \<Rightarrow>
             (let (sent, kvs, res) = message_loop (kvstore s) rest
              in (greeting @ sent,
                  s\<lparr>kvstore := kvs,
                    activeClients := (if res = Returns () then activeClients s - {client_fd} else activeClients s)\<rparr>,
                  res))
         | Throws e \<Rightarrow> (greeting, s, Throws e)
         | Diverges \<Rightarrow> (greeting, s, Diverges))"

section \<open>The one-command protocol\<close>

definition next_word :: "string \<Rightarrow> string \<times> string" where
  "next_word inp = (case read_word inp of None \<Rightarrow> ([], []) | Some p \<Rightarrow> p)"

definition rest_of_line :: "string \<Rightarrow> string" where
  "rest_of_line inp =
     (let value = takeWhile (\<lambda>c. c \<noteq> LF) inp
      in if value \<noteq> [] \<and> hd value = CHR '' '' then tl value else value)"

definition processCommand :: "platform \<Rightarrow> tablet \<Rightarrow> string \<Rightarrow> string \<times> tablet" where
  "processCommand P kvStore commandLine =
     (let (cmd, iss) = next_word commandLine
      in if cmd = ''PUT'' then
           (let (row, iss1) = next_word iss; (col, iss2) = next_word iss1
            in (''OK'' @ [LF], tablet_put kvStore row col (rest_of_line iss2)))
         else if cmd = ''GET'' then
           (let (row, iss1) = next_word iss; (col, iss2) = next_word iss1
            in (case tablet_find kvStore row col of
                  Some value \<Rightarrow> (value @ [LF], kvStore)
                | None \<Rightarrow> (''NOT_FOUND'' @ [LF], kvStore)))
         else if cmd = ''DELETE'' then
           (let (row, iss1) = next_word iss; (col, iss2) = next_word iss1
            in (case map_of kvStore row of
                  None \<Rightarrow> (''NOT_FOUND'' @ [LF], kvStore)
                | Some cols \<Rightarrow>
                    (case map_of cols col of
                       None \<Rightarrow> (''NOT_FOUND'' @ [LF], kvStore)
                     | Some _ \<Rightarrow> (''OK'' @ [LF], AList.update row (AList.delete col cols) kvStore))))
         else if cmd = ''CPUT'' then
           (let (row, iss1) = next_word iss; (col, iss2) = next_word iss1; (oldVal, iss3) = next_word iss2
            in (case tablet_find kvStore row col of
                  None \<Rightarrow> (''NOT_FOUND'' @ [LF], kvStore)
                | Some value \<Rightarrow>
                    if value = oldVal then (''OK'' @ [LF], tablet_put kvStore row col (rest_of_line iss3))
                    else (''FAIL'' @ [LF], kvStore)))
         else if cmd = ''SCAN'' then
           (let (pre, iss1) = next_word iss
            in (''+OK'' @ [LF] @
                concat (map (\<lambda>(row, cols). if prefix pre row then row @ [LF] else []) (row_order P kvStore)), kvStore))
         else (''ERROR: Unknown command'' @ [LF], kvStore))"

text \<open>One connection: at most 4095 bytes, read as a C string.\<close>

definition serve_command :: "platform \<Rightarrow> tablet \<Rightarrow> string \<Rightarrow> string \<times> tablet" where
  "serve_command P kvStore bytes =
     processCommand P kvStore (takeWhile (\<lambda>c. c \<noteq> CHR 0x00) (take 4095 bytes))"

section \<open>Commands\<close>

text \<open>A call of the gRPC service, and the message that asks for the same.\<close>

datatype kv_command =
    Get_command string string
  | Put_command string string string
  | CPut_command string string string string
  | Delete_command string string

fun rpc :: "kv_command \<Rightarrow> tablet \<Rightarrow> (node_status \<times> string) \<times> tablet" where
  "rpc (Get_command r c) kvs = (let (st, ok, v) = node_Get kvs r c in ((st, v), kvs))"
| "rpc (Put_command r c v) kvs = (let (st, ok, kvs') = node_Put kvs r c v in ((st, []), kvs'))"
| "rpc (CPut_command r c v w) kvs = (let (st, ok, kvs') = node_CPut kvs r c v w in ((st, []), kvs'))"
| "rpc (Delete_command r c) kvs = (let (st, ok, kvs') = node_Delete kvs r c in ((st, []), kvs'))"

fun rpcs :: "kv_command list \<Rightarrow> tablet \<Rightarrow> (node_status \<times> string) list \<times> tablet" where
  "rpcs [] kvs = ([], kvs)"
| "rpcs (c # cs) kvs = (let (r, kvs1) = rpc c kvs; (rs, kvs2) = rpcs cs kvs1 in (r # rs, kvs2))"

fun verb :: "kv_command \<Rightarrow> string" where
  "verb (Get_command r c) = ''GET''"
| "verb (Put_command r c v) = ''PUT''"
| "verb (CPut_command r c v w) = ''CPUT''"
| "verb (Delete_command r c) = ''DELETE''"

fun fields :: "kv_command \<Rightarrow> string list" where
  "fields (Get_command r c) = [r, c]"
| "fields (Put_command r c v) = [r, c, v]"
| "fields (CPut_command r c v w) = [r, c, v, w]"
| "fields (Delete_command r c) = [r, c]"

definition message_of :: "kv_command \<Rightarrow> string" where
  "message_of c = verb c @ '' '' @ join_with CHR ''|'' (fields c) @ crlf"

definition plain_command :: "kv_command \<Rightarrow> bool" where
  "plain_command c \<longleftrightarrow> list_all (\<lambda>f. CHR ''|'' \<notin> set f \<and> CR \<notin> set f) (fields c) \<and> last (fields c) \<noteq> []"

fun answers :: "kv_command \<Rightarrow> string \<Rightarrow> node_status \<times> string \<Rightarrow> bool" where
  "answers c reply (Node_CANCELLED, v) \<longleftrightarrow> prefix ''-ERR '' reply"
| "answers c reply (Node_OK, v) \<longleftrightarrow>
     reply = (case c of Get_command _ _ \<Rightarrow> ''+OK'' @ [LF] @ v @ crlf | _ \<Rightarrow> ''+OK'' @ crlf)"

text \<open>How a message may arrive: in pieces, none of them empty.\<close>

definition cut :: "string \<Rightarrow> string list \<Rightarrow> bool" where
  "cut message pieces \<longleftrightarrow> concat pieces = message \<and> [] \<notin> set pieces"

section \<open>Messages as commands\<close>

lemma getlines_join:
  "fs \<noteq> [] \<Longrightarrow> \<forall>f\<in>set fs. d \<notin> set f \<Longrightarrow> last fs \<noteq> [] \<Longrightarrow> getlines d (join_with d fs) = fs"
  by (induction d fs rule: join_with.induct) (auto simp: getlines_Cons_token getlines_last)

lemma fields_facts [simp]: "fields c \<noteq> []" "CHR '' '' \<notin> set (verb c)"
  by (cases c; simp)+

lemma str_find_blank: "CHR '' '' \<notin> set w \<Longrightarrow> str_find (w @ CHR '' '' # r) '' '' 0 = Some (length w)"
proof -
  have "CHR '' '' \<notin> set w \<Longrightarrow> find_sub '' '' (w @ CHR '' '' # r) k = Some (k + length w)" for k
    by (induction w arbitrary: k) auto
  then show "CHR '' '' \<notin> set w \<Longrightarrow> str_find (w @ CHR '' '' # r) '' '' 0 = Some (length w)"
    by (simp add: str_find_def)
qed

lemma message_params_message_of:
  assumes "plain_command c"
  shows "message_params (message_of c) = (verb c, fields c)"
proof -
  have f: "getlines CHR ''|'' (join_with CHR ''|'' (fields c)) = fields c"
    using assms by (intro getlines_join) (auto simp: plain_command_def list_all_iff)
  show ?thesis
    using str_find_blank [of "verb c" "join_with CHR ''|'' (fields c) @ crlf"] f
    by (simp add: message_params_def message_of_def Let_def npos_plus_def)
qed

lemma message_of_not_quit: "message_of c \<noteq> ''QUIT'' @ crlf"
  by (cases c) (simp_all add: message_of_def)

lemma processMessage_rpc:
  assumes "plain_command c"
  shows "\<exists>reply. processMessage kvs (message_of c) = Returns (reply, False, snd (rpc c kvs)) \<and>
    answers c reply (fst (rpc c kvs))"
  using message_params_message_of [OF assms]
  by (cases c)
    (auto simp: processMessage_def node_Get_def node_Put_def node_CPut_def
      node_Delete_def handleGET_def handlePUT_def handleCPUT_def handleDELETE_def split: option.splits)

lemma processMessage_quit: "processMessage kvs (''QUIT'' @ crlf) = Returns (''+OK Goodbye'' @ crlf, True, kvs)"
proof -
  have "fst (message_params (''QUIT'' @ crlf)) \<notin> {''GET'', ''PUT'', ''CPUT'', ''DELETE''}" by code_simp
  then show ?thesis by (auto simp: processMessage_def case_prod_beta)
qed

section \<open>Messages in pieces\<close>

lemma crlf_only_at_end:
  assumes "x @ y = m @ crlf" "CR \<notin> set m" "y \<noteq> []"
  shows "\<not> contains x crlf"
proof
  assume "contains x crlf"
  then obtain a b where x: "x = a @ crlf @ b" by (auto simp: contains_sublist sublist_def)
  have "length (x @ y) = length m + 2" using assms(1) by simp
  then have l: "length a < length m" using assms(3) by (cases y) (simp_all add: x)
  have "(x @ y) ! length a = CR" by (simp add: x nth_append)
  then have "m ! length a = CR" using l by (simp add: assms(1) nth_append)
  then show False using assms(2) l nth_mem by metis
qed

lemma readFromSocket_pieces:
  "acc @ concat pieces = m @ crlf \<Longrightarrow> CR \<notin> set m \<Longrightarrow> [] \<notin> set pieces \<Longrightarrow> pieces \<noteq> [] \<Longrightarrow>
   readFromSocket acc (map Some pieces @ rest) = Returns (m @ crlf, rest)"
proof (induction pieces arbitrary: acc)
  case (Cons p ps)
  show ?case
  proof (cases "ps = []")
    case True
    then have "acc @ p = m @ crlf" using Cons.prems(1) by simp
    moreover have "contains (m @ crlf) crlf" by (auto simp: contains_sublist)
    ultimately show ?thesis using True by simp
  next
    case False
    then have "concat ps \<noteq> []" using Cons.prems(3) by (cases ps) auto
    then have "\<not> contains (acc @ p) crlf"
      using Cons.prems(1,2) by (intro crlf_only_at_end [of _ "concat ps" m]) simp_all
    then show ?thesis using Cons False by simp
  qed
qed simp

lemma message_of_no_CR:
  assumes "plain_command c"
  obtains m where "message_of c = m @ crlf" "CR \<notin> set m"
proof
  have "CR \<notin> set (join_with CHR ''|'' fs)" if "\<forall>f\<in>set fs. CR \<notin> set f" for fs
    using that by (induction "CHR ''|''" fs rule: join_with.induct) auto
  moreover have "CR \<notin> set (verb c)" by (cases c) simp_all
  ultimately show "CR \<notin> set (verb c @ '' '' @ join_with CHR ''|'' (fields c))"
    using assms by (auto simp: plain_command_def list_all_iff)
qed (simp add: message_of_def)

lemma readFromSocket_command:
  assumes "plain_command c" "cut (message_of c) pieces"
  shows "readFromSocket [] (map Some pieces @ rest) = Returns (message_of c, rest)"
proof -
  obtain m where m: "message_of c = m @ crlf" "CR \<notin> set m" using message_of_no_CR [OF assms(1)] .
  then have "pieces \<noteq> []" using assms(2) by (auto simp: cut_def)
  then show ?thesis using readFromSocket_pieces [of "[]" pieces m rest] m assms(2) by (simp add: cut_def)
qed

lemma message_loop_rpcs:
  assumes "list_all plain_command cs" "list_all2 cut (map message_of cs) pss"
  shows "\<exists>replies. message_loop kvs (map Some (concat pss) @ [Some (''QUIT'' @ crlf)]) =
      (replies @ [''+OK Goodbye'' @ crlf], snd (rpcs cs kvs), Returns ()) \<and>
    length replies = length cs \<and>
    list_all (\<lambda>(c, reply, r). answers c reply r) (zip cs (zip replies (fst (rpcs cs kvs))))"
  using assms
proof (induction cs arbitrary: pss kvs)
  case Nil
  have "contains (''QUIT'' @ crlf) crlf" by code_simp
  then show ?case using Nil processMessage_quit [of kvs] by (subst message_loop.simps) simp
next
  case (Cons c cs)
  then obtain p ps where p: "pss = p # ps" "cut (message_of c) p" "list_all2 cut (map message_of cs) ps"
    by (auto simp: list_all2_Cons1)
  obtain reply where r: "processMessage kvs (message_of c) = Returns (reply, False, snd (rpc c kvs))"
      "answers c reply (fst (rpc c kvs))"
    using processMessage_rpc Cons.prems(1) by auto
  obtain replies where
    "message_loop (snd (rpc c kvs)) (map Some (concat ps) @ [Some (''QUIT'' @ crlf)]) =
      (replies @ [''+OK Goodbye'' @ crlf], snd (rpcs cs (snd (rpc c kvs))), Returns ())"
    "length replies = length cs"
    "list_all (\<lambda>(c, reply, r). answers c reply r) (zip cs (zip replies (fst (rpcs cs (snd (rpc c kvs))))))"
    using Cons.IH [OF _ p(3), of "snd (rpc c kvs)"] Cons.prems(1) by auto
  then show ?case
    using readFromSocket_command [OF _ p(2)] Cons.prems(1) r
    by (subst message_loop.simps) (auto simp: p(1) case_prod_beta intro!: exI [of _ "reply # replies"])
qed

text \<open>
  C40. The session protocol serves what the gRPC service serves: a client that greets, sends any well-formed
  commands, each in any pieces, and quits, gets an answer to every command that says what the gRPC service
  would return for it, is told goodbye, and leaves the table that the calls would leave.
\<close>

theorem session_serves_rpcs:
  assumes "list_all plain_command cs" and "list_all2 cut (map message_of cs) pss"
  shows "\<exists>replies. communicationThreadFunc fd s
      (Some (''HELLO'' @ crlf) # map Some (concat pss) @ [Some (''QUIT'' @ crlf)]) =
      ((''+OK Server Ready'' @ crlf) # replies @ [''+OK Goodbye'' @ crlf],
       s\<lparr>kvstore := snd (rpcs cs (kvstore s)), activeClients := activeClients s - {fd}\<rparr>, Returns ()) \<and>
    length replies = length cs \<and>
    list_all (\<lambda>(c, reply, r). answers c reply r) (zip cs (zip replies (fst (rpcs cs (kvstore s)))))"
proof -
  have "contains (''HELLO'' @ crlf) crlf" by code_simp
  then have "expectHELLO (Some (''HELLO'' @ crlf) # rest) = ([''+OK Server Ready'' @ crlf], Returns rest)" for rest
    by (subst expectHELLO.simps) simp
  then show ?thesis
    using message_loop_rpcs [OF assms, of "kvstore s"] by (auto simp: communicationThreadFunc_def)
qed

theorem session_serves_rpcs_witness:
  "\<exists>replies. communicationThreadFunc 5 \<lparr>kvstore = [], activeClients = {5}\<rparr>
      (map Some [''HELLO'' @ crlf, ''PUT a|b'', ''|x'' @ crlf, ''GET a|b'' @ crlf, ''QUIT'' @ crlf]) =
      ((''+OK Server Ready'' @ crlf) # replies @ [''+OK Goodbye'' @ crlf],
       \<lparr>kvstore = [(''a'', [(''b'', ''x'')])], activeClients = {}\<rparr>, Returns ()) \<and>
    replies ! 1 = ''+OK'' @ [LF] @ ''x'' @ crlf"
proof -
  let ?cs = "[Put_command ''a'' ''b'' ''x'', Get_command ''a'' ''b'']"
  have p: "list_all plain_command ?cs"
    "list_all2 cut (map message_of ?cs) [[''PUT a|b'', ''|x'' @ crlf], [''GET a|b'' @ crlf]]" by code_simp+
  have r: "rpcs ?cs [] = ([(Node_OK, []), (Node_OK, ''x'')], [(''a'', [(''b'', ''x'')])])" by code_simp
  from session_serves_rpcs [OF p, of 5 "\<lparr>kvstore = [], activeClients = {5}\<rparr>"]
  obtain replies where c: "communicationThreadFunc 5 \<lparr>kvstore = [], activeClients = {5}\<rparr>
      (map Some [''HELLO'' @ crlf, ''PUT a|b'', ''|x'' @ crlf, ''GET a|b'' @ crlf, ''QUIT'' @ crlf]) =
      ((''+OK Server Ready'' @ crlf) # replies @ [''+OK Goodbye'' @ crlf],
       \<lparr>kvstore = [(''a'', [(''b'', ''x'')])], activeClients = {}\<rparr>, Returns ())"
    and l: "length replies = 2"
      "list_all (\<lambda>(c, reply, r). answers c reply r) (zip ?cs (zip replies [(Node_OK, []), (Node_OK, ''x'')]))"
    by (auto simp: r simp del: rpcs.simps)
  obtain r0 r1 where "replies = [r0, r1]" using l(1) by (auto simp: length_Suc_conv numeral_2_eq_2)
  with l(2) have "replies ! 1 = ''+OK'' @ [LF] @ ''x'' @ crlf" by simp
  with c show ?thesis by blast
qed

end
