(* ===== verification/Web_Storage_Prototype.thy ===== *)
theory Web_Storage_Prototype
  imports Row_Store
begin

text \<open>
  The stand-alone prototype of the storage service (\<^verbatim>\<open>web_storage_service/WEB STORAGE SERVICE/wbs.cc\<close>): one
  row \<^verbatim>\<open>user\<close> with a column for every file, on a worker whose address is fixed. A file is stored with the
  multipart text around it; a download cuts the text between the first empty line and the next line
  end.
\<close>

definition wbs_httpResponse :: "string \<Rightarrow> string \<Rightarrow> string \<Rightarrow> string" where
  "wbs_httpResponse status body contentType =
     ''HTTP/1.1 '' @ status @ crlf @
     ''Content-Type: '' @ contentType @ crlf @
     ''Content-Length: '' @ nat_string (length body) @ crlf @
     crlf @ body"

definition wbs_parseQueryParams :: "string \<Rightarrow> (string \<rightharpoonup> string)" where
  "wbs_parseQueryParams query = foldl add_param Map.empty (getlines CHR ''&'' query)"

abbreviation wbs_MAX_FILE_SIZE :: nat where "wbs_MAX_FILE_SIZE \<equiv> 2 * 1024 * 1024"

definition wbs_readRequestBody :: "string list \<Rightarrow> string \<Rightarrow> nat \<Rightarrow> string" where
  "wbs_readRequestBody socket request headerEnd =
     (let n = (case content_length request of Returns v \<Rightarrow> nat v | _ \<Rightarrow> 0);
          contentLength = (if n = 0 \<or> wbs_MAX_FILE_SIZE < n then wbs_MAX_FILE_SIZE else n)
      in read_to_length contentLength (drop (headerEnd + 4) request) socket)"

definition wbs_word :: "string \<Rightarrow> string \<times> string" where
  "wbs_word inp = (case read_word inp of None \<Rightarrow> ([], []) | Some p \<Rightarrow> p)"

definition wbs_filename :: "string \<Rightarrow> string" where
  "wbs_filename url =
     (case str_find url ''?filename='' 0 of None \<Rightarrow> ''myfile'' | Some qPos \<Rightarrow> drop (qPos + 10) url)"

text \<open>What a download makes of a stored text.\<close>

definition wbs_payload :: "string \<Rightarrow> string outcome" where
  "wbs_payload fileContent =
     outcome_bind (substr fileContent (npos_plus (str_find fileContent (crlf @ crlf) 0) 4) None) (\<lambda>rest.
       Returns (between rest 0 (str_find rest crlf 0)))"

definition wbs_download :: "'st kv_ops \<Rightarrow> string \<Rightarrow> string \<Rightarrow> ('st, string outcome) state" where
  "wbs_download K worker url = do {
     fileContent \<leftarrow> kv_get K worker ''user'' (wbs_filename url);
     if fileContent = [] then
       State_Monad.return (Returns (wbs_httpResponse ''404 Not Found''
         ''<html><body><h1>404 Not Found</h1><p>File not found.</p></body></html>'' ''text/html''))
     else attempt (wbs_payload fileContent) (\<lambda>payload.
       State_Monad.return (Returns (wbs_httpResponse ''200 OK'' payload ''application/octet-stream''))) }"

definition wbs_upload :: "'st kv_ops \<Rightarrow> string \<Rightarrow> string list \<Rightarrow> string \<Rightarrow> string \<Rightarrow> ('st, string outcome) state" where
  "wbs_upload K worker socket url request =
     (case str_find request (crlf @ crlf) 0 of
        None \<Rightarrow> State_Monad.return (Returns (wbs_httpResponse ''400 Bad Request''
          ''<html><body>Missing header terminator.</body></html>'' ''text/html''))
      | Some headerEnd \<Rightarrow> do {
          result \<leftarrow> kv_put K worker ''user'' (wbs_filename url) (wbs_readRequestBody socket request headerEnd);
          State_Monad.return (Returns (wbs_httpResponse ''200 OK''
            (''<html><body>Upload Result: '' @ result @ ''<br/><a href='/'>Back</a></body></html>'')
            ''text/html'')) })"

text \<open>
  One connection; \<open>webpage\<close> is the content of \<^verbatim>\<open>web_pages/webpage.html\<close>, \<^term>\<open>None\<close> when it cannot be opened.
  The result is the response, empty when nothing was received.
\<close>

definition wbs_handleClient ::
  "'st kv_ops \<Rightarrow> string \<Rightarrow> string option \<Rightarrow> string list \<Rightarrow> string \<Rightarrow> ('st, string outcome) state" where
  "wbs_handleClient K worker webpage socket bytes =
     (let request = takeWhile (\<lambda>c. c \<noteq> CHR 0x00) (take 8191 bytes);
          requestLine = takeWhile (\<lambda>c. c \<noteq> LF) request;
          (method, r1) = wbs_word requestLine;
          (url, r2) = wbs_word r1;
          bad = (\<lambda>t. State_Monad.return (Returns (wbs_httpResponse ''400 Bad Request''
            (''<html><body>'' @ t @ ''</body></html>'') ''text/html'')))
      in if bytes = [] then State_Monad.return (Returns [])
         else if method = ''GET'' then
           (if url = ''/'' \<or> url = ''/index.html'' then
              State_Monad.return (Returns
                (case webpage of
                   None \<Rightarrow> wbs_httpResponse ''404 Not Found''
                     ''<html><body><h1>404 Not Found</h1><p>webpage.html missing.</p></body></html>'' ''text/html''
                 | Some htmlContent \<Rightarrow> wbs_httpResponse ''200 OK'' htmlContent ''text/html''))
            else if prefix ''/download'' url then wbs_download K worker url
            else bad ''Unsupported GET URL.'')
         else if method = ''POST'' then
           (if prefix ''/upload'' url then wbs_upload K worker socket url request
            else bad ''Unsupported POST URL.'')
         else bad ''Unsupported method.'')"

section \<open>What is cut from a stored upload\<close>

lemma not_before:
  assumes "\<not> contains (xs @ butlast pat) pat" "pat \<noteq> []" "i < length xs"
  shows "\<not> prefix pat (drop i (xs @ pat @ ys))"
proof
  assume "prefix pat (drop i (xs @ pat @ ys))"
  then obtain zs where z: "drop i (xs @ pat @ ys) = pat @ zs" by (auto simp: prefix_def)
  have "xs @ pat @ ys = (xs @ butlast pat) @ [last pat] @ ys" using assms(2) by simp
  then have "drop i (xs @ pat @ ys) = drop i (xs @ butlast pat) @ [last pat] @ ys"
    using assms(3) by (simp only: drop_append) simp
  then have "take (length pat) (drop i (xs @ butlast pat) @ [last pat] @ ys) = pat" using z by simp
  then have "take (length pat) (drop i (xs @ butlast pat)) = pat" using assms(2,3) by simp
  then have "sublist pat (xs @ butlast pat)"
    by (metis sublist_drop sublist_take sublist_order.order_trans)
  then show False using assms(1) by (simp add: contains_sublist)
qed

lemma find_first:
  assumes "\<not> contains (xs @ butlast pat) pat" "pat \<noteq> []"
  shows "str_find (xs @ pat @ ys) pat 0 = Some (length xs)"
proof -
  have "(\<forall>i<length xs. \<not> prefix pat (drop i (xs @ pat @ ys))) \<Longrightarrow> find_sub pat (xs @ pat @ ys) k = Some (k + length xs)" for k
  proof (induction xs arbitrary: k)
    case Nil
    then show ?case using find_sub_zero by auto
  next
    case (Cons x xs)
    have "\<not> prefix pat (drop i (xs @ pat @ ys))" if "i < length xs" for i using Cons.prems that by force
    then have "find_sub pat (xs @ pat @ ys) (Suc k) = Some (Suc k + length xs)" using Cons.IH by blast
    moreover have "\<not> prefix pat (x # xs @ pat @ ys)" using Cons.prems by force
    ultimately show ?case by simp
  qed
  then show ?thesis using not_before [OF assms] by (simp add: str_find_def)
qed

text \<open>
  For a file that is stored as multipart text, a header block, an empty line, the content and a line
  end, the download gives the content, as long as the content has no carriage return.
\<close>

lemma wbs_payload_content:
  assumes "\<not> contains (hdrs @ [CR, LF, CR]) (crlf @ crlf)" "CR \<notin> set content"
  shows "wbs_payload (hdrs @ crlf @ crlf @ content @ crlf @ trailer) = Returns content"
proof -
  have "\<not> contains (content @ [CR]) crlf"
    using assms(2) by (auto simp: contains_sublist sublist_def append_eq_append_conv2 append_eq_Cons_conv Cons_eq_append_conv)
  then have "str_find (content @ crlf @ trailer) crlf 0 = Some (length content)"
    using find_first [of content crlf trailer] by simp
  moreover have "str_find (hdrs @ (crlf @ crlf) @ content @ crlf @ trailer) (crlf @ crlf) 0 = Some (length hdrs)"
    using assms(1) by (intro find_first) simp_all
  ultimately show ?thesis
    by (simp add: wbs_payload_def npos_plus_def substr_def substr_at_def str_substr_def between_def)
qed

text \<open>What an upload stores, a download cuts: a file uploaded as multipart text comes back.\<close>

context kv_service
begin

lemma wbs_upload_download:
  assumes "wbs_readRequestBody socket request headerEnd = hdrs @ crlf @ crlf @ content @ crlf @ trailer"
    and "str_find request (crlf @ crlf) 0 = Some headerEnd"
    and "\<not> contains (hdrs @ [CR, LF, CR]) (crlf @ crlf)" "CR \<notin> set content" "wbs_filename url' = wbs_filename url"
  shows "triple (at M R)
    (do { r \<leftarrow> wbs_upload K (R ''user'') socket url request; wbs_download K (R ''user'') url' })
    (\<lambda>r st. r = Returns (wbs_httpResponse ''200 OK'' content ''application/octet-stream'') \<and>
       at (db_set M ''user'' (wbs_filename url) (Some (wbs_readRequestBody socket request headerEnd))) R st)"
proof -
  have v: "wbs_payload (wbs_readRequestBody socket request headerEnd) = Returns content"
    "wbs_readRequestBody socket request headerEnd \<noteq> []"
    using wbs_payload_content [OF assms(3,4), of trailer] by (simp_all add: assms(1))
  show ?thesis
    unfolding wbs_upload_def wbs_download_def assms(2,5)
    by (simp, intro step_put step_get triple_return) (simp_all add: db_set_def v triple_return)
qed

end

end
