(* ===== verification/Spec2Isabelle.thy ===== *)
theory Spec2Isabelle
  imports Late_Marks Smtp_Properties Http_Properties Admin_Properties Storage_Wire Single_Node Web_Storage_Prototype
begin

text \<open>
  PennCloud is a small cloud platform: a replicated key-value store, and web services (accounts,
  mail, storage, administration) that keep all their data in it. This development models the C++
  sources under \<^verbatim>\<open>src/\<close> and proves what makes them correct.

  \<^bold>\<open>Parts and how they interact.\<close> Six worker processes (\<^verbatim>\<open>backend/worker.cc\<close>) store six tablets of a table
  of rows and columns, each tablet on three workers that follow each other on a ring. A row belongs
  to the tablet its hash selects. A coordinator (\<^verbatim>\<open>backend/coordinator.cc\<close>) receives heartbeats, marks
  workers alive, and tells clients which worker to ask for a row. A worker that gets a write logs it
  (\<^verbatim>\<open>utils/logger.cc\<close>), applies it, checkpoints its tablet every few writes (\<^verbatim>\<open>utils/serializer.cc\<close>) and
  forwards it to the other two holders; a worker that starts recovers from its disk and then from
  a live holder. Services reach the store through the stubs of \<^verbatim>\<open>backend/kvs_client.h\<close>. The mail service
  (\<^verbatim>\<open>frontend/email/email_service.cc\<close>) and the SMTP server (\<^verbatim>\<open>frontend/email/smtp_server.cc\<close>) keep mailboxes
  as rows, \<^verbatim>\<open>frontend/user_account\<close> keeps passwords, the storage service
  (\<^verbatim>\<open>frontend/storage/storage_service.cc\<close>) keeps files in chunks and folders as lists of paths, and the admin
  service (\<^verbatim>\<open>frontend/admin/admin_service.cc\<close>) shows and stops workers. The HTTP server
  (\<^verbatim>\<open>frontend/http_server.cc\<close>) keeps sessions and routes every request to these services; a load balancer
  (\<^verbatim>\<open>frontend/load_balancer.cc\<close>) probes the HTTP servers and redirects browsers to a live one.

  \<^bold>\<open>Theories.\<close>

  \<^item> \<open>Prelude\<close>, \<open>Platform\<close>, \<open>Cpp_Strings\<close>, \<open>Binary_Stream\<close>: generic lemmas and the named collections; what
    the code takes from its platform (the hash function and the byte order, fields of a record
    \<open>platform\<close>; gRPC status codes); \<^verbatim>\<open>std::string\<close> and stream operations; byte streams with failure.
  \<^item> \<open>Logger\<close>, \<open>Serializer\<close>: the command log and the tablet format of \<^verbatim>\<open>utils/\<close>, byte for byte.
  \<^item> \<open>Tablet\<close>, \<open>Ring\<close>: the table of cells, and the placement of tablets on workers.
  \<^item> \<open>Worker\<close>: the state of a worker as a record and its local operations, checkpoints, log replay.
    \<open>Durability\<close>: disk and memory agree, so local recovery loses nothing.
  \<^item> \<open>Coordinator\<close>: host file, heartbeats, the monitor pass, lookups.
  \<^item> \<open>Cluster\<close>, \<open>Recovery\<close>: all workers and the coordinator as one state; the RPC handlers with their calls
    to other workers, the client stubs, process start, recovery from peers, the admin console.
  \<^item> \<open>Replication\<close>, \<open>Consistency\<close>: what a write does to all replicas; the events of the cluster and
    their code (\<open>perform\<close>), the transition relation \<open>cluster_step\<close>, which has no condition but that the
    process concerned runs, and the invariant \<open>consistent\<close> by rule induction over the states that
    \<open>timely\<close> runs reach. \<open>Late_Marks\<close>: a run that is not timely and loses a write.
  \<^item> \<open>Boot\<close>: a cluster booted from empty disks reaches a healthy state, so the hypotheses of the
    properties can hold. \<open>Kv_Service\<close>: the interface the services rely on, the locale \<open>kv_service\<close>, and its
    interpretation on the cluster. \<open>Kv_Monad\<close>: service code as state-monad programs over the
    interface, with Hoare triples proved once in the locale.
  \<^item> \<open>User_Account\<close>, \<open>Utils\<close>, \<open>Load_Balancer\<close>, \<open>Email_Service\<close> with \<open>Email_Properties\<close>, \<open>Smtp_Server\<close> with
    \<open>Smtp_Properties\<close>: the services, over any \<open>kv_ops\<close>, with properties stated for the real cluster.
  \<^item> \<open>Storage_Http\<close>, \<open>Storage_Service\<close>: the storage service, request parsing first, then its operations on
    the store; a computation returns, throws a C++ exception or does not end (\<open>outcome\<close>). \<open>Row_Store\<close>: the
    locale \<open>row_store\<close>, which extends \<open>kv_service\<close> with triples about one row as a map, interpreted on the
    cluster as \<open>rs\<close>. \<open>Storage_Files\<close>, \<open>Storage_Delete\<close>, \<open>Storage_Moves\<close>: what files and folders are as columns,
    and what uploading, deleting, moving and renaming do to them. \<open>Storage_Properties\<close>, \<open>Storage_Wire\<close>: the
    properties of the service and of its encodings. \<open>Storage_Isolation\<close>: no handler leaves the user's row.
  \<^item> \<open>Admin_Service\<close>, \<open>Admin_Properties\<close>: the admin pages and commands, and what they show. \<open>Http_Server\<close>,
    \<open>Http_Properties\<close>: parsing, sessions, routing and the connection loop, and what they guarantee.
  \<^item> \<open>Single_Node\<close>, \<open>Web_Storage_Prototype\<close>: the earlier stores (\<^verbatim>\<open>backend/kvs_server.h\<close>,
    \<^verbatim>\<open>backend/key_val_store.cc\<close>) and the first storage service (\<^verbatim>\<open>wbs.cc\<close>), which nothing else uses.

  \<^bold>\<open>What is shown.\<close> Replicas that serve agree in every state of a timely run (C1), local recovery restores
  every tablet (C2), acknowledged writes are visible at every replica when the marks are complete (C3), log and checkpoint
  formats round trip, also when a crash cuts the log (C4, C5), a healthy cluster refines one map
  (C6), the coordinator routes to the first live holder and marks by the latest heartbeat (C7,
  C8), a started worker catches up (C9). On top of this refinement: accounts (C10 to C12), query
  strings, URL and metadata encodings (C13 to C15), the load balancer (C17, C18) and what the admin
  dashboard reads from it (C16), mail (C19 to C21) and SMTP sessions (C22 to C24). Files: what is uploaded is downloaded (C25), deleting a folder
  ends and removes exactly what is below it (C26), moving and renaming keep every file (C27, C28), the
  layout in chunks (C31), names (C32), the chunked encoding and the URL decoders (C29, C30). The HTTP server:
  without a session nothing changes (C35), a storage request reaches only the row of its user (C34), login
  and logout (C36, C37), and the health probes of the load balancer agree with the servers that run (C38). The text protocol of the single-node store serves
  what its gRPC service serves (C40). C12, C21, C24, C33 and C39 state where the
  code falls short.

  \<^bold>\<open>Choices.\<close> RPC handlers, coordinator calls and monitor passes are atomic steps. A step of the
  relation may be a crash at any point between steps; a crash inside a file write is covered by C4 for
  the log. Integers of the wire formats are 32 bit words, the hash is a 64 bit word; ids and
  counters that stay small are unbounded integers. Clocks are integers (nanoseconds) passed to the step
  that reads them. C1, C3 and C9 are about timely runs: clients write only while every serving worker
  is marked alive, and workers recover only while the marks are exact, sizes fit and copies are not cut. The code does
  not enforce this, so it is a hypothesis of these theorems (\<open>reachable P timely\<close>) and no condition of
  \<open>cluster_step\<close>; C39 shows that agreement and an acknowledged write are lost without it.
  Loops are structural recursion or \<open>function\<close>s with a measure. Fuel is used where a loop of the storage
  service follows stored data, the recursion over folders and the search for a free name: there running out
  is the result \<open>Diverges\<close>, C26 shows that more than the number of folders is enough for a deletion, and C27 that
  more than the number of columns is for a move. Random session ids are a list, and C36 assumes one that is free.

  \<^bold>\<open>Not modelled.\<close> Sockets, threads and the gRPC library (including its message size limit), log output,
  and interleavings inside one handler; signals and the accept loops of the servers; the manual
  test drivers.
\<close>

section \<open>Properties of the replicated store\<close>

text \<open>
  C1. Replica agreement: in every state that a timely run of the cluster reaches, any two serving workers
  that store the tablet of a row give the same answer to a \<open>Get\<close> of that row, whatever column
  is asked for. A run starts from an empty cluster and consists of client writes and reads through the
  coordinator, heartbeats, monitor passes, crashes, process starts with recovery, admin shutdowns and
  restarts and restarts of the coordinator, in any order and at any time. It is timely when clients write
  only while every serving worker is marked alive at the coordinator, and workers recover (at their start or
  by the administrator's \<^verbatim>\<open>RESTART\<close>) only while the marks are exactly the serving
  workers, the stored data fit the 32 bit length fields of a tablet copy, and the stream of the copy is not
  cut. The code enforces none of this; C39 is a run that is not timely and loses agreement.
\<close>

theorem replicas_agree:
  assumes "platform_ok P" and "reachable P timely cl"
    and "i \<in> set (holders (hashToBucket P row 6))" and "j \<in> set (holders (hashToBucket P row 6))"
    and "serving cl i" and "serving cl j"
  shows "Get P (workers cl i) row column = Get P (workers cl j) row column"
proof -
  have c: "cluster_wf cl" "agree cl"
    using consistent_reachable [OF assms(1,2)] by (auto simp: consistent_def)
  then have "held cl i (tablet_of P row) = held cl j (tablet_of P row)"
    using assms(3-6) tablet_of_range unfolding agree_def by blast
  then show ?thesis using Get_agree c(1) assms(3-6) by blast
qed

lemma sample_write_reachable:
  fixes q
  defines "cl \<equiv> snd (client_write sample_platform (booted_cluster sample_platform) q)"
  shows "reachable sample_platform timely cl" "i \<in> set worker_ids \<Longrightarrow> serving cl i"
proof -
  note b = booted_booted_cluster [OF platform_ok_sample]
  note h = healthy_booted_cluster [OF platform_ok_sample]
  show "reachable sample_platform timely cl"
    unfolding cl_def using b healthy_view(4) [OF h]
      reachable_run [of sample_platform timely "booted_cluster sample_platform" "[Cl_Write q]"]
    by (simp add: booted_def perform_all_def)
  show "i \<in> set worker_ids \<Longrightarrow> serving cl i"
    unfolding cl_def using booted_serving [OF b] healthy_view [OF h]
    by (simp add: client_write_serving)
qed

theorem replicas_agree_witness:
  "Get sample_platform
     (workers (snd (client_write sample_platform (booted_cluster sample_platform)
        (Req_Put ''a'' ''c'' ''v''))) 3) ''a'' ''c'' =
   Get sample_platform
     (workers (snd (client_write sample_platform (booted_cluster sample_platform)
        (Req_Put ''a'' ''c'' ''v''))) 5) ''a'' ''c''"
  by (rule replicas_agree [OF platform_ok_sample])
    (simp_all add: sample_write_reachable sample_bucket_a ring_simps in_worker_ids)

text \<open>
  C3. An acknowledged write is visible at once and at every replica, provided that at the time of the write
  every serving worker is marked alive at the coordinator (\<open>view_complete\<close>), and that the state
  before it was reached by a timely run (see C1): if a client's \<open>Put\<close>, \<open>CPut\<close> or
  \<open>Delete\<close> through the coordinator did not return an error, then afterwards every serving
  worker that stores the row's tablet answers every \<open>Get\<close> as the abstract map after the update
  says, so the write also survives the loss of any two of the tablet's three workers. The code does not
  check the marks, and without them the claim fails (C39).
\<close>

theorem acknowledged_write_visible:
  assumes "platform_ok P" and "reachable P timely cl" and "view_complete cl"
    and "\<not> is_err (fst (client_write P cl q))"
    and "j \<in> set (holders (hashToBucket P row 6))" and "serving cl j"
  shows "Get P (workers (snd (client_write P cl q)) j) row column = (OK, True, v)
    \<longleftrightarrow> spec_upd (db P cl) q row column = Some v"
proof -
  let ?cl' = "snd (client_write P cl q)"
  have c: "cluster_wf cl" "agree cl"
    using consistent_reachable [OF assms(1,2)] by (auto simp: consistent_def)
  have c': "cluster_wf ?cl'" "agree ?cl'" using client_write_inv [OF c assms(3)] by auto
  have s: "serving ?cl' j" using client_write_serving [OF c(1) assms(3)] assms(6) by simp
  have "db P ?cl' row column = held ?cl' j (tablet_of P row) row column"
    using db_held [OF c'(2) s assms(5)] by simp
  then show ?thesis
    using Get_held(1) [OF c'(1) s assms(5)] client_write_db(2) [OF c assms(3,4)] by simp
qed

theorem acknowledged_write_visible_witness:
  "Get sample_platform
     (workers (snd (client_write sample_platform (booted_cluster sample_platform)
        (Req_Put ''a'' ''c'' ''v''))) 4) ''a'' ''c'' = (OK, True, ''v'')"
proof -
  note b = booted_booted_cluster [OF platform_ok_sample]
  note h = healthy_booted_cluster [OF platform_ok_sample]
  have "\<not> is_err (fst (client_write sample_platform (booted_cluster sample_platform)
      (Req_Put ''a'' ''c'' ''v'')))"
    by (simp add: client_write_healthy [OF h])
  then show ?thesis
    using acknowledged_write_visible [OF platform_ok_sample _ healthy_view(4) [OF h],
        of "Req_Put ''a'' ''c'' ''v''" 4 "''a''" "''c''" "''v''"] b booted_serving [OF b]
    by (simp add: booted_def sample_bucket_a ring_simps in_worker_ids db_set_def)
qed

text \<open>
  C6. Refinement: while the cluster is healthy (coordinator up, its marks exact, at least one serving
  worker per tablet) the whole system is one map from rows and columns to values. A client's \<open>Put\<close>,
  \<open>CPut\<close> or \<open>Delete\<close> succeeds exactly when the map allows it, performs the map's update, and leaves the
  cluster healthy; an update it rejects returns an \<^verbatim>\<open>ERR\<close> string; a \<open>Get\<close> returns the map's value, and
  an \<^verbatim>\<open>ERR\<close> string for a missing cell.
\<close>

theorem cluster_refines_map:
  assumes "healthy cl"
  shows "(fst (client_write P cl q) = success_string q \<longleftrightarrow> spec_ok (db P cl) q) \<and>
    (is_err (fst (client_write P cl q)) \<longleftrightarrow> \<not> spec_ok (db P cl) q) \<and>
    db P (snd (client_write P cl q)) = spec_upd (db P cl) q \<and>
    healthy (snd (client_write P cl q)) \<and>
    (case db P cl row column of
       Some v \<Rightarrow> fst (client_read P cl row column) = v
     | None \<Rightarrow> is_err (fst (client_read P cl row column)))"
  using client_write_healthy [OF assms] client_read_healthy [OF assms] by simp

theorem cluster_refines_map_witness:
  "is_err (fst (client_write sample_platform
      (snd (client_write sample_platform (booted_cluster sample_platform) (Req_Put ''a'' ''c'' ''v'')))
      (Req_CPut ''a'' ''c'' ''x'' ''y'')))"
proof -
  let ?q = "Req_Put ''a'' ''c'' ''v''"
  note w = cluster_refines_map [OF healthy_booted_cluster [OF platform_ok_sample],
      where P = sample_platform and q = ?q]
  show ?thesis
    using w cluster_refines_map [where P = sample_platform and q = "Req_CPut ''a'' ''c'' ''x'' ''y''"
        and cl = "snd (client_write sample_platform (booted_cluster sample_platform) ?q)"]
    by (simp add: db_set_def)
qed

text \<open>
  C9. Recovery terminates with a working replica: a stopped worker whose disk is readable, started while the
  coordinator is up and its marks are exact, in a state that a timely run (see C1) reaches and whose data
  fit the 32 bit length fields of a tablet copy, does not exit or dereference a missing client; it serves,
  and for each of its tablets that some other worker serves it holds exactly the cells that worker holds.
\<close>

theorem started_worker_catches_up:
  assumes "platform_ok P" and "reachable P timely cl" and "coord_up cl" and "view_exact cl"
    and "serving_fits cl" and "i \<in> set worker_ids" and "\<not> running cl i"
    and "disk_readable (workers cl i)"
  shows "fst (start_worker P (\<lambda>_. True) cl i) = None \<and>
    serving (snd (start_worker P (\<lambda>_. True) cl i)) i \<and>
    (\<forall>row column h. i \<in> set (holders (hashToBucket P row 6)) \<longrightarrow>
       h \<in> set (holders (hashToBucket P row 6)) \<longrightarrow> serving cl h \<longrightarrow>
       Get P (workers (snd (start_worker P (\<lambda>_. True) cl i)) i) row column =
       Get P (workers cl h) row column)"
proof -
  let ?cl' = "snd (start_worker P (\<lambda>_. True) cl i)"
  note up = start_worker_serves [OF assms(3,4,6-8), of P "\<lambda>_. True"]
  have "consistent cl" using consistent_reachable [OF assms(1,2)] .
  then have c: "cluster_wf ?cl'" "agree ?cl'"
    using consistent_start [OF assms(1) _ assms(7,6,4,5)] by (auto simp: consistent_def)
  have same: "workers ?cl' h = workers cl h \<and> serving ?cl' h" if "serving cl h" for h
  proof -
    have "h \<noteq> i" using that assms(7) by (auto simp: serving_def)
    then show ?thesis using start_worker_others that by (simp add: serving_def)
  qed
  have "Get P (workers ?cl' i) row column = Get P (workers cl h) row column"
    if "i \<in> set (holders (tablet_of P row))" "h \<in> set (holders (tablet_of P row))" "serving cl h"
    for row column h
  proof -
    have "held ?cl' i (tablet_of P row) = held ?cl' h (tablet_of P row)"
      using c(2) up(2) same [OF that(3)] that(1,2) tablet_of_range unfolding agree_def by blast
    then show ?thesis using Get_agree [OF c(1) up(2) _ that(1,2)] same [OF that(3)] by metis
  qed
  then show ?thesis using up by blast
qed

theorem started_worker_catches_up_witness:
  "serving (snd (start_worker sample_platform (\<lambda>_. True)
     (boot sample_platform (boot sample_platform (initial_cluster 0) 1) 2) 3)) 3"
proof -
  let ?cl = "boot sample_platform (boot sample_platform (initial_cluster 0) 1) 2"
  have b: "booted sample_platform {1, 2} ?cl"
    using booted_foldl [OF platform_ok_sample booted_initial, of "[1, 2]"]
    by (simp add: in_worker_ids)
  then show ?thesis
    using started_worker_catches_up [OF platform_ok_sample _ _ booted_view_exact [OF b]
        booted_fits [OF b], of 3] fresh_disk [of _ 3]
    by (auto simp: booted_def disk_readable_def in_worker_ids)
qed

end
